(* ===== verification/Console_Prelude.thy ===== *)
theory Console_Prelude
  imports Complex_Main "HOL-Library.AList"
begin

text \<open>
  Shared vocabulary of the development: the fragment of JavaScript's standard library that the
  console sources use, as executable HOL functions, with the lemmas the component theories rest
  on.

  Strings are \<^typ>\<open>string\<close>: one \<^typ>\<open>char\<close> per code unit below 256. Text outside that range
  occurs in the sources only in messages shown to the user; there it is written as its UTF-8
  bytes. Numbers that reach a function from outside (JSON, form fields) are \<^typ>\<open>rat\<close>, so
  that tests such as \<^verbatim>\<open>Number.isInteger\<close> mean something; counters and positions that the code
  itself computes are \<^typ>\<open>nat\<close> or \<^typ>\<open>int\<close>. Time stamps are the millisecond they denote.
\<close>

named_theorems js_simps \<open>rewrite rules for the JavaScript library fragment\<close>

section \<open>Characters\<close>

abbreviation code :: "char \<Rightarrow> nat" where
  "code c \<equiv> of_char c"

abbreviation (input) SQ :: char where "SQ \<equiv> CHR 0x27"
abbreviation (input) DQ :: char where "DQ \<equiv> CHR 0x22"
abbreviation (input) BSL :: char where "BSL \<equiv> CHR 0x5C"
abbreviation (input) SLASH :: char where "SLASH \<equiv> CHR 0x2F"

text \<open>JavaScript white space (\<^verbatim>\<open>\s\<close>, \<^verbatim>\<open>trim\<close>) below 256.\<close>

definition js_space :: "char \<Rightarrow> bool" where
  "js_space c \<longleftrightarrow> code c \<in> {9, 10, 11, 12, 13, 32, 160}"

definition js_digit :: "char \<Rightarrow> bool" where
  "js_digit c \<longleftrightarrow> 48 \<le> code c \<and> code c \<le> 57"

definition js_lower :: "char \<Rightarrow> bool" where
  "js_lower c \<longleftrightarrow> 97 \<le> code c \<and> code c \<le> 122"

definition js_upper :: "char \<Rightarrow> bool" where
  "js_upper c \<longleftrightarrow> 65 \<le> code c \<and> code c \<le> 90"

text \<open>Case mapping of ASCII letters, the only letters the sources map the case of.\<close>

definition to_upper :: "char \<Rightarrow> char" where
  "to_upper c = (if js_lower c then char_of (code c - 32) else c)"

definition to_lower :: "char \<Rightarrow> char" where
  "to_lower c = (if js_upper c then char_of (code c + 32) else c)"

definition toUpperCase :: "string \<Rightarrow> string" where
  "toUpperCase s = map to_upper s"

definition toLowerCase :: "string \<Rightarrow> string" where
  "toLowerCase s = map to_lower s"

section \<open>Strings\<close>

definition trim :: "string \<Rightarrow> string" where
  "trim s = rev (dropWhile js_space (rev (dropWhile js_space s)))"

definition startsWith :: "string \<Rightarrow> string \<Rightarrow> bool" where
  "startsWith s p \<longleftrightarrow> take (length p) s = p"

definition endsWith :: "string \<Rightarrow> string \<Rightarrow> bool" where
  "endsWith s p \<longleftrightarrow> startsWith (rev s) (rev p)"

fun includes_str :: "string \<Rightarrow> string \<Rightarrow> bool" where
  "includes_str [] p = (p = [])"
| "includes_str (c # cs) p = (startsWith (c # cs) p \<or> includes_str cs p)"

text \<open>\<^verbatim>\<open>s.split(d)\<close> for a one-character separator: never the empty list.\<close>

fun split_on :: "char \<Rightarrow> string \<Rightarrow> string list" where
  "split_on d [] = [[]]"
| "split_on d (c # cs) =
     (if c = d then [] # split_on d cs
      else (case split_on d cs of [] \<Rightarrow> [[c]] | w # ws \<Rightarrow> (c # w) # ws))"

fun js_join :: "string \<Rightarrow> string list \<Rightarrow> string" where
  "js_join sep [] = []"
| "js_join sep [w] = w"
| "js_join sep (w # v # ws) = w @ sep @ js_join sep (v # ws)"

text \<open>\<^verbatim>\<open>s.split(/\s+/)\<close> followed by \<^verbatim>\<open>filter(Boolean)\<close>: the maximal runs of other characters.\<close>

function words_by :: "(char \<Rightarrow> bool) \<Rightarrow> string \<Rightarrow> string list" where
  "words_by sep s =
     (case dropWhile sep s of
        [] \<Rightarrow> []
      | c # cs \<Rightarrow> takeWhile (\<lambda>x. \<not> sep x) (c # cs) #
                  words_by sep (dropWhile (\<lambda>x. \<not> sep x) (c # cs)))"
  by pat_completeness auto
termination
proof (relation "measure (\<lambda>(sep, s). length s)", goal_cases)
  case 1
  show ?case by simp
next
  case (2 sep s c cs)
  with hd_dropWhile [of sep s] have "\<not> sep c" by simp
  moreover have "length (c # cs) \<le> length s"
    using 2 length_dropWhile_le [of sep s] by simp
  ultimately show ?case
    using length_dropWhile_le [of "\<lambda>x. \<not> sep x" cs] by simp
qed

declare words_by.simps [simp del]

text \<open>\<^verbatim>\<open>s.replace(/\/+$/, "")\<close>.\<close>

definition strip_slashes :: "string \<Rightarrow> string" where
  "strip_slashes s = rev (dropWhile (\<lambda>c. c = SLASH) (rev s))"

section \<open>Numbers and digits\<close>

fun show_nat :: "nat \<Rightarrow> string" where
  "show_nat n = (if n < 10 then [char_of (48 + n)] else show_nat (n div 10) @ [char_of (48 + n mod 10)])"

declare show_nat.simps [simp del]

text \<open>\<^verbatim>\<open>Number(s)\<close> of a string of decimal digits.\<close>

definition digits_val :: "string \<Rightarrow> nat" where
  "digits_val s = foldl (\<lambda>a c. 10 * a + (code c - 48)) 0 s"

text \<open>The regular expression \<^verbatim>\<open>/^\d+$/\<close>.\<close>

definition all_digits :: "string \<Rightarrow> bool" where
  "all_digits s \<longleftrightarrow> s \<noteq> [] \<and> list_all js_digit s"

definition pad2 :: "string \<Rightarrow> string" where
  "pad2 s = replicate (2 - length s) (CHR ''0'') @ s"

definition is_integer :: "rat \<Rightarrow> bool" where
  "is_integer r \<longleftrightarrow> of_int \<lfloor>r\<rfloor> = r"

text \<open>\<^verbatim>\<open>Math.round\<close>.\<close>

definition js_round :: "rat \<Rightarrow> int" where
  "js_round x = \<lfloor>x + 1 / 2\<rfloor>"

section \<open>Lists, sets and sorting\<close>

text \<open>\<^verbatim>\<open>[...new Set(xs)]\<close>: the first occurrence of every element, in order.\<close>

fun nub :: "'a list \<Rightarrow> 'a list" where
  "nub [] = []"
| "nub (x # xs) = x # removeAll x (nub xs)"

text \<open>
  \<^verbatim>\<open>xs.sort(cmp)\<close>: a stable sort, where \<open>le a b\<close> is \<^verbatim>\<open>cmp(a, b) <= 0\<close>. The collation of
  \<^verbatim>\<open>localeCompare\<close> depends on the browser's locale, so the functions that use it take \<open>le\<close> as
  a parameter.
\<close>

fun js_insert :: "('a \<Rightarrow> 'a \<Rightarrow> bool) \<Rightarrow> 'a \<Rightarrow> 'a list \<Rightarrow> 'a list" where
  "js_insert le x [] = [x]"
| "js_insert le x (y # ys) = (if le x y then x # y # ys else y # js_insert le x ys)"

definition js_sort :: "('a \<Rightarrow> 'a \<Rightarrow> bool) \<Rightarrow> 'a list \<Rightarrow> 'a list" where
  "js_sort le xs = foldr (js_insert le) xs []"

text \<open>\<^verbatim>\<open>xs.findIndex(p)\<close> followed by an in-place update of the element found.\<close>

fun update_first :: "('a \<Rightarrow> bool) \<Rightarrow> ('a \<Rightarrow> 'a) \<Rightarrow> 'a list \<Rightarrow> 'a list" where
  "update_first p f [] = []"
| "update_first p f (x # xs) = (if p x then f x # xs else x # update_first p f xs)"

section \<open>Lemmas\<close>

lemma startsWith_iff: "startsWith s p \<longleftrightarrow> (\<exists>t. s = p @ t)"
  unfolding startsWith_def by (metis append_eq_conv_conj)

lemma startsWith_append [simp]: "startsWith (p @ s) p"
  by (simp add: startsWith_def)

lemma startsWith_Nil [simp]: "startsWith s []"
  by (simp add: startsWith_def)

lemma startsWith_Cons [simp]:
  "startsWith (c # s) (d # p) \<longleftrightarrow> c = d \<and> startsWith s p"
  by (auto simp: startsWith_def)

lemma startsWith_Nil_Cons [simp]: "\<not> startsWith [] (d # p)"
  by (simp add: startsWith_def)

lemma split_on_not_Nil [simp]: "split_on d s \<noteq> []"
  by (cases s) (auto split: list.splits)

lemma split_on_no_sep: "d \<notin> set s \<Longrightarrow> split_on d s = [s]"
  by (induction s) auto

lemma split_on_append_sep:
  "d \<notin> set s \<Longrightarrow> split_on d (s @ d # t) = s # split_on d t"
  by (induction s) auto

lemma join_split_on: "js_join [d] (split_on d s) = s"
proof (induction s)
  case (Cons c cs)
  then show ?case
    by (cases "split_on d cs"; cases "tl (split_on d cs)") (auto split: list.splits)
qed simp

lemma split_on_parts: "w \<in> set (split_on d s) \<Longrightarrow> d \<notin> set w"
  by (induction s arbitrary: w) (auto split: list.splits if_splits)

lemma set_nub [simp]: "set (nub xs) = set xs"
  by (induction xs) auto

lemma distinct_nub [simp]: "distinct (nub xs)"
  by (induction xs) (auto simp: distinct_removeAll)

lemma nub_distinct: "distinct xs \<Longrightarrow> nub xs = xs"
  by (induction xs) auto

lemma set_js_insert [simp]: "set (js_insert le x ys) = insert x (set ys)"
  by (induction ys) auto

lemma set_js_sort [simp]: "set (js_sort le xs) = set xs"
  by (induction xs) (auto simp: js_sort_def)

lemma length_js_insert [simp]: "length (js_insert le x ys) = Suc (length ys)"
  by (induction ys) auto

lemma length_js_sort [simp]: "length (js_sort le xs) = length xs"
  by (induction xs) (auto simp: js_sort_def)

lemma distinct_js_insert [simp]: "distinct (js_insert le x ys) \<longleftrightarrow> x \<notin> set ys \<and> distinct ys"
  by (induction ys) auto

lemma distinct_js_sort [simp]: "distinct (js_sort le xs) \<longleftrightarrow> distinct xs"
proof (induction xs)
  case (Cons x xs)
  have "js_sort le (x # xs) = js_insert le x (js_sort le xs)" by (simp add: js_sort_def)
  with Cons show ?case by simp
qed (simp add: js_sort_def)

lemma js_insert_sorted_wrt:
  assumes "sorted_wrt le ys" "transp le" "totalp le" "reflp le"
  shows "sorted_wrt le (js_insert le x ys)"
  using assms(1)
proof (induction ys)
  case (Cons y ys)
  show ?case
  proof (cases "le x y")
    case True
    with Cons.prems assms(2) show ?thesis by (auto dest: transpD)
  next
    case False
    with assms(3,4) have "le y x" by (metis reflpD totalpD)
    with Cons False show ?thesis by auto
  qed
qed simp

lemma js_sort_sorted_wrt:
  "transp le \<Longrightarrow> totalp le \<Longrightarrow> reflp le \<Longrightarrow> sorted_wrt le (js_sort le xs)"
  by (induction xs) (auto simp: js_sort_def intro: js_insert_sorted_wrt)

lemma map_update_first:
  "(\<And>x. p x \<Longrightarrow> g (f x) = g x) \<Longrightarrow> map g (update_first p f xs) = map g xs"
  by (induction xs) auto

lemma set_update_first_subset: "set (update_first p f xs) \<subseteq> set xs \<union> f ` {x \<in> set xs. p x}"
  by (induction xs) auto

lemma length_update_first [simp]: "length (update_first p f xs) = length xs"
  by (induction xs) auto

lemma strip_slashes_append_slash: "strip_slashes (s @ [SLASH]) = strip_slashes s"
  by (simp add: strip_slashes_def)

lemma strip_slashes_no_slash_end:
  "strip_slashes s = [] \<or> last (strip_slashes s) \<noteq> SLASH"
proof (cases "dropWhile (\<lambda>c. c = SLASH) (rev s)")
  case (Cons c cs)
  with hd_dropWhile [of "\<lambda>c. c = SLASH" "rev s"] have "c \<noteq> SLASH" by simp
  with Cons show ?thesis by (simp add: strip_slashes_def)
qed (simp add: strip_slashes_def)

lemma strip_slashes_id: "s = [] \<or> last s \<noteq> SLASH \<Longrightarrow> strip_slashes s = s"
proof -
  assume "s = [] \<or> last s \<noteq> SLASH"
  then have "dropWhile (\<lambda>c. c = SLASH) (rev s) = rev s"
    by (cases s rule: rev_cases) auto
  then show ?thesis by (simp add: strip_slashes_def)
qed

lemma strip_slashes_idem [simp]: "strip_slashes (strip_slashes s) = strip_slashes s"
  using strip_slashes_no_slash_end strip_slashes_id by blast

lemma trim_ends:
  "trim s \<noteq> [] \<Longrightarrow> \<not> js_space (hd (trim s)) \<and> \<not> js_space (last (trim s))"
proof -
  assume ne: "trim s \<noteq> []"
  let ?t = "dropWhile js_space s"
  have "\<not> js_space (last (trim s))"
    using ne hd_dropWhile [of js_space "rev ?t"] by (simp add: trim_def last_rev)
  moreover have "\<not> js_space (hd (trim s))"
  proof -
    have "\<exists>u. ?t = trim s @ u"
      unfolding trim_def
      by (metis rev_append rev_rev_ident takeWhile_dropWhile_id)
    then obtain u where u: "?t = trim s @ u" by blast
    with ne have "?t \<noteq> []" by auto
    then have "\<not> js_space (hd ?t)" by (rule hd_dropWhile)
    with u ne show ?thesis by (metis hd_append2)
  qed
  ultimately show ?thesis by blast
qed

lemma trim_id: "s = [] \<or> (\<not> js_space (hd s) \<and> \<not> js_space (last s)) \<Longrightarrow> trim s = s"
proof (cases s rule: rev_cases)
  case (snoc xs x)
  assume "s = [] \<or> (\<not> js_space (hd s) \<and> \<not> js_space (last s))"
  with snoc have h: "\<not> js_space (hd s)" "\<not> js_space x" "s \<noteq> []" by auto
  then have "dropWhile js_space s = s" by (cases s) auto
  with h snoc show ?thesis by (simp add: trim_def)
qed (simp add: trim_def)

lemma trim_idem [simp]: "trim (trim s) = trim s"
  using trim_ends trim_id by blast

lemma code_char_of: "n < 256 \<Longrightarrow> code (char_of n) = n"
  by simp

lemma show_nat_digits: "list_all js_digit (show_nat n)"
proof (induction n rule: show_nat.induct)
  case (1 n)
  have d: "js_digit (char_of (48 + m))" if "m < 10" for m :: nat
    using that by (simp add: js_digit_def)
  from 1 show ?case
    by (simp add: show_nat.simps [of n] d)
qed

lemma show_nat_not_Nil [simp]: "show_nat n \<noteq> []"
  by (subst show_nat.simps) auto

lemma digits_val_show_nat [simp]: "digits_val (show_nat n) = n"
proof (induction n rule: show_nat.induct)
  case (1 n)
  show ?case
  proof (cases "n < 10")
    case True
    then show ?thesis by (simp add: show_nat.simps [of n] digits_val_def)
  next
    case False
    with 1 show ?thesis by (simp add: show_nat.simps [of n] digits_val_def)
  qed
qed

lemma all_digits_show_nat [simp]: "all_digits (show_nat n)"
  by (simp add: all_digits_def show_nat_digits)

lemma digits_no_char: "list_all js_digit s \<Longrightarrow> \<not> js_digit c \<Longrightarrow> c \<notin> set s"
  by (auto simp: list_all_iff)

lemma words_by_parts: "w \<in> set (words_by sep s) \<Longrightarrow> w \<noteq> [] \<and> list_all (\<lambda>x. \<not> sep x) w"
proof (induction sep s arbitrary: w rule: words_by.induct)
  case (1 sep s)
  show ?case
  proof (cases "dropWhile sep s")
    case Nil
    with 1 show ?thesis by (simp add: words_by.simps [of sep s])
  next
    case (Cons c cs)
    with hd_dropWhile [of sep s] have "\<not> sep c" by simp
    then have "takeWhile (\<lambda>x. \<not> sep x) (c # cs) \<noteq> []" by simp
    moreover have "list_all (\<lambda>x. \<not> sep x) (takeWhile (\<lambda>x. \<not> sep x) (c # cs))"
      by (metis list_all_iff set_takeWhileD)
    ultimately show ?thesis
      using 1 Cons by (auto simp: words_by.simps [of sep s])
  qed
qed

lemma words_by_sep: "sep c \<Longrightarrow> words_by sep (c # s) = words_by sep s"
  by (subst (1 2) words_by.simps) simp

lemma words_by_word:
  assumes "w \<noteq> []" "list_all (\<lambda>x. \<not> sep x) w" "rest = [] \<or> sep (hd rest)"
  shows "words_by sep (w @ rest) = w # words_by sep rest"
proof -
  obtain c cs where w: "w = c # cs" "\<not> sep c" using assms by (cases w) auto
  have "takeWhile (\<lambda>x. \<not> sep x) (w @ rest) = w" "dropWhile (\<lambda>x. \<not> sep x) (w @ rest) = rest"
    using assms by (auto simp: takeWhile_append dropWhile_append list_all_iff takeWhile_eq_Nil_iff)
      (cases rest; simp)+
  with w show ?thesis by (subst words_by.simps) simp
qed

lemma words_by_Nil [simp]: "words_by sep [] = []"
  by (simp add: words_by.simps)

lemma words_by_join:
  "list_all (\<lambda>w. w \<noteq> [] \<and> list_all (\<lambda>x. \<not> sep x) w) ws \<Longrightarrow> sep c \<Longrightarrow>
   words_by sep (js_join [c] ws) = ws"
proof (induction "[c]" ws rule: js_join.induct)
  case (2 w)
  then show ?case using words_by_word [of w sep "[]"] by simp
next
  case (3 w v ws)
  then have "words_by sep (w @ c # js_join [c] (v # ws)) = w # words_by sep (c # js_join [c] (v # ws))"
    by (intro words_by_word) auto
  with 3 show ?case by (simp add: words_by_sep)
qed simp

lemma find_split:
  assumes "find P xs = Some x"
  obtains ys zs where "xs = ys @ x # zs" "P x" "list_all (\<lambda>y. \<not> P y) ys"
proof -
  have "\<exists>ys zs. xs = ys @ x # zs \<and> P x \<and> list_all (\<lambda>y. \<not> P y) ys"
    using assms
  proof (induction xs)
    case (Cons y ys)
    show ?case
    proof (cases "P y")
      case True
      with Cons.prems have "y # ys = [] @ x # ys" "P x" "list_all (\<lambda>y. \<not> P y) []" by auto
      then show ?thesis by blast
    next
      case False
      with Cons obtain as bs where "ys = as @ x # bs" "P x" "list_all (\<lambda>y. \<not> P y) as" by auto
      with False have "y # ys = (y # as) @ x # bs" "P x" "list_all (\<lambda>y. \<not> P y) (y # as)" by auto
      then show ?thesis by blast
    qed
  qed simp
  then show ?thesis using that by blast
qed

lemma update_first_split:
  "list_all (\<lambda>y. \<not> P y) ys \<Longrightarrow> P x \<Longrightarrow> update_first P f (ys @ x # zs) = ys @ f x # zs"
  by (induction ys) auto

section \<open>Encoders and decoders\<close>

text \<open>
  The text forms of the console are used the same way: a value is printed (into a form field, into
  a query parameter) and parsed back later. The contract their users rely on is that parsing
  undoes printing.
\<close>

locale text_form =
  fixes ok :: "'v \<Rightarrow> bool"
    and print :: "'v \<Rightarrow> string"
    and parse :: "string \<Rightarrow> 'e + 'v"
  assumes parse_print: "ok v \<Longrightarrow> parse (print v) = Inr v"
begin

lemma print_inj: "ok v \<Longrightarrow> ok w \<Longrightarrow> print v = print w \<Longrightarrow> v = w"
  by (metis parse_print sum.inject(2))

lemma edit_unchanged: "ok v \<Longrightarrow> parse (print v) = Inr w \<Longrightarrow> print w = print v"
  by (simp add: parse_print)

end

section \<open>Keyed stores\<close>

text \<open>
  Headers, JavaScript maps and the tables of the development server are all used through a
  lookup and a put. The law is the one every user relies on; what repeated puts give follows.
\<close>

locale keyed_store =
  fixes get :: "'s \<Rightarrow> 'k \<Rightarrow> 'v option"
    and put :: "'k \<Rightarrow> 'v \<Rightarrow> 's \<Rightarrow> 's"
  assumes get_put: "get (put k v s) k' = (if k = k' then Some v else get s k')"
begin

lemma get_fold_put:
  "get (fold (\<lambda>(k, v). if P k then id else put k v) kvs s) k =
     (if P k then get s k else case map_of (rev kvs) k of Some v \<Rightarrow> Some v | None \<Rightarrow> get s k)"
proof (induction kvs arbitrary: s)
  case (Cons kv kvs)
  then show ?case by (cases kv) (auto simp: get_put map_add_def split: option.splits)
qed simp

lemma put_idem: "get (put k v (put k w s)) = get (put k v s)"
  by (auto simp: get_put fun_eq_iff)

lemma put_commute: "k \<noteq> l \<Longrightarrow> get (put k v (put l w s)) = get (put l w (put k v s))"
  by (auto simp: get_put fun_eq_iff)

end

text \<open>A JavaScript \<^verbatim>\<open>Map\<close>: insertion order is kept, an existing key keeps its place.\<close>

interpretation js_map: keyed_store map_of AList.update
  by unfold_locales (simp add: update_conv')

end
