(* ===== verification/Backup_Helpers.thy ===== *)
theory Backup_Helpers
  imports Console_Prelude
begin

text \<open>
  The pure helpers of the Repositories and backup pages, \<^verbatim>\<open>src/lib/protection.ts\<close>: minutes of the
  day and their \<^verbatim>\<open>HH:MM\<close> form, hook command lines (splitting and quoting), component names and
  hook targets. The lemmas show that both text forms round-trip and that parsed times stay in
  range.
\<close>

section \<open>Minutes of the day\<close>

definition minutesToHHMM :: "rat option \<Rightarrow> string" where
  "minutesToHHMM minutes =
     (case minutes of
        None \<Rightarrow> []
      | Some r \<Rightarrow>
          if \<not> is_integer r \<or> r < 0 \<or> r > 1439 then []
          else let n = nat \<lfloor>r\<rfloor>
               in pad2 (show_nat (n div 60)) @ '':'' @ pad2 (show_nat (n mod 60)))"

text \<open>The regular expression \<^verbatim>\<open>/^(\d{1,2}):(\d{2})(?::\d{2})?$/\<close>, with its two groups.\<close>

definition hhmm_match :: "string \<Rightarrow> (string \<times> string) option" where
  "hhmm_match s =
     (let two = (\<lambda>w. length w = 2 \<and> list_all js_digit w);
          one_two = (\<lambda>w. (length w = 1 \<or> length w = 2) \<and> list_all js_digit w)
      in case split_on (CHR '':'') s of
           [h, m] \<Rightarrow> if one_two h \<and> two m then Some (h, m) else None
         | [h, m, sec] \<Rightarrow> if one_two h \<and> two m \<and> two sec then Some (h, m) else None
         | _ \<Rightarrow> None)"

definition hhmmToMinutes :: "string \<Rightarrow> nat option" where
  "hhmmToMinutes value =
     (case hhmm_match (trim value) of
        None \<Rightarrow> None
      | Some (h, m) \<Rightarrow>
          if digits_val h > 23 \<or> digits_val m > 59 then None
          else Some (digits_val h * 60 + digits_val m))"

text \<open>The separator and the dash of a window's description, as UTF-8 bytes.\<close>

definition en_dash :: string where
  "en_dash = [CHR 0xE2, CHR 0x80, CHR 0x93]"

definition describeWindow :: "rat option \<Rightarrow> rat option \<Rightarrow> string" where
  "describeWindow start stop =
     (case (start, stop) of
        (Some s, Some e) \<Rightarrow>
          (let w = minutesToHHMM start @ en_dash @ minutesToHHMM stop
           in if s = e then w @ '' (all day)''
              else if s > e then w @ '' (overnight, wraps midnight)'' else w)
      | _ \<Rightarrow> ''No window: scheduled backups may start at any time'')"

section \<open>Hook command lines\<close>

datatype quote = NoQuote | SingleQuote | DoubleQuote

datatype command_error = LoneBackslash | UnterminatedSingle | UnterminatedDouble

text \<open>
  The loop of \<^verbatim>\<open>splitCommand\<close>: \<open>q\<close>, \<open>cur\<close>, \<open>inWord\<close> and \<open>out\<close> are its variables, the
  last argument the part of the line not read yet.
\<close>

fun split_loop :: "quote \<Rightarrow> string \<Rightarrow> bool \<Rightarrow> string list \<Rightarrow> string \<Rightarrow> command_error + string list" where
  "split_loop SingleQuote cur inWord out [] = Inl UnterminatedSingle"
| "split_loop DoubleQuote cur inWord out [] = Inl UnterminatedDouble"
| "split_loop NoQuote cur inWord out [] = Inr (if inWord then out @ [cur] else out)"
| "split_loop SingleQuote cur inWord out (c # cs) =
     (if c = SQ then split_loop NoQuote cur inWord out cs
      else split_loop SingleQuote (cur @ [c]) inWord out cs)"
| "split_loop DoubleQuote cur inWord out (c # cs) =
     (if c = DQ then split_loop NoQuote cur inWord out cs
      else if c = BSL then
        (case cs of
           d # ds \<Rightarrow> if d = DQ \<or> d = BSL then split_loop DoubleQuote (cur @ [d]) inWord out ds
                     else split_loop DoubleQuote (cur @ [c]) inWord out (d # ds)
         | [] \<Rightarrow> split_loop DoubleQuote (cur @ [c]) inWord out [])
      else split_loop DoubleQuote (cur @ [c]) inWord out cs)"
| "split_loop NoQuote cur inWord out (c # cs) =
     (if c = SQ then split_loop SingleQuote cur True out cs
      else if c = DQ then split_loop DoubleQuote cur True out cs
      else if c = BSL then
        (case cs of
           [] \<Rightarrow> Inl LoneBackslash
         | d # ds \<Rightarrow> split_loop NoQuote (cur @ [d]) True out ds)
      else if js_space c then split_loop NoQuote [] False (if inWord then out @ [cur] else out) cs
      else split_loop NoQuote (cur @ [c]) True out cs)"

definition splitCommand :: "string \<Rightarrow> command_error + string list" where
  "splitCommand line = split_loop NoQuote [] False [] line"

text \<open>The character class \<^verbatim>\<open>[A-Za-z0-9_@%+=:,./-]\<close> of words that need no quotes.\<close>

definition plain_char :: "char \<Rightarrow> bool" where
  "plain_char c \<longleftrightarrow> js_upper c \<or> js_lower c \<or> js_digit c \<or> c \<in> set ''_@%+=:,./-''"

definition quote_word :: "string \<Rightarrow> string" where
  "quote_word a =
     (if a \<noteq> [] \<and> list_all plain_char a then a
      else SQ # concat (map (\<lambda>c. if c = SQ then [SQ, BSL, SQ, SQ] else [c]) a) @ [SQ])"

definition joinCommand :: "string list \<Rightarrow> string" where
  "joinCommand argv = js_join '' '' (map quote_word argv)"

section \<open>Backup components\<close>

datatype component_kind = KConfig | KVolume | KBindMount | KDatabase

definition componentKind :: "string \<Rightarrow> component_kind" where
  "componentKind name =
     (if startsWith name ''volume:'' then KVolume
      else if startsWith name ''bind:'' then KBindMount
      else if startsWith name ''database:'' then KDatabase
      else KConfig)"

record analysis_volume =
  av_name :: string
  av_mountpoint :: string

record analysis_view =
  an_working_dir :: string
  an_services :: "string list"
  an_containers :: "string list"
  an_volumes :: "analysis_volume list"
  an_bind_sources :: "string list"

definition componentDetail :: "analysis_view option \<Rightarrow> string \<Rightarrow> string option" where
  "componentDetail analysis name =
     (if name = ''config'' then
        (case analysis of
           Some a \<Rightarrow> if an_working_dir a \<noteq> [] then Some (an_working_dir a)
                     else Some ''Application definition and metadata''
         | None \<Rightarrow> Some ''Application definition and metadata'')
      else case analysis of
        None \<Rightarrow> None
      | Some a \<Rightarrow>
          if startsWith name ''volume:'' then
            (case find (\<lambda>x. av_name x = drop (length ''volume:'') name) (an_volumes a) of
               None \<Rightarrow> None
             | Some v \<Rightarrow> Some (if av_mountpoint v \<noteq> [] then av_mountpoint v else av_name v))
          else if startsWith name ''bind:'' then
            (let src = drop (length ''bind:'') name
             in if src \<in> set (an_bind_sources a) then Some src else None)
          else None)"

definition hookTargets :: "(string \<Rightarrow> string \<Rightarrow> bool) \<Rightarrow> analysis_view option \<Rightarrow> string list" where
  "hookTargets localeLe analysis =
     (case analysis of
        None \<Rightarrow> []
      | Some a \<Rightarrow> js_sort localeLe (nub (an_services a @ an_containers a)))"

section \<open>Round trips\<close>

lemma plain_char_not_special:
  assumes "plain_char c"
  shows "c \<noteq> SQ" "c \<noteq> DQ" "c \<noteq> BSL" "\<not> js_space c"
  using assms
  by (auto simp: plain_char_def js_upper_def js_lower_def js_digit_def js_space_def)

lemma split_loop_plain:
  "list_all plain_char w \<Longrightarrow> w \<noteq> [] \<Longrightarrow>
   split_loop NoQuote cur iw out (w @ rest) = split_loop NoQuote (cur @ w) True out rest"
proof (induction w arbitrary: cur iw)
  case (Cons c cs)
  then have "plain_char c" "list_all plain_char cs" by auto
  note special = plain_char_not_special [OF \<open>plain_char c\<close>]
  show ?case
  proof (cases "cs = []")
    case True
    with special show ?thesis by simp
  next
    case False
    with special Cons.IH [OF \<open>list_all plain_char cs\<close>] show ?thesis by simp
  qed
qed simp

lemma split_loop_quoted:
  "split_loop SingleQuote cur True out
     (concat (map (\<lambda>c. if c = SQ then [SQ, BSL, SQ, SQ] else [c]) w) @ SQ # rest) =
   split_loop NoQuote (cur @ w) True out rest"
  by (induction w arbitrary: cur) auto

lemma split_loop_word:
  "split_loop NoQuote [] iw out (quote_word w @ rest) = split_loop NoQuote w True out rest"
  by (auto simp: quote_word_def split_loop_plain split_loop_quoted)

lemma split_loop_join:
  "split_loop NoQuote [] False out (joinCommand argv) = Inr (out @ argv)"
proof (induction argv arbitrary: out)
  case Nil
  then show ?case by (simp add: joinCommand_def)
next
  case (Cons w ws)
  show ?case
  proof (cases ws)
    case Nil
    with split_loop_word [of False out w "[]"] show ?thesis by (simp add: joinCommand_def)
  next
    case (Cons v vs)
    then have "joinCommand (w # ws) = quote_word w @ CHR '' '' # joinCommand ws"
      by (simp add: joinCommand_def)
    then show ?thesis
      using Cons.IH [of "out @ [w]"] by (simp add: split_loop_word js_space_def)
  qed
qed

lemma length_show_nat_60: "n < 60 \<Longrightarrow> length (show_nat n) \<le> 2"
proof -
  assume "n < 60"
  then have "n div 10 < 10" by auto
  then show ?thesis by (simp add: show_nat.simps [of n] show_nat.simps [of "n div 10"])
qed

lemma pad2_two_digits:
  assumes "n < 60"
  shows "length (pad2 (show_nat n)) = 2" "list_all js_digit (pad2 (show_nat n))"
    "digits_val (pad2 (show_nat n)) = n"
proof -
  have len: "length (show_nat n) = 1 \<or> length (show_nat n) = 2"
    using length_show_nat_60 [OF assms] show_nat_not_Nil [of n]
    by (cases "show_nat n") (auto simp: le_Suc_eq)
  then show "length (pad2 (show_nat n)) = 2" by (auto simp: pad2_def)
  show "list_all js_digit (pad2 (show_nat n))"
    using show_nat_digits [of n] by (auto simp: pad2_def list_all_iff js_digit_def)
  have "digits_val (CHR ''0'' # s) = digits_val s" for s by (simp add: digits_val_def)
  with len show "digits_val (pad2 (show_nat n)) = n"
    by (auto simp: pad2_def numeral_2_eq_2)
qed

lemma hhmm_parse_parts:
  assumes "length h = 2" "length m = 2" "list_all js_digit h" "list_all js_digit m"
  shows "hhmm_match (trim (h @ '':'' @ m)) = Some (h, m)"
proof -
  have nospace: "js_digit c \<Longrightarrow> \<not> js_space c" for c
    by (auto simp: js_digit_def js_space_def)
  have "h \<noteq> []" "m \<noteq> []" using assms(1,2) by auto
  moreover have "js_digit (hd h)" "js_digit (last m)"
    using assms \<open>h \<noteq> []\<close> \<open>m \<noteq> []\<close> by (auto simp: list_all_iff)
  ultimately have "trim (h @ '':'' @ m) = h @ '':'' @ m"
    by (intro trim_id) (simp add: nospace)
  moreover have "CHR '':'' \<notin> set h" "CHR '':'' \<notin> set m"
    using assms digits_no_char [of _ "CHR '':''"] by (auto simp: js_digit_def)
  ultimately show ?thesis
    using assms by (simp add: hhmm_match_def split_on_append_sep split_on_no_sep)
qed

lemma minutes_round_trip: "n < 1440 \<Longrightarrow> hhmmToMinutes (minutesToHHMM (Some (of_nat n))) = Some n"
proof -
  assume n: "n < 1440"
  have "is_integer (of_nat n)" "(of_nat n :: rat) \<le> 1439"
    using n by (simp_all add: is_integer_def)
  then have p: "minutesToHHMM (Some (of_nat n)) = pad2 (show_nat (n div 60)) @ '':'' @ pad2 (show_nat (n mod 60))"
    by (simp add: minutesToHHMM_def Let_def)
  have h: "n div 60 < 60" "n mod 60 < 60" using n by auto
  have "n div 60 \<le> 23" "n mod 60 \<le> 59" using n by auto
  with p show ?thesis
    by (simp add: hhmmToMinutes_def hhmm_parse_parts pad2_two_digits [OF h(1)] pad2_two_digits [OF h(2)]
        del: append_Cons append.simps)
qed

interpretation hook_line: text_form "\<lambda>_. True" joinCommand splitCommand
  by unfold_locales (simp add: splitCommand_def split_loop_join)

interpretation window_time: text_form "\<lambda>n. n < 1440" "\<lambda>n. minutesToHHMM (Some (of_nat n))"
    "\<lambda>s. case hhmmToMinutes s of None \<Rightarrow> Inl () | Some n \<Rightarrow> Inr n"
  by unfold_locales (simp add: minutes_round_trip)

lemma hhmmToMinutes_le: "hhmmToMinutes v = Some n \<Longrightarrow> n < 1440"
  by (auto simp: hhmmToMinutes_def split: option.splits prod.splits if_splits)

section \<open>Properties\<close>

text \<open>C5: Every argument vector survives the hook editor. Printing it with \<^verbatim>\<open>joinCommand\<close> and
  splitting the line again with \<^verbatim>\<open>splitCommand\<close> succeeds and gives the same vector, whatever
  characters (quotes, backslashes, white space, empty words) the arguments hold.\<close>

theorem splitCommand_joinCommand: "splitCommand (joinCommand argv) = Inr argv"
  by (rule hook_line.parse_print) simp

text \<open>The times a form accepts are exactly the minutes of a day: \<^verbatim>\<open>hhmmToMinutes\<close> can return
  \<open>n\<close> if and only if \<open>n\<close> is below 1440, and then the \<^verbatim>\<open>HH:MM\<close> text that \<^verbatim>\<open>minutesToHHMM\<close>
  shows for \<open>n\<close> parses back to \<open>n\<close>.\<close>

theorem hhmmToMinutes_range:
  "(\<exists>v. hhmmToMinutes v = Some n) \<longleftrightarrow>
     n < 1440 \<and> hhmmToMinutes (minutesToHHMM (Some (of_nat n))) = Some n"
  using hhmmToMinutes_le minutes_round_trip by blast

end
