(* ===== verification/Cron_Schedule.thy ===== *)
theory Cron_Schedule
  imports Backup_Helpers
begin

text \<open>
  Protection Policy schedules and retention, \<^verbatim>\<open>src/lib/schedule.ts\<close>: the cron presets, the
  five-field cron parser with its errors as values, the plain-language description of a schedule
  and the retention summaries. The lemmas show what a parsed field holds, that the presets parse
  and are recognised, that the description exists for exactly the valid expressions and that
  collapsing runs of values loses none of them.
\<close>

section \<open>Presets\<close>

datatype schedule_preset = Hourly | Daily | Weekly | Monthly

fun SCHEDULE_PRESETS :: "schedule_preset \<Rightarrow> string" where
  "SCHEDULE_PRESETS Hourly = ''0 * * * *''"
| "SCHEDULE_PRESETS Daily = ''0 1 * * *''"
| "SCHEDULE_PRESETS Weekly = ''0 1 * * 0''"
| "SCHEDULE_PRESETS Monthly = ''0 1 1 * *''"

definition SCHEDULE_PRESET_NAMES :: "schedule_preset list" where
  "SCHEDULE_PRESET_NAMES = [Hourly, Daily, Weekly, Monthly]"

definition presetOf :: "string \<Rightarrow> schedule_preset option" where
  "presetOf expr =
     (let norm = js_join '' '' (words_by js_space expr)
      in find (\<lambda>p. SCHEDULE_PRESETS p = norm) SCHEDULE_PRESET_NAMES)"

section \<open>Cron parsing\<close>

record field_spec =
  fs_name :: string
  fs_min :: nat
  fs_max :: nat
  fs_names :: "string list"

definition MONTHS :: "string list" where
  "MONTHS = [''JAN'', ''FEB'', ''MAR'', ''APR'', ''MAY'', ''JUN'',
             ''JUL'', ''AUG'', ''SEP'', ''OCT'', ''NOV'', ''DEC'']"

definition DAYS :: "string list" where
  "DAYS = [''SUN'', ''MON'', ''TUE'', ''WED'', ''THU'', ''FRI'', ''SAT'']"

definition FIELDS :: "field_spec list" where
  "FIELDS =
     [\<lparr>fs_name = ''Minute'', fs_min = 0, fs_max = 59, fs_names = []\<rparr>,
      \<lparr>fs_name = ''Hour'', fs_min = 0, fs_max = 23, fs_names = []\<rparr>,
      \<lparr>fs_name = ''Day of month'', fs_min = 1, fs_max = 31, fs_names = []\<rparr>,
      \<lparr>fs_name = ''Month'', fs_min = 1, fs_max = 12, fs_names = MONTHS\<rparr>,
      \<lparr>fs_name = ''Weekday'', fs_min = 0, fs_max = 6, fs_names = DAYS\<rparr>]"

record cron_field =
  cf_raw :: string
  cf_any :: bool
  cf_step :: "nat option"
  cf_values :: "nat list"

text \<open>One constructor per \<^verbatim>\<open>throw\<close>; the first argument is the field's name.\<close>

datatype cron_error =
    OutOfRange string nat nat nat
  | NotANumber string string bool
  | EmptyEntry string
  | TooManySlashes string string
  | BadStep string string
  | RunsBackwards string string
  | FieldCount nat

fun index_of :: "'a \<Rightarrow> 'a list \<Rightarrow> nat option" where
  "index_of x [] = None"
| "index_of x (y # ys) = (if x = y then Some 0 else map_option Suc (index_of x ys))"

definition parseValue :: "string \<Rightarrow> field_spec \<Rightarrow> cron_error + nat" where
  "parseValue token spec =
     (if all_digits token then
        (let n = digits_val token
         in if n < fs_min spec \<or> n > fs_max spec
            then Inl (OutOfRange (fs_name spec) n (fs_min spec) (fs_max spec))
            else Inr n)
      else case index_of (toUpperCase token) (fs_names spec) of
             None \<Rightarrow> Inl (NotANumber (fs_name spec) token (fs_names spec \<noteq> []))
           | Some i \<Rightarrow> Inr (fs_min spec + i))"

text \<open>\<^verbatim>\<open>for (let v = lo; v <= hi; v += every) values.add(v)\<close>, for a positive step.\<close>

definition step_values :: "nat \<Rightarrow> nat \<Rightarrow> nat \<Rightarrow> nat list" where
  "step_values lo hi every = filter (\<lambda>v. (v - lo) mod every = 0) [lo..<Suc hi]"

text \<open>The step after the slash: 1 when there is none.\<close>

definition parseStep :: "field_spec \<Rightarrow> string \<Rightarrow> string list \<Rightarrow> cron_error + nat" where
  "parseStep spec part pieces =
     (case pieces of
        [rng] \<Rightarrow> Inr 1
      | [rng, stepText] \<Rightarrow>
          if \<not> all_digits stepText \<or> digits_val stepText < 1 then Inl (BadStep (fs_name spec) part)
          else Inr (digits_val stepText)
      | _ \<Rightarrow> Inl (TooManySlashes (fs_name spec) part))"

text \<open>The bounds \<open>lo\<close> and \<open>hi\<close> of the part before the slash.\<close>

definition parseRange :: "field_spec \<Rightarrow> string \<Rightarrow> bool \<Rightarrow> cron_error + nat \<times> nat" where
  "parseRange spec rng hasStep =
     (if rng = ''*'' \<or> rng = ''?'' then Inr (fs_min spec, fs_max spec)
      else if CHR ''-'' \<in> set rng then
        (case split_on (CHR ''-'') rng of
           a # b # _ \<Rightarrow>
             (case parseValue a spec of
                Inl e \<Rightarrow> Inl e
              | Inr lo \<Rightarrow>
                  (case parseValue b spec of
                     Inl e \<Rightarrow> Inl e
                   | Inr hi \<Rightarrow> if lo > hi then Inl (RunsBackwards (fs_name spec) rng) else Inr (lo, hi)))
         | _ \<Rightarrow> Inl (NotANumber (fs_name spec) [] (fs_names spec \<noteq> [])))
      else case parseValue rng spec of
             Inl e \<Rightarrow> Inl e
           | Inr lo \<Rightarrow> Inr (lo, if hasStep then fs_max spec else lo))"

definition parsePart :: "field_spec \<Rightarrow> string \<Rightarrow> cron_error + nat list" where
  "parsePart spec part =
     (if part = [] then Inl (EmptyEntry (fs_name spec))
      else let pieces = split_on SLASH part
           in case parseStep spec part pieces of
                Inl e \<Rightarrow> Inl e
              | Inr every \<Rightarrow>
                  (case parseRange spec (hd pieces) (length pieces > 1) of
                     Inl e \<Rightarrow> Inl e
                   | Inr (lo, hi) \<Rightarrow> Inr (step_values lo hi every)))"

fun parseParts :: "field_spec \<Rightarrow> string list \<Rightarrow> cron_error + nat list" where
  "parseParts spec [] = Inr []"
| "parseParts spec (p # ps) =
     (case parsePart spec p of
        Inl e \<Rightarrow> Inl e
      | Inr vs \<Rightarrow> (case parseParts spec ps of Inl e \<Rightarrow> Inl e | Inr ws \<Rightarrow> Inr (vs @ ws)))"

text \<open>The plain \<^verbatim>\<open>*/n\<close> step of a field with a single entry.\<close>

definition plainStep :: "string \<Rightarrow> nat option" where
  "plainStep raw =
     (case split_on SLASH raw of
        [rng, stepText] \<Rightarrow>
          if (rng = ''*'' \<or> rng = ''?'') \<and> length (split_on (CHR '','') raw) = 1
          then Some (digits_val stepText) else None
      | _ \<Rightarrow> None)"

definition parseField :: "string \<Rightarrow> field_spec \<Rightarrow> cron_error + cron_field" where
  "parseField raw spec =
     (case parseParts spec (split_on (CHR '','') raw) of
        Inl e \<Rightarrow> Inl e
      | Inr vs \<Rightarrow>
          Inr \<lparr>cf_raw = raw, cf_any = (raw = ''*'' \<or> raw = ''?''), cf_step = plainStep raw,
               cf_values = sort (nub vs)\<rparr>)"

fun parseFields :: "string list \<Rightarrow> field_spec list \<Rightarrow> cron_error + cron_field list" where
  "parseFields (p # ps) (f # fs) =
     (case parseField p f of
        Inl e \<Rightarrow> Inl e
      | Inr x \<Rightarrow> (case parseFields ps fs of Inl e \<Rightarrow> Inl e | Inr xs \<Rightarrow> Inr (x # xs)))"
| "parseFields _ _ = Inr []"

definition parseCron :: "string \<Rightarrow> cron_error + cron_field list" where
  "parseCron expr =
     (let parts = words_by js_space expr
      in if length parts \<noteq> 5 then Inl (FieldCount (length parts)) else parseFields parts FIELDS)"

section \<open>Description\<close>

definition DAY_NAMES :: "string list" where
  "DAY_NAMES = [''Sunday'', ''Monday'', ''Tuesday'', ''Wednesday'', ''Thursday'', ''Friday'', ''Saturday'']"

definition MONTH_NAMES :: "string list" where
  "MONTH_NAMES = [''January'', ''February'', ''March'', ''April'', ''May'', ''June'', ''July'',
                  ''August'', ''September'', ''October'', ''November'', ''December'']"

text \<open>Array access; \<^verbatim>\<open>undefined\<close> in a template literal prints as its name.\<close>

definition name_at :: "string list \<Rightarrow> nat \<Rightarrow> string" where
  "name_at xs i = (if i < length xs then xs ! i else ''undefined'')"

definition joinList :: "string list \<Rightarrow> string" where
  "joinList items =
     (if length items \<le> 1 then js_join [] items
      else js_join '', '' (butlast items) @ '' and '' @ last items)"

text \<open>The inner loop of \<^verbatim>\<open>runs\<close>: the consecutive values that follow the head, and the rest.\<close>

fun take_run :: "nat \<Rightarrow> nat list \<Rightarrow> nat list \<times> nat list" where
  "take_run v [] = ([v], [])"
| "take_run v (w # ws) =
     (if w = Suc v then (case take_run w ws of (r, rest) \<Rightarrow> (v # r, rest)) else ([v], w # ws))"

lemma take_run_append: "fst (take_run v ws) @ snd (take_run v ws) = v # ws"
  by (induction v ws rule: take_run.induct) (auto split: prod.splits)

lemma take_run_not_Nil: "fst (take_run v ws) \<noteq> []"
  by (cases ws) (auto split: prod.splits)

lemma take_run_rest: "length (snd (take_run v ws)) \<le> length ws"
  by (induction v ws rule: take_run.induct) (auto split: prod.splits)

function run_segments :: "nat list \<Rightarrow> nat list list" where
  "run_segments [] = []"
| "run_segments (v # vs) = fst (take_run v vs) # run_segments (snd (take_run v vs))"
  by pat_completeness auto
termination
  by (relation "measure length") (auto simp: take_run_rest le_imp_less_Suc)

definition run_label :: "(nat \<Rightarrow> string) \<Rightarrow> nat list \<Rightarrow> string list" where
  "run_label label seg =
     (if length seg \<ge> 3 then [label (hd seg) @ en_dash @ label (last seg)] else map label seg)"

definition runs :: "nat list \<Rightarrow> (nat \<Rightarrow> string) \<Rightarrow> string list" where
  "runs values label = concat (map (run_label label) (run_segments values))"

text \<open>
  \<^verbatim>\<open>s[(v - 20) % 10] ?? s[v] ?? s[0]\<close>: below 20 the remainder is negative (or \<^verbatim>\<open>-0\<close>, which reads
  \<^verbatim>\<open>s[0]\<close>), so the first lookup only counts from 20 on and at 0 and 10.
\<close>

definition ordinal :: "nat \<Rightarrow> string" where
  "ordinal n =
     (let s = [''th'', ''st'', ''nd'', ''rd''];
          v = n mod 100;
          suffix =
            (if v \<ge> 20 \<and> (v - 20) mod 10 < 4 then s ! ((v - 20) mod 10)
             else if v < 20 \<and> (20 - v) mod 10 = 0 then s ! 0
             else if v < 4 then s ! v
             else s ! 0)
      in show_nat n @ suffix)"

definition upper_first :: "string \<Rightarrow> string" where
  "upper_first s = (case s of [] \<Rightarrow> [] | c # cs \<Rightarrow> to_upper c # cs)"

text \<open>The phrase that opens a description, and the one that follows it.\<close>

definition dayPhrase :: "cron_field \<Rightarrow> cron_field \<Rightarrow> string \<times> string" where
  "dayPhrase dmo dow =
     (let days = joinList (runs (cf_values dow) (name_at DAY_NAMES));
          doms = joinList (runs (cf_values dmo) ordinal)
      in if cf_any dmo \<and> cf_any dow then (''Every day'', [])
         else if cf_any dmo then (''Every '' @ days, ''on '' @ days)
         else if cf_any dow then
           (''On the '' @ doms @ '' of the month'', ''on the '' @ doms @ '' of the month'')
         else let both = ''on the '' @ doms @ '' of the month or on '' @ days
              in (upper_first both, both))"

definition describeFields ::
  "cron_field \<Rightarrow> cron_field \<Rightarrow> cron_field \<Rightarrow> cron_field \<Rightarrow> cron_field \<Rightarrow> string" where
  "describeFields mi hour dmo mon dow =
     (let (every_day, on_day) = dayPhrase dmo dow;
          monthSuffix = (if cf_any mon then []
                         else '' in '' @ joinList (runs (cf_values mon) (\<lambda>m. name_at MONTH_NAMES (m - 1))));
          daySuffix = (if on_day \<noteq> [] then '', '' @ on_day else []);
          text =
            (if cf_any mi \<and> cf_any hour then ''Every minute'' @ daySuffix
             else if cf_step mi \<noteq> None \<and> cf_any hour then
               ''Every '' @ show_nat (the (cf_step mi)) @ '' minutes'' @ daySuffix
             else if cf_any hour \<or> cf_step hour \<noteq> None then
               (let at_text = (if length (cf_values mi) = 1
                          then (if hd (cf_values mi) = 0 then ''on the hour''
                                else ''at minute '' @ show_nat (hd (cf_values mi)))
                          else ''at minutes '' @ joinList (map show_nat (cf_values mi)));
                    every = (if cf_step hour \<noteq> None \<and> the (cf_step hour) > 1
                             then ''Every '' @ show_nat (the (cf_step hour)) @ '' hours''
                             else ''Every hour'')
                in every @ '' '' @ at_text @ daySuffix)
             else if length (cf_values mi) * length (cf_values hour) \<le> 6 then
               every_day @ '' at '' @
               joinList (concat (map (\<lambda>h. map (\<lambda>m. pad2 (show_nat h) @ '':'' @ pad2 (show_nat m))
                                               (cf_values mi)) (cf_values hour)))
             else every_day @ '', at minute '' @ joinList (map show_nat (cf_values mi)) @
                  '' of hours '' @ joinList (runs (cf_values hour) show_nat))
      in text @ monthSuffix)"

definition describeCron :: "string \<Rightarrow> cron_error + string" where
  "describeCron expr =
     (case parseCron expr of
        Inl e \<Rightarrow> Inl e
      | Inr fs \<Rightarrow>
          (case fs of
             [mi, hour, dmo, mon, dow] \<Rightarrow> Inr (describeFields mi hour dmo mon dow)
           | _ \<Rightarrow> Inl (FieldCount (length fs))))"

definition scheduleSummary :: "string \<Rightarrow> string \<Rightarrow> string" where
  "scheduleSummary expr timezone =
     (let base = (case describeCron expr of Inr text \<Rightarrow> text | Inl _ \<Rightarrow> expr)
      in if timezone \<noteq> [] then base @ '' ('' @ timezone @ '')'' else base)"

section \<open>Retention\<close>

record retention =
  keep_last :: nat
  keep_hourly :: nat
  keep_daily :: nat
  keep_weekly :: nat
  keep_monthly :: nat
  keep_yearly :: nat

definition DEFAULT_RETENTION :: retention where
  "DEFAULT_RETENTION =
     \<lparr>keep_last = 7, keep_hourly = 0, keep_daily = 14, keep_weekly = 8, keep_monthly = 12, keep_yearly = 0\<rparr>"

definition retentionSummary :: "retention \<Rightarrow> string" where
  "retentionSummary r =
     (let part = (\<lambda>n unit. if n = 0 then [] else [show_nat n @ unit])
      in js_join ([CHR '' '', CHR 0xC2, CHR 0xB7, CHR '' ''])
           ([''Last '' @ show_nat (keep_last r)] @ part (keep_hourly r) '' hourly'' @
            part (keep_daily r) '' daily'' @ part (keep_weekly r) '' weekly'' @
            part (keep_monthly r) '' monthly'' @ part (keep_yearly r) '' yearly''))"

definition horizon_days :: "retention \<Rightarrow> rat" where
  "horizon_days r =
     max (of_nat (keep_hourly r) / 24)
       (max (of_nat (keep_daily r))
         (max (of_nat (keep_weekly r) * 7)
           (max (of_nat (keep_monthly r) * (304 / 10)) (of_nat (keep_yearly r) * 365))))"

definition plural :: "int \<Rightarrow> string" where
  "plural n = (if n = 1 then [] else ''s'')"

definition retentionHorizon :: "retention \<Rightarrow> string option" where
  "retentionHorizon r =
     (let days = horizon_days r;
          num = (\<lambda>x. show_nat (nat (js_round x)))
      in if days \<le> 0 then None
         else if days < 1 then Some (''about '' @ num (days * 24) @ '' hours'')
         else if days < 14 then Some (''about '' @ num days @ '' day'' @ plural (js_round days))
         else if days < 60 then Some (''about '' @ num (days / 7) @ '' weeks'')
         else if days < 360 then Some (''about '' @ num (days / (304 / 10)) @ '' months'')
         else Some (''about '' @ num (days / 365) @ '' year'' @ plural (js_round (days / 365))))"

section \<open>What a parsed field holds\<close>

definition spec_ok :: "field_spec \<Rightarrow> bool" where
  "spec_ok spec \<longleftrightarrow> fs_min spec \<le> fs_max spec \<and>
     (fs_names spec = [] \<or> fs_min spec + length (fs_names spec) = Suc (fs_max spec))"

definition field_ok :: "field_spec \<Rightarrow> cron_field \<Rightarrow> bool" where
  "field_ok spec f \<longleftrightarrow>
     cf_values f \<noteq> [] \<and> sorted_wrt (<) (cf_values f) \<and>
     list_all (\<lambda>v. fs_min spec \<le> v \<and> v \<le> fs_max spec) (cf_values f) \<and>
     (cf_any f \<longrightarrow> cf_values f = [fs_min spec..<Suc (fs_max spec)])"

lemma FIELDS_ok: "list_all spec_ok FIELDS"
  by (simp add: FIELDS_def spec_ok_def MONTHS_def DAYS_def)

lemma index_of_less: "index_of x ys = Some i \<Longrightarrow> i < length ys"
  by (induction ys arbitrary: i) (auto split: if_splits)

lemma set_step_values:
  "set (step_values lo hi every) = {v. lo \<le> v \<and> v \<le> hi \<and> every dvd (v - lo)}"
  by (auto simp: step_values_def mod_eq_0_iff_dvd)

lemma parseValue_bounds:
  "spec_ok spec \<Longrightarrow> parseValue t spec = Inr n \<Longrightarrow> fs_min spec \<le> n \<and> n \<le> fs_max spec"
  by (auto simp: parseValue_def spec_ok_def Let_def split: if_splits option.splits dest!: index_of_less)

lemma parseRange_bounds:
  assumes "spec_ok spec" and "parseRange spec rng hs = Inr (lo, hi)"
  shows "fs_min spec \<le> lo \<and> lo \<le> hi \<and> hi \<le> fs_max spec"
proof -
  note value_bounds = parseValue_bounds [OF assms(1)]
  have "fs_min spec \<le> fs_max spec" using assms(1) by (simp add: spec_ok_def)
  with assms(2) show ?thesis
    unfolding parseRange_def
    by (auto split: if_splits list.splits sum.splits dest: value_bounds)
qed

lemma parsePart_Inr:
  "parsePart spec part = Inr vs \<longleftrightarrow>
     part \<noteq> [] \<and> (\<exists>lo hi every.
       parseStep spec part (split_on SLASH part) = Inr every \<and>
       parseRange spec (hd (split_on SLASH part)) (length (split_on SLASH part) > 1) = Inr (lo, hi) \<and>
       vs = step_values lo hi every)"
  by (auto simp: parsePart_def Let_def split: sum.splits)

lemma parsePart_ok:
  assumes "spec_ok spec" and "parsePart spec part = Inr vs"
  shows "vs \<noteq> [] \<and> (\<forall>v\<in>set vs. fs_min spec \<le> v \<and> v \<le> fs_max spec)"
proof -
  from assms(2) obtain lo hi every where vs: "vs = step_values lo hi every"
    and r: "parseRange spec (hd (split_on SLASH part)) (length (split_on SLASH part) > 1) = Inr (lo, hi)"
    unfolding parsePart_Inr by blast
  from parseRange_bounds [OF assms(1) r] have b: "fs_min spec \<le> lo" "lo \<le> hi" "hi \<le> fs_max spec" by auto
  then have "lo \<in> set vs" by (simp add: vs set_step_values)
  then have "vs \<noteq> []" by auto
  with b show ?thesis by (auto simp: vs set_step_values)
qed

lemma parseParts_Inr:
  "parseParts spec ps = Inr vs \<Longrightarrow>
   set vs = (\<Union>p\<in>set ps. {v. \<exists>ws. parsePart spec p = Inr ws \<and> v \<in> set ws}) \<and>
   (\<forall>p\<in>set ps. \<exists>ws. parsePart spec p = Inr ws)"
  by (induction ps arbitrary: vs) (auto split: sum.splits)

lemma parseParts_ok:
  "spec_ok spec \<Longrightarrow> parseParts spec ps = Inr vs \<Longrightarrow> ps \<noteq> [] \<Longrightarrow>
   vs \<noteq> [] \<and> (\<forall>v\<in>set vs. fs_min spec \<le> v \<and> v \<le> fs_max spec)"
  by (induction ps arbitrary: vs) (fastforce split: sum.splits dest: parsePart_ok)+

lemma parseField_any:
  assumes "spec_ok spec" "raw = ''*'' \<or> raw = ''?''"
  shows "parseField raw spec = Inr \<lparr>cf_raw = raw, cf_any = True, cf_step = None,
           cf_values = [fs_min spec..<Suc (fs_max spec)]\<rparr>"
proof -
  have "step_values (fs_min spec) (fs_max spec) 1 = [fs_min spec..<Suc (fs_max spec)]"
    by (simp add: step_values_def)
  then have "parsePart spec raw = Inr [fs_min spec..<Suc (fs_max spec)]"
    using assms by (auto simp: parsePart_def parseStep_def parseRange_def)
  moreover have "split_on (CHR '','') raw = [raw]" "split_on SLASH raw = [raw]"
    using assms(2) by auto
  moreover have "sort [fs_min spec..<Suc (fs_max spec)] = [fs_min spec..<Suc (fs_max spec)]"
    by (rule sort_key_id_if_sorted) (simp add: sorted_upt del: upt_Suc)
  ultimately show ?thesis
    using assms by (auto simp: parseField_def plainStep_def nub_distinct simp del: upt_Suc)
qed

lemma parseField_ok:
  assumes "spec_ok spec" and "parseField raw spec = Inr f"
  shows "field_ok spec f"
proof -
  obtain vs where p: "parseParts spec (split_on (CHR '','') raw) = Inr vs"
    and f: "cf_values f = sort (nub vs)" "cf_any f = (raw = ''*'' \<or> raw = ''?'')"
    using assms(2) by (auto simp: parseField_def split: sum.splits)
  from parseParts_ok [OF assms(1) p] have "vs \<noteq> []" "\<forall>v\<in>set vs. fs_min spec \<le> v \<and> v \<le> fs_max spec"
    by auto
  moreover have "cf_values f \<noteq> []"
    using \<open>vs \<noteq> []\<close> f(1) by (metis length_sort list.size(3) length_0_conv nub.simps(2) list.exhaust list.distinct(1))
  moreover have "sorted_wrt (<) (cf_values f)"
    using f(1) by (simp add: strict_sorted_iff)
  moreover have "cf_any f \<longrightarrow> cf_values f = [fs_min spec..<Suc (fs_max spec)]"
    using f(2) assms parseField_any [OF assms(1), of raw] by auto
  ultimately show ?thesis
    using f(1) by (simp add: field_ok_def list_all_iff del: upt_Suc)
qed

lemma parseFields_ok:
  "list_all spec_ok specs \<Longrightarrow> length ps = length specs \<Longrightarrow> parseFields ps specs = Inr fs \<Longrightarrow>
   list_all2 field_ok specs fs"
proof (induction ps specs arbitrary: fs rule: parseFields.induct)
  case (1 p ps f fs')
  then show ?case by (auto split: sum.splits dest: parseField_ok)
qed auto

lemma parseCron_ok: "parseCron expr = Inr fs \<Longrightarrow> list_all2 field_ok FIELDS fs"
  by (rule parseFields_ok [OF FIELDS_ok, of "words_by js_space expr"])
    (auto simp: parseCron_def Let_def FIELDS_def split: if_splits)

lemma parseCron_five: "parseCron expr = Inr fs \<Longrightarrow> length fs = 5"
  using parseCron_ok [of expr fs] by (auto simp: FIELDS_def dest: list_all2_lengthD)

lemma run_segments_concat: "concat (run_segments vs) = vs"
  by (induction vs rule: run_segments.induct) (auto simp: take_run_append)

lemma take_run_consecutive: "fst (take_run v ws) = [v..<v + length (fst (take_run v ws))]"
proof (induction v ws rule: take_run.induct)
  case (2 v w ws)
  show ?case
  proof (cases "w = Suc v")
    case True
    obtain r rest where rr: "take_run w ws = (r, rest)" by fastforce
    with 2 True have r: "[Suc v..<Suc v + length r] = r" by (simp del: upt_Suc)
    have "[v..<v + length (v # r)] = v # [Suc v..<Suc v + length r]"
      by (simp add: upt_conv_Cons del: upt_Suc)
    moreover have "fst (take_run v (w # ws)) = v # r" using True rr by simp
    ultimately show ?thesis using r by metis
  qed simp
qed simp

lemma run_segments_consecutive:
  "list_all (\<lambda>seg. seg \<noteq> [] \<and> seg = [hd seg..<hd seg + length seg]) (run_segments vs)"
proof (induction vs rule: run_segments.induct)
  case (2 v vs)
  have "hd (fst (take_run v vs)) = v" by (cases vs) (auto split: prod.splits)
  with 2 take_run_consecutive [of v vs] take_run_not_Nil [of v vs] show ?case by simp
qed simp

definition part_matches :: "field_spec \<Rightarrow> string \<Rightarrow> nat \<Rightarrow> bool" where
  "part_matches spec part v \<longleftrightarrow>
     (\<exists>lo hi every.
        parseRange spec (hd (split_on SLASH part)) (length (split_on SLASH part) > 1) = Inr (lo, hi) \<and>
        parseStep spec part (split_on SLASH part) = Inr every \<and>
        lo \<le> v \<and> v \<le> hi \<and> every dvd v - lo)"

lemma parsePart_matches: "parsePart spec part = Inr vs \<Longrightarrow> v \<in> set vs \<longleftrightarrow> part_matches spec part v"
  by (auto simp: parsePart_Inr part_matches_def set_step_values)

lemma presetOf_words:
  "presetOf expr = Some p \<Longrightarrow> words_by js_space (SCHEDULE_PRESETS p) = words_by js_space expr"
proof -
  assume "presetOf expr = Some p"
  then have "SCHEDULE_PRESETS p = js_join '' '' (words_by js_space expr)"
    by (auto simp: presetOf_def Let_def find_Some_iff)
  moreover have "words_by js_space (js_join '' '' (words_by js_space expr)) = words_by js_space expr"
    by (rule words_by_join) (auto simp: list_all_iff js_space_def dest: words_by_parts)
  ultimately show ?thesis by simp
qed

section \<open>Properties\<close>

text \<open>C36: A cron expression that \<^verbatim>\<open>parseCron\<close> accepts has five fields, and every field holds a
  non-empty, strictly increasing list of values within the bounds of its position; a field
  written \<^verbatim>\<open>*\<close> or \<^verbatim>\<open>?\<close> holds all of them.\<close>

theorem parseCron_fields:
  "parseCron expr = Inr fs \<Longrightarrow> length fs = 5 \<and> list_all2 field_ok FIELDS fs"
  by (simp add: parseCron_ok parseCron_five)

theorem parseCron_fields_witness:
  "\<exists>fs. parseCron ''*/20 1,3 * JAN-MAR ?'' = Inr fs \<and> length fs = 5 \<and> list_all2 field_ok FIELDS fs"
proof -
  obtain fs where "parseCron ''*/20 1,3 * JAN-MAR ?'' = Inr fs"
    by (cases "parseCron ''*/20 1,3 * JAN-MAR ?''") (simp, code_simp, blast)
  with parseCron_fields [of "''*/20 1,3 * JAN-MAR ?''" fs] show ?thesis by blast
qed



text \<open>Recognising a preset is sound: a stored expression that \<^verbatim>\<open>presetOf\<close> shows as a preset,
  however it is spaced, parses to the same five fields as that preset.\<close>

theorem presetOf_sound:
  "presetOf expr = Some p \<Longrightarrow> parseCron expr = parseCron (SCHEDULE_PRESETS p)"
  by (simp add: parseCron_def presetOf_words)

theorem presetOf_sound_witness:
  "presetOf '' 0  1 * * 0'' = Some Weekly \<and>
   parseCron '' 0  1 * * 0'' = parseCron (SCHEDULE_PRESETS Weekly)"
proof -
  have "presetOf '' 0  1 * * 0'' = Some Weekly" by code_simp
  with presetOf_sound [OF this] show ?thesis by blast
qed

text \<open>Every preset parses, and \<^verbatim>\<open>presetOf\<close> recognises it; its description is the one the policy
  form shows.\<close>

theorem presets_described:
  "presetOf (SCHEDULE_PRESETS p) = Some p \<and>
   describeCron (SCHEDULE_PRESETS p) =
     Inr (case p of
            Hourly \<Rightarrow> ''Every hour on the hour''
          | Daily \<Rightarrow> ''Every day at 01:00''
          | Weekly \<Rightarrow> ''Every Sunday at 01:00''
          | Monthly \<Rightarrow> ''On the 1st of the month at 01:00'')"
  by (cases p) (simp_all only: schedule_preset.case, code_simp+)

text \<open>\<^verbatim>\<open>describeCron\<close> fails for exactly the expressions \<^verbatim>\<open>parseCron\<close> rejects, with the parser's
  error.\<close>

theorem describeCron_errors: "describeCron expr = Inl e \<longleftrightarrow> parseCron expr = Inl e"
proof (cases "parseCron expr")
  case (Inr fs)
  with parseCron_five [OF Inr] obtain a b c d f where "fs = [a, b, c, d, f]"
    by (auto simp: length_Suc_conv numeral_eq_Suc)
  with Inr show ?thesis by (simp add: describeCron_def)
qed (simp add: describeCron_def)

text \<open>Collapsing runs in a description loses no value: the segments \<^verbatim>\<open>runs\<close> labels are
  non-empty blocks of consecutive numbers whose concatenation is the list of values.\<close>

theorem runs_partition:
  "concat (run_segments vs) = vs \<and>
   list_all (\<lambda>seg. seg \<noteq> [] \<and> seg = [hd seg..<hd seg + length seg]) (run_segments vs)"
  by (simp add: run_segments_concat run_segments_consecutive)

end
