(* ===== verification/Return_Path.thy ===== *)
theory Return_Path
  imports Console_Prelude
begin

text \<open>
  Open-redirect protection of the login page, \<^verbatim>\<open>src/lib/return-to.ts\<close>. The function resolves its
  argument with the platform's URL parser, so the part of that parser it reaches is modelled too:
  a path-absolute reference (one leading slash, no backslash, no control character) against an
  \<^verbatim>\<open>http\<close> base, that is the path, query and fragment states of the URL standard with their
  percent-encode sets and the removal of dot segments.
\<close>

section \<open>Percent encoding\<close>

definition hex_digit :: "nat \<Rightarrow> char" where
  "hex_digit n = (if n < 10 then char_of (48 + n) else char_of (55 + n))"

definition percent_byte :: "nat \<Rightarrow> string" where
  "percent_byte b = [CHR ''%'', hex_digit (b div 16), hex_digit (b mod 16)]"

text \<open>UTF-8 percent encoding of one code unit below 256.\<close>

definition percent_char :: "char \<Rightarrow> string" where
  "percent_char c =
     (if code c < 128 then percent_byte (code c)
      else percent_byte (192 + code c div 64) @ percent_byte (128 + code c mod 64))"

definition encode_with :: "(char \<Rightarrow> bool) \<Rightarrow> string \<Rightarrow> string" where
  "encode_with must s = concat (map (\<lambda>c. if must c then percent_char c else [c]) s)"

definition c0_control :: "char \<Rightarrow> bool" where
  "c0_control c \<longleftrightarrow> code c < 32 \<or> code c > 126"

definition fragment_set :: "char \<Rightarrow> bool" where
  "fragment_set c \<longleftrightarrow> c0_control c \<or> c \<in> {CHR '' '', DQ, CHR ''<'', CHR ''>'', CHR 0x60}"

definition special_query_set :: "char \<Rightarrow> bool" where
  "special_query_set c \<longleftrightarrow> c0_control c \<or> c \<in> {CHR '' '', DQ, CHR ''#'', CHR ''<'', CHR ''>'', SQ}"

definition path_set :: "char \<Rightarrow> bool" where
  "path_set c \<longleftrightarrow> c0_control c \<or>
     c \<in> {CHR '' '', DQ, CHR ''#'', CHR ''<'', CHR ''>'', CHR ''?'', CHR ''^'', CHR 0x60, CHR ''{'', CHR ''}''}"

text \<open>\<^verbatim>\<open>encodeURIComponent\<close>: everything but \<^verbatim>\<open>A-Za-z0-9-_.!~*'()\<close>.\<close>

definition uri_unreserved :: "char \<Rightarrow> bool" where
  "uri_unreserved c \<longleftrightarrow> js_upper c \<or> js_lower c \<or> js_digit c \<or>
     c \<in> set ''-_.!~*()'' \<or> c = SQ"

definition encodeURIComponent :: "string \<Rightarrow> string" where
  "encodeURIComponent s = encode_with (\<lambda>c. \<not> uri_unreserved c) s"

section \<open>The URL parser on a path-absolute reference\<close>

definition single_dot :: "string \<Rightarrow> bool" where
  "single_dot b \<longleftrightarrow> toLowerCase b \<in> {''.'', ''%2e''}"

definition double_dot :: "string \<Rightarrow> bool" where
  "double_dot b \<longleftrightarrow> toLowerCase b \<in> {''..'', ''.%2e'', ''%2e.'', ''%2e%2e''}"

text \<open>End of a path segment; \<open>slash\<close> tells whether a slash ended it.\<close>

definition close_segment :: "string list \<Rightarrow> string \<Rightarrow> bool \<Rightarrow> string list" where
  "close_segment path buf slash =
     (if double_dot buf then (if slash then butlast path else butlast path @ [[]])
      else if single_dot buf then (if slash then path else path @ [[]])
      else path @ [buf])"

text \<open>The path state: the segments read, and what is left from the first \<^verbatim>\<open>?\<close> or \<^verbatim>\<open>#\<close> on.\<close>

fun path_state :: "string list \<Rightarrow> string \<Rightarrow> string \<Rightarrow> string list \<times> string" where
  "path_state path buf [] = (close_segment path buf False, [])"
| "path_state path buf (c # cs) =
     (if c = SLASH then path_state (close_segment path buf True) [] cs
      else if c = CHR ''?'' \<or> c = CHR ''#'' then (close_segment path buf False, c # cs)
      else path_state path (buf @ encode_with path_set [c]) cs)"

definition query_of :: "string \<Rightarrow> string" where
  "query_of rest =
     (case rest of
        c # cs \<Rightarrow> if c = CHR ''?'' then encode_with special_query_set (takeWhile (\<lambda>x. x \<noteq> CHR ''#'') cs) else []
      | [] \<Rightarrow> [])"

definition fragment_of :: "string \<Rightarrow> string" where
  "fragment_of rest =
     (case dropWhile (\<lambda>x. x \<noteq> CHR ''#'') rest of
        c # cs \<Rightarrow> encode_with fragment_set cs
      | [] \<Rightarrow> [])"

record url =
  origin :: string
  pathname :: string
  search :: string
  url_hash :: string

definition base_origin :: string where
  "base_origin = ''http://dbr2.invalid''"

definition url_trim :: "string \<Rightarrow> string" where
  "url_trim value = rev (dropWhile (\<lambda>c. code c \<le> 32) (rev value))"

text \<open>
  \<^verbatim>\<open>new URL(value, "http://dbr2.invalid")\<close>. Trailing spaces are stripped first. The result is
  \<open>None\<close> where the constructor would throw; for the references this module passes it never
  does, and the origin is the base's.
\<close>

definition new_URL :: "string \<Rightarrow> url option" where
  "new_URL value =
     (case url_trim value of
        [] \<Rightarrow> None
      | c # cs \<Rightarrow>
          if c = SLASH \<and> (cs = [] \<or> hd cs \<noteq> SLASH \<and> hd cs \<noteq> BSL) then
            (case path_state [] [] cs of
               (segs, rest) \<Rightarrow>
                 Some \<lparr>origin = base_origin,
                       pathname = concat (map (\<lambda>s. SLASH # s) segs),
                       search = (let q = query_of rest in if q = [] then [] else CHR ''?'' # q),
                       url_hash = (let f = fragment_of rest in if f = [] then [] else CHR ''#'' # f)\<rparr>)
          else None)"

section \<open>sanitizeReturnTo and loginPathFor\<close>

definition DEFAULT_RETURN_TO :: string where
  "DEFAULT_RETURN_TO = ''/''"

definition has_control :: "string \<Rightarrow> bool" where
  "has_control s \<longleftrightarrow> list_ex (\<lambda>c. code c < 32 \<or> code c = 127) s"

definition sanitizeReturnTo :: "string option \<Rightarrow> string" where
  "sanitizeReturnTo arg =
     (case arg of
        None \<Rightarrow> DEFAULT_RETURN_TO
      | Some value \<Rightarrow>
          if length value = 0 \<or> length value > 2048 then DEFAULT_RETURN_TO
          else if has_control value then DEFAULT_RETURN_TO
          else if \<not> startsWith value ''/'' then DEFAULT_RETURN_TO
          else if startsWith value ''//'' \<or> BSL \<in> set value then DEFAULT_RETURN_TO
          else case new_URL value of
                 None \<Rightarrow> DEFAULT_RETURN_TO
               | Some u \<Rightarrow>
                   if origin u \<noteq> base_origin then DEFAULT_RETURN_TO
                   else if pathname u = ''/login'' \<or> startsWith (pathname u) ''/login/'' then DEFAULT_RETURN_TO
                   else if pathname u = ''/api'' \<or> startsWith (pathname u) ''/api/'' then DEFAULT_RETURN_TO
                   else pathname u @ search u @ url_hash u)"

definition loginPathFor :: "string \<Rightarrow> string" where
  "loginPathFor currentPath =
     (let safe = sanitizeReturnTo (Some currentPath)
      in if safe = DEFAULT_RETURN_TO then ''/login''
         else ''/login?return_to='' @ encodeURIComponent safe)"

section \<open>What the login page reads back\<close>

text \<open>The browser's decoding of a query parameter, on the bytes of ASCII characters.\<close>

definition hex_value :: "char \<Rightarrow> nat option" where
  "hex_value c =
     (if js_digit c then Some (code c - 48)
      else if 65 \<le> code c \<and> code c \<le> 70 then Some (code c - 55)
      else if 97 \<le> code c \<and> code c \<le> 102 then Some (code c - 87)
      else None)"

fun form_decode :: "string \<Rightarrow> string" where
  "form_decode [] = []"
| "form_decode (c # h # l # cs) =
     (if c = CHR ''%'' then
        (case (hex_value h, hex_value l) of
           (Some x, Some y) \<Rightarrow> char_of (16 * x + y) # form_decode cs
         | _ \<Rightarrow> c # form_decode (h # l # cs))
      else (if c = CHR ''+'' then CHR '' '' else c) # form_decode (h # l # cs))"
| "form_decode (c # cs) = (if c = CHR ''+'' then CHR '' '' else c) # form_decode cs"

section \<open>Lemmas\<close>

text \<open>The characters a serialized URL consists of.\<close>

definition visible :: "char \<Rightarrow> bool" where
  "visible c \<longleftrightarrow> 33 \<le> code c \<and> code c \<le> 126 \<and> c \<noteq> BSL"

definition segment_char :: "char \<Rightarrow> bool" where
  "segment_char c \<longleftrightarrow> visible c \<and> c \<notin> {SLASH, CHR ''?'', CHR ''#''}"

lemma segment_char_code:
  "segment_char c \<longleftrightarrow> 33 \<le> code c \<and> code c \<le> 126 \<and> code c \<notin> {92, 47, 63, 35}"
proof -
  have "c \<noteq> d \<longleftrightarrow> code c \<noteq> code d" for d by simp
  from this [of BSL] this [of SLASH] this [of "CHR ''?''"] this [of "CHR ''#''"]
  show ?thesis by (simp add: segment_char_def visible_def)
qed

lemma hex_digit_segment: "n < 16 \<Longrightarrow> segment_char (hex_digit n)"
  by (simp add: segment_char_code hex_digit_def)

lemma code_less: "code c < 256"
  by (metis of_char_mod_256 mod_less_divisor zero_less_numeral)

lemma code_div: "code c div 16 < 16"
  using code_less [of c] by (intro less_mult_imp_div_less) simp

lemma percent_byte_segment: "b < 256 \<Longrightarrow> list_all segment_char (percent_byte b)"
  by (auto simp: percent_byte_def hex_digit_segment) (simp add: segment_char_def visible_def)

lemma percent_char_segment: "list_all segment_char (percent_char c)"
proof -
  have "code c div 64 < 4" using code_less [of c] by (intro less_mult_imp_div_less) simp
  moreover have "code c mod 64 < 64" by simp
  ultimately show ?thesis by (simp add: percent_char_def percent_byte_segment)
qed

lemma segment_visible: "segment_char c \<Longrightarrow> visible c"
  by (simp add: segment_char_def)

lemma encode_with_all:
  assumes "\<And>c. segment_char c \<Longrightarrow> P c" "\<And>c. c \<in> set s \<Longrightarrow> \<not> must c \<Longrightarrow> P c"
  shows "list_all P (encode_with must s)"
  using assms percent_char_segment by (auto simp: encode_with_def list_all_iff)

lemmas encode_with_visible = encode_with_all [of visible, OF segment_visible]

lemma not_c0: "\<not> c0_control c \<Longrightarrow> c \<noteq> CHR '' '' \<Longrightarrow> c \<noteq> BSL \<Longrightarrow> visible c"
proof -
  assume a: "\<not> c0_control c" "c \<noteq> CHR '' ''" "c \<noteq> BSL"
  have "code c \<noteq> code (CHR '' '')" using a(2) by (subst of_char_eq_iff)
  with a show ?thesis by (auto simp: visible_def c0_control_def)
qed

lemma encode_path_char: "c \<notin> {BSL, SLASH, CHR ''?'', CHR ''#''} \<Longrightarrow> list_all segment_char (encode_with path_set [c])"
  by (rule encode_with_all) (auto simp: segment_char_def path_set_def not_c0)

lemma query_visible: "BSL \<notin> set rest \<Longrightarrow> list_all visible (query_of rest)"
  unfolding query_of_def
  by (auto split: list.splits intro!: encode_with_visible not_c0
        simp: special_query_set_def dest: set_takeWhileD)

lemma fragment_visible: "BSL \<notin> set rest \<Longrightarrow> list_all visible (fragment_of rest)"
proof (cases "dropWhile (\<lambda>x. x \<noteq> CHR ''#'') rest")
  case (Cons c cs)
  assume "BSL \<notin> set rest"
  then have "BSL \<notin> set cs" using Cons by (metis list.set_intros(2) set_dropWhileD)
  then show ?thesis
    by (auto simp: fragment_of_def Cons fragment_set_def intro!: encode_with_visible not_c0)
qed (simp add: fragment_of_def del: dropWhile_eq_Nil_conv)

lemma close_segment_all:
  "list_all (list_all P) path \<Longrightarrow> list_all P buf \<Longrightarrow> list_all (list_all P) (close_segment path buf sl)"
  by (auto simp: close_segment_def list_all_iff dest: in_set_butlastD)

lemma close_segment_last: "close_segment path buf False \<noteq> []"
  by (simp add: close_segment_def)

lemma path_state_segments:
  "path_state path buf cs = (segs, rest) \<Longrightarrow> BSL \<notin> set cs \<Longrightarrow>
   list_all (list_all segment_char) path \<Longrightarrow> list_all segment_char buf \<Longrightarrow>
   segs \<noteq> [] \<and> list_all (list_all segment_char) segs \<and> set rest \<subseteq> set cs \<and>
   (rest = [] \<or> hd rest \<in> {CHR ''?'', CHR ''#''})"
proof (induction path buf cs rule: path_state.induct)
  case (1 path buf)
  then show ?case by (auto simp: close_segment_last close_segment_all)
next
  case (2 path buf c cs)
  consider "c = SLASH" | "c = CHR ''?'' \<or> c = CHR ''#''" | "c \<notin> {SLASH, CHR ''?'', CHR ''#''}" by auto
  then show ?case
  proof cases
    case 1
    with 2 show ?thesis by (auto simp: close_segment_all)
  next
    case 2
    with "2.prems" show ?thesis by (auto simp: close_segment_last close_segment_all)
  next
    case 3
    with "2.prems" have "list_all segment_char (buf @ encode_with path_set [c])"
      by (auto simp: encode_path_char)
    with 3 "2.IH"(2) "2.prems" show ?thesis by auto
  qed
qed

definition query_char :: "char \<Rightarrow> bool" where
  "query_char c \<longleftrightarrow> c = CHR ''?'' \<or> c = CHR ''#''"

lemma segment_path: "segment_char c \<Longrightarrow> visible c" "segment_char c \<Longrightarrow> \<not> query_char c"
  by (auto simp: segment_char_def query_char_def)

lemma slash_path: "visible SLASH" "\<not> query_char SLASH"
  by (simp_all add: visible_def query_char_def)

lemma new_URL_parts:
  assumes "new_URL v = Some u" "BSL \<notin> set v"
  shows "startsWith (pathname u) ''/'' \<and> list_all (\<lambda>c. visible c \<and> \<not> query_char c) (pathname u) \<and>
    list_all visible (search u) \<and> list_all visible (url_hash u) \<and>
    (search u = [] \<or> query_char (hd (search u))) \<and> (url_hash u = [] \<or> query_char (hd (url_hash u)))"
proof -
  obtain c cs where v: "url_trim v = c # cs"
    using assms(1) by (cases "url_trim v") (auto simp: new_URL_def)
  obtain segs rest where ps: "path_state [] [] cs = (segs, rest)" by force
  have "set (url_trim v) \<subseteq> set v"
    by (auto simp: url_trim_def dest: set_dropWhileD)
  then have "BSL \<notin> set cs" using assms(2) v by auto
  with path_state_segments [OF ps]
  have segs: "segs \<noteq> []" "list_all (list_all segment_char) segs" "BSL \<notin> set rest" by auto
  have u: "pathname u = concat (map (\<lambda>s. SLASH # s) segs)"
      "search u = [] \<or> search u = CHR ''?'' # query_of rest"
      "url_hash u = [] \<or> url_hash u = CHR ''#'' # fragment_of rest"
    using assms(1) v ps by (auto simp: new_URL_def Let_def split: if_splits)
  have "startsWith (pathname u) ''/''" using u(1) segs(1) by (cases segs) auto
  moreover have "list_all (\<lambda>c. visible c \<and> \<not> query_char c) (pathname u)"
    using segs(2) by (auto simp: u(1) list_all_iff segment_path slash_path)
  moreover have "visible (CHR ''?'')" "visible (CHR ''#'')" by (simp_all add: visible_def)
  ultimately show ?thesis
    using u(2,3) query_visible [OF segs(3)] fragment_visible [OF segs(3)]
    by (auto simp: query_char_def)
qed

lemma sanitize_cases:
  obtains (default) "sanitizeReturnTo arg = DEFAULT_RETURN_TO"
  | (path) v u where "arg = Some v" "startsWith v ''/''" "\<not> startsWith v ''//''" "BSL \<notin> set v"
      "new_URL v = Some u" "sanitizeReturnTo arg = pathname u @ search u @ url_hash u"
      "\<not> (pathname u = ''/login'' \<or> startsWith (pathname u) ''/login/'')"
      "\<not> (pathname u = ''/api'' \<or> startsWith (pathname u) ''/api/'')"
proof (cases "sanitizeReturnTo arg = DEFAULT_RETURN_TO")
  case False
  then show ?thesis
    by (intro path [of "the arg" "the (new_URL (the arg))"])
      (auto simp: sanitizeReturnTo_def split: option.splits if_splits)
qed (rule default)

lemma takeWhile_path:
  assumes "list_all (\<lambda>c. \<not> P c) p" "q = [] \<or> P (hd q)" "r = [] \<or> P (hd r)"
  shows "takeWhile (\<lambda>c. \<not> P c) (p @ q @ r) = p"
proof -
  have "takeWhile (\<lambda>c. \<not> P c) (q @ r) = []" using assms(2,3) by (cases q; cases r) auto
  then show ?thesis using assms(1) by (simp add: takeWhile_append list_all_iff)
qed

lemma hex_value_digit: "n < 16 \<Longrightarrow> hex_value (hex_digit n) = Some n"
  by (auto simp: hex_value_def hex_digit_def js_digit_def)

lemma form_decode_percent:
  "code c < 128 \<Longrightarrow> form_decode (percent_char c @ s) = c # form_decode s"
  by (simp add: percent_char_def percent_byte_def hex_value_digit code_div)

lemma form_decode_plain:
  "c \<noteq> CHR ''%'' \<Longrightarrow> c \<noteq> CHR ''+'' \<Longrightarrow> form_decode (c # s) = c # form_decode s"
  by (cases s rule: form_decode.cases) auto

lemma unreserved_plain: "uri_unreserved c \<Longrightarrow> c \<notin> {CHR ''%'', CHR ''+'', CHR ''&'', CHR ''#'', CHR ''='', SLASH}"
  by (auto simp: uri_unreserved_def js_upper_def js_lower_def js_digit_def)

lemma form_decode_encode:
  "list_all (\<lambda>c. code c < 128) s \<Longrightarrow> form_decode (encodeURIComponent s) = s"
proof (induction s)
  case (Cons c s)
  have "encodeURIComponent (c # s) =
      (if uri_unreserved c then [c] else percent_char c) @ encodeURIComponent s"
    by (simp add: encodeURIComponent_def encode_with_def)
  then show ?case
    using Cons unreserved_plain [of c] by (auto simp: form_decode_percent form_decode_plain)
qed (simp add: encodeURIComponent_def encode_with_def)

interpretation query_parameter: text_form "list_all (\<lambda>c. code c < 128)" encodeURIComponent
    "\<lambda>s. Inr (form_decode s) :: unit + string"
  by unfold_locales (simp add: form_decode_encode)

lemma hex_digit_delim: "n < 16 \<Longrightarrow> hex_digit n \<notin> {CHR ''+'', CHR ''&'', CHR ''#'', CHR ''='', SLASH}"
proof -
  assume "n < 16"
  then have "code (hex_digit n) \<ge> 48" "code (hex_digit n) \<noteq> 61" by (auto simp: hex_digit_def)
  then show ?thesis by auto
qed

lemma encodeURIComponent_delims:
  "list_all (\<lambda>c. code c < 128) s \<Longrightarrow>
   list_all (\<lambda>c. c \<notin> {CHR ''+'', CHR ''&'', CHR ''#'', CHR ''='', SLASH}) (encodeURIComponent s)"
proof (induction s)
  case (Cons c s)
  then have "list_all (\<lambda>c. c \<notin> {CHR ''+'', CHR ''&'', CHR ''#'', CHR ''='', SLASH}) (percent_char c)"
    using hex_digit_delim [OF code_div [of c]] hex_digit_delim [of "code c mod 16"]
    by (auto simp: percent_char_def percent_byte_def)
  with Cons unreserved_plain [of c] show ?case
    by (auto simp: encodeURIComponent_def encode_with_def)
qed (simp add: encodeURIComponent_def encode_with_def)

lemma sanitize_visible: "list_all visible (sanitizeReturnTo arg)"
proof (cases arg rule: sanitize_cases)
  case default
  then show ?thesis by (simp add: DEFAULT_RETURN_TO_def slash_path)
next
  case (path v u)
  from new_URL_parts [OF path(5,4)] show ?thesis
    unfolding path(6) list_all_append by (auto elim: list.pred_mono_strong)
qed

lemma sanitize_ascii: "list_all (\<lambda>c. code c < 128) (sanitizeReturnTo arg)"
  using sanitize_visible by (rule list.pred_mono_strong) (simp add: visible_def)

definition dot_segment :: "string \<Rightarrow> bool" where
  "dot_segment s \<longleftrightarrow> single_dot s \<or> double_dot s"

text \<open>The segments of the path part of a reference, as written.\<close>

definition raw_segments :: "string \<Rightarrow> string list" where
  "raw_segments v = split_on SLASH (takeWhile (\<lambda>c. \<not> query_char c) (url_trim v))"

lemma dot_segment_percent:
  assumes "dot_segment (a @ CHR ''%'' # h # l # b)"
  shows "to_lower h = CHR ''2'' \<and> to_lower l = CHR ''e''"
  using assms
  by (auto simp: dot_segment_def single_dot_def double_dot_def toLowerCase_def
      append_eq_Cons_conv Cons_eq_append_conv to_lower_def js_upper_def)

lemma hex_digit_lower:
  assumes "n < 16"
  shows "to_lower (hex_digit n) = CHR ''2'' \<Longrightarrow> n = 2" "to_lower (hex_digit n) = CHR ''e'' \<Longrightarrow> n = 14"
proof -
  have c: "code (to_lower (hex_digit n)) = (if n < 10 then 48 + n else 87 + n)"
    using assms by (simp add: hex_digit_def to_lower_def js_upper_def)
  show "n = 2" if "to_lower (hex_digit n) = CHR ''2''" using c that by (auto split: if_splits)
  show "n = 14" if "to_lower (hex_digit n) = CHR ''e''" using c that assms by (auto split: if_splits)
qed

lemma percent_char_not_dot:
  assumes "path_set c"
  shows "\<not> dot_segment (a @ percent_char c @ b)"
proof
  assume dot: "dot_segment (a @ percent_char c @ b)"
  define n where "n = (if code c < 128 then code c else 192 + code c div 64)"
  have "code c div 64 < 4" using code_less [of c] by (intro less_mult_imp_div_less) simp
  then have n: "n < 256" by (auto simp: n_def)
  have "\<exists>b'. percent_char c @ b = CHR ''%'' # hex_digit (n div 16) # hex_digit (n mod 16) # b'"
    by (simp add: percent_char_def percent_byte_def n_def)
  with dot dot_segment_percent
  have "to_lower (hex_digit (n div 16)) = CHR ''2''" "to_lower (hex_digit (n mod 16)) = CHR ''e''"
    by metis+
  moreover have "n div 16 < 16" using n by (intro less_mult_imp_div_less) simp
  ultimately have "n div 16 = 2" "n mod 16 = 14"
    using hex_digit_lower(1) [of "n div 16"] hex_digit_lower(2) [of "n mod 16"] by simp_all
  then have "n = 2 * 16 + 14" using div_mult_mod_eq [of n 16] by simp
  then have "code c = code (CHR ''.'')" by (simp add: n_def split: if_splits)
  then have "c = CHR ''.''" by (subst (asm) of_char_eq_iff)
  with assms show False by (simp add: path_set_def c0_control_def)
qed

lemma encode_not_dot: "\<not> dot_segment s \<Longrightarrow> \<not> dot_segment (encode_with path_set s)"
proof (cases "\<exists>c \<in> set s. path_set c")
  case True
  then obtain a c b where "s = a @ c # b" "path_set c" by (metis split_list)
  then have "encode_with path_set s = encode_with path_set a @ percent_char c @ encode_with path_set b"
    by (simp add: encode_with_def)
  then show ?thesis using percent_char_not_dot [OF \<open>path_set c\<close>] by simp
next
  case False
  then have "encode_with path_set s = s" by (induction s) (auto simp: encode_with_def)
  then show "\<not> dot_segment s \<Longrightarrow> ?thesis" by simp
qed

lemma path_state_plain:
  "list_all (\<lambda>s. \<not> dot_segment s) (split_on SLASH (raw @ takeWhile (\<lambda>c. \<not> query_char c) cs)) \<Longrightarrow>
   SLASH \<notin> set raw \<Longrightarrow>
   fst (path_state path (encode_with path_set raw) cs) =
     path @ map (encode_with path_set) (split_on SLASH (raw @ takeWhile (\<lambda>c. \<not> query_char c) cs))"
proof (induction cs arbitrary: raw path)
  case Nil
  then have "\<not> dot_segment (encode_with path_set raw)"
    using encode_not_dot by (simp add: split_on_no_sep)
  with Nil show ?case by (simp add: close_segment_def split_on_no_sep dot_segment_def)
next
  case (Cons c cs)
  consider "c = SLASH" | "query_char c" | "c \<noteq> SLASH" "\<not> query_char c" by auto
  then show ?case
  proof cases
    case 1
    with Cons.prems have "\<not> dot_segment (encode_with path_set raw)"
      using encode_not_dot by (simp add: split_on_append_sep slash_path)
    then have "close_segment path (encode_with path_set raw) True = path @ [encode_with path_set raw]"
      by (simp add: close_segment_def dot_segment_def)
    with 1 Cons.prems Cons.IH [of "[]" "path @ [encode_with path_set raw]"] show ?thesis
      by (simp add: split_on_append_sep slash_path encode_with_def)
  next
    case 2
    with Cons.prems have "\<not> dot_segment (encode_with path_set raw)"
      using encode_not_dot by (simp add: split_on_no_sep)
    with 2 Cons.prems show ?thesis
      by (auto simp: close_segment_def split_on_no_sep dot_segment_def query_char_def)
  next
    case 3
    then have "encode_with path_set raw @ encode_with path_set [c] = encode_with path_set (raw @ [c])"
      by (simp add: encode_with_def)
    with 3 Cons.prems Cons.IH [of "raw @ [c]" path] show ?thesis
      by (simp add: query_char_def)
  qed
qed

section \<open>Properties\<close>


text \<open>C34: The login link carries the page to return to exactly. Either the sanitized path is the
  default and the link is plain \<^verbatim>\<open>/login\<close>, or the link has one parameter, free of the characters
  that delimit parameters, that the browser decodes to the sanitized path.\<close>

theorem loginPathFor_round_trip:
  "loginPathFor p = (if sanitizeReturnTo (Some p) = ''/'' then ''/login''
     else ''/login?return_to='' @ drop 17 (loginPathFor p)) \<and>
   (sanitizeReturnTo (Some p) = ''/'' \<or>
    form_decode (drop 17 (loginPathFor p)) = sanitizeReturnTo (Some p) \<and>
    list_all (\<lambda>c. c \<notin> {CHR ''+'', CHR ''&'', CHR ''#'', CHR ''='', SLASH}) (drop 17 (loginPathFor p)))"
  using query_parameter.parse_print [OF sanitize_ascii [of "Some p"]]
    encodeURIComponent_delims [OF sanitize_ascii [of "Some p"]]
  by (simp add: loginPathFor_def DEFAULT_RETURN_TO_def Let_def)

lemma encode_first:
  "c \<noteq> SLASH \<Longrightarrow> \<exists>d s. encode_with path_set (c # w) = d # s \<and> d \<noteq> SLASH"
  by (cases "path_set c") (auto simp: encode_with_def percent_char_def percent_byte_def)

lemma first_segment:
  assumes "segs = map (encode_with path_set) (split_on SLASH cs)" "cs = [] \<or> hd cs \<noteq> SLASH"
  shows "concat (map (\<lambda>s. SLASH # s) segs) = ''/'' \<or>
    (\<exists>d s. concat (map (\<lambda>s. SLASH # s) segs) = SLASH # d # s \<and> d \<noteq> SLASH)"
proof (cases cs)
  case (Cons c w)
  with assms(2) obtain u us where "split_on SLASH cs = (c # u) # us"
    by (cases "split_on SLASH w") auto
  with Cons assms encode_first [of c u] show ?thesis by auto
qed (use assms in \<open>simp add: encode_with_def\<close>)

lemma pathname_plain:
  assumes "new_URL v = Some u" "list_all (\<lambda>s. \<not> dot_segment s) (raw_segments v)"
  shows "pathname u = ''/'' \<or> (\<exists>d s. pathname u = SLASH # d # s \<and> d \<noteq> SLASH)"
proof -
  obtain cs where v: "url_trim v = SLASH # cs" "cs = [] \<or> hd cs \<noteq> SLASH"
    using assms(1) by (cases "url_trim v") (auto simp: new_URL_def split: if_splits)
  let ?p = "takeWhile (\<lambda>c. \<not> query_char c) cs"
  have "raw_segments v = [] # split_on SLASH ?p" by (simp add: raw_segments_def v slash_path)
  then have "fst (path_state [] [] cs) = map (encode_with path_set) (split_on SLASH ?p)"
    using assms(2) path_state_plain [of "[]" cs "[]"] by (simp add: encode_with_def)
  moreover have "?p = [] \<or> hd ?p \<noteq> SLASH" using v(2) by (cases cs) auto
  moreover have "pathname u = concat (map (\<lambda>s. SLASH # s) (fst (path_state [] [] cs)))"
    using assms(1) v by (auto simp: new_URL_def Let_def split: if_splits prod.splits)
  ultimately show ?thesis using first_segment by metis
qed

text \<open>A reference without dot segments cannot become scheme-relative: what
  \<^verbatim>\<open>sanitizeReturnTo\<close> returns for it does not start with two slashes.\<close>

theorem sanitizeReturnTo_same_site:
  assumes "list_all (\<lambda>s. \<not> dot_segment s) (raw_segments v)"
  shows "\<not> startsWith (sanitizeReturnTo (Some v)) ''//''"
proof (cases "Some v" rule: sanitize_cases)
  case default
  then show ?thesis by (simp add: DEFAULT_RETURN_TO_def)
next
  case (path v' u)
  then have u: "new_URL v = Some u" and "BSL \<notin> set v" by simp_all
  from new_URL_parts [OF this] have "hd (search u @ url_hash u) \<noteq> SLASH \<or> search u @ url_hash u = []"
    by (cases "search u") (auto simp: slash_path)
  with pathname_plain [OF u assms] show ?thesis
    unfolding path(6) by (cases "search u @ url_hash u") auto
qed

theorem sanitizeReturnTo_same_site_witness:
  "list_all (\<lambda>s. \<not> dot_segment s) (raw_segments ''/audit?limit=5'') \<and>
   \<not> startsWith (sanitizeReturnTo (Some ''/audit?limit=5'')) ''//''"
proof -
  have "list_all (\<lambda>s. \<not> dot_segment s) (raw_segments ''/audit?limit=5'')" by code_simp
  with sanitizeReturnTo_same_site show ?thesis by blast
qed

text \<open>With dot segments it can: the dots are removed after the check for a leading double slash.\<close>

theorem sanitizeReturnTo_scheme_relative:
  "sanitizeReturnTo (Some ''/.//evil.example'') = ''//evil.example''"
  by code_simp

end
