(* ===== verification/Api_Proxy.thy ===== *)
theory Api_Proxy
  imports Console_Prelude
begin

text \<open>
  The console's server side: the same-origin reverse proxy of \<^verbatim>\<open>src/lib/proxy.ts\<close> (every
  \<^verbatim>\<open>/api\<close> request of the browser is forwarded to dbr2-server), and the per-request content
  security policy of \<^verbatim>\<open>src/lib/csp.ts\<close> and \<^verbatim>\<open>src/proxy.ts\<close>.

  The platform's \<^verbatim>\<open>fetch\<close> is a parameter: a function from the outgoing call to the upstream
  response, \<open>None\<close> when it throws. Whether the browser has closed its connection by the time it
  throws is part of the request. The random bytes of the nonce are an argument too.
\<close>

section \<open>Header lists\<close>

text \<open>
  A \<^verbatim>\<open>Headers\<close> object as its list of pairs, with names in lower case (every way to read or write
  one lower-cases the name). \<^verbatim>\<open>get\<close> joins the values of a repeated name; iteration is sorted by
  name, joins them too, but keeps every \<^verbatim>\<open>Set-Cookie\<close> apart.
\<close>

type_synonym headers = "(string \<times> string) list"

definition hvalues :: "headers \<Rightarrow> string \<Rightarrow> string list" where
  "hvalues hs k = map snd (filter (\<lambda>h. fst h = k) hs)"

definition hget :: "headers \<Rightarrow> string \<Rightarrow> string option" where
  "hget hs k = (if hvalues hs k = [] then None else Some (js_join '', '' (hvalues hs k)))"

definition hhas :: "headers \<Rightarrow> string \<Rightarrow> bool" where
  "hhas hs k \<longleftrightarrow> hvalues hs k \<noteq> []"

fun hset :: "string \<Rightarrow> string \<Rightarrow> headers \<Rightarrow> headers" where
  "hset k v [] = [(k, v)]"
| "hset k v (h # hs) = (if fst h = k then (k, v) # filter (\<lambda>h. fst h \<noteq> k) hs else h # hset k v hs)"

definition happend :: "string \<Rightarrow> string \<Rightarrow> headers \<Rightarrow> headers" where
  "happend k v hs = hs @ [(k, v)]"

definition getSetCookie :: "headers \<Rightarrow> string list" where
  "getSetCookie hs = hvalues hs ''set-cookie''"

fun str_le :: "string \<Rightarrow> string \<Rightarrow> bool" where
  "str_le [] _ = True"
| "str_le (_ # _) [] = False"
| "str_le (c # cs) (d # ds) = (code c < code d \<or> c = d \<and> str_le cs ds)"

definition entries :: "headers \<Rightarrow> headers" where
  "entries hs =
     concat (map (\<lambda>k. if k = ''set-cookie'' then map (Pair k) (hvalues hs k)
                      else [(k, js_join '', '' (hvalues hs k))])
               (js_sort str_le (nub (map fst hs))))"

section \<open>Requests and responses\<close>

text \<open>The parts of the request URL the proxy reads.\<close>

record request_url =
  protocol :: string
  host :: string
  path_name :: string
  query_string :: string

datatype http_body =
  Stream string
| ProblemJson string nat string string

record http_request =
  rq_method :: string
  rq_url :: request_url
  rq_headers :: headers
  rq_body :: "http_body option"
  rq_aborted :: bool

record http_response =
  rs_status :: nat
  rs_statusText :: string
  rs_headers :: headers
  rs_body :: "http_body option"

datatype redirect_mode = ManualRedirect | FollowRedirect

record fetch_call =
  fc_url :: string
  fc_method :: string
  fc_headers :: headers
  fc_body :: "http_body option"
  fc_redirect :: redirect_mode
  fc_duplex :: bool

section \<open>The proxy\<close>

definition DEFAULT_API_INTERNAL_URL :: string where
  "DEFAULT_API_INTERNAL_URL = ''http://127.0.0.1:8080''"

definition HOP_BY_HOP :: "string list" where
  "HOP_BY_HOP =
     [''connection'', ''keep-alive'', ''proxy-authenticate'', ''proxy-authorization'',
      ''proxy-connection'', ''te'', ''trailer'', ''transfer-encoding'', ''upgrade'', ''host'',
      ''content-length'', ''accept-encoding'', ''x-middleware-subrequest'', ''x-nextjs-data'',
      ''rsc'', ''next-router-state-tree'', ''next-router-prefetch'', ''next-url'']"

definition STRIP_RESPONSE :: "string list" where
  "STRIP_RESPONSE =
     [''connection'', ''keep-alive'', ''proxy-authenticate'', ''trailer'', ''transfer-encoding'',
      ''upgrade'', ''content-encoding'', ''content-length'', ''set-cookie'']"

definition resolveApiBaseUrl :: "string option \<Rightarrow> string" where
  "resolveApiBaseUrl env_url =
     (let raw = (case env_url of
                   None \<Rightarrow> DEFAULT_API_INTERNAL_URL
                 | Some v \<Rightarrow> if trim v = [] then DEFAULT_API_INTERNAL_URL else trim v)
      in strip_slashes raw)"

definition upstreamUrl :: "request_url \<Rightarrow> string \<Rightarrow> string" where
  "upstreamUrl u base = base @ path_name u @ query_string u"

definition connection_tokens :: "headers \<Rightarrow> string list" where
  "connection_tokens hs =
     filter (\<lambda>t. t \<noteq> [])
       (map (\<lambda>t. toLowerCase (trim t))
         (split_on (CHR '','') (case hget hs ''connection'' of None \<Rightarrow> [] | Some v \<Rightarrow> v)))"

definition or_else :: "'a option \<Rightarrow> 'a option \<Rightarrow> 'a option" where
  "or_else x y = (case x of None \<Rightarrow> y | Some _ \<Rightarrow> x)"

definition strip_colon :: "string \<Rightarrow> string" where
  "strip_colon s = (if endsWith s '':'' then butlast s else s)"

text \<open>The first loop of \<^verbatim>\<open>buildUpstreamHeaders\<close>.\<close>

definition forwarded_headers :: "headers \<Rightarrow> headers" where
  "forwarded_headers hs =
     (let tokens = connection_tokens hs
      in fold (\<lambda>(key, value) out.
                 let k = toLowerCase key
                 in if k \<in> set HOP_BY_HOP \<or> k \<in> set tokens then out else hset k value out)
           (entries hs) [])"

definition buildUpstreamHeaders :: "http_request \<Rightarrow> headers" where
  "buildUpstreamHeaders req =
     (let hs = rq_headers req;
          out = forwarded_headers hs;
          host_value = the (or_else (hget hs ''x-forwarded-host'')
                              (or_else (hget hs ''host'') (Some (host (rq_url req)))));
          proto = the (or_else (hget hs ''x-forwarded-proto'')
                         (Some (strip_colon (protocol (rq_url req)))));
          out = (if \<not> hhas out ''x-forwarded-host'' \<and> host_value \<noteq> []
                 then hset ''x-forwarded-host'' host_value out else out)
      in if \<not> hhas out ''x-forwarded-proto'' then hset ''x-forwarded-proto'' proto out else out)"

definition isEventStream :: "headers \<Rightarrow> bool" where
  "isEventStream hs \<longleftrightarrow>
     startsWith (toLowerCase (case hget hs ''content-type'' of None \<Rightarrow> [] | Some v \<Rightarrow> v))
       ''text/event-stream''"

text \<open>The first loop of \<^verbatim>\<open>buildDownstreamHeaders\<close>.\<close>

definition returned_headers :: "headers \<Rightarrow> headers" where
  "returned_headers hs =
     fold (\<lambda>(key, value) out.
             if toLowerCase key \<in> set STRIP_RESPONSE then out else hset key value out)
       (entries hs) []"

definition buildDownstreamHeaders :: "http_response \<Rightarrow> headers" where
  "buildDownstreamHeaders upstream =
     (let hs = rs_headers upstream;
          out = returned_headers hs;
          out = fold (\<lambda>cookie out. happend ''set-cookie'' cookie out) (getSetCookie hs) out
      in if isEventStream hs
         then hset ''x-accel-buffering'' ''no''
                (hset ''cache-control'' ''no-cache, no-transform'' out)
         else out)"

definition problem :: "nat \<Rightarrow> string \<Rightarrow> string \<Rightarrow> string \<Rightarrow> http_response" where
  "problem status title detail code_text =
     \<lparr>rs_status = status, rs_statusText = [],
      rs_headers = [(''content-type'', ''application/problem+json''), (''cache-control'', ''no-store'')],
      rs_body = Some (ProblemJson title status detail code_text)\<rparr>"

text \<open>The call the proxy makes, and what it answers.\<close>

definition upstream_call :: "string option \<Rightarrow> http_request \<Rightarrow> fetch_call" where
  "upstream_call env_url req =
     (let hasBody = rq_method req \<noteq> ''GET'' \<and> rq_method req \<noteq> ''HEAD'' \<and> rq_body req \<noteq> None
      in \<lparr>fc_url = upstreamUrl (rq_url req) (resolveApiBaseUrl env_url),
          fc_method = rq_method req,
          fc_headers = buildUpstreamHeaders req,
          fc_body = (if hasBody then rq_body req else None),
          fc_redirect = ManualRedirect,
          fc_duplex = hasBody\<rparr>)"

definition proxyRequest ::
  "(fetch_call \<Rightarrow> http_response option) \<Rightarrow> string option \<Rightarrow> http_request \<Rightarrow> http_response" where
  "proxyRequest doFetch env_url req =
     (case doFetch (upstream_call env_url req) of
        None \<Rightarrow>
          if rq_aborted req
          then \<lparr>rs_status = 499, rs_statusText = [], rs_headers = [], rs_body = None\<rparr>
          else problem 502 ''Bad Gateway''
                 (''The DBR'' @ [CHR 0xC2, CHR 0xB2] @ '' API server could not be reached.'')
                 ''upstream_unavailable''
      | Some upstream \<Rightarrow>
          \<lparr>rs_status = rs_status upstream,
           rs_statusText = rs_statusText upstream,
           rs_headers = buildDownstreamHeaders upstream,
           rs_body = (if rq_method req = ''HEAD'' \<or> rs_status upstream = 204 \<or> rs_status upstream = 304
                      then None else rs_body upstream)\<rparr>)"

section \<open>Content security policy\<close>

definition base64_char :: "nat \<Rightarrow> char" where
  "base64_char n =
     (if n < 26 then char_of (65 + n) else if n < 52 then char_of (71 + n)
      else if n < 62 then char_of (n - 4) else if n = 62 then CHR ''+'' else CHR ''/'')"

fun btoa :: "nat list \<Rightarrow> string" where
  "btoa [] = []"
| "btoa [a] = [base64_char (a div 4), base64_char (a mod 4 * 16), CHR ''='', CHR ''='']"
| "btoa [a, b] =
     [base64_char (a div 4), base64_char (a mod 4 * 16 + b div 16), base64_char (b mod 16 * 4), CHR ''='']"
| "btoa (a # b # c # bs) =
     base64_char (a div 4) # base64_char (a mod 4 * 16 + b div 16) #
     base64_char (b mod 16 * 4 + c div 64) # base64_char (c mod 64) # btoa bs"

definition generateNonce :: "nat list \<Rightarrow> string" where
  "generateNonce bytes = btoa bytes"

definition quoted :: "string \<Rightarrow> string" where
  "quoted s = SQ # s @ [SQ]"

definition csp_directives :: "string \<Rightarrow> bool \<Rightarrow> string list" where
  "csp_directives nonce dev =
       [''default-src '' @ quoted ''self'',
        ''script-src '' @ quoted ''self'' @ '' '' @ quoted (''nonce-'' @ nonce) @ '' '' @
          quoted ''strict-dynamic'' @ (if dev then '' '' @ quoted ''unsafe-eval'' else []),
        ''style-src '' @ quoted ''self'' @ '' '' @ quoted ''unsafe-inline'',
        ''img-src '' @ quoted ''self'' @ '' data: blob:'',
        ''font-src '' @ quoted ''self'',
        ''connect-src '' @ quoted ''self'',
        ''frame-ancestors '' @ quoted ''none'',
        ''base-uri '' @ quoted ''self'',
        ''form-action '' @ quoted ''self'',
        ''object-src '' @ quoted ''none'']"

definition buildCsp :: "string \<Rightarrow> bool \<Rightarrow> string" where
  "buildCsp nonce dev = js_join ''; '' (csp_directives nonce dev)"

definition NONCE_HEADER :: string where
  "NONCE_HEADER = ''x-nonce''"

text \<open>Request headers passed on to rendering, and headers of the page response.\<close>

definition page_proxy :: "nat list \<Rightarrow> bool \<Rightarrow> headers \<Rightarrow> headers \<times> headers" where
  "page_proxy bytes dev request_headers =
     (let nonce = generateNonce bytes;
          csp = buildCsp nonce dev;
          hs = hset NONCE_HEADER nonce request_headers;
          hs = hset (toLowerCase ''Content-Security-Policy'') csp hs
      in (hs, hset (toLowerCase ''Content-Security-Policy'') csp []))"

lemma hvalues_hset: "hvalues (hset k v hs) k' = (if k = k' then [v] else hvalues hs k')"
  by (induction hs)
    (auto simp: hvalues_def filter_empty_conv intro!: arg_cong [where f = "map snd"] filter_cong)

lemma hget_hset: "hget (hset k v hs) k' = (if k = k' then Some v else hget hs k')"
  by (simp add: hget_def hvalues_hset)

interpretation header_list: keyed_store hget hset
  by unfold_locales (rule hget_hset)

lemma hhas_iff: "hhas hs k \<longleftrightarrow> hget hs k \<noteq> None"
  by (simp add: hhas_def hget_def)

lemma hvalues_Nil_iff: "hvalues hs k = [] \<longleftrightarrow> k \<notin> fst ` set hs"
  by (auto simp: hvalues_def filter_empty_conv)

lemma map_of_rev_unique:
  assumes "\<And>w. (k, w) \<in> set xs \<Longrightarrow> w = v"
  shows "map_of (rev xs) k = (if k \<in> fst ` set xs then Some v else None)"
proof (cases "map_of (rev xs) k")
  case None
  then show ?thesis by (auto simp: map_of_eq_None_iff)
next
  case (Some w)
  then have "(k, w) \<in> set xs" using map_of_SomeD by fastforce
  then show ?thesis using assms Some by force
qed

lemma entries_keys: "fst ` set (entries hs) = fst ` set hs"
proof -
  let ?e = "\<lambda>k. if k = ''set-cookie'' then map (Pair k) (hvalues hs k) else [(k, js_join '', '' (hvalues hs k))]"
  have "fst ` set (?e k) = {k}" if "k \<in> fst ` set hs" for k
  proof -
    have "set (hvalues hs k) \<noteq> {}" using that hvalues_Nil_iff [of hs k] by simp
    then show ?thesis by (auto simp: image_image image_constant_conv)
  qed
  moreover have "fst ` set (entries hs) = (\<Union>k \<in> fst ` set hs. fst ` set (?e k))"
    by (simp only: entries_def set_concat set_map set_js_sort set_nub image_UN UN_simps(10))
  ultimately show ?thesis by (simp only: UN_singleton cong: SUP_cong)
qed

lemma map_of_entries: "k \<noteq> ''set-cookie'' \<Longrightarrow> map_of (rev (entries hs)) k = hget hs k"
proof -
  assume k: "k \<noteq> ''set-cookie''"
  have "map_of (rev (entries hs)) k =
      (if k \<in> fst ` set (entries hs) then Some (js_join '', '' (hvalues hs k)) else None)"
    using k by (intro map_of_rev_unique) (auto simp: entries_def split: if_splits)
  then show ?thesis by (auto simp: entries_keys hget_def hvalues_Nil_iff)
qed

text \<open>Header names as the platform hands them out are in lower case.\<close>

definition lower_names :: "headers \<Rightarrow> bool" where
  "lower_names hs \<longleftrightarrow> list_all (\<lambda>h. toLowerCase (fst h) = fst h) hs"

lemma entries_lower: "lower_names hs \<Longrightarrow> lower_names (entries hs)"
proof -
  assume "lower_names hs"
  then have "\<forall>k \<in> fst ` set (entries hs). toLowerCase k = k"
    by (auto simp: entries_keys lower_names_def list_all_iff)
  then show ?thesis by (auto simp: lower_names_def list_all_iff)
qed

lemma fold_lower:
  "lower_names hs \<Longrightarrow>
   fold (\<lambda>(key, value) out. if P (toLowerCase key) then out else hset (toLowerCase key) value out) hs out =
   fold (\<lambda>(key, value). if P key then id else hset key value) hs out"
  by (induction hs arbitrary: out) (auto simp: lower_names_def)

lemmas js_lower_simps = toLowerCase_def to_lower_def js_upper_def

definition hop_by_hop :: "headers \<Rightarrow> string \<Rightarrow> bool" where
  "hop_by_hop hs k \<longleftrightarrow> k \<in> set HOP_BY_HOP \<or> k \<in> set (connection_tokens hs)"

lemma hget_forwarded:
  assumes "lower_names hs" "k \<noteq> ''set-cookie''"
  shows "hget (forwarded_headers hs) k = (if hop_by_hop hs k then None else hget hs k)"
  using assms header_list.get_fold_put [of "hop_by_hop hs" "entries hs" "[]" k]
    fold_lower [OF entries_lower, of hs "hop_by_hop hs" "[]"]
  by (simp add: forwarded_headers_def Let_def map_of_entries hop_by_hop_def hget_def [of "[]"] hvalues_def [of "[]"] cong: option.case_cong
      split: option.splits)

lemma forwarded_not_hop: "''x-forwarded-host'' \<notin> set HOP_BY_HOP" "''x-forwarded-proto'' \<notin> set HOP_BY_HOP"
  by (simp_all add: HOP_BY_HOP_def)

lemma hget_returned:
  assumes "lower_names hs" "k \<noteq> ''set-cookie''"
  shows "hget (returned_headers hs) k = (if k \<in> set STRIP_RESPONSE then None else hget hs k)"
proof -
  have "fold (\<lambda>(key, value) out. if toLowerCase key \<in> set STRIP_RESPONSE then out else hset key value out) xs out =
      fold (\<lambda>(key, value). if key \<in> set STRIP_RESPONSE then id else hset key value) xs out"
    if "lower_names xs" for xs out
    using that by (induction xs arbitrary: out) (auto simp: lower_names_def)
  then show ?thesis
    using assms header_list.get_fold_put [of "\<lambda>k. k \<in> set STRIP_RESPONSE" "entries hs" "[]" k]
    by (simp add: returned_headers_def entries_lower map_of_entries hget_def [of "[]"] hvalues_def [of "[]"] split: option.splits)
qed

lemma fold_happend: "fold (\<lambda>c out. happend k c out) cs out = out @ map (Pair k) cs"
  by (induction cs arbitrary: out) (auto simp: happend_def)

lemma hvalues_append: "hvalues (xs @ ys) k = hvalues xs k @ hvalues ys k"
  by (simp add: hvalues_def)

lemma hvalues_Pairs: "hvalues (map (Pair k) cs) k' = (if k = k' then cs else [])"
  by (induction cs) (auto simp: hvalues_def)

lemma no_cookie_set:
  "hvalues out ''set-cookie'' = [] \<Longrightarrow>
   hvalues (fold (\<lambda>(key, value) out. if toLowerCase key \<in> set STRIP_RESPONSE then out else hset key value out)
      xs out) ''set-cookie'' = []"
proof (induction xs arbitrary: out)
  case (Cons x xs)
  have "toLowerCase ''set-cookie'' \<in> set STRIP_RESPONSE"
    by (simp add: js_lower_simps STRIP_RESPONSE_def)
  then show ?case using Cons by (cases x) (auto simp: hvalues_hset)
qed simp

lemma downstream_cookies:
  "getSetCookie (buildDownstreamHeaders up) = getSetCookie (rs_headers up)"
  by (simp add: buildDownstreamHeaders_def getSetCookie_def Let_def hvalues_hset fold_happend
      hvalues_append hvalues_Pairs no_cookie_set returned_headers_def hvalues_def [of "[]"])

lemma downstream_get:
  assumes "lower_names (rs_headers up)" "k \<noteq> ''set-cookie''"
  shows "hget (buildDownstreamHeaders up) k =
    (if isEventStream (rs_headers up) \<and> k = ''cache-control'' then Some ''no-cache, no-transform''
     else if isEventStream (rs_headers up) \<and> k = ''x-accel-buffering'' then Some ''no''
     else if k \<in> set STRIP_RESPONSE then None else hget (rs_headers up) k)"
proof -
  have "hget (out @ map (Pair ''set-cookie'') cs) k = hget out k" for out cs
    using assms(2) by (simp add: hget_def hvalues_append hvalues_Pairs)
  then show ?thesis
    using hget_returned [OF assms]
    by (auto simp: buildDownstreamHeaders_def Let_def hget_hset fold_happend)
qed

section \<open>Properties\<close>

text \<open>C28: What dbr2-server sees. A header of the browser's request is forwarded unchanged
  unless it is hop-by-hop (listed in \<^verbatim>\<open>HOP_BY_HOP\<close> or named by the request's own \<^verbatim>\<open>Connection\<close>
  header, in any letter case), and then it is not forwarded; the forwarded protocol is always set,
  from the front proxy's header where there is one and from the request URL otherwise; redirects
  are never followed and a body is sent only with methods that have one.\<close>

theorem upstream_call_headers:
  assumes "lower_names (rq_headers req)"
    and "k \<notin> {''set-cookie'', ''x-forwarded-host'', ''x-forwarded-proto''}"
  shows "hget (fc_headers (upstream_call env_url req)) k =
      (if k \<in> set HOP_BY_HOP \<or> k \<in> set (connection_tokens (rq_headers req)) then None
       else hget (rq_headers req) k) \<and>
    hget (fc_headers (upstream_call env_url req)) ''x-forwarded-proto'' =
      Some (case hget (rq_headers req) ''x-forwarded-proto'' of
              Some v \<Rightarrow> v | None \<Rightarrow> strip_colon (protocol (rq_url req))) \<and>
    fc_redirect (upstream_call env_url req) = ManualRedirect \<and>
    (fc_body (upstream_call env_url req) \<noteq> None \<longleftrightarrow>
      rq_method req \<notin> {''GET'', ''HEAD''} \<and> rq_body req \<noteq> None)"
proof (intro conjI)
  note up = upstream_call_def buildUpstreamHeaders_def Let_def hget_hset
  show "hget (fc_headers (upstream_call env_url req)) k =
      (if k \<in> set HOP_BY_HOP \<or> k \<in> set (connection_tokens (rq_headers req)) then None
       else hget (rq_headers req) k)"
    using assms hget_forwarded [OF assms(1), of k] by (auto simp: up hop_by_hop_def)
  show "hget (fc_headers (upstream_call env_url req)) ''x-forwarded-proto'' =
      Some (case hget (rq_headers req) ''x-forwarded-proto'' of
              Some v \<Rightarrow> v | None \<Rightarrow> strip_colon (protocol (rq_url req)))"
    using hget_forwarded [OF assms(1), of "''x-forwarded-proto''"]
    by (auto simp: up hhas_iff hop_by_hop_def forwarded_not_hop or_else_def split: option.splits)
qed (auto simp: upstream_call_def Let_def)

definition sample_request :: http_request where
  "sample_request =
     \<lparr>rq_method = ''POST'',
      rq_url = \<lparr>protocol = ''http:'', host = ''console:3000'', path_name = ''/api/v1/x'', query_string = []\<rparr>,
      rq_headers = [(''connection'', ''close, X-Hop''), (''cookie'', ''a=1''), (''x-hop'', ''1'')],
      rq_body = Some (Stream ''{}''), rq_aborted = False\<rparr>"

theorem upstream_call_headers_witness:
  "lower_names (rq_headers sample_request) \<and>
   hget (fc_headers (upstream_call None sample_request)) ''x-hop'' = None \<and>
   hget (fc_headers (upstream_call None sample_request)) ''x-forwarded-proto'' = Some ''http''"
proof -
  have l: "lower_names (rq_headers sample_request)"
    by (simp add: lower_names_def sample_request_def js_lower_simps)
  have t: "''x-hop'' \<in> set (connection_tokens (rq_headers sample_request))" by code_simp
  have p: "(case hget (rq_headers sample_request) ''x-forwarded-proto'' of
              Some v \<Rightarrow> v | None \<Rightarrow> strip_colon (protocol (rq_url sample_request))) = ''http''"
    by (simp add: hget_def hvalues_def sample_request_def strip_colon_def endsWith_def)
  show ?thesis using l t p upstream_call_headers [OF l, of "''x-hop''" None] by simp
qed

text \<open>C31: What the browser sees when the server answered. The status is the server's, every
  \<^verbatim>\<open>Set-Cookie\<close> header arrives, in order, and any other header arrives unchanged unless it is
  in \<^verbatim>\<open>STRIP_RESPONSE\<close>, except that an event stream always carries the two headers that keep
  proxies from buffering it; the body is dropped exactly for \<^verbatim>\<open>HEAD\<close>, 204 and 304.\<close>

theorem proxyRequest_answer:
  assumes "doFetch (upstream_call env_url req) = Some up"
    and "lower_names (rs_headers up)" "k \<noteq> ''set-cookie''"
  shows "(let r = proxyRequest doFetch env_url req; sse = isEventStream (rs_headers up) in
    rs_status r = rs_status up \<and>
    getSetCookie (rs_headers r) = getSetCookie (rs_headers up) \<and>
    hget (rs_headers r) k =
      (if sse \<and> k = ''cache-control'' then Some ''no-cache, no-transform''
       else if sse \<and> k = ''x-accel-buffering'' then Some ''no''
       else if k \<in> set STRIP_RESPONSE then None else hget (rs_headers up) k) \<and>
    rs_body r = (if rq_method req = ''HEAD'' \<or> rs_status up \<in> {204, 304} then None else rs_body up))"
  using assms(1) downstream_cookies downstream_get [OF assms(2,3)]
  by (simp add: proxyRequest_def Let_def)

definition sample_response :: http_response where
  "sample_response =
     \<lparr>rs_status = 200, rs_statusText = ''OK'',
      rs_headers = [(''content-type'', ''text/event-stream; charset=utf-8''), (''set-cookie'', ''a=1''),
                    (''cache-control'', ''public''), (''set-cookie'', ''b=2'')],
      rs_body = Some (Stream ''data: 1'')\<rparr>"

theorem proxyRequest_answer_witness:
  "getSetCookie (rs_headers (proxyRequest (\<lambda>_. Some sample_response) None sample_request)) = [''a=1'', ''b=2''] \<and>
   hget (rs_headers (proxyRequest (\<lambda>_. Some sample_response) None sample_request)) ''cache-control'' =
     Some ''no-cache, no-transform''"
proof -
  have l: "lower_names (rs_headers sample_response)"
    by (simp add: lower_names_def sample_response_def js_lower_simps)
  have c: "getSetCookie (rs_headers sample_response) = [''a=1'', ''b=2'']"
    by (simp add: getSetCookie_def hvalues_def sample_response_def)
  have e: "isEventStream (rs_headers sample_response)"
    by (simp add: isEventStream_def hget_def hvalues_def sample_response_def js_lower_simps)
  show ?thesis
    using proxyRequest_answer [of "\<lambda>_. Some sample_response" None sample_request sample_response "''cache-control''"]
    by (simp add: l c e Let_def)
qed

definition directive_ok :: "string \<Rightarrow> bool" where
  "directive_ok w \<longleftrightarrow> w \<noteq> [] \<and> CHR '';'' \<notin> set w \<and> \<not> js_space (hd w) \<and> \<not> js_space (last w)"

lemma trim_space: "trim (CHR '' '' # w) = trim w"
  by (simp add: trim_def js_space_def)

lemma split_directives_from:
  "list_all directive_ok ws \<Longrightarrow> ws \<noteq> [] \<Longrightarrow>
   map trim (split_on (CHR '';'') (CHR '' '' # js_join ''; '' ws)) = ws"
proof (induction "''; ''" ws rule: js_join.induct)
  case (2 w)
  then show ?case by (simp add: directive_ok_def split_on_no_sep trim_space trim_id)
next
  case (3 w v ws)
  then have "CHR '';'' \<notin> set (CHR '' '' # w)" by (simp add: directive_ok_def)
  from split_on_append_sep [OF this, of "CHR '' '' # js_join ''; '' (v # ws)"] 3
  show ?case by (simp add: trim_space trim_id directive_ok_def)
qed simp

lemma split_directives:
  assumes "list_all directive_ok ws" "ws \<noteq> []"
  shows "map trim (split_on (CHR '';'') (js_join ''; '' ws)) = ws"
proof -
  have "map trim (split_on (CHR '';'') (CHR '' '' # s)) = map trim (split_on (CHR '';'') s)" for s
    by (cases "split_on (CHR '';'') s") (auto simp: trim_space)
  with split_directives_from [OF assms] show ?thesis by simp
qed

lemma base64_char_code:
  "n < 64 \<Longrightarrow> code (base64_char n) \<in> {43..57} \<union> {65..90} \<union> {97..122}"
  by (auto simp: base64_char_def)

lemma btoa_chars:
  "list_all (\<lambda>b. b < 256) bs \<Longrightarrow>
   list_all (\<lambda>c. code c \<in> {43..57} \<union> {61} \<union> {65..90} \<union> {97..122}) (btoa bs)"
proof (induction bs rule: btoa.induct)
  case (2 a)
  then have "a div 4 < 64" "a mod 4 * 16 < 64" by auto
  then show ?case using base64_char_code by fastforce
next
  case (3 a b)
  then have "a div 4 < 64" "a mod 4 * 16 + b div 16 < 64" "b mod 16 * 4 < 64" by auto
  then show ?case using base64_char_code by fastforce
next
  case (4 a b c bs)
  then have "a div 4 < 64" "a mod 4 * 16 + b div 16 < 64" "b mod 16 * 4 + c div 64 < 64" "c mod 64 < 64" by auto
  then show ?case using base64_char_code 4 by fastforce
qed simp

lemma nonce_no_delim: "list_all (\<lambda>b. b < 256) bs \<Longrightarrow> CHR '';'' \<notin> set (generateNonce bs)"
  using btoa_chars by (fastforce simp: generateNonce_def list_all_iff)

lemma csp_name: "toLowerCase ''Content-Security-Policy'' = ''content-security-policy''"
  by code_simp



end
