(* ===== verification/Event_Patterns.thy ===== *)
theory Event_Patterns
  imports Console_Prelude
begin

text \<open>
  Notification subscriptions, \<^verbatim>\<open>src/lib/notifications.ts\<close>: the event catalogue, the syntax and the
  meaning of event patterns, the normalisation of a subscription list, the write-only secret
  fields, recipient lists and the check of webhook URLs (the platform's URL parser is the
  parameter \<open>parse_url\<close>: protocol and host name, \<open>None\<close> where it throws).
\<close>

section \<open>The event catalogue\<close>

record event_group =
  group :: string
  events :: "(string \<times> string) list"

definition NOTIFICATION_EVENTS :: "event_group list" where
  "NOTIFICATION_EVENTS =
     [\<lparr>group = ''backup'', events =
         [(''backup.failed'', ''Backup failed''), (''backup.completed'', ''Backup completed''),
          (''backup.skipped'', ''Scheduled backup skipped (still running)'')]\<rparr>,
      \<lparr>group = ''restore'', events =
         [(''restore.succeeded'', ''Restore succeeded''), (''restore.failed'', ''Restore failed''),
          (''restore.rolled_back'', ''Restore rolled back'')]\<rparr>,
      \<lparr>group = ''agent'', events =
         [(''agent.offline'', ''Agent offline''), (''agent.online'', ''Agent back online'')]\<rparr>,
      \<lparr>group = ''contract'', events =
         [(''contract.violated'', ''Recovery Contract violated''),
          (''contract.satisfied'', ''Recovery Contract satisfied again'')]\<rparr>,
      \<lparr>group = ''quiesce'', events =
         [(''quiesce.auto_resumed'', ''Application resumed by the agent'' @ [SQ] @ ''s dead-man switch''),
          (''quiesce.resume_failed'', ''Resume after quiesce failed'')]\<rparr>,
      \<lparr>group = ''application'', events = [(''application.not_resumed'', ''Application not resumed'')]\<rparr>,
      \<lparr>group = ''escrow'', events = [(''escrow.unhealthy'', ''Escrow needs attention'')]\<rparr>,
      \<lparr>group = ''verification'', events = [(''verification.failed'', ''Verification failed'')]\<rparr>,
      \<lparr>group = ''platform'', events =
         [(''platform.backup.failed'', ''Platform self-backup failed''),
          (''platform.backup.partial'', ''Platform self-backup partial'')]\<rparr>,
      \<lparr>group = ''auth'', events = [(''auth.master_admin.login'', ''Master admin signed in'')]\<rparr>]"

definition KNOWN_EVENT_TYPES :: "string list" where
  "KNOWN_EVENT_TYPES = concat (map (\<lambda>g. map fst (events g)) NOTIFICATION_EVENTS)"

section \<open>Patterns\<close>

definition pattern_char :: "char \<Rightarrow> bool" where
  "pattern_char c \<longleftrightarrow> js_lower c \<or> js_digit c \<or> c = CHR ''_''"

definition pattern_word :: "string \<Rightarrow> bool" where
  "pattern_word w \<longleftrightarrow> w \<noteq> [] \<and> list_all pattern_char w"

text \<open>The regular expression \<^verbatim>\<open>/^(\*|[a-z0-9_]+(\.[a-z0-9_]+)*(\.\*)?)$/\<close>.\<close>

definition PATTERN :: "string \<Rightarrow> bool" where
  "PATTERN p \<longleftrightarrow>
     p = ''*'' \<or>
     (let ws = split_on (CHR ''.'') p
      in if length ws > 1 \<and> last ws = ''*'' then list_all pattern_word (butlast ws)
         else list_all pattern_word ws)"

definition MAX_EVENT_PATTERNS :: nat where
  "MAX_EVENT_PATTERNS = 100"

definition isValidEventPattern :: "string \<Rightarrow> bool" where
  "isValidEventPattern p \<longleftrightarrow> length p \<le> 100 \<and> PATTERN p"

definition matches_one :: "string \<Rightarrow> string \<Rightarrow> bool" where
  "matches_one eventType p =
     (if p = ''*'' then True
      else if endsWith p ''.*'' then startsWith eventType (butlast p)
      else p = eventType)"

definition matchEvent :: "string list \<Rightarrow> string \<Rightarrow> bool" where
  "matchEvent patterns eventType =
     (if patterns = [] then True else list_ex (matches_one eventType) patterns)"

definition coveredEvents :: "string list \<Rightarrow> string list" where
  "coveredEvents patterns = filter (matchEvent patterns) KNOWN_EVENT_TYPES"

datatype events_error = NotAPattern string | TooManyPatterns

fun normalize_loop :: "string list \<Rightarrow> string list \<Rightarrow> events_error + string list" where
  "normalize_loop [] out = Inr out"
| "normalize_loop (raw # input) out =
     (let e = trim raw
      in if e = [] \<or> e \<in> set out then normalize_loop input out
         else if \<not> isValidEventPattern e then Inl (NotAPattern e)
         else normalize_loop input (out @ [e]))"

definition normalizeEvents :: "string list \<Rightarrow> events_error + string list" where
  "normalizeEvents input =
     (case normalize_loop input [] of
        Inl e \<Rightarrow> Inl e
      | Inr out \<Rightarrow> if length out > MAX_EVENT_PATTERNS then Inl TooManyPatterns else Inr out)"

definition eventsSummary :: "string list \<Rightarrow> string" where
  "eventsSummary evs =
     (if evs = [] \<or> ''*'' \<in> set evs then ''All events'' else js_join '', '' evs)"

section \<open>Secrets, recipients, webhook URLs\<close>

datatype secret_action = Keep | Replace | Remove

definition MIN_WEBHOOK_SECRET :: nat where
  "MIN_WEBHOOK_SECRET = 16"

text \<open>\<open>None\<close> is \<^verbatim>\<open>undefined\<close>: the field is left out of the request.\<close>

fun secretField :: "secret_action \<Rightarrow> string \<Rightarrow> string option" where
  "secretField Keep value = None"
| "secretField Remove value = Some []"
| "secretField Replace value = Some value"

definition recipient_sep :: "char \<Rightarrow> bool" where
  "recipient_sep c \<longleftrightarrow> js_space c \<or> c = CHR '','' \<or> c = CHR '';''"

definition splitRecipients :: "string \<Rightarrow> string list" where
  "splitRecipients s = nub (filter (\<lambda>w. w \<noteq> []) (map trim (words_by recipient_sep s)))"

definition looksLikeEmail :: "string \<Rightarrow> bool" where
  "looksLikeEmail s =
     (case split_on (CHR ''@'') s of
        [local, domain] \<Rightarrow>
          local \<noteq> [] \<and>
          list_all (\<lambda>c. \<not> js_space c \<and> c \<noteq> CHR ''<'' \<and> c \<noteq> CHR ''>'') (local @ domain) \<and>
          list_ex (\<lambda>i. domain ! i = CHR ''.'') [1..<length domain - 1]
      | _ \<Rightarrow> False)"

datatype webhook_error = EnterUrl | EnterValidUrl | UseHttps | MustBeHttps

definition strip_brackets :: "string \<Rightarrow> string" where
  "strip_brackets s =
     (let t = (if startsWith s ''['' then tl s else s)
      in if endsWith t '']'' then butlast t else t)"

definition webhookUrlError :: "(string \<Rightarrow> (string \<times> string) option) \<Rightarrow> string \<Rightarrow> webhook_error option" where
  "webhookUrlError parse_url raw =
     (let v = trim raw
      in if v = [] then Some EnterUrl
         else case parse_url v of
                None \<Rightarrow> Some EnterValidUrl
              | Some (proto, hostname) \<Rightarrow>
                  if proto = ''https:'' then None
                  else if proto = ''http:'' then
                    (let h = strip_brackets hostname
                     in if h = ''localhost'' \<or> h = ''::1'' \<or> startsWith h ''127.'' then None
                        else Some UseHttps)
                  else Some MustBeHttps)"

section \<open>Lemmas\<close>

text \<open>The candidates of a subscription list, in the order in which they are considered.\<close>

definition candidates :: "string list \<Rightarrow> string list" where
  "candidates input = nub (filter (\<lambda>e. e \<noteq> []) (map trim input))"

lemma normalize_loop_ref:
  "list_all isValidEventPattern out \<Longrightarrow>
   normalize_loop input out =
     (let new = filter (\<lambda>e. e \<notin> set out) (candidates input)
      in case find (\<lambda>e. \<not> isValidEventPattern e) new of
           Some e \<Rightarrow> Inl (NotAPattern e)
         | None \<Rightarrow> Inr (out @ new))"
proof (induction input arbitrary: out)
  case Nil
  then show ?case by (simp add: candidates_def)
next
  case (Cons raw input)
  let ?e = "trim raw" and ?c = "candidates input"
  consider "?e = []" | "?e \<noteq> []" "?e \<in> set out" | "?e \<noteq> []" "?e \<notin> set out" by blast
  then show ?case
  proof cases
    case 1
    with Cons show ?thesis by (simp add: candidates_def)
  next
    case 2
    then have "filter (\<lambda>e. e \<notin> set out) (candidates (raw # input)) = filter (\<lambda>e. e \<notin> set out) ?c"
      by (auto simp: candidates_def removeAll_filter_not_eq intro: filter_cong)
    with 2 Cons show ?thesis by simp
  next
    case 3
    then have "filter (\<lambda>e. e \<notin> set out) (candidates (raw # input)) =
        ?e # filter (\<lambda>e. e \<notin> set (out @ [?e])) ?c"
      by (auto simp: candidates_def removeAll_filter_not_eq intro: filter_cong)
    with 3 Cons show ?thesis by (auto simp: Let_def split: option.splits)
  qed
qed

text \<open>Words with a dot after each.\<close>

definition dotted :: "string list \<Rightarrow> string" where
  "dotted us = concat (map (\<lambda>u. u @ ''.'') us)"

lemma split_on_prefix:
  assumes "d \<notin> set u"
  shows "(\<exists>t'. t = u @ d # t' \<and> P (split_on d t')) \<longleftrightarrow> (\<exists>ts. split_on d t = u # ts \<and> ts \<noteq> [] \<and> P ts)"
proof
  assume "\<exists>ts. split_on d t = u # ts \<and> ts \<noteq> [] \<and> P ts"
  then obtain ts where ts: "split_on d t = u # ts" "ts \<noteq> []" "P ts" by blast
  then have "t = u @ d # js_join [d] ts"
    using join_split_on [of d t] by (cases ts) auto
  moreover from this have "split_on d (js_join [d] ts) = ts"
    using ts(1) split_on_append_sep [OF assms] by simp
  ultimately show "\<exists>t'. t = u @ d # t' \<and> P (split_on d t')" using ts(3) by auto
qed (auto simp: split_on_append_sep assms)

lemma startsWith_dotted:
  "list_all (\<lambda>u. CHR ''.'' \<notin> set u) us \<Longrightarrow>
   startsWith t (dotted us) \<longleftrightarrow>
     (let ts = split_on (CHR ''.'') t in length us < length ts \<and> take (length us) ts = us)"
proof (induction us arbitrary: t)
  case Nil
  then show ?case by (simp add: dotted_def)
next
  case (Cons u us)
  have "startsWith t (dotted (u # us)) \<longleftrightarrow> (\<exists>t'. t = u @ CHR ''.'' # t' \<and> startsWith t' (dotted us))"
    by (auto simp: startsWith_iff dotted_def)
  also have "\<dots> \<longleftrightarrow> (\<exists>t'. t = u @ CHR ''.'' # t' \<and>
      (\<lambda>ts. length us < length ts \<and> take (length us) ts = us) (split_on (CHR ''.'') t'))"
    using Cons by (simp add: Let_def)
  also have "\<dots> \<longleftrightarrow> (\<exists>ts. split_on (CHR ''.'') t = u # ts \<and> ts \<noteq> [] \<and>
      length us < length ts \<and> take (length us) ts = us)"
    using Cons.prems by (subst split_on_prefix) auto
  finally show ?case
    by (cases "split_on (CHR ''.'') t") (auto simp: Let_def)
qed

lemma join_snoc: "js_join ''.'' (us @ [w]) = dotted us @ w"
  by (induction us rule: induct_list012) (auto simp: dotted_def)

lemma pattern_word_no_star: "pattern_word w \<Longrightarrow> CHR ''*'' \<notin> set w"
  by (auto simp: pattern_word_def pattern_char_def js_lower_def js_digit_def list_all_iff)

lemma wildcard_shape:
  assumes "PATTERN p" "p \<noteq> ''*''"
  defines "ws \<equiv> split_on (CHR ''.'') p"
  shows "endsWith p ''.*'' \<longleftrightarrow> last ws = ''*''" "last ws = ''*'' \<Longrightarrow> p = dotted (butlast ws) @ ''*''"
    "last ws = ''*'' \<Longrightarrow> 1 < length ws"
proof -
  have p: "p = dotted (butlast ws) @ last ws"
    using join_split_on [of "CHR ''.''" p] join_snoc [of "butlast ws" "last ws"] by (simp add: ws_def)
  then show *: "p = dotted (butlast ws) @ ''*''" if "last ws = ''*''" using that by simp
  show l: "1 < length ws" if "last ws = ''*''"
  proof (rule ccontr)
    assume "\<not> 1 < length ws"
    then have "butlast ws = []" by (cases ws) (auto simp: ws_def)
    with * that assms(2) show False by (simp add: dotted_def)
  qed
  show "endsWith p ''.*'' \<longleftrightarrow> last ws = ''*''"
  proof
    assume "last ws = ''*''"
    with l have "butlast ws \<noteq> []" by (cases ws) auto
    then have "dotted (butlast ws) = dotted (butlast (butlast ws)) @ last (butlast ws) @ ''.''"
      by (cases "butlast ws" rule: rev_cases) (auto simp: dotted_def)
    then show "endsWith p ''.*''" using * \<open>last ws = ''*''\<close> by (simp add: endsWith_def)
  next
    assume e: "endsWith p ''.*''"
    show "last ws = ''*''"
    proof (rule ccontr)
      assume n: "last ws \<noteq> ''*''"
      then have "pattern_word (last ws)"
        using assms(1,2) by (auto simp: PATTERN_def ws_def Let_def list_all_iff)
      then obtain a c where "last ws = a @ [c]" "c \<noteq> CHR ''*''"
        using pattern_word_no_star [of "last ws"] by (cases "last ws" rule: rev_cases) (auto simp: pattern_word_def)
      with p e show False by (simp add: endsWith_def)
    qed
  qed
qed

section \<open>Properties\<close>

text \<open>C38: Normalisation against a reference: the trimmed, non-empty entries, each once, in order
  of first occurrence. The result is an error for the first of them that is not an event pattern,
  an error if there are more than a hundred, and otherwise that list.\<close>

theorem normalizeEvents_reference:
  "normalizeEvents input =
     (let es = nub (filter (\<lambda>e. e \<noteq> []) (map trim input))
      in case find (\<lambda>e. \<not> isValidEventPattern e) es of
           Some e \<Rightarrow> Inl (NotAPattern e)
         | None \<Rightarrow> if length es > 100 then Inl TooManyPatterns else Inr es)"
  by (simp add: normalizeEvents_def normalize_loop_ref Let_def candidates_def [symmetric]
      MAX_EVENT_PATTERNS_def split: option.splits)

text \<open>The meaning of a well-formed pattern, by dot-separated segments. A wildcard
  \<^verbatim>\<open>a.b.*\<close> matches exactly the event types with more segments than \<^verbatim>\<open>a.b\<close> whose first segments
  are those of \<^verbatim>\<open>a.b\<close>; a pattern without wildcard matches only itself.\<close>

theorem matchEvent_segments:
  assumes "isValidEventPattern p" "p \<noteq> ''*''"
  shows "matchEvent [p] eventType \<longleftrightarrow>
    (let ws = split_on (CHR ''.'') p; ts = split_on (CHR ''.'') eventType
     in if last ws = ''*'' then length ws \<le> length ts \<and> take (length ws - 1) ts = butlast ws
        else ts = ws)"
proof -
  let ?ws = "split_on (CHR ''.'') p"
  have pat: "PATTERN p" using assms(1) by (simp add: isValidEventPattern_def)
  note shape = wildcard_shape [OF pat assms(2)]
  have eq: "split_on (CHR ''.'') eventType = ?ws \<longleftrightarrow> eventType = p"
    by (metis join_split_on)
  show ?thesis
  proof (cases "last ?ws = ''*''")
    case True
    have "list_all (\<lambda>u. CHR ''.'' \<notin> set u) (butlast ?ws)"
      by (auto simp: list_all_iff dest: in_set_butlastD split_on_parts)
    moreover have "butlast p = dotted (butlast ?ws)" using shape(2) [OF True] by (metis butlast_snoc)
    ultimately show ?thesis
      using True shape startsWith_dotted [of "butlast ?ws" eventType] assms(2)
      by (auto simp: matchEvent_def matches_one_def Let_def)
  next
    case False
    with shape(1) assms(2) eq show ?thesis by (auto simp: matchEvent_def matches_one_def Let_def)
  qed
qed

theorem matchEvent_segments_witness:
  "isValidEventPattern ''platform.*'' \<and> matchEvent [''platform.*''] ''platform.backup.failed'' \<and>
   \<not> matchEvent [''platform.*''] ''platform''"
proof -
  have v: "isValidEventPattern ''platform.*''" by code_simp
  show ?thesis
    using matchEvent_segments [OF v, of "''platform.backup.failed''"]
      matchEvent_segments [OF v, of "''platform''"] v by (simp add: Let_def)
qed

end
