(* ===== verification/Restore_Helpers.thy ===== *)
theory Restore_Helpers
  imports Console_Prelude "HOL-Library.Sublist"
begin

text \<open>
  The restore wizard and the restore detail page, \<^verbatim>\<open>src/lib/restore.ts\<close>: which manifest components
  can be selected, bind-mount path remaps, the safeguards of the Start button, and the workflow
  step indicator. The data types are those of the API contract; the development server of
  \<^verbatim>\<open>scripts/mock-restore.mjs\<close> produces and consumes the same ones.
\<close>

section \<open>Data of the API contract\<close>

record database_info =
  db_engine :: string
  db_container :: string
  db_service :: string

record manifest_component =
  mc_name :: string
  mc_kind :: string
  mc_status :: string
  mc_parent :: "string option"
  mc_path :: "string option"
  mc_size_bytes :: "nat option"
  mc_files :: "nat option"
  mc_volume_name :: "string option"
  mc_database :: "database_info option"

record preview_component =
  pv_name :: string
  pv_kind :: string
  pv_size_bytes :: nat
  pv_action :: string
  pv_target :: string

record preview_container =
  pc_id :: string
  pc_name :: string
  pc_state :: string

record preview_item =
  pi_name :: string
  pi_action :: string

record preview_image =
  im_ref :: string
  im_digest :: "string option"
  im_action :: string

record collision =
  co_kind :: string
  co_name :: string
  co_detail :: string

record preview =
  p_recovery_point_id :: string
  p_application_name :: string
  p_source_host_id :: string
  p_target_host_id :: string
  p_target_hostname :: string
  p_target_application_id :: "string option"
  p_mode :: string
  p_production :: bool
  p_production_reasons :: "string list"
  p_components :: "preview_component list"
  p_stop_containers :: "preview_container list"
  p_create_containers :: "string list"
  p_networks :: "preview_item list"
  p_images :: "preview_image list"
  p_ports :: "string list"
  p_collisions :: "collision list"
  p_warnings :: "string list"
  p_blocked :: bool

datatype restore_state = Requested | Running | Succeeded | Failed | RolledBack

fun isActiveRestore :: "restore_state \<Rightarrow> bool" where
  "isActiveRestore Requested = True"
| "isActiveRestore Running = True"
| "isActiveRestore _ = False"

section \<open>Components\<close>

record selectable_component =
  component :: manifest_component
  restorable :: bool
  fsmeta :: "manifest_component option"

definition selectableComponents :: "manifest_component list \<Rightarrow> selectable_component list" where
  "selectableComponents components =
     map (\<lambda>c. \<lparr>component = c,
              restorable = (mc_status c = ''succeeded''),
              fsmeta = find (\<lambda>f. mc_kind f = ''fsmeta'' \<and> mc_parent f = Some (mc_name c) \<and>
                                 mc_status f = ''succeeded'') components\<rparr>)
       (filter (\<lambda>c. mc_kind c \<noteq> ''fsmeta'' \<and> mc_kind c \<noteq> ''image'') components)"

definition defaultSelection :: "manifest_component list \<Rightarrow> string list" where
  "defaultSelection components =
     map (\<lambda>s. mc_name (component s)) (filter restorable (selectableComponents components))"

section \<open>Path remaps\<close>

record remap_row =
  rm_from :: string
  rm_to :: string

definition under :: "string \<Rightarrow> string \<Rightarrow> bool" where
  "under p q \<longleftrightarrow> p = q \<or> startsWith p (strip_slashes q @ ''/'')"

definition clean_paths :: "string list \<Rightarrow> string list" where
  "clean_paths paths =
     nub (filter (\<lambda>p. startsWith p ''/'' \<and> p \<noteq> []) (map (\<lambda>p. strip_slashes (trim p)) paths))"

fun top_paths :: "string list \<Rightarrow> string list \<Rightarrow> string list" where
  "top_paths [] out = out"
| "top_paths (p # ps) out =
     (if list_ex (under p) out then top_paths ps out else top_paths ps (out @ [p]))"

text \<open>\<^verbatim>\<open>a.length - b.length || a.localeCompare(b)\<close>; \<open>le\<close> is \<^verbatim>\<open>a.localeCompare(b) <= 0\<close>.\<close>

definition length_le :: "(string \<Rightarrow> string \<Rightarrow> bool) \<Rightarrow> string \<Rightarrow> string \<Rightarrow> bool" where
  "length_le le a b \<longleftrightarrow> length a < length b \<or> length a = length b \<and> le a b"

definition suggestRemaps :: "(string \<Rightarrow> string \<Rightarrow> bool) \<Rightarrow> string list \<Rightarrow> remap_row list" where
  "suggestRemaps le paths =
     map (\<lambda>p. \<lparr>rm_from = p, rm_to = p @ ''-restored''\<rparr>)
       (js_sort le (top_paths (js_sort (length_le le) (clean_paths paths)) []))"

definition remappablePaths :: "manifest_component list \<Rightarrow> string list \<Rightarrow> string option \<Rightarrow> string list" where
  "remappablePaths components selected workingDir =
     concat (map (\<lambda>c.
       if mc_name c \<notin> set selected then []
       else (if mc_kind c = ''bind_mount'' then
               (case mc_path c of Some p \<Rightarrow> (if p \<noteq> [] then [p] else []) | None \<Rightarrow> []) else []) @
            (if mc_kind c = ''config'' then
               (case workingDir of Some w \<Rightarrow> (if w \<noteq> [] then [w] else []) | None \<Rightarrow> []) else []))
       components)"

datatype remap_error = NotAbsolute | DotDot | AlreadyRemapped

definition row_error :: "string \<Rightarrow> string \<Rightarrow> string list \<Rightarrow> remap_error option" where
  "row_error from to seen =
     (if \<not> startsWith from ''/'' \<or> \<not> startsWith to ''/'' then Some NotAbsolute
      else if ''..'' \<in> set (split_on SLASH to) \<or> ''..'' \<in> set (split_on SLASH from) then Some DotDot
      else if strip_slashes from \<in> set seen then Some AlreadyRemapped
      else None)"

fun validate_loop ::
  "nat \<Rightarrow> remap_row list \<Rightarrow> string list \<Rightarrow> (nat \<times> remap_error) list \<Rightarrow> remap_row list \<Rightarrow>
   (nat \<times> remap_error) list \<times> remap_row list" where
  "validate_loop i [] seen errors remaps = (errors, remaps)"
| "validate_loop i (r # rows) seen errors remaps =
     (let from = trim (rm_from r); to = trim (rm_to r)
      in if from = [] \<and> to = [] then validate_loop (Suc i) rows seen errors remaps
         else case row_error from to seen of
                Some e \<Rightarrow> validate_loop (Suc i) rows seen (errors @ [(i, e)]) remaps
              | None \<Rightarrow> validate_loop (Suc i) rows (seen @ [strip_slashes from]) errors
                          (remaps @ [\<lparr>rm_from = from, rm_to = to\<rparr>]))"

definition validateRemaps :: "remap_row list \<Rightarrow> (nat \<times> remap_error) list + remap_row list" where
  "validateRemaps rows =
     (case validate_loop 0 rows [] [] [] of
        (errors, remaps) \<Rightarrow> if errors \<noteq> [] then Inl errors else Inr remaps)"

section \<open>Start safeguards\<close>

definition MIN_PRODUCTION_REASON :: nat where
  "MIN_PRODUCTION_REASON = 3"

datatype start_blocker =
  BlockedByCollisions nat
| BlockedOtherwise
| NeedsProductionPermission
| NeedsReason
| NeedsConfirmation string

record start_check =
  canStart :: bool
  blockers :: "start_blocker list"
  reasonRequired :: bool
  confirmationRequired :: bool
  confirmationMatches :: bool

definition checkStart :: "preview \<Rightarrow> string \<Rightarrow> string \<Rightarrow> bool \<Rightarrow> start_check" where
  "checkStart p reason confirmation canProduction =
     (let collided = (if p_blocked p then
                        [if length (p_collisions p) > 0 then BlockedByCollisions (length (p_collisions p))
                         else BlockedOtherwise] else []);
          matches = (trim confirmation = p_application_name p);
          safeguards =
            (if p_production p then
               (if \<not> canProduction then [NeedsProductionPermission] else []) @
               (if length (trim reason) < MIN_PRODUCTION_REASON then [NeedsReason] else []) @
               (if \<not> matches then [NeedsConfirmation (p_application_name p)] else [])
             else []);
          bs = collided @ safeguards
      in \<lparr>canStart = (length bs = 0), blockers = bs, reasonRequired = p_production p,
          confirmationRequired = p_production p, confirmationMatches = matches\<rparr>)"

section \<open>Workflow steps\<close>

datatype restore_step =
  GrantAccess | AgentAccess | Images | StopApplication | RestoreData | RecreateContainers
| StartApplication | RestoreDatabase | HealthCheck | Commit

definition RESTORE_STEPS :: "restore_step list" where
  "RESTORE_STEPS =
     [GrantAccess, AgentAccess, Images, StopApplication, RestoreData, RecreateContainers,
      StartApplication, RestoreDatabase, HealthCheck, Commit]"

fun step_id :: "restore_step \<Rightarrow> string" where
  "step_id GrantAccess = ''grant-access''"
| "step_id AgentAccess = ''agent-access''"
| "step_id Images = ''images''"
| "step_id StopApplication = ''stop-application''"
| "step_id RestoreData = ''restore-data''"
| "step_id RecreateContainers = ''recreate-containers''"
| "step_id StartApplication = ''start-application''"
| "step_id RestoreDatabase = ''restore-database''"
| "step_id HealthCheck = ''health-check''"
| "step_id Commit = ''commit''"

fun STEP_LABEL :: "restore_step \<Rightarrow> string" where
  "STEP_LABEL GrantAccess = ''Grant access''"
| "STEP_LABEL AgentAccess = ''Agent access''"
| "STEP_LABEL Images = ''Images''"
| "STEP_LABEL StopApplication = ''Stop application''"
| "STEP_LABEL RestoreData = ''Restore data''"
| "STEP_LABEL RecreateContainers = ''Re-create containers''"
| "STEP_LABEL StartApplication = ''Start application''"
| "STEP_LABEL RestoreDatabase = ''Restore database''"
| "STEP_LABEL HealthCheck = ''Health check''"
| "STEP_LABEL Commit = ''Commit''"

definition find_step :: "string \<Rightarrow> restore_step option" where
  "find_step s = find (\<lambda>x. step_id x = s) RESTORE_STEPS"

definition stepLabel :: "string option \<Rightarrow> string" where
  "stepLabel step =
     (case step of
        None \<Rightarrow> []
      | Some s \<Rightarrow> if s = [] then [] else (case find_step s of Some x \<Rightarrow> STEP_LABEL x | None \<Rightarrow> s))"

definition RUNNING_STATES :: "string list" where
  "RUNNING_STATES = [''running'', ''paused'', ''restarting'']"

text \<open>Source and target host of a run are passed as they are; \<open>None\<close> is a run without preview.\<close>

fun stepApplies :: "restore_step \<Rightarrow> string \<Rightarrow> string \<Rightarrow> preview option \<Rightarrow> bool" where
  "stepApplies GrantAccess source target p = (target \<noteq> source)"
| "stepApplies Images source target p =
     (case p of Some v \<Rightarrow> length (p_images v) > 0 | None \<Rightarrow> True)"
| "stepApplies StopApplication source target p =
     (case p of Some v \<Rightarrow> list_ex (\<lambda>c. pc_state c \<in> set RUNNING_STATES) (p_stop_containers v)
              | None \<Rightarrow> True)"
| "stepApplies RecreateContainers source target p =
     (case p of Some v \<Rightarrow> length (p_create_containers v) > 0 | None \<Rightarrow> True)"
| "stepApplies RestoreDatabase source target p =
     (case p of Some v \<Rightarrow> list_ex (\<lambda>c. pv_action c = ''load_dump'') (p_components v) | None \<Rightarrow> True)"
| "stepApplies HealthCheck source target p =
     (case p of
        Some v \<Rightarrow> list_ex (\<lambda>c. pc_state c \<in> set RUNNING_STATES) (p_stop_containers v) \<or>
                  length (p_create_containers v) > 0
      | None \<Rightarrow> True)"
| "stepApplies AgentAccess source target p = True"
| "stepApplies RestoreData source target p = True"
| "stepApplies StartApplication source target p = True"
| "stepApplies Commit source target p = True"

datatype step_status = Done | Current | Pending | FailedStep

record step_view =
  sv_step :: restore_step
  sv_label :: string
  sv_status :: step_status

definition position :: "'a \<Rightarrow> 'a list \<Rightarrow> nat option" where
  "position x xs = (if x \<in> set xs then Some (length (takeWhile (\<lambda>y. y \<noteq> x) xs)) else None)"

definition step_status_at :: "restore_state \<Rightarrow> nat option \<Rightarrow> nat \<Rightarrow> step_status" where
  "step_status_at state at_pos i =
     (if state = Succeeded then Done
      else case at_pos of
             None \<Rightarrow> Pending
           | Some a \<Rightarrow>
               if state = Running then (if i < a then Done else if i = a then Current else Pending)
               else if state = Failed \<or> state = RolledBack
                 then (if i < a then Done else if i = a then FailedStep else Pending)
               else Pending)"

definition restoreSteps ::
  "restore_state \<Rightarrow> string option \<Rightarrow> string \<Rightarrow> string \<Rightarrow> preview option \<Rightarrow> step_view list" where
  "restoreSteps state step source target p =
     (let current = find_step (case step of Some s \<Rightarrow> s | None \<Rightarrow> []);
          steps = filter (\<lambda>s. Some s = current \<or> stepApplies s source target p) RESTORE_STEPS;
          at_pos = (case current of Some c \<Rightarrow> position c steps | None \<Rightarrow> None)
      in map (\<lambda>(i, s). \<lparr>sv_step = s, sv_label = STEP_LABEL s, sv_status = step_status_at state at_pos i\<rparr>)
           (List.enumerate 0 steps))"

section \<open>Display\<close>

text \<open>
  Start and end of a run as the API sends them: missing, a text \<^verbatim>\<open>Date.parse\<close> does not
  understand, or the millisecond it denotes.
\<close>

datatype stamp = NoStamp | BadStamp string | Stamp int

definition formatDuration :: "stamp \<Rightarrow> stamp \<Rightarrow> int \<Rightarrow> string option" where
  "formatDuration start stop now =
     (case start of
        NoStamp \<Rightarrow> None
      | BadStamp _ \<Rightarrow> None
      | Stamp a \<Rightarrow>
          (case (case stop of NoStamp \<Rightarrow> Some now | BadStamp _ \<Rightarrow> None | Stamp b \<Rightarrow> Some b) of
             None \<Rightarrow> None
           | Some b \<Rightarrow>
               let s = nat (max 0 (js_round (of_int (b - a) / 1000)));
                   m = s div 60;
                   h = m div 60
               in Some (if s < 60 then show_nat s @ '' s''
                        else if m < 60 then show_nat m @ '' min '' @ show_nat (s mod 60) @ '' s''
                        else show_nat h @ '' h '' @ show_nat (m mod 60) @ '' min'')))"

section \<open>Lemmas\<close>

definition entered :: "remap_row list \<Rightarrow> remap_row list" where
  "entered rows =
     filter (\<lambda>r. \<not> (rm_from r = [] \<and> rm_to r = []))
       (map (\<lambda>r. \<lparr>rm_from = trim (rm_from r), rm_to = trim (rm_to r)\<rparr>) rows)"

definition remap_ok :: "remap_row \<Rightarrow> bool" where
  "remap_ok r \<longleftrightarrow> startsWith (rm_from r) ''/'' \<and> startsWith (rm_to r) ''/'' \<and>
     ''..'' \<notin> set (split_on SLASH (rm_from r)) \<and> ''..'' \<notin> set (split_on SLASH (rm_to r))"

lemma validate_loop_errors: "errors \<noteq> [] \<Longrightarrow> fst (validate_loop i rows seen errors remaps) \<noteq> []"
  by (induction rows arbitrary: i seen errors remaps) (auto simp: Let_def split: option.split)

lemma row_error_None:
  "row_error from to seen = None \<longleftrightarrow>
   remap_ok \<lparr>rm_from = from, rm_to = to\<rparr> \<and> strip_slashes from \<notin> set seen"
  by (auto simp: row_error_def remap_ok_def)

lemma validate_loop_ok:
  "set seen = (\<lambda>r. strip_slashes (rm_from r)) ` set remaps \<Longrightarrow>
   distinct (map (\<lambda>r. strip_slashes (rm_from r)) remaps) \<Longrightarrow>
   validate_loop i rows seen [] remaps = ([], out) \<longleftrightarrow>
     out = remaps @ entered rows \<and> list_all remap_ok (entered rows) \<and>
     distinct (map (\<lambda>r. strip_slashes (rm_from r)) (remaps @ entered rows))"
proof (induction rows arbitrary: i seen remaps)
  case Nil
  then show ?case by (auto simp: entered_def)
next
  case (Cons r rows)
  let ?r = "\<lparr>rm_from = trim (rm_from r), rm_to = trim (rm_to r)\<rparr>"
  show ?case
  proof (cases "rm_from ?r = [] \<and> rm_to ?r = []")
    case True
    with Cons show ?thesis by (simp add: entered_def Let_def)
  next
    case False
    then have e: "entered (r # rows) = ?r # entered rows" by (simp add: entered_def)
    show ?thesis
    proof (cases "row_error (rm_from ?r) (rm_to ?r) seen")
      case None
      then have "remap_ok ?r" "strip_slashes (rm_from ?r) \<notin> set seen" by (auto simp: row_error_None)
      then show ?thesis
        using None False e Cons.prems
          Cons.IH [of "seen @ [strip_slashes (rm_from ?r)]" "remaps @ [?r]" "Suc i"]
        by (auto simp: Let_def)
    next
      case (Some x)
      then have "\<not> remap_ok ?r \<or> strip_slashes (rm_from ?r) \<in> set seen"
        using row_error_None [of "rm_from ?r" "rm_to ?r" seen] by auto
      moreover have "validate_loop (Suc i) rows seen [(i, x)] remaps \<noteq> ([], out)"
        using validate_loop_errors [of "[(i, x)]" "Suc i" rows seen remaps] by auto
      ultimately show ?thesis using Some False e Cons.prems by (auto simp: Let_def)
    qed
  qed
qed

section \<open>Properties\<close>

text \<open>The remap editor accepts a table of rows exactly when, after trimming and dropping the
  empty rows, both paths of every row are absolute and free of \<^verbatim>\<open>..\<close> segments and no source path
  occurs twice up to trailing slashes; what it then sends is those rows, in order.\<close>

theorem validateRemaps_iff:
  "validateRemaps rows = Inr remaps \<longleftrightarrow>
     remaps = filter (\<lambda>r. \<not> (rm_from r = [] \<and> rm_to r = []))
       (map (\<lambda>r. \<lparr>rm_from = trim (rm_from r), rm_to = trim (rm_to r)\<rparr>) rows) \<and>
     list_all (\<lambda>r. startsWith (rm_from r) ''/'' \<and> startsWith (rm_to r) ''/'' \<and>
       ''..'' \<notin> set (split_on SLASH (rm_from r)) \<and> ''..'' \<notin> set (split_on SLASH (rm_to r))) remaps \<and>
     distinct (map (\<lambda>r. strip_slashes (rm_from r)) remaps)"
proof -
  have "validateRemaps rows = Inr remaps \<longleftrightarrow> validate_loop 0 rows [] [] [] = ([], remaps)"
    by (auto simp: validateRemaps_def split: prod.splits)
  also have "\<dots> \<longleftrightarrow> remaps = entered rows \<and> list_all remap_ok (entered rows) \<and>
      distinct (map (\<lambda>r. strip_slashes (rm_from r)) (entered rows))"
    using validate_loop_ok [of "[]" "[]" 0 rows remaps] by simp
  finally show ?thesis by (auto simp: entered_def remap_ok_def [abs_def])
qed

lemma clean_paths_stripped: "p \<in> set (clean_paths paths) \<Longrightarrow> strip_slashes p = p"
  by (auto simp: clean_paths_def)

lemma under_length: "strip_slashes q = q \<Longrightarrow> under p q \<Longrightarrow> p = q \<or> length q < length p"
  by (auto simp: under_def startsWith_iff)

lemma under_trans: "strip_slashes q = q \<Longrightarrow> under p q \<Longrightarrow> strip_slashes r = r \<Longrightarrow> under q r \<Longrightarrow> under p r"
  by (auto simp: under_def startsWith_iff)

lemma top_paths_set: "set out \<subseteq> set (top_paths ps out) \<and> set (top_paths ps out) \<subseteq> set out \<union> set ps"
  by (induction ps out rule: top_paths.induct) auto

lemma top_paths_cover: "p \<in> set ps \<Longrightarrow> list_ex (under p) (top_paths ps out)"
proof (induction ps out rule: top_paths.induct)
  case (2 p' ps out)
  show ?case
  proof (cases "p = p'")
    case True
    then show ?thesis
      using top_paths_set [of out ps] top_paths_set [of "out @ [p]" ps]
      by (auto simp: list_ex_iff under_def)
  next
    case False
    with 2 show ?thesis by auto
  qed
qed simp

text \<open>Nothing in the list is under something else in it.\<close>

definition antichain :: "string list \<Rightarrow> bool" where
  "antichain ps \<longleftrightarrow> distinct ps \<and> (\<forall>p \<in> set ps. \<forall>q \<in> set ps. under p q \<longrightarrow> p = q)"

lemma top_paths_antichain:
  "sorted_wrt (\<lambda>a b. length a \<le> length b) (out @ ps) \<Longrightarrow> distinct (out @ ps) \<Longrightarrow>
   (\<And>p. p \<in> set (out @ ps) \<Longrightarrow> strip_slashes p = p) \<Longrightarrow> antichain out \<Longrightarrow>
   antichain (top_paths ps out)"
proof (induction ps out rule: top_paths.induct)
  case (2 p ps out)
  show ?case
  proof (cases "list_ex (under p) out")
    case True
    with 2 show ?thesis by (simp add: sorted_wrt_append)
  next
    case False
    have "\<not> under q p" if "q \<in> set out" for q
    proof
      assume "under q p"
      then have "q = p \<or> length p < length q" using 2(5) under_length by simp
      with that 2(3,4) show False by (auto simp: sorted_wrt_append)
    qed
    with False 2(6,4) have "antichain (out @ [p])"
      by (auto simp: antichain_def list_ex_iff)
    with False 2 show ?thesis by simp
  qed
qed simp

lemma length_le_order:
  assumes "transp le" "totalp le" "reflp le"
  shows "transp (length_le le)" "totalp (length_le le)" "reflp (length_le le)"
proof -
  show "transp (length_le le)"
    by (rule transpI) (auto simp: length_le_def dest: transpD [OF assms(1)])
  show "totalp (length_le le)"
    by (rule totalpI) (auto simp: length_le_def dest: totalpD [OF assms(2)] intro: linorder_cases)
  show "reflp (length_le le)"
    by (rule reflpI) (auto simp: length_le_def reflpD [OF assms(3)])
qed

text \<open>The suggested remaps cover what has to be moved, without redundancy. Every absolute path
  other than the root lies under the source of a suggested row (up to surrounding white space and
  trailing slashes), no source lies under another one, and each target is the source with
  \<^verbatim>\<open>-restored\<close> appended. The collation is any total preorder.\<close>

theorem suggestRemaps_cover:
  assumes "transp le" "totalp le" "reflp le"
  shows "list_all (\<lambda>p. let c = strip_slashes (trim p) in
           \<not> startsWith c ''/'' \<or> list_ex (\<lambda>r. under c (rm_from r)) (suggestRemaps le paths)) paths \<and>
         antichain (map rm_from (suggestRemaps le paths)) \<and>
         list_all (\<lambda>r. rm_to r = rm_from r @ ''-restored'') (suggestRemaps le paths)"
proof -
  let ?sorted = "js_sort (length_le le) (clean_paths paths)"
  let ?top = "top_paths ?sorted []"
  have "sorted_wrt (length_le le) ?sorted"
    using length_le_order [OF assms] by (rule js_sort_sorted_wrt)
  then have "sorted_wrt (\<lambda>a b. length a \<le> length b) ?sorted"
    by (rule sorted_wrt_mono_rel [rotated]) (auto simp: length_le_def)
  then have "antichain ?top"
    by (intro top_paths_antichain)
      (auto simp: antichain_def clean_paths_stripped, simp add: clean_paths_def)
  then have "antichain (map rm_from (suggestRemaps le paths))"
    by (simp add: suggestRemaps_def antichain_def comp_def)
  moreover have "list_ex (under c) ?top" if "p \<in> set paths" "c = strip_slashes (trim p)" "startsWith c ''/''" for p c
  proof (rule top_paths_cover)
    show "c \<in> set ?sorted" using that by (auto simp: clean_paths_def)
  qed
  ultimately show ?thesis
    by (auto simp: suggestRemaps_def list_all_iff list_ex_iff Let_def)
qed

theorem suggestRemaps_cover_witness:
  "map rm_from (suggestRemaps (\<lambda>a b. length a \<le> length b) [''/srv/shop/up'', '' /srv/shop/'', ''/data'']) =
     [''/data'', ''/srv/shop''] \<and>
   list_ex (\<lambda>r. under ''/srv/shop/up'' (rm_from r))
     (suggestRemaps (\<lambda>a b. length a \<le> length b) [''/srv/shop/up'', '' /srv/shop/'', ''/data'']) \<and>
   antichain (map rm_from
     (suggestRemaps (\<lambda>a b. length a \<le> length b) [''/srv/shop/up'', '' /srv/shop/'', ''/data'']))"
proof -
  let ?le = "\<lambda>a b. length a \<le> length (b :: string)"
  let ?ps = "[''/srv/shop/up'', '' /srv/shop/'', ''/data'']"
  have o: "transp ?le" "totalp ?le" "reflp ?le"
    by (auto intro!: transpI totalpI reflpI)
  have e: "map rm_from (suggestRemaps ?le ?ps) = [''/data'', ''/srv/shop'']" by code_simp
  have c: "strip_slashes (trim ''/srv/shop/up'') = ''/srv/shop/up''" by code_simp
  show ?thesis using suggestRemaps_cover [OF o, of ?ps] e by (simp add: Let_def c)
qed

lemma position_nth:
  "position x xs = Some a \<Longrightarrow> a < length xs \<and> xs ! a = x"
proof -
  have "x \<in> set xs \<Longrightarrow> length (takeWhile (\<lambda>y. y \<noteq> x) xs) < length xs \<and>
      xs ! length (takeWhile (\<lambda>y. y \<noteq> x) xs) = x"
    by (induction xs) auto
  then show "position x xs = Some a \<Longrightarrow> ?thesis" by (auto simp: position_def split: if_splits)
qed

lemma statuses_shape:
  "a < n \<Longrightarrow> map (\<lambda>i. if i < a then x else if i = a then y else z) [0..<n] =
   replicate a x @ y # replicate (n - Suc a) z"
  by (rule nth_equalityI) (auto simp: nth_append nth_Cons split: nat.splits)

lemma map_enumerate_fst: "map (\<lambda>x. f (fst x)) (List.enumerate 0 xs) = map f [0..<length xs]"
  using map_map [of f fst "List.enumerate 0 xs"] by (simp add: comp_def)

lemma map_enumerate_snd: "map (\<lambda>x. f (snd x)) (List.enumerate 0 xs) = map f xs"
  using map_map [of f snd "List.enumerate 0 xs"] by (simp add: comp_def)

definition shown_steps :: "string option \<Rightarrow> string \<Rightarrow> string \<Rightarrow> preview option \<Rightarrow> restore_step list" where
  "shown_steps step source target p =
     filter (\<lambda>s. Some s = find_step (case step of Some s \<Rightarrow> s | None \<Rightarrow> []) \<or>
       stepApplies s source target p) RESTORE_STEPS"

lemma restoreSteps_statuses:
  "map sv_status (restoreSteps state step source target p) =
   map (step_status_at state (case find_step (case step of Some s \<Rightarrow> s | None \<Rightarrow> []) of
       Some c \<Rightarrow> position c (shown_steps step source target p) | None \<Rightarrow> None))
     [0..<length (shown_steps step source target p)]"
  unfolding restoreSteps_def Let_def shown_steps_def
  by (simp add: comp_def case_prod_beta map_enumerate_fst)

lemma restoreSteps_steps:
  "map sv_step (restoreSteps state step source target p) = shown_steps step source target p"
  by (simp add: restoreSteps_def Let_def comp_def case_prod_beta map_enumerate_snd [of "\<lambda>x. x"] shown_steps_def)

lemma find_step_id: "find_step (step_id s) = Some s"
  by (cases s) (simp_all add: find_step_def RESTORE_STEPS_def)

lemma find_step_Some: "find_step t = Some s \<longleftrightarrow> t = step_id s"
  using find_step_id by (auto simp: find_step_def find_Some_iff)

lemma steps_complete: "s \<in> set RESTORE_STEPS"
  by (cases s) (simp_all add: RESTORE_STEPS_def)

lemma shown_current: "step = Some (step_id s) \<Longrightarrow> s \<in> set (shown_steps step source target p)"
  by (simp add: shown_steps_def find_step_id steps_complete)

lemma const_map: "map (\<lambda>_. x) [0..<n] = replicate n x"
  by (rule nth_equalityI) auto

text \<open>The step indicator of a restore. Its steps are, in workflow order, those that apply and
  the current one. A succeeded run has every step done; a run that stands at a step has exactly
  the steps before it done, that step current (or failed, when the run ended there) and the rest
  pending; any other run has every step pending.\<close>

theorem restoreSteps_shape:
  "(let vs = restoreSteps state step source target p;
        steps = filter (\<lambda>s. step = Some (step_id s) \<or> stepApplies s source target p) RESTORE_STEPS
    in map sv_step vs = steps \<and>
       (if state = Succeeded then map sv_status vs = replicate (length steps) Done
        else if state \<noteq> Requested \<and> list_ex (\<lambda>s. step = Some (step_id s)) RESTORE_STEPS then
          (\<exists>a < length steps. step = Some (step_id (steps ! a)) \<and>
             map sv_status vs = replicate a Done @ (if state = Running then Current else FailedStep) #
               replicate (length steps - Suc a) Pending)
        else map sv_status vs = replicate (length steps) Pending))"
proof -
  have ne: "find_step [] = None" by (simp add: find_step_def RESTORE_STEPS_def)
  have cur: "find_step (case step of Some s \<Rightarrow> s | None \<Rightarrow> []) = Some s \<longleftrightarrow> step = Some (step_id s)" for s
    by (cases step) (auto simp: ne find_step_Some)
  have cur': "Some s = find_step (case step of Some s \<Rightarrow> s | None \<Rightarrow> []) \<longleftrightarrow> step = Some (step_id s)" for s
    using cur [of s] by auto
  have steps: "shown_steps step source target p =
      filter (\<lambda>s. step = Some (step_id s) \<or> stepApplies s source target p) RESTORE_STEPS"
    by (simp add: shown_steps_def cur')
  show ?thesis
  proof (cases "find_step (case step of Some s \<Rightarrow> s | None \<Rightarrow> [])")
    case None
    then have "\<not> list_ex (\<lambda>s. step = Some (step_id s)) RESTORE_STEPS"
      using cur by (auto simp: list_ex_iff)
    with None show ?thesis
      by (simp add: Let_def restoreSteps_steps restoreSteps_statuses steps [symmetric] step_status_at_def [abs_def] const_map)
  next
    case (Some c)
    then have st: "step = Some (step_id c)" using cur by simp
    then obtain a where a: "position c (shown_steps step source target p) = Some a"
      using shown_current by (fastforce simp: position_def)
    then have nth: "a < length (shown_steps step source target p)" "shown_steps step source target p ! a = c"
      using position_nth by fastforce+
    have ex: "list_ex (\<lambda>s. step = Some (step_id s)) RESTORE_STEPS"
      using st steps_complete by (auto simp: list_ex_iff)
    show ?thesis
      unfolding Let_def restoreSteps_steps restoreSteps_statuses steps [symmetric] Some option.case a
      using nth st ex
      by (cases state)
        (auto simp: step_status_at_def [abs_def] const_map statuses_shape intro!: exI [of _ a])
  qed
qed

end
