(* ===== verification/Mock_Base.thy ===== *)
theory Mock_Base
  imports Console_Prelude
begin

text \<open>
  Common ground of the development API server (\<^verbatim>\<open>scripts/mock-*.mjs\<close>): JSON values, users and
  permissions, replies, the audit trail and the published events, request contexts, and the
  event stream of \<^verbatim>\<open>scripts/mock-events.mjs\<close>.

  A handler of the server is a function from the caller's context, the decoded request and the
  state of its module to a reply, a list of effects (audit entries and published events, oldest
  first) and the new state. The clock and the random values a handler draws are part of the
  context.
\<close>

section \<open>JSON\<close>

datatype json =
  JNull
| JBool bool
| JNum rat
| JStr string
| JArr "json list"
| JObj "(string \<times> json) list"

text \<open>\<^verbatim>\<open>body?.key\<close>; \<open>None\<close> is \<^verbatim>\<open>undefined\<close>. A body that is not valid JSON arrives as \<open>JNull\<close>, an
  empty one as the empty object (\<^verbatim>\<open>readJson\<close>).\<close>

fun jfield :: "json \<Rightarrow> string \<Rightarrow> json option" where
  "jfield (JObj fs) k = map_of fs k"
| "jfield _ k = None"

text \<open>\<^verbatim>\<open>typeof body?.key === "string" ? body.key.trim() : ""\<close>, an idiom of many handlers.\<close>

definition trimmed_field :: "json \<Rightarrow> string \<Rightarrow> string" where
  "trimmed_field body k = (case jfield body k of Some (JStr s) \<Rightarrow> trim s | _ \<Rightarrow> [])"

text \<open>JavaScript's reading of a value as a condition; \<open>None\<close> is \<^verbatim>\<open>undefined\<close>.\<close>

fun truthy :: "json option \<Rightarrow> bool" where
  "truthy None = False"
| "truthy (Some JNull) = False"
| "truthy (Some (JBool b)) = b"
| "truthy (Some (JNum n)) = (n \<noteq> 0)"
| "truthy (Some (JStr s)) = (s \<noteq> [])"
| "truthy (Some (JArr xs)) = True"
| "truthy (Some (JObj fs)) = True"

definition array_field :: "json \<Rightarrow> string \<Rightarrow> json list" where
  "array_field body k = (case jfield body k of Some (JArr xs) \<Rightarrow> xs | _ \<Rightarrow> [])"

section \<open>Users, replies, effects\<close>

datatype user_kind = MasterAdmin | Oidc

record user =
  u_id :: string
  u_username :: string
  u_display_name :: string
  u_email :: "string option"
  u_kind :: user_kind
  u_roles :: "string list"
  u_permissions :: "string list"

datatype 'b reply =
  Send nat 'b
| SendEmpty nat
| Problem nat string string string
| Invalid string string

fun reply_status :: "'b reply \<Rightarrow> nat" where
  "reply_status (Send n b) = n"
| "reply_status (SendEmpty n) = n"
| "reply_status (Problem n c t d) = n"
| "reply_status (Invalid d l) = 400"

record audit_extra =
  a_actor :: "string option"
  a_target_type :: "string option"
  a_target_id :: "string option"
  a_reason :: "string option"
  a_details :: json

datatype effect =
  Audit string string audit_extra
| Publish string string json

type_synonym ('b, 's) outcome = "'b reply \<times> effect list \<times> 's"

abbreviation (input) out_reply :: "('b, 's) outcome \<Rightarrow> 'b reply" where
  "out_reply r \<equiv> fst r"
abbreviation (input) out_effects :: "('b, 's) outcome \<Rightarrow> effect list" where
  "out_effects r \<equiv> fst (snd r)"
abbreviation (input) out_state :: "('b, 's) outcome \<Rightarrow> 's" where
  "out_state r \<equiv> snd (snd r)"

record ctx =
  c_user :: user
  c_now :: int
  c_random :: "nat \<Rightarrow> string"

definition audit_by :: "ctx \<Rightarrow> string \<Rightarrow> string \<Rightarrow> string \<Rightarrow> string option \<Rightarrow> effect" where
  "audit_by c action target_type target_id reason =
     Audit action ''success''
       \<lparr>a_actor = Some (u_display_name (c_user c)), a_target_type = Some target_type,
        a_target_id = Some target_id, a_reason = reason, a_details = JObj []\<rparr>"

definition not_found :: "string \<Rightarrow> 'b reply" where
  "not_found detail = Problem 404 ''not_found'' ''Not Found'' detail"

definition conflict :: "string \<Rightarrow> 'b reply" where
  "conflict detail = Problem 409 ''conflict'' ''Conflict'' detail"

definition forbidden :: "string \<Rightarrow> 'b reply" where
  "forbidden perm = Problem 403 ''forbidden'' ''Forbidden'' (''Missing permission '' @ perm @ ''.'')"

text \<open>\<^verbatim>\<open>if (!need(res, user, perm)) return;\<close>\<close>

definition need :: "ctx \<Rightarrow> string \<Rightarrow> 's \<Rightarrow> ('b, 's) outcome \<Rightarrow> ('b, 's) outcome" where
  "need c perm s k = (if perm \<in> set (u_permissions (c_user c)) then k else (forbidden perm, [], s))"

definition answer :: "'b reply \<Rightarrow> 's \<Rightarrow> ('b, 's) outcome" where
  "answer r s = (r, [], s)"

section \<open>Numbers, quoting, time\<close>

definition SECOND :: int where "SECOND = 1000"
definition MINUTE :: int where "MINUTE = 60 * 1000"
definition HOUR :: int where "HOUR = 60 * (60 * 1000)"
definition DAY :: int where "DAY = 24 * (60 * (60 * 1000))"

definition show_int :: "int \<Rightarrow> string" where
  "show_int i = (if i < 0 then CHR ''-'' # show_nat (nat (- i)) else show_nat (nat i))"

text \<open>\<^verbatim>\<open>Math.min(Math.max(Number(q ?? d) || d, 1), hi)\<close> for a query parameter, and the truncation
  that \<^verbatim>\<open>slice\<close> applies to it. \<open>Some None\<close> is a parameter that \<^verbatim>\<open>Number\<close> does not understand.\<close>

definition page_limit :: "rat option option \<Rightarrow> rat \<Rightarrow> rat \<Rightarrow> nat" where
  "page_limit q d hi =
     (let v = (case q of None \<Rightarrow> d | Some None \<Rightarrow> d | Some (Some x) \<Rightarrow> if x = 0 then d else x)
      in nat \<lfloor>min (max v 1) hi\<rfloor>)"

definition json_escape :: "char \<Rightarrow> string" where
  "json_escape c =
     (if c = DQ then [BSL, DQ] else if c = BSL then [BSL, BSL]
      else if code c = 8 then [BSL, CHR ''b''] else if code c = 9 then [BSL, CHR ''t'']
      else if code c = 10 then [BSL, CHR ''n''] else if code c = 12 then [BSL, CHR ''f'']
      else if code c = 13 then [BSL, CHR ''r'']
      else if code c < 32 then
        [BSL, CHR ''u'', CHR ''0'', CHR ''0'', char_of (48 + code c div 16),
         (let d = code c mod 16 in if d < 10 then char_of (48 + d) else char_of (87 + d))]
      else [c])"

definition json_quote :: "string \<Rightarrow> string" where
  "json_quote s = DQ # concat (map json_escape s) @ [DQ]"

text \<open>\<^verbatim>\<open>new Date(ms).toISOString().slice(0, 19)\<close>: the proleptic Gregorian date and the time in UTC.\<close>

definition civil_from_days :: "int \<Rightarrow> int \<times> int \<times> int" where
  "civil_from_days days =
     (let z = days + 719468;
          era = z div 146097;
          doe = z mod 146097;
          yoe = (doe - doe div 1460 + doe div 36524 - doe div 146096) div 365;
          doy = doe - (365 * yoe + yoe div 4 - yoe div 100);
          mp = (5 * doy + 2) div 153;
          d = doy - (153 * mp + 2) div 5 + 1;
          m = (if mp < 10 then mp + 3 else mp - 9);
          y = yoe + era * 400
      in ((if m \<le> 2 then y + 1 else y), m, d))"

definition pad_int :: "nat \<Rightarrow> int \<Rightarrow> string" where
  "pad_int w i = (let s = show_nat (nat i) in replicate (w - length s) (CHR ''0'') @ s)"

definition iso_seconds :: "int \<Rightarrow> string" where
  "iso_seconds ms =
     (let secs = ms div 1000; (y, m, d) = civil_from_days (secs div 86400); t = secs mod 86400
      in pad_int 4 y @ ''-'' @ pad_int 2 m @ ''-'' @ pad_int 2 d @ ''T'' @
         pad_int 2 (t div 3600) @ '':'' @ pad_int 2 (t div 60 mod 60) @ '':'' @ pad_int 2 (t mod 60))"

text \<open>The non-ASCII punctuation of the server's messages, as UTF-8 bytes.\<close>

abbreviation (input) em_dash :: string where "em_dash \<equiv> [CHR 0xE2, CHR 0x80, CHR 0x94]"
abbreviation (input) dash_to :: string where "dash_to \<equiv> [CHR 0xE2, CHR 0x80, CHR 0x93]"
abbreviation (input) ellipsis :: string where "ellipsis \<equiv> [CHR 0xE2, CHR 0x80, CHR 0xA6]"

definition internal_error :: "'b reply" where
  "internal_error = Problem 500 ''internal'' ''Internal Server Error'' ''Mock failure.''"

section \<open>Guarded services\<close>

text \<open>
  What the modules of the server have in common: each route requires a permission, and a caller
  without it gets a 403 reply while nothing happens. The lemmas say what follows for any sequence
  of requests, given as contexts with routes.
\<close>

definition serve :: "(ctx \<Rightarrow> 'r \<Rightarrow> 's \<Rightarrow> ('b, 's) outcome) \<Rightarrow> (ctx \<times> 'r) list \<Rightarrow> 's \<Rightarrow> 's" where
  "serve handle rs s = fold (\<lambda>(c, r) s. out_state (handle c r s)) rs s"

lemma serve_Nil [simp]: "serve handle [] s = s"
  by (simp add: serve_def)

lemma serve_Cons [simp]: "serve handle ((c, r) # rs) s = serve handle rs (out_state (handle c r s))"
  by (simp add: serve_def)

locale guarded_service =
  fixes required :: "'r \<Rightarrow> string"
    and handle :: "ctx \<Rightarrow> 'r \<Rightarrow> 's \<Rightarrow> ('b, 's) outcome"
  assumes denied: "required r \<notin> set (u_permissions (c_user c)) \<Longrightarrow>
    handle c r s = (forbidden (required r), [], s)"
begin

lemma serve_denied:
  "list_all (\<lambda>(c, r). required r \<notin> set (u_permissions (c_user c))) rs \<Longrightarrow> serve handle rs s = s"
  by (induction rs) (auto simp: denied)

lemma change_permitted: "out_state (handle c r s) \<noteq> s \<Longrightarrow> required r \<in> set (u_permissions (c_user c))"
  using denied by force

lemma effect_permitted: "out_effects (handle c r s) \<noteq> [] \<Longrightarrow> required r \<in> set (u_permissions (c_user c))"
  using denied by force

end

text \<open>A service with an invariant that every request keeps.\<close>

locale invariant_service = guarded_service required handle
  for required :: "'r \<Rightarrow> string" and handle :: "ctx \<Rightarrow> 'r \<Rightarrow> 's \<Rightarrow> ('b, 's) outcome" +
  fixes holds :: "'s \<Rightarrow> bool"
  assumes keeps: "holds s \<Longrightarrow> holds (out_state (handle c r s))"
begin

lemma serve_holds: "holds s \<Longrightarrow> holds (serve handle rs s)"
  by (induction rs arbitrary: s) (auto simp: keeps)

end

section \<open>The event stream\<close>

text \<open>
  \<^verbatim>\<open>scripts/mock-events.mjs\<close>. A client is an open stream of a user with the event types it asked
  for (none means all) and the frames written to it so far. An event is delivered to the clients
  that asked for its type and hold its permission.
\<close>

record client =
  cl_id :: nat
  cl_user :: user
  cl_types :: "string list"
  cl_frames :: "(nat \<times> string \<times> json) list"

record event_bus =
  clients :: "client list"
  seq :: nat

definition wants :: "client \<Rightarrow> string \<Rightarrow> string \<Rightarrow> bool" where
  "wants cl type permission \<longleftrightarrow>
     \<not> (length (cl_types cl) > 0 \<and> type \<notin> set (cl_types cl)) \<and>
     \<not> (permission \<noteq> [] \<and> permission \<notin> set (u_permissions (cl_user cl)))"

definition publish :: "string \<Rightarrow> string \<Rightarrow> json \<Rightarrow> event_bus \<Rightarrow> event_bus" where
  "publish type permission data bus =
     (let n = Suc (seq bus)
      in \<lparr>clients = map (\<lambda>cl. if wants cl type permission
                              then cl\<lparr>cl_frames := cl_frames cl @ [(n, type, data)]\<rparr> else cl)
                      (clients bus),
          seq = n\<rparr>)"

definition event_types :: "string option \<Rightarrow> string list" where
  "event_types q =
     nub (filter (\<lambda>t. t \<noteq> [])
       (map trim (split_on (CHR '','') (case q of None \<Rightarrow> [] | Some s \<Rightarrow> s))))"

definition open_stream :: "nat \<Rightarrow> user \<Rightarrow> string option \<Rightarrow> event_bus \<Rightarrow> event_bus" where
  "open_stream i u q bus =
     bus\<lparr>clients := clients bus @ [\<lparr>cl_id = i, cl_user = u, cl_types = event_types q, cl_frames = []\<rparr>]\<rparr>"

definition close_stream :: "nat \<Rightarrow> event_bus \<Rightarrow> event_bus" where
  "close_stream i bus = bus\<lparr>clients := filter (\<lambda>cl. cl_id cl \<noteq> i) (clients bus)\<rparr>"

fun publish_effects :: "effect list \<Rightarrow> event_bus \<Rightarrow> event_bus" where
  "publish_effects [] bus = bus"
| "publish_effects (Publish type perm data # es) bus = publish_effects es (publish type perm data bus)"
| "publish_effects (Audit a r x # es) bus = publish_effects es bus"

end
