(* ===== verification/Mock_Fleet.thy ===== *)
theory Mock_Fleet
  imports Mock_Base "HOL-Library.Multiset"
begin

text \<open>
  Hosts and applications of the development server, \<^verbatim>\<open>scripts/mock-fleet.mjs\<close>: agents and their
  life cycle, registration tokens, discovered and manual applications, and the Compose view with
  its masking of sensitive values.

  Two hooks that other modules install (the policy of an application and its protection summary)
  are parameters. An application keeps the applications it was grouped from; those are standalone
  containers and are kept without further members.
\<close>

section \<open>State\<close>

datatype agent_status = PendingAgent | ActiveAgent | SuspendedAgent | RevokedAgent

fun status_text :: "agent_status \<Rightarrow> string" where
  "status_text PendingAgent = ''pending''"
| "status_text ActiveAgent = ''active''"
| "status_text SuspendedAgent = ''suspended''"
| "status_text RevokedAgent = ''revoked''"

record agent =
  ag_id :: string
  ag_hostname :: string
  ag_status :: agent_status
  ag_status_reason :: "string option"
  ag_connected :: bool
  ag_outdated :: bool
  ag_agent_version :: string
  ag_protocol_version :: string
  ag_os_release :: "string option"
  ag_architecture :: "string option"
  ag_enrolled_at :: int
  ag_approved_at :: "int option"
  ag_last_seen_at :: "int option"
  ag_latency_ms :: "nat option"
  ag_docker_reachable :: "bool option"
  ag_docker_version :: "string option"
  ag_health_error :: "string option"
  ag_certificate_not_after :: int

record token =
  tk_id :: string
  tk_prefix :: string
  tk_description :: string
  tk_created_at :: int
  tk_expires_at :: int
  tk_used_at :: "int option"
  tk_used_by_agent :: "string option"
  tk_revoked_at :: "int option"

record env_var =
  ev_key :: string
  ev_value :: string
  ev_sensitive :: bool
  ev_real :: string

record port =
  po_container_port :: string
  po_protocol :: string
  po_host_port :: "string option"

record container =
  cd_id :: string
  cd_name :: string
  cd_image :: string
  cd_state :: string
  cd_env :: "env_var list"
  cd_ports :: "port list"
  cd_mounts :: "json list"
  cd_networks :: "string list"

record service =
  se_name :: string
  se_image :: string
  se_containers :: "string list"

record volume =
  vo_name :: string
  vo_driver :: string
  vo_mountpoint :: string
  vo_class :: string
  vo_external :: bool
  vo_anonymous :: bool
  vo_protected_by_default :: bool
  vo_used_by :: "string list"

record bind_mount =
  bi_container :: string
  bi_source :: string
  bi_destination :: string

record network =
  ne_name :: string
  ne_external :: bool

record image =
  ig_reference :: string
  ig_image_id :: string
  ig_digests :: "string list"

record unprotected_path =
  up_container :: string
  up_path :: string
  up_files :: nat
  up_severity :: string

record analysis =
  an_key :: string
  an_kind :: string
  an_source :: string
  an_source_reason :: "string option"
  an_compose_project :: "string option"
  an_working_dir :: "string option"
  an_services :: "service list"
  an_volumes :: "volume list"
  an_bind_mounts :: "bind_mount list"
  an_networks :: "network list"
  an_images :: "image list"
  an_dependencies :: "(string \<times> string) list"
  an_unprotected :: "unprotected_path list"
  an_secrets_count :: nat
  an_containers :: "string list"

record app_base =
  ap_id :: string
  ap_name :: string
  ap_display_name :: "string option"
  ap_kind :: string
  ap_host_id :: string
  ap_source :: string
  ap_owner :: "string option"
  ap_environment :: "string option"
  ap_criticality :: "string option"
  ap_last_seen_at :: int
  ap_missing_since :: "int option"
  ap_manual_containers :: "string list"
  ap_containers_detail :: "container list"
  ap_analysis :: "analysis option"

record app = app_base +
  ap_members :: "app_base list option"

definition as_app :: "app_base \<Rightarrow> app" where
  "as_app a = app_base.extend a \<lparr>ap_members = None\<rparr>"

record fleet =
  agents :: "agent list"
  tokens :: "token list"
  apps :: "app list"

section \<open>Seed hosts\<close>

definition HOST_PROD :: string where "HOST_PROD = ''3f0d7a52-8c1e-4f7b-9a26-1d5e8b7c4a01''"
definition HOST_EDGE :: string where "HOST_EDGE = ''8b2e61c4-0f3a-4d59-b7e8-6c1a2d3e4f02''"
definition HOST_RUNNER :: string where "HOST_RUNNER = ''c47a9e10-5d2b-4e8f-a1c3-9b8d7e6f5a03''"
definition HOST_LEGACY :: string where "HOST_LEGACY = ''d5f1b2a3-6e7c-4a8d-9f0e-1a2b3c4d5e04''"
definition HOST_OLD :: string where "HOST_OLD = ''e6a2c3b4-7f8d-4b9e-8a1f-2b3c4d5e6f05''"
definition HOST_DR :: string where "HOST_DR = ''f7b3d4c5-8a9e-4c0f-9b2a-3c4d5e6f7a06''"

text \<open>\<^verbatim>\<open>agent(over)\<close> with the three fields every caller gives.\<close>

definition new_agent :: "int \<Rightarrow> string \<Rightarrow> string \<Rightarrow> agent_status \<Rightarrow> agent" where
  "new_agent now aid hostname status =
     \<lparr>ag_id = aid, ag_hostname = hostname, ag_status = status, ag_status_reason = None,
      ag_connected = False, ag_outdated = False, ag_agent_version = ''0.1.0.0'',
      ag_protocol_version = ''0.1.0.0'', ag_os_release = Some ''Rocky Linux 9.6 (Blue Onyx)'',
      ag_architecture = Some ''amd64'', ag_enrolled_at = now - 30 * DAY,
      ag_approved_at = Some (now - 30 * DAY + 5 * MINUTE), ag_last_seen_at = Some (now - 20000),
      ag_latency_ms = Some 4, ag_docker_reachable = Some True, ag_docker_version = Some ''29.8.1'',
      ag_health_error = None, ag_certificate_not_after = now + 80 * DAY\<rparr>"

definition seed_agents :: "int \<Rightarrow> agent list" where
  "seed_agents now =
     [(new_agent now HOST_PROD ''docker-prod-01'' ActiveAgent)
        \<lparr>ag_status_reason := Some ''initial enrollment'', ag_connected := True\<rparr>,
      (new_agent now HOST_EDGE ''docker-edge-02'' ActiveAgent)
        \<lparr>ag_status_reason := Some ''approved after rack move'', ag_outdated := True,
         ag_agent_version := ''0.0.9.3'', ag_os_release := Some ''Fedora Linux 44 (Server Edition)'',
         ag_last_seen_at := Some (now - 3 * HOUR), ag_latency_ms := Some 38,
         ag_docker_reachable := Some False, ag_docker_version := None,
         ag_health_error := Some ''Cannot connect to the Docker daemon at unix:///var/run/docker.sock'',
         ag_certificate_not_after := now + 10 * DAY\<rparr>,
      (new_agent now HOST_DR ''docker-dr-03'' ActiveAgent)
        \<lparr>ag_status_reason := Some ''disaster-recovery standby (restore target)'', ag_connected := True,
         ag_latency_ms := Some 9, ag_enrolled_at := now - 12 * DAY,
         ag_approved_at := Some (now - 12 * DAY + 10 * MINUTE)\<rparr>,
      (new_agent now HOST_RUNNER ''build-runner-03'' PendingAgent)
        \<lparr>ag_enrolled_at := now - 15 * MINUTE, ag_approved_at := None, ag_last_seen_at := None,
         ag_latency_ms := None, ag_docker_reachable := None, ag_docker_version := None,
         ag_os_release := None, ag_architecture := None, ag_certificate_not_after := now + 89 * DAY\<rparr>,
      (new_agent now HOST_LEGACY ''legacy-db'' SuspendedAgent)
        \<lparr>ag_status_reason := Some ''maintenance window: storage migration'',
         ag_last_seen_at := Some (now - 2 * DAY), ag_latency_ms := None,
         ag_architecture := Some ''arm64''\<rparr>,
      (new_agent now HOST_OLD ''old-host'' RevokedAgent)
        \<lparr>ag_status_reason := Some ''decommissioned'', ag_last_seen_at := Some (now - 40 * DAY),
         ag_latency_ms := None, ag_docker_reachable := None, ag_docker_version := None,
         ag_certificate_not_after := now - 5 * DAY\<rparr>]"

definition seed_tokens :: "int \<Rightarrow> string \<Rightarrow> string \<Rightarrow> token list" where
  "seed_tokens now id1 id2 =
     [\<lparr>tk_id = id1, tk_prefix = ''dbr2reg_Qm3xT1'', tk_description = ''docker-prod-01'',
       tk_created_at = now - 30 * DAY, tk_expires_at = now - 29 * DAY,
       tk_used_at = Some (now - 30 * DAY), tk_used_by_agent = Some HOST_PROD, tk_revoked_at = None\<rparr>,
      \<lparr>tk_id = id2, tk_prefix = ''dbr2reg_Zk8pL4'', tk_description = ''spare token for the lab'',
       tk_created_at = now - 2 * HOUR, tk_expires_at = now + 22 * HOUR, tk_used_at = None,
       tk_used_by_agent = None, tk_revoked_at = None\<rparr>]"

definition CA_SHA256 :: string where
  "CA_SHA256 = ''5c1f0e9a7d3b2c4e6f8a0b1c2d3e4f5a6b7c8d9e0f1a2b3c4d5e6f7a8b9c0d1e''"

definition GATEWAY :: string where
  "GATEWAY = ''dbr2.example.com:8443''"

definition MASK :: string where
  "MASK = ''********''"

section \<open>Inventory\<close>

record inventory =
  iv_received_at :: int
  iv_collected_at :: int
  iv_hostname :: string
  iv_selinux :: bool
  iv_storage_driver :: string
  iv_cpus :: nat
  iv_containers :: "(string \<times> string) list"
  iv_volumes :: "(string \<times> string) list"
  iv_networks :: "(string \<times> string) list"
  iv_images :: "string list"
  iv_compose_projects :: "(string \<times> string) list"
  iv_warnings :: "string list"

definition find_agent :: "string \<Rightarrow> fleet \<Rightarrow> agent option" where
  "find_agent aid f = find (\<lambda>a. ag_id a = aid) (agents f)"

definition inventoryFor :: "int \<Rightarrow> (nat \<Rightarrow> string) \<Rightarrow> string \<Rightarrow> fleet \<Rightarrow> inventory option" where
  "inventoryFor now rnd aid f =
     (case find_agent aid f of
        None \<Rightarrow> None
      | Some a \<Rightarrow>
          if ag_status a = PendingAgent then None
          else let small = (aid \<noteq> HOST_PROD);
                   nc = (if small then 3 else 9);
                   nv = (if small then 2 else 7);
                   nn = (if small then 3 else 5);
                   ni = (if small then 3 else 8)
               in Some \<lparr>iv_received_at = now - 2 * MINUTE,
                        iv_collected_at = now - 2 * MINUTE - 5000,
                        iv_hostname = ag_hostname a,
                        iv_selinux = \<not> small,
                        iv_storage_driver = (if small then ''overlayfs'' else ''overlay2''),
                        iv_cpus = (if small then 4 else 8),
                        iv_containers = map (\<lambda>i. (rnd i, CHR ''c'' # show_nat i)) [0..<nc],
                        iv_volumes = map (\<lambda>i. (CHR ''v'' # show_nat i,
                          ''/var/lib/docker/volumes/v'' @ show_nat i @ ''/_data'')) [0..<nv],
                        iv_networks = map (\<lambda>i. (rnd (nc + i), CHR ''n'' # show_nat i)) [0..<nn],
                        iv_images = map (\<lambda>i. ''sha256:'' @ rnd (nc + nn + i)) [0..<ni],
                        iv_compose_projects = (if small then [] else [(''shop'', ''/srv/shop'')]),
                        iv_warnings = (if small then [] else
                          [''image 388d74569326: Error response from daemon: No such image: sha256:388d74569326235001e1419d8b2196bbb5c3c04ff146a31e4ffa59f81f480a3b''])\<rparr>)"

section \<open>Applications\<close>

definition hostname_of :: "fleet \<Rightarrow> string \<Rightarrow> string" where
  "hostname_of f aid = (case find_agent aid f of Some a \<Rightarrow> ag_hostname a | None \<Rightarrow> ''unknown'')"

definition env :: "string \<Rightarrow> string \<Rightarrow> bool \<Rightarrow> env_var" where
  "env key value sensitive =
     (if sensitive then \<lparr>ev_key = key, ev_value = MASK, ev_sensitive = True, ev_real = value\<rparr>
      else \<lparr>ev_key = key, ev_value = value, ev_sensitive = False, ev_real = []\<rparr>)"

definition empty_analysis :: analysis where
  "empty_analysis =
     \<lparr>an_key = [], an_kind = [], an_source = [], an_source_reason = None, an_compose_project = None,
      an_working_dir = None,
      an_services = [], an_volumes = [], an_bind_mounts = [], an_networks = [], an_images = [],
      an_dependencies = [], an_unprotected = [], an_secrets_count = 0, an_containers = []\<rparr>"

definition simpleContainerApp ::
  "int \<Rightarrow> string \<Rightarrow> string \<Rightarrow> string \<Rightarrow> string \<Rightarrow> string \<Rightarrow> string \<Rightarrow> env_var list \<Rightarrow> json list \<Rightarrow>
   port list \<Rightarrow> volume list \<Rightarrow> unprotected_path list \<Rightarrow> app_base" where
  "simpleContainerApp now cid aid host name img digest envs mounts ports volumes unprotected =
     \<lparr>ap_id = aid, ap_name = name, ap_display_name = None, ap_kind = ''container'', ap_host_id = host,
      ap_source = ''reconstructed'', ap_owner = None, ap_environment = None, ap_criticality = None,
      ap_last_seen_at = now - 2 * MINUTE, ap_missing_since = None, ap_manual_containers = [],
      ap_containers_detail =
        [\<lparr>cd_id = cid, cd_name = name, cd_image = img, cd_state = ''running'', cd_env = envs,
          cd_ports = ports, cd_mounts = mounts, cd_networks = [''bridge'']\<rparr>],
      ap_analysis = Some (empty_analysis
        \<lparr>an_key := ''container:'' @ name, an_kind := ''container'', an_source := ''reconstructed'',
         an_source_reason := Some ''no Compose definition: generated from Docker runtime metadata'',
         an_services := [\<lparr>se_name = name, se_image = img, se_containers = [name]\<rparr>],
         an_volumes := volumes,
         an_networks := [\<lparr>ne_name = ''bridge'', ne_external = False\<rparr>],
         an_images := [\<lparr>ig_reference = img, ig_image_id = ''sha256:'' @ digest,
           ig_digests = [hd (split_on (CHR '':'') img) @ ''@sha256:'' @ digest]\<rparr>],
         an_unprotected := unprotected,
         an_secrets_count := length (filter ev_sensitive envs),
         an_containers := [name]\<rparr>)\<rparr>"

definition mount :: "(string \<times> string) list \<Rightarrow> json" where
  "mount fs = JObj (map (\<lambda>(k, v). (k, JStr v)) fs @ [(''rw'', JBool True)])"

definition shopWeb :: "string \<Rightarrow> container" where
  "shopWeb cid =
     \<lparr>cd_id = cid, cd_name = ''shop-web-1'', cd_image = ''registry.example.com/shop/web:2.4.1'',
      cd_state = ''running'',
      cd_env = [env ''DATABASE_URL'' ''postgres://shop:S3cr3t-pg@db:5432/shop'' True,
                env ''SESSION_SECRET'' ''b7f0c2d9e4a1'' True,
                env ''NODE_ENV'' ''production'' False, env ''PORT'' ''3000'' False],
      cd_ports = [\<lparr>po_container_port = ''3000'', po_protocol = ''tcp'', po_host_port = Some ''8080''\<rparr>],
      cd_mounts =
        [mount [(''type'', ''bind''), (''source'', ''/srv/shop/uploads''), (''destination'', ''/app/uploads''), (''mode'', ''rw'')],
         mount [(''type'', ''volume''), (''name'', ''shop_media''), (''source'', ''/mnt/nfs/shop_media''),
                (''destination'', ''/app/media''), (''driver'', ''local'')]],
      cd_networks = [''shop_default'', ''proxy'']\<rparr>"

definition shopDb :: "string \<Rightarrow> container" where
  "shopDb cid =
     \<lparr>cd_id = cid, cd_name = ''shop-db-1'', cd_image = ''postgres:18-alpine'', cd_state = ''running'',
      cd_env = [env ''POSTGRES_PASSWORD'' ''S3cr3t-pg'' True, env ''POSTGRES_USER'' ''shop'' False,
                env ''POSTGRES_DB'' ''shop'' False, env ''PGDATA'' ''/var/lib/postgresql/data'' False],
      cd_ports = [],
      cd_mounts =
        [mount [(''type'', ''volume''), (''name'', ''shop_pgdata''),
                (''source'', ''/var/lib/docker/volumes/shop_pgdata/_data''),
                (''destination'', ''/var/lib/postgresql/data''), (''driver'', ''local'')]],
      cd_networks = [''shop_default'']\<rparr>"

definition shopWorker :: "string \<Rightarrow> container" where
  "shopWorker cid =
     \<lparr>cd_id = cid, cd_name = ''shop-worker-1'', cd_image = ''shop-worker:dev'', cd_state = ''running'',
      cd_env = [env ''QUEUE_TOKEN'' ''q-4f9a2b'' True, env ''CONCURRENCY'' ''4'' False],
      cd_ports = [],
      cd_mounts = [mount [(''type'', ''tmpfs''), (''destination'', ''/tmp'')]],
      cd_networks = [''shop_default'']\<rparr>"

definition not_backed :: "string \<Rightarrow> string \<Rightarrow> nat \<Rightarrow> string \<Rightarrow> unprotected_path" where
  "not_backed c path files severity =
     \<lparr>up_container = c, up_path = path, up_files = files, up_severity = severity\<rparr>"

definition shop_analysis :: analysis where
  "shop_analysis = empty_analysis
     \<lparr>an_key := ''compose:shop'', an_kind := ''compose'', an_source := ''original'',
      an_compose_project := Some ''shop'', an_working_dir := Some ''/srv/shop'',
      an_services :=
        [\<lparr>se_name = ''web'', se_image = ''registry.example.com/shop/web:2.4.1'', se_containers = [''shop-web-1'']\<rparr>,
         \<lparr>se_name = ''db'', se_image = ''postgres:18-alpine'', se_containers = [''shop-db-1'']\<rparr>,
         \<lparr>se_name = ''worker'', se_image = ''shop-worker:dev'', se_containers = [''shop-worker-1'']\<rparr>],
      an_volumes :=
        [\<lparr>vo_name = ''shop_pgdata'', vo_driver = ''local'', vo_mountpoint = ''/var/lib/docker/volumes/shop_pgdata/_data'',
          vo_class = ''local'', vo_external = False, vo_anonymous = False, vo_protected_by_default = True, vo_used_by = [''shop-db-1:/var/lib/postgresql/data'']\<rparr>,
         \<lparr>vo_name = ''shop_media'', vo_driver = ''local'', vo_mountpoint = ''/var/lib/docker/volumes/shop_media/_data'',
          vo_class = ''external'', vo_external = True, vo_anonymous = False, vo_protected_by_default = False, vo_used_by = [''shop-web-1:/app/media'']\<rparr>,
         \<lparr>vo_name = ''4e1c8b2f9a7d6e5c4b3a29181716151413121110'', vo_driver = ''local'',
          vo_mountpoint = ''/var/lib/docker/volumes/4e1c8b2f9a7d6e5c4b3a29181716151413121110/_data'',
          vo_class = ''ephemeral'', vo_external = False, vo_anonymous = True, vo_protected_by_default = False, vo_used_by = [''shop-worker-1:/cache'']\<rparr>],
      an_bind_mounts := [\<lparr>bi_container = ''shop-web-1'', bi_source = ''/srv/shop/uploads'', bi_destination = ''/app/uploads''\<rparr>],
      an_networks := [\<lparr>ne_name = ''shop_default'', ne_external = False\<rparr>, \<lparr>ne_name = ''proxy'', ne_external = True\<rparr>],
      an_images :=
        [\<lparr>ig_reference = ''registry.example.com/shop/web:2.4.1'',
          ig_image_id = ''sha256:a1ea29fa28355559ef137d71fc570e508a214ec84ff8083e39bc5428980b015e'',
          ig_digests = [''registry.example.com/shop/web@sha256:a1ea29fa28355559ef137d71fc570e508a214ec84ff8083e39bc5428980b015e'']\<rparr>,
         \<lparr>ig_reference = ''postgres:18-alpine'',
          ig_image_id = ''sha256:d3e1620b530c944afa6e887d22eb899824da68e19c52024bf98f5220c88a65b2'',
          ig_digests = [''postgres@sha256:d3e1620b530c944afa6e887d22eb899824da68e19c52024bf98f5220c88a65b2'']\<rparr>,
         \<lparr>ig_reference = ''shop-worker:dev'',
          ig_image_id = ''sha256:7d5c166046f28974a5ed8ec38df648804004026a11c75152b7707b514223d825'', ig_digests = []\<rparr>],
      an_dependencies := [(''external_network'', ''proxy''), (''network_storage'', ''shop_media'')],
      an_unprotected :=
        [not_backed ''shop-worker-1'' ''/var/log/worker'' 12 ''low'',
         not_backed ''shop-web-1'' ''/app/data/invoices'' 1843 ''high'',
         not_backed ''shop-worker-1'' ''/srv/state/queue.db'' 1 ''high''],
      an_secrets_count := 4,
      an_containers := [''shop-web-1'', ''shop-db-1'', ''shop-worker-1'']\<rparr>"

definition shop_app :: "int \<Rightarrow> (nat \<Rightarrow> string) \<Rightarrow> app_base" where
  "shop_app now rnd =
     \<lparr>ap_id = ''5f939a00-fccb-4376-a6cc-37eeb5542abe'', ap_name = ''shop'', ap_display_name = Some ''Web shop'',
      ap_kind = ''compose'', ap_host_id = HOST_PROD, ap_source = ''original'',
      ap_owner = Some ''E-commerce team'', ap_environment = Some ''production'',
      ap_criticality = Some ''critical'', ap_last_seen_at = now - 2 * MINUTE, ap_missing_since = None,
      ap_manual_containers = [], ap_containers_detail = [shopWeb (rnd 0), shopDb (rnd 1), shopWorker (rnd 2)],
      ap_analysis = Some shop_analysis\<rparr>"

definition seed_apps :: "int \<Rightarrow> (nat \<Rightarrow> string) \<Rightarrow> app list" where
  "seed_apps now rnd = map as_app
     [shop_app now rnd,
      simpleContainerApp now (rnd 3) ''9fc3a8cb-13d7-4c97-a291-4aade4ca63ee'' HOST_PROD ''mft-pg'' ''postgres:18''
        ''4ef4dbc939d61acea57712655ddb4b4ab27419c913f94cca0cd57cb3ea3c2280''
        [env ''POSTGRES_PASSWORD'' ''mft-local-pw'' True, env ''PGDATA'' ''/var/lib/postgresql/18/docker'' False]
        [mount [(''type'', ''volume''), (''name'', ''3ab8b905bbca''),
                (''source'', ''/var/lib/docker/volumes/3ab8b905bbca/_data''),
                (''destination'', ''/var/lib/postgresql''), (''driver'', ''local'')]]
        [\<lparr>po_container_port = ''5432'', po_protocol = ''tcp'', po_host_port = Some ''5432''\<rparr>]
        [\<lparr>vo_name = ''3ab8b905bbca892b57bde6f1c10c79e8e86abd14032aa7e854cc8f15bac0eba0'', vo_driver = ''local'',
          vo_mountpoint = ''/var/lib/docker/volumes/3ab8b905bbca892b57bde6f1c10c79e8e86abd14032aa7e854cc8f15bac0eba0/_data'',
          vo_class = ''local'', vo_external = False, vo_anonymous = True, vo_protected_by_default = True, vo_used_by = [''mft-pg:/var/lib/postgresql'']\<rparr>]
        [],
      simpleContainerApp now (rnd 4) ''1a2b3c4d-0000-4000-8000-000000000003'' HOST_PROD ''redis-cache'' ''redis:8-alpine''
        ''11aa22bb33cc44dd55ee66ff77889900aabbccddeeff00112233445566778899''
        [env ''REDIS_ARGS'' ''--save 60 1'' False] [] [] []
        [not_backed ''redis-cache'' ''/data/dump.rdb'' 1 ''high''],
      simpleContainerApp now (rnd 5) ''1a2b3c4d-0000-4000-8000-000000000004'' HOST_PROD ''nginx-proxy'' ''nginx:1.29''
        ''99887766554433221100ffeeddccbbaa99887766554433221100ffeeddccbbaa''
        [env ''NGINX_HOST'' ''shop.example.com'' False] [] [] [] [],
      simpleContainerApp now (rnd 6) ''1a2b3c4d-0000-4000-8000-000000000005'' HOST_PROD ''adminer'' ''adminer:5''
        ''0123456789abcdef0123456789abcdef0123456789abcdef0123456789abcdef''
        [env ''ADMINER_DEFAULT_SERVER'' ''shop-db-1'' False] [] [] [] [],
      (let m = simpleContainerApp now (rnd 7) ''1a2b3c4d-0000-4000-8000-000000000006'' HOST_PROD ''monitoring''
            ''prom/prometheus:v3.6.0'' ''fedcba9876543210fedcba9876543210fedcba9876543210fedcba9876543210''
            [env ''GF_SECURITY_ADMIN_PASSWORD'' ''grafana-admin'' True] [] [] [] []
       in m\<lparr>ap_kind := ''manual'', ap_display_name := Some ''Monitoring stack'',
            ap_owner := Some ''Platform team'', ap_environment := Some ''production'',
            ap_criticality := Some ''high'', ap_manual_containers := [''prometheus'', ''grafana''],
            ap_analysis := map_option (\<lambda>x. x\<lparr>an_key := ''manual:monitoring'', an_kind := ''manual''\<rparr>)
              (ap_analysis m)\<rparr>),
      \<lparr>ap_id = ''1a2b3c4d-0000-4000-8000-000000000007'', ap_name = ''wiki'', ap_display_name = None,
       ap_kind = ''compose'', ap_host_id = HOST_EDGE, ap_source = ''unknown'', ap_owner = None,
       ap_environment = None, ap_criticality = None, ap_last_seen_at = now - 3 * HOUR,
       ap_missing_since = Some (now - 3 * HOUR + MINUTE), ap_manual_containers = [],
       ap_containers_detail = [], ap_analysis = None\<rparr>,
      simpleContainerApp now (rnd 8) ''1a2b3c4d-0000-4000-8000-000000000008'' HOST_EDGE ''metrics-agent'' ''grafana/alloy:v1.11''
        ''aa00bb11cc22dd33ee44ff5566778899aa00bb11cc22dd33ee44ff5566778899''
        [env ''GCLOUD_RW_API_KEY'' ''glc_abc123'' True] [] [] [] []]"

definition seed_fleet :: "int \<Rightarrow> (nat \<Rightarrow> string) \<Rightarrow> fleet" where
  "seed_fleet now rnd =
     \<lparr>agents = seed_agents now, tokens = seed_tokens now (rnd 9) (rnd 10), apps = seed_apps now rnd\<rparr>"

section \<open>Views\<close>

record 'p app_summary =
  sm_id :: string
  sm_name :: string
  sm_display_name :: "string option"
  sm_kind :: string
  sm_host_id :: string
  sm_hostname :: string
  sm_source :: string
  sm_services :: nat
  sm_containers :: nat
  sm_volumes :: nat
  sm_bind_mounts :: nat
  sm_unprotected_high :: nat
  sm_dependencies :: nat
  sm_secrets_count :: nat
  sm_owner :: "string option"
  sm_environment :: "string option"
  sm_criticality :: "string option"
  sm_last_seen_at :: int
  sm_missing_since :: "int option"
  sm_policy_id :: "string option"
  sm_protection :: 'p

definition summary :: "(string \<Rightarrow> string option) \<Rightarrow> (app \<Rightarrow> 'p) \<Rightarrow> fleet \<Rightarrow> app \<Rightarrow> 'p app_summary" where
  "summary policyOf protection f a =
     (let x = ap_analysis a; count = (\<lambda>g. case x of Some y \<Rightarrow> g y | None \<Rightarrow> 0)
      in \<lparr>sm_id = ap_id a, sm_name = ap_name a, sm_display_name = ap_display_name a,
          sm_kind = ap_kind a, sm_host_id = ap_host_id a, sm_hostname = hostname_of f (ap_host_id a),
          sm_source = (case x of Some y \<Rightarrow> an_source y | None \<Rightarrow> ''unknown''),
          sm_services = count (\<lambda>y. length (an_services y)),
          sm_containers = count (\<lambda>y. length (an_containers y)),
          sm_volumes = count (\<lambda>y. length (an_volumes y)),
          sm_bind_mounts = count (\<lambda>y. length (an_bind_mounts y)),
          sm_unprotected_high = count (\<lambda>y. length (filter (\<lambda>u. up_severity u = ''high'') (an_unprotected y))),
          sm_dependencies = count (\<lambda>y. length (an_dependencies y)),
          sm_secrets_count = count an_secrets_count,
          sm_owner = ap_owner a, sm_environment = ap_environment a, sm_criticality = ap_criticality a,
          sm_last_seen_at = ap_last_seen_at a, sm_missing_since = ap_missing_since a,
          sm_policy_id = policyOf (ap_id a), sm_protection = protection a\<rparr>)"

text \<open>An environment variable as sent: key, value, and whether it is sensitive.\<close>

definition stripEnv :: "env_var \<Rightarrow> string \<times> string \<times> bool" where
  "stripEnv e = (ev_key e, ev_value e, ev_sensitive e)"

record container_view =
  cv_container :: "string \<times> string \<times> string \<times> string"
  cv_env :: "(string \<times> string \<times> bool) list"
  cv_ports :: "port list"
  cv_mounts :: "json list"
  cv_networks :: "string list"

definition container_out :: "container \<Rightarrow> container_view" where
  "container_out c =
     \<lparr>cv_container = (cd_id c, cd_name c, cd_image c, cd_state c), cv_env = map stripEnv (cd_env c),
      cv_ports = cd_ports c, cv_mounts = cd_mounts c, cv_networks = cd_networks c\<rparr>"

record 'p app_detail =
  dt_summary :: "'p app_summary"
  dt_manual_containers :: "string list"
  dt_analysis :: "analysis option"
  dt_containers :: "container_view list"
  dt_collected_at :: "int option"

definition detail :: "(string \<Rightarrow> string option) \<Rightarrow> (app \<Rightarrow> 'p) \<Rightarrow> int \<Rightarrow> fleet \<Rightarrow> app \<Rightarrow> 'p app_detail" where
  "detail policyOf protection now f a =
     \<lparr>dt_summary = summary policyOf protection f a,
      dt_manual_containers = ap_manual_containers a,
      dt_analysis = ap_analysis a,
      dt_containers = map container_out (ap_containers_detail a),
      dt_collected_at = (case ap_analysis a of Some _ \<Rightarrow> Some (now - 2 * MINUTE - 5000) | None \<Rightarrow> None)\<rparr>"

section \<open>The Compose view\<close>

definition line :: "string \<Rightarrow> string" where
  "line s = s @ [CHR 0x0A]"

definition SHOP_COMPOSE :: "bool \<Rightarrow> string" where
  "SHOP_COMPOSE reveal = concat (map line
     [''name: shop'',
      ''services:'',
      ''  web:'',
      ''    image: registry.example.com/shop/web:2.4.1'',
      ''    ports: ['' @ [DQ] @ ''8080:3000'' @ [DQ] @ '']'',
      ''    environment:'',
      ''      DATABASE_URL: '' @ (if reveal then ''postgres://shop:S3cr3t-pg@db:5432/shop'' else MASK),
      ''      SESSION_SECRET: '' @ (if reveal then ''b7f0c2d9e4a1'' else MASK),
      ''      NODE_ENV: production'',
      ''    volumes:'',
      ''      - ./uploads:/app/uploads'',
      ''      - shop_media:/app/media'',
      ''    networks: [default, proxy]'',
      ''  db:'',
      ''    image: postgres:18-alpine'',
      ''    environment:'',
      ''      POSTGRES_PASSWORD: '' @ (if reveal then ''S3cr3t-pg'' else MASK),
      ''      POSTGRES_USER: shop'',
      ''    volumes:'',
      ''      - shop_pgdata:/var/lib/postgresql/data'',
      ''  worker:'',
      ''    build: ./worker'',
      ''    image: shop-worker:dev'',
      ''    env_file: .env'',
      ''    tmpfs: [/tmp]'',
      ''volumes:'',
      ''  shop_pgdata: {}'',
      ''  shop_media:'',
      ''    driver_opts: { type: nfs, o: '' @ [DQ] @ ''addr=nas01.example.com,rw'' @ [DQ] @
        '', device: '' @ [DQ] @ '':/export/shop_media'' @ [DQ] @ '' }'',
      ''networks:'',
      ''  proxy:'',
      ''    external: true''])"

definition SHOP_ENV :: "bool \<Rightarrow> string" where
  "SHOP_ENV reveal = concat (map line
     [''# shop worker settings'', ''QUEUE_TOKEN='' @ (if reveal then ''q-4f9a2b'' else MASK), ''CONCURRENCY=4''])"

definition env_line :: "env_var \<Rightarrow> string" where
  "env_line e = ''      '' @ ev_key e @ '': '' @
     (if ev_sensitive e then ''${'' @ ev_key e @ ''}'' else json_quote (ev_value e))"

definition port_line :: "port \<Rightarrow> string" where
  "port_line p = ''      - '' @ (case po_host_port p of Some h \<Rightarrow> h | None \<Rightarrow> ''undefined'') @ '':'' @
     po_container_port p"

definition reconstructed :: "int \<Rightarrow> app \<Rightarrow> container \<Rightarrow> string" where
  "reconstructed now a c =
     (let secrets = map ev_key (filter ev_sensitive (cd_env c))
      in line (''# RECONSTRUCTED by DBR'' @ [CHR 0xC2, CHR 0xB2] @
              '' from Docker runtime metadata ('' @ iso_seconds (now - 2 * MINUTE) @ ''Z).'') @
         line ''# This is NOT the original Compose file: review it before use.'' @
         line ''# Reason: no Compose definition: generated from Docker runtime metadata'' @
         (if secrets \<noteq> [] then
            line (''# Sensitive values were replaced by placeholders; supply them at restore time: '' @
              js_join '', '' secrets) else []) @
         line ''services:'' @
         line (''  '' @ ap_name a @ '':'') @
         line (''    image: '' @ cd_image c) @
         line (''    container_name: '' @ cd_name c) @
         (if cd_env c \<noteq> [] then
            line ''    environment:'' @ line (js_join [CHR 0x0A] (map env_line (cd_env c))) else []) @
         (if cd_ports c \<noteq> [] then
            line ''    ports:'' @ line (js_join [CHR 0x0A] (map port_line (cd_ports c))) else []))"

record compose_file =
  cf_path :: string
  cf_content :: string
  cf_masked :: bool

record compose_doc =
  cm_source :: string
  cm_reason :: "string option"
  cm_config_files :: "compose_file list"
  cm_env_files :: "compose_file list"
  cm_reconstructed :: "string option"
  cm_revealed :: bool
  cm_secrets :: "(string \<times> string) list option"

text \<open>
  \<open>Inr None\<close> is the \<^verbatim>\<open>null\<close> for an application that is not in the latest inventory. An analysed
  application without any container makes the source fail (\<open>Inl\<close>).
\<close>

definition compose :: "int \<Rightarrow> app \<Rightarrow> bool \<Rightarrow> unit + compose_doc option" where
  "compose now a reveal =
     (case ap_analysis a of
        None \<Rightarrow> Inr None
      | Some x \<Rightarrow>
          if an_source x = ''original'' then
            Inr (Some \<lparr>cm_source = ''original'', cm_reason = None,
              cm_config_files = [\<lparr>cf_path = ''/srv/shop/docker-compose.yml'',
                cf_content = SHOP_COMPOSE reveal, cf_masked = \<not> reveal\<rparr>],
              cm_env_files = [\<lparr>cf_path = ''/srv/shop/.env'', cf_content = SHOP_ENV reveal, cf_masked = \<not> reveal\<rparr>],
              cm_reconstructed = None, cm_revealed = reveal, cm_secrets = None\<rparr>)
          else case ap_containers_detail a of
                 [] \<Rightarrow> Inl ()
               | c # _ \<Rightarrow>
                   Inr (Some \<lparr>cm_source = ''reconstructed'',
                     cm_reason = Some (case an_source_reason x of Some r \<Rightarrow> r
                       | None \<Rightarrow> ''no Compose definition: generated from Docker runtime metadata''),
                     cm_config_files = [], cm_env_files = [],
                     cm_reconstructed = Some (reconstructed now a c), cm_revealed = reveal,
                     cm_secrets = (if reveal then
                       Some (fold (\<lambda>e. AList.update (ev_key e) (ev_real e))
                         (concat (map (\<lambda>c. filter ev_sensitive (cd_env c)) (ap_containers_detail a))) [])
                       else None)\<rparr>))"

section \<open>Routes\<close>

datatype agent_action = Approve | Suspend | Resume | Revoke

fun action_text :: "agent_action \<Rightarrow> string" where
  "action_text Approve = ''approve''"
| "action_text Suspend = ''suspend''"
| "action_text Resume = ''resume''"
| "action_text Revoke = ''revoke''"

text \<open>From-states and target state of an action.\<close>

fun TRANSITIONS :: "agent_action \<Rightarrow> agent_status list \<times> agent_status" where
  "TRANSITIONS Approve = ([PendingAgent], ActiveAgent)"
| "TRANSITIONS Suspend = ([ActiveAgent], SuspendedAgent)"
| "TRANSITIONS Resume = ([SuspendedAgent], ActiveAgent)"
| "TRANSITIONS Revoke = ([PendingAgent, ActiveAgent, SuspendedAgent], RevokedAgent)"

datatype fleet_route =
  GetAgents
| GetTokens
| PostToken json
| DeleteToken string
| GetAgent string
| GetInventory string
| PostAgentAction string agent_action json
| PostDiscover string
| GetApplications
| PostApplication json
| GetApplication string
| PatchApplication string json
| DeleteApplication string
| GetCompose string bool

datatype 'p fleet_body =
  AgentList "agent list"
| TokenList "token list"
| TokenCreated string string token
| AgentBody agent
| InventoryBody inventory
| WorkflowId string
| ApplicationList "'p app_summary list"
| ApplicationId string
| ApplicationDetail "'p app_detail"
| ApplicationSummary "'p app_summary"
| ComposeBody compose_doc

definition find_app :: "string \<Rightarrow> fleet \<Rightarrow> app option" where
  "find_app aid f = find (\<lambda>a. ap_id a = aid) (apps f)"

definition post_token :: "ctx \<Rightarrow> json \<Rightarrow> fleet \<Rightarrow> ('p fleet_body, fleet) outcome" where
  "post_token c body f =
     (let description = trimmed_field body ''description'';
          hours = (case jfield body ''expires_in_hours'' of None \<Rightarrow> JNum 24 | Some JNull \<Rightarrow> JNum 24 | Some v \<Rightarrow> v)
      in if description = [] \<or> length description > 200 then
           answer (Invalid ''description must be 1-200 characters'' ''body.description'') f
         else case hours of
                JNum h \<Rightarrow>
                  if \<not> is_integer h \<or> h < 1 \<or> h > 168 then
                    answer (Invalid ''expires_in_hours must be 1-168'' ''body.expires_in_hours'') f
                  else
                    let secret = ''dbr2reg_'' @ c_random c 0;
                        t = \<lparr>tk_id = c_random c 1, tk_prefix = take 14 secret, tk_description = description,
                             tk_created_at = c_now c, tk_expires_at = c_now c + \<lfloor>h\<rfloor> * HOUR,
                             tk_used_at = None, tk_used_by_agent = None, tk_revoked_at = None\<rparr>
                    in (Send 201 (TokenCreated secret
                          (''sudo dbr2-agent enroll --server '' @ GATEWAY @ '' --token '' @ secret @
                           '' --ca-sha256 '' @ CA_SHA256) t),
                        [audit_by c ''agent.registration_token_created'' ''registration_token'' (tk_id t) None],
                        f\<lparr>tokens := t # tokens f\<rparr>)
              | _ \<Rightarrow> answer (Invalid ''expires_in_hours must be 1-168'' ''body.expires_in_hours'') f)"

definition delete_token :: "ctx \<Rightarrow> string \<Rightarrow> fleet \<Rightarrow> ('p fleet_body, fleet) outcome" where
  "delete_token c tid f =
     (case find (\<lambda>t. tk_id t = tid) (tokens f) of
        None \<Rightarrow> answer (not_found ''registration token not found'') f
      | Some t \<Rightarrow>
          if tk_used_at t \<noteq> None \<or> tk_revoked_at t \<noteq> None then
            answer (conflict ''the token is already used or revoked'') f
          else (SendEmpty 204,
                [audit_by c ''agent.registration_token_revoked'' ''registration_token'' (tk_id t) None],
                f\<lparr>tokens := update_first (\<lambda>t. tk_id t = tid) (\<lambda>t. t\<lparr>tk_revoked_at := Some (c_now c)\<rparr>) (tokens f)\<rparr>))"

definition transition_agent :: "int \<Rightarrow> agent_action \<Rightarrow> string \<Rightarrow> agent \<Rightarrow> agent" where
  "transition_agent now action reason a =
     (let a1 = a\<lparr>ag_status := snd (TRANSITIONS action), ag_status_reason := Some reason\<rparr>;
          a2 = (if action = Approve then
                  a1\<lparr>ag_approved_at := Some now, ag_connected := True, ag_last_seen_at := Some now,
                     ag_latency_ms := Some 6, ag_docker_reachable := Some True,
                     ag_docker_version := Some ''29.8.1'',
                     ag_os_release := Some ''Rocky Linux 9.6 (Blue Onyx)'', ag_architecture := Some ''amd64''\<rparr>
                else a1);
          a3 = (if action = Suspend \<or> action = Revoke then a2\<lparr>ag_connected := False\<rparr> else a2)
      in if action = Revoke then a3\<lparr>ag_certificate_not_after := now\<rparr> else a3)"

definition post_agent_action :: "ctx \<Rightarrow> string \<Rightarrow> agent_action \<Rightarrow> json \<Rightarrow> fleet \<Rightarrow> ('p fleet_body, fleet) outcome" where
  "post_agent_action c aid action body f =
     (case find_agent aid f of
        None \<Rightarrow> answer (not_found ''agent not found'') f
      | Some a \<Rightarrow>
          let reason = trimmed_field body ''reason''
          in if reason = [] \<or> length reason > 500 then
               answer (Invalid ''reason must be 1-500 characters'' ''body.reason'') f
             else if ag_status a \<notin> set (fst (TRANSITIONS action)) then
               answer (conflict (''cannot '' @ action_text action @ '' an agent that is '' @ status_text (ag_status a))) f
             else
               let a' = transition_agent (c_now c) action reason a
               in (Send 200 (AgentBody a'),
                   (if action \<noteq> Resume then
                      [Publish ''agent.status'' ''host.read''
                         (JObj [(''host_id'', JStr (ag_id a')), (''connected'', JBool (ag_connected a'))])]
                    else []) @
                   [audit_by c (''agent.'' @ action_text action) ''agent'' (ag_id a') (Some reason)],
                   f\<lparr>agents := update_first (\<lambda>x. ag_id x = aid) (\<lambda>_. a') (agents f)\<rparr>))"

definition post_discover :: "ctx \<Rightarrow> string \<Rightarrow> fleet \<Rightarrow> ('p fleet_body, fleet) outcome" where
  "post_discover c aid f =
     (case find_agent aid f of
        None \<Rightarrow> answer (not_found ''agent not found'') f
      | Some a \<Rightarrow>
          if ag_status a \<noteq> ActiveAgent then answer (conflict (''the agent is '' @ status_text (ag_status a))) f
          else answer (Send 202 (WorkflowId (''discover-host-'' @ ag_id a @ ''-'' @ show_int (c_now c)))) f)"

text \<open>What the timer started by \<^verbatim>\<open>discover\<close> does two seconds later.\<close>

definition discover_done :: "string \<Rightarrow> fleet \<Rightarrow> effect list" where
  "discover_done aid f =
     [Publish ''inventory.updated'' ''host.read''
        (JObj [(''host_id'', JStr aid),
               (''applications'', JNum (of_nat (length
                  (filter (\<lambda>x. ap_host_id x = aid \<and> ap_missing_since x = None) (apps f)))))])]"

text \<open>\<^verbatim>\<open>apps.splice(apps.indexOf(x), 1)\<close>: an application that is not there gives index -1, and then
  the last one is removed.\<close>

definition splice_app :: "app_base \<Rightarrow> app list \<Rightarrow> app list" where
  "splice_app x xs =
     (if list_ex (\<lambda>a. ap_id a = ap_id x) xs
      then takeWhile (\<lambda>a. ap_id a \<noteq> ap_id x) xs @ tl (dropWhile (\<lambda>a. ap_id a \<noteq> ap_id x) xs)
      else butlast xs)"

definition find_member :: "string \<Rightarrow> fleet \<Rightarrow> json \<Rightarrow> app option" where
  "find_member host f c =
     find (\<lambda>a. ap_kind a = ''container'' \<and> ap_host_id a = host \<and> c = JStr (ap_name a)) (apps f)"

definition merged_app :: "int \<Rightarrow> string \<Rightarrow> string \<Rightarrow> string \<Rightarrow> string list \<Rightarrow> app_base list \<Rightarrow> analysis list \<Rightarrow> app" where
  "merged_app now aid host name wanted members xs = app_base.extend
     \<lparr>ap_id = aid, ap_name = name, ap_display_name = None, ap_kind = ''manual'', ap_host_id = host,
      ap_source = ''reconstructed'', ap_owner = None, ap_environment = None, ap_criticality = None,
      ap_last_seen_at = now, ap_missing_since = None, ap_manual_containers = wanted,
      ap_containers_detail = concat (map ap_containers_detail members),
      ap_analysis = Some (empty_analysis
        \<lparr>an_key := ''manual:'' @ name, an_kind := ''manual'', an_source := ''reconstructed'',
         an_source_reason := Some ''manual application: generated from Docker runtime metadata'',
         an_services := concat (map an_services xs), an_volumes := concat (map an_volumes xs),
         an_networks := [\<lparr>ne_name = ''bridge'', ne_external = False\<rparr>],
         an_images := concat (map an_images xs), an_unprotected := concat (map an_unprotected xs),
         an_secrets_count := sum_list (map an_secrets_count xs), an_containers := wanted\<rparr>)\<rparr>
     \<lparr>ap_members = Some members\<rparr>"

text \<open>The checks of \<^verbatim>\<open>POST /applications\<close>, in order: an error reply, or the host and the members.\<close>

definition check_group :: "json \<Rightarrow> fleet \<Rightarrow> 'b reply + string \<times> app list" where
  "check_group body f =
     (let name = trimmed_field body ''name'';
          host = (case jfield body ''host_id'' of Some (JStr h) \<Rightarrow> h | _ \<Rightarrow> []);
          wanted = array_field body ''containers'';
          found = map (find_member host f) wanted
      in if name = [] \<or> length name > 200 then Inl (Invalid ''name must be 1-200 characters'' ''body.name'')
         else if \<not> list_ex (\<lambda>a. jfield body ''host_id'' = Some (JStr (ag_id a))) (agents f)
           then Inl (Invalid ''unknown host'' ''body.host_id'')
         else if wanted = [] then Inl (Invalid ''pick at least one container'' ''body.containers'')
         else if list_ex (\<lambda>x. x = None) found
           then Inl (Invalid ''every container must be a standalone container on that host'' ''body.containers'')
         else if list_ex (\<lambda>a. ap_host_id a = host \<and> ap_name a = name) (apps f)
           then Inl (conflict (''an application named '' @ name @ '' already exists on this host''))
         else Inr (host, map the found))"

definition post_application :: "ctx \<Rightarrow> json \<Rightarrow> fleet \<Rightarrow> ('p fleet_body, fleet) outcome" where
  "post_application c body f =
     (case check_group body f of
        Inl r \<Rightarrow> answer r f
      | Inr (host, found) \<Rightarrow>
          let members = map app_base.truncate found
          in if list_ex (\<lambda>m. ap_analysis m = None) members then answer internal_error f
             else
               (Send 201 (ApplicationId (c_random c 0)),
                [audit_by c ''application.created'' ''application'' (c_random c 0) None],
                f\<lparr>apps := fold splice_app members (apps f) @
                  [merged_app (c_now c) (c_random c 0) host (trimmed_field body ''name'')
                     (map ap_name members) members (map (\<lambda>m. the (ap_analysis m)) members)]\<rparr>))"

text \<open>\<^verbatim>\<open>body[k] !== undefined && (typeof body[k] !== "string" || body[k].length > 200)\<close>\<close>

definition bad_text :: "json \<Rightarrow> string \<Rightarrow> bool" where
  "bad_text body k = (case jfield body k of None \<Rightarrow> False | Some (JStr s) \<Rightarrow> length s > 200 | Some _ \<Rightarrow> True)"

definition bad_choice :: "json \<Rightarrow> string \<Rightarrow> string list \<Rightarrow> bool" where
  "bad_choice body k allowed = (case jfield body k of None \<Rightarrow> False | Some v \<Rightarrow> v \<notin> set (map JStr allowed))"

text \<open>\<^verbatim>\<open>if (body[k] !== undefined) a[k] = body[k] === "" ? null : body[k]\<close>, after validation.\<close>

definition patch_text :: "json \<Rightarrow> string \<Rightarrow> string option \<Rightarrow> string option" where
  "patch_text body k old =
     (case jfield body k of Some (JStr s) \<Rightarrow> (if s = [] then None else Some s) | _ \<Rightarrow> old)"

definition patch_application ::
  "(string \<Rightarrow> string option) \<Rightarrow> (app \<Rightarrow> 'p) \<Rightarrow> ctx \<Rightarrow> string \<Rightarrow> json \<Rightarrow> fleet \<Rightarrow> ('p fleet_body, fleet) outcome" where
  "patch_application policyOf protection c aid body f =
     (case find_app aid f of
        None \<Rightarrow> answer (not_found ''application not found'') f
      | Some a \<Rightarrow>
          if bad_choice body ''environment'' [''production'', ''staging'', ''development'', ''test'', ''other'', []]
            then answer (Invalid ''invalid environment'' ''body.environment'') f
          else if bad_choice body ''criticality'' [''critical'', ''high'', ''medium'', ''low'', []]
            then answer (Invalid ''invalid criticality'' ''body.criticality'') f
          else if bad_text body ''display_name'' then answer (Invalid ''invalid display_name'' ''body.display_name'') f
          else if bad_text body ''owner'' then answer (Invalid ''invalid owner'' ''body.owner'') f
          else
            let a' = a\<lparr>ap_display_name := patch_text body ''display_name'' (ap_display_name a),
                       ap_owner := patch_text body ''owner'' (ap_owner a),
                       ap_environment := patch_text body ''environment'' (ap_environment a),
                       ap_criticality := patch_text body ''criticality'' (ap_criticality a)\<rparr>;
                f' = f\<lparr>apps := update_first (\<lambda>x. ap_id x = aid) (\<lambda>_. a') (apps f)\<rparr>
            in (Send 200 (ApplicationSummary (summary policyOf protection f' a')),
                [audit_by c ''application.updated'' ''application'' (ap_id a') None], f'))"

definition delete_application :: "ctx \<Rightarrow> string \<Rightarrow> fleet \<Rightarrow> ('p fleet_body, fleet) outcome" where
  "delete_application c aid f =
     (case find_app aid f of
        None \<Rightarrow> answer (not_found ''application not found'') f
      | Some a \<Rightarrow>
          if ap_kind a \<noteq> ''manual'' then answer (Invalid ''only manual applications can be deleted'' ''path.id'') f
          else (SendEmpty 204,
                [audit_by c ''application.deleted'' ''application'' (ap_id a) None],
                f\<lparr>apps := splice_app (app_base.truncate a) (apps f) @
                  (case ap_members a of Some ms \<Rightarrow> map as_app ms | None \<Rightarrow> [])\<rparr>))"

definition get_compose :: "ctx \<Rightarrow> string \<Rightarrow> bool \<Rightarrow> fleet \<Rightarrow> ('p fleet_body, fleet) outcome" where
  "get_compose c aid reveal f =
     (case find_app aid f of
        None \<Rightarrow> answer (not_found ''application not found'') f
      | Some a \<Rightarrow>
          if reveal \<and> ''secrets.read'' \<notin> set (u_permissions (c_user c)) then answer (forbidden ''secrets.read'') f
          else case compose (c_now c) a reveal of
                 Inl _ \<Rightarrow> answer internal_error f
               | Inr None \<Rightarrow> answer (conflict ''the application is not in the latest inventory'') f
               | Inr (Some d) \<Rightarrow>
                   (Send 200 (ComposeBody d),
                    (if reveal then [audit_by c ''secrets.revealed'' ''application'' (ap_id a) None] else []), f))"

fun fleet_permission :: "fleet_route \<Rightarrow> string" where
  "fleet_permission GetAgents = ''host.read''"
| "fleet_permission GetTokens = ''host.manage''"
| "fleet_permission (PostToken body) = ''host.manage''"
| "fleet_permission (DeleteToken tid) = ''host.manage''"
| "fleet_permission (GetAgent aid) = ''host.read''"
| "fleet_permission (GetInventory aid) = ''host.read''"
| "fleet_permission (PostAgentAction aid action body) = ''host.manage''"
| "fleet_permission (PostDiscover aid) = ''host.manage''"
| "fleet_permission GetApplications = ''application.read''"
| "fleet_permission (PostApplication body) = ''application.manage''"
| "fleet_permission (GetApplication aid) = ''application.read''"
| "fleet_permission (PatchApplication aid body) = ''application.manage''"
| "fleet_permission (DeleteApplication aid) = ''application.manage''"
| "fleet_permission (GetCompose aid reveal) = ''application.read''"

fun fleet_action ::
  "(string \<Rightarrow> string \<Rightarrow> bool) \<Rightarrow> (string \<Rightarrow> string option) \<Rightarrow> (app \<Rightarrow> 'p) \<Rightarrow>
   ctx \<Rightarrow> fleet_route \<Rightarrow> fleet \<Rightarrow> ('p fleet_body, fleet) outcome" where
  "fleet_action le policyOf protection c GetAgents f = answer (Send 200 (AgentList (agents f))) f"
| "fleet_action le policyOf protection c GetTokens f = answer (Send 200 (TokenList (tokens f))) f"
| "fleet_action le policyOf protection c (PostToken body) f = post_token c body f"
| "fleet_action le policyOf protection c (DeleteToken tid) f = delete_token c tid f"
| "fleet_action le policyOf protection c (GetAgent aid) f =
     (case find_agent aid f of
        None \<Rightarrow> answer (not_found ''agent not found'') f
      | Some a \<Rightarrow> answer (Send 200 (AgentBody a)) f)"
| "fleet_action le policyOf protection c (GetInventory aid) f =
     (case find_agent aid f of
        None \<Rightarrow> answer (not_found ''agent not found'') f
      | Some a \<Rightarrow>
          (case inventoryFor (c_now c) (c_random c) (ag_id a) f of
             None \<Rightarrow> answer (not_found ''no inventory reported yet'') f
           | Some i \<Rightarrow> answer (Send 200 (InventoryBody i)) f))"
| "fleet_action le policyOf protection c (PostAgentAction aid action body) f = post_agent_action c aid action body f"
| "fleet_action le policyOf protection c (PostDiscover aid) f = post_discover c aid f"
| "fleet_action le policyOf protection c GetApplications f =
     answer (Send 200 (ApplicationList
       (js_sort (\<lambda>x y. le (sm_name x) (sm_name y)) (map (summary policyOf protection f) (apps f))))) f"
| "fleet_action le policyOf protection c (PostApplication body) f = post_application c body f"
| "fleet_action le policyOf protection c (GetApplication aid) f =
     (case find_app aid f of
        None \<Rightarrow> answer (not_found ''application not found'') f
      | Some a \<Rightarrow> answer (Send 200 (ApplicationDetail (detail policyOf protection (c_now c) f a))) f)"
| "fleet_action le policyOf protection c (PatchApplication aid body) f =
     patch_application policyOf protection c aid body f"
| "fleet_action le policyOf protection c (DeleteApplication aid) f = delete_application c aid f"
| "fleet_action le policyOf protection c (GetCompose aid reveal) f = get_compose c aid reveal f"

definition fleet_handle ::
  "(string \<Rightarrow> string \<Rightarrow> bool) \<Rightarrow> (string \<Rightarrow> string option) \<Rightarrow> (app \<Rightarrow> 'p) \<Rightarrow>
   ctx \<Rightarrow> fleet_route \<Rightarrow> fleet \<Rightarrow> ('p fleet_body, fleet) outcome" where
  "fleet_handle le policyOf protection c r f =
     need c (fleet_permission r) f (fleet_action le policyOf protection c r f)"

definition appName :: "app \<Rightarrow> string" where
  "appName a = (case ap_display_name a of Some d \<Rightarrow> (if d = [] then ap_name a else d) | None \<Rightarrow> ap_name a)"

section \<open>Lemmas\<close>

interpretation fleet_service: guarded_service fleet_permission "fleet_handle le policyOf protection"
  for le policyOf protection
  by unfold_locales (simp add: fleet_handle_def need_def)

text \<open>Agents: what a request may do to one of them.\<close>

definition agent_step :: "ctx \<Rightarrow> fleet_route \<Rightarrow> agent \<Rightarrow> agent \<Rightarrow> bool" where
  "agent_step c r a b \<longleftrightarrow> b = a \<or>
     (\<exists>action body. r = PostAgentAction (ag_id a) action body \<and>
        ''host.manage'' \<in> set (u_permissions (c_user c)) \<and> trimmed_field body ''reason'' \<noteq> [] \<and>
        ag_status a \<in> set (fst (TRANSITIONS action)) \<and>
        b = transition_agent (c_now c) action (trimmed_field body ''reason'') a)"

lemma agent_step_refl: "list_all2 (agent_step c r) xs xs"
  by (simp add: list_all2_same agent_step_def)

lemma transition_id: "ag_id (transition_agent now action reason a) = ag_id a"
  by (simp add: transition_agent_def Let_def)

lemma transition_hostname: "ag_hostname (transition_agent now action reason a) = ag_hostname a"
  by (simp add: transition_agent_def Let_def)

lemma transition_status: "ag_status (transition_agent now action reason a) = snd (TRANSITIONS action)"
  by (simp add: transition_agent_def Let_def)

lemma agent_action_step:
  assumes "''host.manage'' \<in> set (u_permissions (c_user c))"
  shows "list_all2 (agent_step c (PostAgentAction aid action body)) (agents f)
    (agents (out_state (post_agent_action c aid action body f)))"
proof (cases "find_agent aid f")
  case (Some a)
  then obtain ys zs where sp: "agents f = ys @ a # zs" "ag_id a = aid" "list_all (\<lambda>x. ag_id x \<noteq> aid) ys"
    unfolding find_agent_def by (rule find_split)
  show ?thesis
  proof (cases "trimmed_field body ''reason'' = [] \<or> length (trimmed_field body ''reason'') > 500 \<or>
      ag_status a \<notin> set (fst (TRANSITIONS action))")
    case True
    with Some show ?thesis by (auto simp: post_agent_action_def answer_def Let_def agent_step_refl)
  next
    case False
    with assms sp(2) have "agent_step c (PostAgentAction aid action body) a
        (transition_agent (c_now c) action (trimmed_field body ''reason'') a)"
      by (auto simp: agent_step_def)
    with False Some sp show ?thesis
      by (simp add: post_agent_action_def Let_def update_first_split list_all2_append agent_step_refl)
  qed
qed (simp add: post_agent_action_def answer_def agent_step_refl)

lemma agents_step:
  "list_all2 (agent_step c r) (agents f) (agents (out_state (fleet_handle le policyOf protection c r f)))"
  using agent_action_step [of c]
  by (cases r)
    (auto simp: fleet_handle_def need_def answer_def agent_step_refl post_token_def delete_token_def
      post_discover_def post_application_def patch_application_def delete_application_def
      get_compose_def Let_def split: option.splits json.splits sum.splits)

lemma agent_step_id: "agent_step c r a b \<Longrightarrow> ag_id b = ag_id a"
  by (auto simp: agent_step_def transition_id)

lemma find_agent_step:
  "list_all2 (agent_step c r) xs ys \<Longrightarrow> find (\<lambda>a. ag_id a = aid) xs = Some a \<Longrightarrow>
   \<exists>b. find (\<lambda>a. ag_id a = aid) ys = Some b \<and> agent_step c r a b"
  by (induction rule: list_all2_induct) (auto dest: agent_step_id split: if_splits)

lemma agent_step_status:
  "agent_step c r a b \<Longrightarrow>
   ag_hostname b = ag_hostname a \<and> (ag_status a = RevokedAgent \<longrightarrow> b = a) \<and>
   (ag_status b = PendingAgent \<longrightarrow> ag_status a = PendingAgent)"
proof (cases "b = a")
  case False
  assume "agent_step c r a b"
  with False obtain action reason where "b = transition_agent (c_now c) action reason a"
      "ag_status a \<in> set (fst (TRANSITIONS action))"
    by (auto simp: agent_step_def)
  then show ?thesis by (cases action) (auto simp: transition_hostname transition_status)
qed simp

text \<open>A request for an agent action on the agent by a caller who may manage hosts.\<close>

definition acts_on :: "string \<Rightarrow> ctx \<times> fleet_route \<Rightarrow> bool" where
  "acts_on aid cr =
     (''host.manage'' \<in> set (u_permissions (c_user (fst cr))) \<and>
      (case snd cr of PostAgentAction i action body \<Rightarrow> i = aid | _ \<Rightarrow> False))"

lemma serve_agent:
  "find_agent aid f = Some a \<Longrightarrow>
   \<exists>b. find_agent aid (serve (fleet_handle le policyOf protection) rs f) = Some b \<and>
     ag_hostname b = ag_hostname a \<and> (ag_status a = RevokedAgent \<longrightarrow> b = a) \<and>
     (ag_status b = PendingAgent \<longrightarrow> ag_status a = PendingAgent) \<and>
     (b = a \<or> list_ex (acts_on aid) rs)"
proof (induction rs arbitrary: f a)
  case (Cons cr rs)
  obtain c r where cr: "cr = (c, r)" by (cases cr)
  obtain b where b: "find_agent aid (out_state (fleet_handle le policyOf protection c r f)) = Some b"
      "agent_step c r a b"
    using find_agent_step [OF agents_step [of c r f le policyOf protection], of aid a] Cons.prems
    by (auto simp: find_agent_def)
  from Cons.IH [OF b(1)] obtain d where d:
    "find_agent aid (serve (fleet_handle le policyOf protection) (cr # rs) f) = Some d"
    "ag_hostname d = ag_hostname b" "ag_status b = RevokedAgent \<longrightarrow> d = b"
    "ag_status d = PendingAgent \<longrightarrow> ag_status b = PendingAgent"
    "d = b \<or> list_ex (acts_on aid) rs"
    by (auto simp: cr)
  have "ag_id a = aid" using Cons.prems by (auto simp: find_agent_def find_Some_iff)
  then have act: "b = a \<or> acts_on aid cr"
    using b(2) by (auto simp: agent_step_def acts_on_def cr)
  note st = agent_step_status [OF b(2)]
  show ?case
  proof (intro exI conjI)
    show "find_agent aid (serve (fleet_handle le policyOf protection) (cr # rs) f) = Some d" by (rule d(1))
    show "ag_hostname d = ag_hostname a" using d(2) st by argo
    show "ag_status a = RevokedAgent \<longrightarrow> d = a" using d(3) st by metis
    show "ag_status d = PendingAgent \<longrightarrow> ag_status a = PendingAgent" using d(4) st by metis
    show "d = a \<or> list_ex (acts_on aid) (cr # rs)" using d(5) act
      unfolding list_ex_iff by (metis list.set_intros)
  qed
qed simp

section \<open>Properties\<close>

text \<open>C7: The life cycle of a host's agent, over any sequence of requests by any callers. The agent
  stays in the list with its host name; a revoked agent never changes again; an agent that has
  left the pending state never returns to it; and the agent changes at all only if the sequence
  contains an agent action on it by a caller with \<^verbatim>\<open>host.manage\<close>.\<close>

theorem agent_lifecycle:
  assumes "find_agent aid f = Some a"
  shows "\<exists>b. find_agent aid (serve (fleet_handle le policyOf protection) rs f) = Some b \<and>
     ag_hostname b = ag_hostname a \<and>
     (ag_status a = RevokedAgent \<longrightarrow> b = a) \<and>
     (ag_status b = PendingAgent \<longrightarrow> ag_status a = PendingAgent) \<and>
     (b = a \<or> list_ex (acts_on aid) rs)"
  using serve_agent [OF assms] .

definition operator_ctx :: ctx where
  "operator_ctx = \<lparr>c_user = \<lparr>u_id = ''1'', u_username = ''op'', u_display_name = ''Op'', u_email = None,
     u_kind = Oidc, u_roles = [], u_permissions = [''host.manage'', ''host.read'']\<rparr>, c_now = 5,
     c_random = (\<lambda>n. show_nat n)\<rparr>"

theorem agent_lifecycle_witness:
  "(let f = seed_fleet 0 (\<lambda>n. show_nat n);
        g = serve (fleet_handle (\<lambda>_ _. True) (\<lambda>_. None) (\<lambda>_. ()))
          [(operator_ctx, PostAgentAction HOST_OLD Approve (JObj [(''reason'', JStr ''again'')]))] f
    in find_agent HOST_OLD f \<noteq> None \<and> find_agent HOST_OLD g = find_agent HOST_OLD f)"
proof -
  let ?f = "seed_fleet 0 (\<lambda>n. show_nat n)"
  obtain a where a: "find_agent HOST_OLD ?f = Some a" "ag_status a = RevokedAgent"
    by (simp add: find_agent_def seed_fleet_def seed_agents_def new_agent_def HOST_PROD_def HOST_EDGE_def
        HOST_DR_def HOST_RUNNER_def HOST_LEGACY_def HOST_OLD_def)
  from agent_lifecycle [OF a(1), of "\<lambda>_ _. True" "\<lambda>_. None" "\<lambda>_. ()"
      "[(operator_ctx, PostAgentAction HOST_OLD Approve (JObj [(''reason'', JStr ''again'')]))]"]
  show ?thesis using a by (auto simp: Let_def)
qed

subsection \<open>Grouping and ungrouping\<close>

text \<open>Applications have distinct ids, and standalone containers have no members.\<close>

definition fleet_wf :: "fleet \<Rightarrow> bool" where
  "fleet_wf f \<longleftrightarrow> distinct (map ap_id (apps f)) \<and>
     list_all (\<lambda>a. ap_kind a = ''container'' \<longrightarrow> ap_members a = None) (apps f)"

lemma as_app_truncate: "ap_members a = None \<Longrightarrow> as_app (app_base.truncate a) = a"
  by (cases a) (simp add: as_app_def app_base.defs app.defs)

lemma truncate_id [simp]: "ap_id (app_base.truncate a) = ap_id a"
  by (cases a) (simp add: app_base.defs)

lemma truncate_name [simp]: "ap_name (app_base.truncate a) = ap_name a"
  by (cases a) (simp add: app_base.defs)

lemma splice_split:
  assumes "distinct (map ap_id xs)" "a \<in> set xs"
  shows "mset (splice_app (app_base.truncate a) xs) = mset xs - {#a#}"
    and "set (splice_app (app_base.truncate a) xs) = set xs - {a}"
    and "distinct (map ap_id (splice_app (app_base.truncate a) xs))"
proof -
  obtain ys zs where xs: "xs = ys @ a # zs" using assms(2) by (meson split_list)
  have ny: "\<forall>y \<in> set ys. ap_id y \<noteq> ap_id a" using assms(1) unfolding xs by (auto simp: image_iff)
  then have "takeWhile (\<lambda>x. ap_id x \<noteq> ap_id a) xs = ys" "dropWhile (\<lambda>x. ap_id x \<noteq> ap_id a) xs = a # zs"
    unfolding xs by (auto simp: takeWhile_append dropWhile_append)
  moreover have "list_ex (\<lambda>x. ap_id x = ap_id a) xs" using assms(2) by (auto simp: list_ex_iff)
  ultimately have sp: "splice_app (app_base.truncate a) xs = ys @ zs" by (simp add: splice_app_def)
  show "mset (splice_app (app_base.truncate a) xs) = mset xs - {#a#}" unfolding sp by (simp add: xs)
  show "set (splice_app (app_base.truncate a) xs) = set xs - {a}"
    unfolding sp using assms(1) xs by (auto simp: image_iff)
  show "distinct (map ap_id (splice_app (app_base.truncate a) xs))" unfolding sp using assms(1) xs by auto
qed

lemma fold_splice_mset:
  "distinct (map ap_id xs) \<Longrightarrow> set as \<subseteq> set xs \<Longrightarrow> distinct as \<Longrightarrow>
   mset (fold splice_app (map app_base.truncate as) xs) + mset as = mset xs"
proof (induction as arbitrary: xs)
  case (Cons a as)
  note sp = splice_split [OF Cons.prems(1), of a]
  have a: "a \<in> set xs" using Cons.prems(2) by simp
  have "mset (fold splice_app (map app_base.truncate as) (splice_app (app_base.truncate a) xs)) + mset as =
      mset (splice_app (app_base.truncate a) xs)"
    using Cons.prems sp(2,3) [OF a] by (intro Cons.IH) auto
  then show ?case using sp(1) [OF a] a by simp
qed simp

lemma find_member_Some:
  "find_member h f c = Some a \<Longrightarrow> a \<in> set (apps f) \<and> ap_kind a = ''container'' \<and> c = JStr (ap_name a)"
  by (auto simp: find_member_def find_Some_iff)

lemma merged_app_simps:
  "ap_id (merged_app now i h n ws ms xs) = i"
  "ap_kind (merged_app now i h n ws ms xs) = ''manual''"
  "ap_members (merged_app now i h n ws ms xs) = Some ms"
  by (simp_all add: merged_app_def app_base.defs app.defs)

lemma check_group_ok:
  "check_group body f = Inr (h, as) \<Longrightarrow>
   list_all (\<lambda>w. find_member h f w \<noteq> None) (array_field body ''containers'') \<and>
   as = map (\<lambda>w. the (find_member h f w)) (array_field body ''containers'')"
  by (auto simp: check_group_def Let_def list_all_iff list_ex_iff split: if_splits)
    (metis imageI not_None_eq)

lemma post_application_ok:
  assumes "post_application c body f = (Send 201 (b :: 'p fleet_body), es, g)"
  obtains h as n xs where "check_group body f = (Inr (h, as) :: 'p fleet_body reply + string \<times> app list)"
    "apps g = fold splice_app (map app_base.truncate as) (apps f) @
       [merged_app (c_now c) (c_random c 0) h n (map ap_name (map app_base.truncate as)) (map app_base.truncate as) xs]"
    "b = ApplicationId (c_random c 0)"
proof (cases "check_group body f :: 'p fleet_body reply + string \<times> app list")
  case (Inl r)
  then have "r \<noteq> Send 201 b" by (auto simp: check_group_def Let_def conflict_def split: if_splits)
  with Inl assms show ?thesis by (simp add: post_application_def answer_def)
next
  case (Inr p)
  obtain h as where p: "p = (h, as)" by (cases p)
  let ?ms = "map app_base.truncate as"
  have "g = f\<lparr>apps := fold splice_app ?ms (apps f) @
      [merged_app (c_now c) (c_random c 0) h (trimmed_field body ''name'') (map ap_name ?ms) ?ms
        (map (\<lambda>m. the (ap_analysis m)) ?ms)]\<rparr> \<and> b = ApplicationId (c_random c 0)"
    using assms Inr p
    by (auto simp: post_application_def answer_def internal_error_def Let_def simp del: map_map split: if_splits)
  with that [of h as "trimmed_field body ''name''" "map (\<lambda>m. the (ap_analysis m)) ?ms"] Inr p
  show ?thesis by simp
qed

lemma find_append: "find P (xs @ ys) = (case find P xs of Some x \<Rightarrow> Some x | None \<Rightarrow> find P ys)"
  by (induction xs) auto

lemma ungroup:
  assumes "apps g = rest @ [m]" "\<forall>a \<in> set rest. ap_id a \<noteq> i"
    and "ap_id m = i" "ap_kind m = ''manual''" "ap_members m = Some ms"
  shows "apps (out_state (delete_application c i g)) = rest @ map as_app ms"
proof -
  have "find (\<lambda>a. ap_id a = i) rest = None" using assms(2) by (simp add: find_None_iff)
  then have "find_app i g = Some m" using assms by (simp add: find_app_def find_append)
  moreover have "splice_app (app_base.truncate m) (apps g) = rest"
    using assms(1-3) by (simp add: splice_app_def takeWhile_append dropWhile_append)
  ultimately show ?thesis using assms by (simp add: delete_application_def)
qed

lemma members_distinct:
  assumes found: "list_all (\<lambda>w. find_member h f w \<noteq> None) ws" and "distinct ws"
  shows "distinct (map (\<lambda>w. the (find_member h f w)) ws)"
proof -
  have "inj_on (\<lambda>w. the (find_member h f w)) (set ws)"
  proof (rule inj_onI)
    fix v w
    assume "v \<in> set ws" "w \<in> set ws" and eq: "the (find_member h f v) = the (find_member h f w)"
    with found obtain a b where ab: "find_member h f v = Some a" "find_member h f w = Some b"
      unfolding list_all_iff by blast
    with eq have "a = b" by simp
    with ab find_member_Some [of h f v a] find_member_Some [of h f w b] show "v = w" by simp
  qed
  then show ?thesis using assms(2) by (simp add: distinct_map)
qed

text \<open>C32: Grouping standalone containers into a manual application and deleting that application
  again gives back exactly the applications there were, for a request that names each container
  once and a fresh application id.\<close>

theorem group_then_delete:
  assumes "fleet_wf f" "distinct (array_field body ''containers'')"
    and "list_all (\<lambda>a. ap_id a \<noteq> c_random c 0) (apps f)"
    and "fleet_handle le policyOf protection c (PostApplication body) f = (Send 201 (b :: 'p fleet_body), es, g)"
    and "''application.manage'' \<in> set (u_permissions (c_user c'))"
  shows "mset (apps (out_state (fleet_handle le policyOf protection c' (DeleteApplication (c_random c 0)) g))) =
    mset (apps f)"
proof -
  have "post_application c body f = (Send 201 b, es, g)"
    using assms(4) by (auto simp: fleet_handle_def need_def forbidden_def split: if_splits)
  then obtain h as n xs where chk: "check_group body f = (Inr (h, as) :: 'p fleet_body reply + string \<times> app list)" and
    g: "apps g = fold splice_app (map app_base.truncate as) (apps f) @
       [merged_app (c_now c) (c_random c 0) h n (map ap_name (map app_base.truncate as)) (map app_base.truncate as) xs]"
    by (rule post_application_ok)
  note found = check_group_ok [OF chk, THEN conjunct1] and as_def = check_group_ok [OF chk, THEN conjunct2]
  define rest where "rest = fold splice_app (map app_base.truncate as) (apps f)"
  have mem: "a \<in> set (apps f) \<and> ap_kind a = ''container''" if "a \<in> set as" for a
    using that found find_member_Some by (fastforce simp: as_def list_all_iff)
  have rest: "mset rest + mset as = mset (apps f)"
    unfolding rest_def using assms(1) mem members_distinct [OF found assms(2)]
    by (intro fold_splice_mset) (auto simp: fleet_wf_def as_def [symmetric])
  then have "set rest \<subseteq> set (apps f)"
    by (metis mset_subset_eq_add_left set_mset_mset set_mset_mono)
  then have "\<forall>a \<in> set rest. ap_id a \<noteq> c_random c 0" using assms(3) by (auto simp: list_all_iff)
  then have "apps (out_state (fleet_handle le policyOf protection c' (DeleteApplication (c_random c 0)) g)) =
      rest @ map as_app (map app_base.truncate as)"
    using assms(5)
    by (simp add: fleet_handle_def need_def del: map_map)
      (rule ungroup [OF g [folded rest_def]], simp_all add: merged_app_simps)
  moreover have "as_app (app_base.truncate a) = a" if "a \<in> set as" for a
    using mem [OF that] assms(1) by (intro as_app_truncate) (auto simp: fleet_wf_def list_all_iff)
  ultimately have "apps (out_state (fleet_handle le policyOf protection c' (DeleteApplication (c_random c 0)) g)) =
      rest @ as"
    by (simp add: map_idI)
  then show ?thesis using rest by simp
qed

definition manager_ctx :: ctx where
  "manager_ctx = operator_ctx\<lparr>c_user := (c_user operator_ctx)\<lparr>u_permissions := [''application.manage'']\<rparr>\<rparr>"

definition sample_fleet :: fleet where
  "sample_fleet =
     \<lparr>agents = [new_agent 0 ''h'' ''host'' ActiveAgent], tokens = [],
      apps = map (\<lambda>n. as_app (simpleContainerApp 0 n n ''h'' n ''i:1'' ''d''
        [env ''K'' ''secret'' True] [] [] [] [])) [''a'', ''b'', ''c'']\<rparr>"

definition group_body :: json where
  "group_body = JObj [(''name'', JStr ''g''), (''host_id'', JStr ''h''), (''containers'', JArr [JStr ''c'', JStr ''a''])]"

theorem group_then_delete_witness:
  "(let h = fleet_handle (\<lambda>_ _. True) (\<lambda>_. None) (\<lambda>_. ());
        r = h manager_ctx (PostApplication group_body) sample_fleet
    in length (apps (out_state r)) = 2 \<and>
       mset (apps (out_state (h manager_ctx (DeleteApplication (c_random manager_ctx 0)) (out_state r)))) =
         mset (apps sample_fleet))"
proof -
  let ?h = "fleet_handle (\<lambda>_ _. True) (\<lambda>_. None) (\<lambda>_. ())"
  let ?r = "?h manager_ctx (PostApplication group_body) sample_fleet"
  have wf: "fleet_wf sample_fleet" by code_simp
  have d: "distinct (array_field group_body ''containers'')" by code_simp
  have fr: "list_all (\<lambda>a. ap_id a \<noteq> c_random manager_ctx 0) (apps sample_fleet)" by code_simp
  have r: "?r = (Send 201 (ApplicationId (c_random manager_ctx 0)), out_effects ?r, out_state ?r)"
    by code_simp
  have p: "''application.manage'' \<in> set (u_permissions (c_user manager_ctx))" by code_simp
  have l: "length (apps (out_state ?r)) = 2" by code_simp
  show ?thesis unfolding Let_def
    using group_then_delete [OF wf d fr r p] l by simp
qed

text \<open>A request that names a container twice loses an application that it does not name: the
  second removal finds no index and takes the last application instead.\<close>

lemma duplicate_container_loses_app:
  "map ap_id (apps (out_state (post_application manager_ctx
     (JObj [(''name'', JStr ''g''), (''host_id'', JStr ''h''), (''containers'', JArr [JStr ''a'', JStr ''a''])])
     sample_fleet :: (unit fleet_body, fleet) outcome))) = [''b'', ''0'']"
  by code_simp

subsection \<open>Sensitive values\<close>

text \<open>The fleet with every sensitive value blanked out.\<close>

definition blank_env :: "env_var \<Rightarrow> env_var" where
  "blank_env e = e\<lparr>ev_real := []\<rparr>"

definition blank_container :: "container \<Rightarrow> container" where
  "blank_container c = c\<lparr>cd_env := map blank_env (cd_env c)\<rparr>"

definition blank_base :: "'z app_base_scheme \<Rightarrow> 'z app_base_scheme" where
  "blank_base a = a\<lparr>ap_containers_detail := map blank_container (ap_containers_detail a)\<rparr>"

definition blank_app :: "app \<Rightarrow> app" where
  "blank_app a = blank_base (a\<lparr>ap_members := map_option (map blank_base) (ap_members a)\<rparr>)"

definition blank :: "fleet \<Rightarrow> fleet" where
  "blank f = f\<lparr>apps := map blank_app (apps f)\<rparr>"

lemma blank_app_fields [simp]:
  "ap_id (blank_app a) = ap_id a" "ap_name (blank_app a) = ap_name a" "ap_kind (blank_app a) = ap_kind a"
  "ap_host_id (blank_app a) = ap_host_id a" "ap_display_name (blank_app a) = ap_display_name a"
  "ap_analysis (blank_app a) = ap_analysis a" "ap_owner (blank_app a) = ap_owner a"
  "ap_environment (blank_app a) = ap_environment a" "ap_criticality (blank_app a) = ap_criticality a"
  "ap_last_seen_at (blank_app a) = ap_last_seen_at a" "ap_missing_since (blank_app a) = ap_missing_since a"
  "ap_manual_containers (blank_app a) = ap_manual_containers a"
  "ap_containers_detail (blank_app a) = map blank_container (ap_containers_detail a)"
  "ap_members (blank_app a) = map_option (map blank_base) (ap_members a)"
  by (simp_all add: blank_app_def blank_base_def)

lemma blank_fields [simp]:
  "agents (blank f) = agents f" "tokens (blank f) = tokens f" "apps (blank f) = map blank_app (apps f)"
  by (simp_all add: blank_def)

lemma find_map: "find P (map g xs) = map_option g (find (P \<circ> g) xs)"
  by (induction xs) auto

lemma find_blank [simp]:
  "find_agent aid (blank f) = find_agent aid f"
  "find_app aid (blank f) = map_option blank_app (find_app aid f)"
  "find_member h (blank f) w = map_option blank_app (find_member h f w)"
  by (simp_all add: find_agent_def find_app_def find_member_def find_map comp_def)

lemma hostname_blank [simp]: "hostname_of (blank f) = hostname_of f"
  by (simp add: hostname_of_def fun_eq_iff)

lemma env_line_blank: "env_line (blank_env e) = env_line e"
  by (simp add: env_line_def blank_env_def)

lemma blank_env_keys: "map ev_key (filter ev_sensitive (map blank_env es)) = map ev_key (filter ev_sensitive es)"
  by (induction es) (auto simp: blank_env_def)

lemma container_out_blank [simp]: "container_out (blank_container c) = container_out c"
  by (simp add: container_out_def blank_container_def stripEnv_def blank_env_def comp_def)

lemma reconstructed_blank: "reconstructed now (blank_app a) (blank_container c) = reconstructed now a c"
  unfolding reconstructed_def by (simp add: blank_container_def blank_env_keys env_line_blank comp_def)

lemma compose_blank: "compose now (blank_app a) False = compose now a False"
  by (auto simp: compose_def reconstructed_blank split: option.splits list.splits)

lemma inventory_blank [simp]: "inventoryFor now rnd aid (blank f) = inventoryFor now rnd aid f"
  by (simp add: inventoryFor_def)

lemma map_update_first_blank:
  "blank_app b = b' \<Longrightarrow>
   update_first (\<lambda>x. ap_id x = aid) (\<lambda>_. b') (map blank_app xs) =
   map blank_app (update_first (\<lambda>x. ap_id x = aid) (\<lambda>_. b) xs)"
  by (induction xs) auto

lemma splice_blank:
  "ap_id m' = ap_id m \<Longrightarrow> splice_app m' (map blank_app xs) = map blank_app (splice_app m xs)"
proof -
  assume eq: "ap_id m' = ap_id m"
  have "list_ex (\<lambda>a. ap_id a = i) (map blank_app xs) = list_ex (\<lambda>a. ap_id a = i) xs" for i
    by (auto simp: list_ex_iff)
  then show ?thesis
    using eq by (simp add: splice_app_def takeWhile_map dropWhile_map comp_def map_tl map_butlast)
qed

text \<open>A handler ignores the sensitive values if it answers the same on the blanked fleet.\<close>

definition ignores_secrets :: "(fleet \<Rightarrow> ('b, fleet) outcome) \<Rightarrow> fleet \<Rightarrow> bool" where
  "ignores_secrets h f \<longleftrightarrow> h (blank f) = (out_reply (h f), out_effects (h f), blank (out_state (h f)))"

lemma blank_update:
  "(blank f)\<lparr>apps := map blank_app xs\<rparr> = blank (f\<lparr>apps := xs\<rparr>)"
  "(blank f)\<lparr>tokens := ts\<rparr> = blank (f\<lparr>tokens := ts\<rparr>)"
  "(blank f)\<lparr>agents := as\<rparr> = blank (f\<lparr>agents := as\<rparr>)"
  by (simp_all add: blank_def)

lemma summary_blank:
  assumes "\<And>a. protection (blank_app a) = protection a"
  shows "summary policyOf protection (blank f) (blank_app a) = summary policyOf protection f a"
  by (simp add: summary_def assms)

lemma detail_blank:
  assumes "\<And>a. protection (blank_app a) = protection a"
  shows "detail policyOf protection now (blank f) (blank_app a) = detail policyOf protection now f a"
  by (simp add: detail_def summary_blank [of protection, OF assms] comp_def)

lemma truncate_blank: "app_base.truncate (blank_app a) = blank_base (app_base.truncate a)"
  by (simp add: blank_app_def blank_base_def app_base.defs)

lemma fold_splice_blank:
  "fold splice_app (map blank_base ms) (map blank_app xs) = map blank_app (fold splice_app ms xs)"
proof (induction ms arbitrary: xs)
  case (Cons m ms)
  have "splice_app (blank_base m) (map blank_app xs) = map blank_app (splice_app m xs)"
    by (rule splice_blank) (simp add: blank_base_def)
  with Cons show ?case by simp
qed simp

lemma blank_base_simps [simp]:
  "ap_name (blank_base a) = ap_name a" "ap_analysis (blank_base a) = ap_analysis a"
  by (simp_all add: blank_base_def)

lemma merged_blank:
  "merged_app now i h n ws (map blank_base ms) xs = blank_app (merged_app now i h n ws ms xs)"
  by (simp add: merged_app_def blank_app_def blank_base_def app_base.defs app.defs map_concat comp_def)

lemma as_app_blank: "as_app (blank_base m) = blank_app (as_app m)"
  by (simp add: as_app_def blank_app_def blank_base_def app_base.defs app.defs)

lemma check_group_blank:
  "check_group body (blank f) = map_sum id (map_prod id (map blank_app)) (check_group body f)"
proof -
  have none: "list_ex (\<lambda>x. x = None) (map (find_member h (blank f)) ws) =
      list_ex (\<lambda>x. x = None) (map (find_member h f) ws)" for h ws
    by (induction ws) auto
  have name: "list_ex (\<lambda>a. ap_host_id a = h \<and> ap_name a = n) (apps (blank f)) =
      list_ex (\<lambda>a. ap_host_id a = h \<and> ap_name a = n) (apps f)" for h n
    by (auto simp: list_ex_iff)
  have the_map: "map the (map (find_member h (blank f)) ws) = map blank_app (map the (map (find_member h f) ws))"
    if "\<not> list_ex (\<lambda>x. x = None) (map (find_member h f) ws)" for h ws
    using that by (induction ws) auto
  show ?thesis
    unfolding check_group_def Let_def none name blank_fields(1) using the_map by (simp del: map_map)
qed

lemma post_application_blank:
  "ignores_secrets (post_application c body :: fleet \<Rightarrow> ('p fleet_body, fleet) outcome) f"
proof (cases "check_group body f :: 'p fleet_body reply + string \<times> app list")
  case (Inr p)
  obtain h as where p: "p = (h, as)" by (cases p)
  have ms: "map app_base.truncate (map blank_app as) = map blank_base (map app_base.truncate as)"
    by (simp add: truncate_blank)
  have nm: "map ap_name (map blank_base xs) = map ap_name xs"
      "map (\<lambda>m. the (ap_analysis m)) (map blank_base xs) = map (\<lambda>m. the (ap_analysis m)) xs" for xs
    by simp_all
  have no: "list_ex (\<lambda>m. ap_analysis m = None) (map blank_base xs) = list_ex (\<lambda>m. ap_analysis m = None) xs" for xs
    by (auto simp: list_ex_iff)
  show ?thesis
    unfolding ignores_secrets_def post_application_def check_group_blank Inr p
    by (simp add: ms nm no Let_def answer_def fold_splice_blank merged_blank blank_def del: map_map)
qed (simp add: ignores_secrets_def post_application_def check_group_blank answer_def)

lemma patch_application_blank:
  assumes "\<And>a. protection (blank_app a) = protection a"
  shows "ignores_secrets (patch_application policyOf protection c aid body) f"
proof (cases "find_app aid f")
  case (Some a)
  let ?a = "a\<lparr>ap_display_name := patch_text body ''display_name'' (ap_display_name a),
      ap_owner := patch_text body ''owner'' (ap_owner a),
      ap_environment := patch_text body ''environment'' (ap_environment a),
      ap_criticality := patch_text body ''criticality'' (ap_criticality a)\<rparr>"
  let ?f = "f\<lparr>apps := update_first (\<lambda>x. ap_id x = aid) (\<lambda>_. ?a) (apps f)\<rparr>"
  have b: "(blank_app a)\<lparr>ap_display_name := patch_text body ''display_name'' (ap_display_name a),
      ap_owner := patch_text body ''owner'' (ap_owner a),
      ap_environment := patch_text body ''environment'' (ap_environment a),
      ap_criticality := patch_text body ''criticality'' (ap_criticality a)\<rparr> = blank_app ?a"
    by (simp add: blank_app_def blank_base_def)
  have u: "(blank f)\<lparr>apps := update_first (\<lambda>x. ap_id x = aid) (\<lambda>_. blank_app ?a) (apps (blank f))\<rparr> = blank ?f"
    by (simp add: blank_def map_update_first_blank)
  show ?thesis
    using Some
    by (simp add: ignores_secrets_def patch_application_def answer_def Let_def b u
        summary_blank [of protection, OF assms] del: blank_fields)
qed (simp add: ignores_secrets_def patch_application_def answer_def)

lemma delete_application_blank: "ignores_secrets (delete_application c aid) f"
proof (cases "find_app aid f")
  case (Some a)
  have "splice_app (app_base.truncate (blank_app a)) (map blank_app xs) =
      map blank_app (splice_app (app_base.truncate a) xs)" for xs
    by (rule splice_blank) simp
  moreover have "(case map_option (map blank_base) ms of Some ms \<Rightarrow> map as_app ms | None \<Rightarrow> []) =
      map blank_app (case ms of Some ms \<Rightarrow> map as_app ms | None \<Rightarrow> [])" for ms
    by (cases ms) (simp_all add: as_app_blank)
  ultimately show ?thesis
    using Some
    by (simp add: ignores_secrets_def delete_application_def answer_def blank_update map_append [symmetric]
        del: map_append)
qed (simp add: ignores_secrets_def delete_application_def answer_def)

lemma get_compose_blank:
  "''secrets.read'' \<notin> set (u_permissions (c_user c)) \<Longrightarrow> ignores_secrets (get_compose c aid reveal) f"
  by (cases "find_app aid f")
    (auto simp: ignores_secrets_def get_compose_def answer_def compose_blank
      split: option.splits sum.splits)

lemma fleet_blank:
  assumes "\<And>a. protection (blank_app a) = protection a"
    and "''secrets.read'' \<notin> set (u_permissions (c_user c))"
  shows "ignores_secrets (fleet_handle le policyOf protection c r) f"
proof (cases r)
  case (PostToken body)
  then show ?thesis
    by (auto simp: ignores_secrets_def fleet_handle_def need_def post_token_def answer_def Let_def blank_update
        split: json.splits option.splits)
next
  case (PostAgentAction aid action body)
  then show ?thesis
    by (auto simp: ignores_secrets_def fleet_handle_def need_def post_agent_action_def answer_def Let_def
        blank_update split: option.splits)
next
  case (PostApplication body)
  then show ?thesis
    by (simp add: ignores_secrets_def fleet_handle_def need_def post_application_blank [unfolded ignores_secrets_def])
next
  case (PatchApplication aid body)
  then show ?thesis
    using patch_application_blank [of protection policyOf c aid body f, OF assms(1)]
    by (simp add: ignores_secrets_def fleet_handle_def need_def)
next
  case (DeleteApplication aid)
  then show ?thesis
    by (simp add: ignores_secrets_def fleet_handle_def need_def delete_application_blank [unfolded ignores_secrets_def])
next
  case (GetCompose aid reveal)
  then show ?thesis
    by (simp add: ignores_secrets_def fleet_handle_def need_def
        get_compose_blank [OF assms(2), unfolded ignores_secrets_def])
qed (auto simp: ignores_secrets_def fleet_handle_def need_def answer_def delete_token_def post_discover_def
    summary_blank [of protection, OF assms(1)] detail_blank [of protection, OF assms(1)] comp_def blank_update
    split: option.splits)




end
