(* ===== verification/Protection_Data.thy ===== *)
theory Protection_Data
  imports Mock_Fleet Restore_Helpers "HOL-Library.Word"
begin

text \<open>
  Repositories, recovery points and backups of the development server: the data and the background
  work of \<^verbatim>\<open>scripts/mock-protection.mjs\<close>. Escrow codes and packages, the components a backup
  captures, the manifest of a recovery point, its verification report, and \<^verbatim>\<open>advance\<close>, which a timer
  and most routes run to move pending backups and grace periods along.

  What the server never sends (properties whose name starts with an underscore) are the fields of
  record extensions, so that \<^verbatim>\<open>publicRepo\<close> is the truncation to the public part. Random values are
  drawn from a function from the number of the draw to the value.
\<close>

section \<open>Records\<close>

record captured = manifest_component +
  cp_required :: bool
  cp_snapshot_id :: "string option"
  cp_root_object_id :: "string option"
  cp_started_at :: int
  cp_finished_at :: int
  cp_snapshot_source :: "string option"
  cp_owner :: "(nat \<times> nat \<times> string) option"
  cp_selinux_context :: "string option"
  cp_capture_method :: "string option"
  cp_error :: "string option"
  cp_database_format :: "string option"
  cp_validation :: "string option"
  cp_file_name :: "string option"

record contract_note =
  cn_satisfied :: bool
  cn_max_rpo_minutes :: "int option"
  cn_required_components :: "string list"
  cn_missing_components :: "string list"

record topology_container =
  tc_id :: string
  tc_name :: string
  tc_service :: "string option"
  tc_image :: string
  tc_state :: string
  tc_ports :: "port list"
  tc_mounts :: "json list"
  tc_networks :: "string list"

record topology =
  tp_containers :: "topology_container list"
  tp_networks :: "network list"
  tp_volumes :: "(string \<times> bool) list"

record manifest_image =
  mi_service :: "string option"
  mi_ref :: string
  mi_digest :: "string option"

record manifest =
  mf_schema_version :: nat
  mf_recovery_point_id :: string
  mf_status :: string
  mf_created_at :: int
  mf_consistency_mode :: string
  mf_consistency_point :: "int option"
  mf_crash_consistent_only :: bool
  mf_quiesce :: "(int option \<times> int) option"
  mf_application_id :: string
  mf_application_name :: string
  mf_compose_project :: "string option"
  mf_working_dir :: "string option"
  mf_host_id :: string
  mf_hostname :: string
  mf_repository_id :: string
  mf_repository_name :: string
  mf_components :: "captured list"
  mf_images :: "manifest_image list"
  mf_topology :: "topology option"
  mf_workflow_id :: string
  mf_run_id :: string
  mf_trigger :: string
  mf_contract :: "contract_note option"

record plan_item =
  pl_name :: string
  pl_kind :: string
  pl_path :: string
  pl_volume :: "string option"
  pl_required :: bool
  pl_size :: nat

record component_verification =
  vf_name :: string
  vf_snapshot_id :: string
  vf_files :: nat
  vf_dirs :: int
  vf_files_read :: int
  vf_bytes_read :: int
  vf_errors :: "string list option"

record verification =
  vn_read_percent :: rat
  vn_components :: "component_verification list"

datatype rp_state = RpPending | RpCommitted | RpFailed | RpMissing | RpDeleting | RpDeleted

fun rp_state_text :: "rp_state \<Rightarrow> string" where
  "rp_state_text RpPending = ''pending''"
| "rp_state_text RpCommitted = ''committed''"
| "rp_state_text RpFailed = ''failed''"
| "rp_state_text RpMissing = ''missing''"
| "rp_state_text RpDeleting = ''deleting''"
| "rp_state_text RpDeleted = ''deleted''"

record recovery_point =
  rp_id :: string
  rp_application_id :: string
  rp_application_name :: string
  rp_host_id :: string
  rp_hostname :: string
  rp_repository_id :: string
  rp_state :: rp_state
  rp_status :: "string option"
  rp_verification :: string
  rp_consistency_mode :: string
  rp_consistency_point :: "int option"
  rp_crash_consistent_only :: bool
  rp_trigger :: string
  rp_workflow_id :: string
  rp_size_bytes :: nat
  rp_component_count :: nat
  rp_error :: "string option"
  rp_created_at :: int
  rp_committed_at :: "int option"
  rp_verified_at :: "int option"
  rp_delete_after :: "int option"
  rp_delete_reason :: "string option"
  rp_deleted_at :: "int option"

record stored_rp = recovery_point +
  rp_manifest :: "manifest option"
  rp_verification_report :: "verification option"
  rp_start_ms :: "int option"
  rp_finish_at :: "int option"
  rp_plan :: "plan_item list option"
  rp_run_id :: "string option"
  rp_announced :: bool

datatype repo_status = Ready | AwaitingEscrow | Unavailable | PendingDeletion | Retired

fun repo_status_text :: "repo_status \<Rightarrow> string" where
  "repo_status_text Ready = ''ready''"
| "repo_status_text AwaitingEscrow = ''awaiting_escrow''"
| "repo_status_text Unavailable = ''unavailable''"
| "repo_status_text PendingDeletion = ''pending_deletion''"
| "repo_status_text Retired = ''retired''"

record live_storage =
  lv_initialized :: bool
  lv_server_running :: bool
  lv_kopia_version :: string
  lv_storage_healthy :: bool
  lv_total_bytes :: int
  lv_free_bytes :: int
  lv_used_bytes :: int

record host_usage =
  hu_host_id :: string
  hu_hostname :: string
  hu_applications :: nat
  hu_latest_bytes :: int

record repository =
  re_id :: string
  re_name :: string
  re_description :: string
  re_backend :: string
  re_status :: repo_status
  re_is_default :: bool
  re_server_url :: string
  re_internal_server_url :: json
  re_management_url :: string
  re_cert_sha256 :: string
  re_kopia_repository_id :: string
  re_splitter :: string
  re_escrow_recipients :: nat
  re_escrow_generated_at :: int
  re_escrow_confirmed_at :: "int option"
  re_last_reindex_at :: "int option"
  re_last_verified_at :: "int option"
  re_delete_after :: "int option"
  re_delete_reason :: "string option"
  re_is_system :: bool
  re_created_at :: int
  re_live :: "live_storage option"
  re_live_error :: "string option"
  re_usage_by_host :: "host_usage list"

record stored_repo = repository +
  re_code :: string
  re_package :: string
  re_recipient_ids :: "string list"
  re_private_delete_reason :: "string option"

record recipient =
  ec_id :: string
  ec_name :: string
  ec_public_key :: string
  ec_created_at :: int

record backup_settings =
  bs_repository_id :: "string option"
  bs_consistency_mode :: "string option"
  bs_max_quiesce_seconds :: int
  bs_pre_hooks :: "json list"
  bs_post_hooks :: "json list"
  bs_optional_components :: json
  bs_excluded_components :: json
  bs_database_strategy :: string
  bs_updated_at :: "int option"

record alert =
  al_id :: nat
  al_severity :: string
  al_type :: string
  al_target_type :: string
  al_target_id :: string
  al_message :: string
  al_details :: json
  al_created_at :: int
  al_acknowledged_at :: "int option"

record host_settings =
  hs_max_concurrent_jobs :: int
  hs_window_start :: "int option"
  hs_window_end :: "int option"
  hs_window_timezone :: string

record protection =
  recipients :: "recipient list"
  repositories :: "stored_repo list"
  settings :: "(string \<times> backup_settings) list"
  recovery_points :: "stored_rp list"
  alerts :: "alert list"
  host_limits :: "(string \<times> host_settings) list"

section \<open>Identifiers, codes, packages\<close>

definition SHOP :: string where "SHOP = ''5f939a00-fccb-4376-a6cc-37eeb5542abe''"
definition MFT :: string where "MFT = ''9fc3a8cb-13d7-4c97-a291-4aade4ca63ee''"
definition MONITORING :: string where "MONITORING = ''1a2b3c4d-0000-4000-8000-000000000006''"
definition WIKI :: string where "WIKI = ''1a2b3c4d-0000-4000-8000-000000000007''"
definition REDIS :: string where "REDIS = ''1a2b3c4d-0000-4000-8000-000000000003''"
definition METRICS :: string where "METRICS = ''1a2b3c4d-0000-4000-8000-000000000008''"
definition NAS01 :: string where "NAS01 = ''0b6f1d2e-3c4a-4b5d-8e6f-7a8b9c0d1e01''"
definition LAB :: string where "LAB = ''0b6f1d2e-3c4a-4b5d-8e6f-7a8b9c0d1e02''"
definition OFFSITE :: string where "OFFSITE = ''0b6f1d2e-3c4a-4b5d-8e6f-7a8b9c0d1e03''"
definition OLDNAS :: string where "OLDNAS = ''0b6f1d2e-3c4a-4b5d-8e6f-7a8b9c0d1e04''"

definition BACKUP_MS :: int where "BACKUP_MS = 15000"

definition GiB :: int where "GiB = 1024 ^ 3"
definition TiB :: int where "TiB = 1024 * GiB"

text \<open>Random bytes arrive as a string of bytes.\<close>

definition B32 :: string where "B32 = ''ABCDEFGHIJKLMNOPQRSTUVWXYZ234567''"

definition newCode :: "string \<Rightarrow> string" where
  "newCode bytes =
     (let s = map (\<lambda>x. B32 ! (code x mod 32)) bytes
      in take 4 s @ ''-'' @ take 4 (drop 4 s) @ ''-'' @ take 4 (drop 8 s) @ ''-'' @ take 4 (drop 12 s))"

definition normCode :: "string \<Rightarrow> string" where
  "normCode c = toUpperCase (filter (\<lambda>x. \<not> (js_space x \<or> x = CHR ''-'')) c)"

definition newline :: string where "newline = [CHR 0x0A]"

fun wrap64 :: "string \<Rightarrow> string" where
  "wrap64 s = (if length s < 64 then s else take 64 s @ newline @ wrap64 (drop 64 s))"

declare wrap64.simps [simp del]

definition fakePackage :: "string \<Rightarrow> string \<Rightarrow> string \<Rightarrow> string" where
  "fakePackage base64 repoName secret =
     ''-----BEGIN AGE ENCRYPTED FILE-----'' @ newline @ trim (wrap64 base64) @ newline @
     ''-----END AGE ENCRYPTED FILE-----'' @ newline @
     ''# MOCK ONLY (not encrypted): repository '' @ repoName @ '', confirmation_code '' @ secret @ newline"

definition publicRepo :: "stored_repo \<Rightarrow> repository" where
  "publicRepo r = repository.truncate r"

definition publicRp :: "stored_rp \<Rightarrow> recovery_point" where
  "publicRp r = recovery_point.truncate r"

definition escrowFilename :: "stored_repo \<Rightarrow> string" where
  "escrowFilename r = ''dbr2-escrow-'' @ re_name r @ ''-'' @ take 8 (re_id r) @ ''.age''"

definition CROCKFORD :: string where "CROCKFORD = ''0123456789ABCDEFGHJKMNPQRSTVWXYZ''"

fun rp_time :: "nat \<Rightarrow> nat \<Rightarrow> string \<Rightarrow> string" where
  "rp_time 0 t time = time"
| "rp_time (Suc n) t time = rp_time n (t div 32) (CROCKFORD ! (t mod 32) # time)"

definition rpId :: "int \<Rightarrow> string \<Rightarrow> string" where
  "rpId ms bytes = ''rp_'' @ rp_time 10 (nat ms) [] @ map (\<lambda>x. CROCKFORD ! (code x mod 32)) bytes"

section \<open>Backup settings\<close>

definition defaultSettings :: backup_settings where
  "defaultSettings =
     \<lparr>bs_repository_id = None, bs_consistency_mode = None, bs_max_quiesce_seconds = 3600,
      bs_pre_hooks = [], bs_post_hooks = [], bs_optional_components = JArr [],
      bs_excluded_components = JArr [], bs_database_strategy = ''both'', bs_updated_at = None\<rparr>"

definition settings_of :: "protection \<Rightarrow> string \<Rightarrow> backup_settings" where
  "settings_of s appId = (case map_of (settings s) appId of Some x \<Rightarrow> x | None \<Rightarrow> defaultSettings)"

definition effective_mode :: "backup_settings \<Rightarrow> string" where
  "effective_mode x =
     (case bs_consistency_mode x of
        Some m \<Rightarrow> m
      | None \<Rightarrow> if length (bs_pre_hooks x) + length (bs_post_hooks x) > 0 then ''quiesced'' else ''live'')"

definition settingsOut :: "protection \<Rightarrow> string \<Rightarrow> backup_settings \<times> string" where
  "settingsOut s appId = (settings_of s appId, effective_mode (settings_of s appId))"

definition hostSettingsOut :: "protection \<Rightarrow> string \<Rightarrow> host_settings" where
  "hostSettingsOut s hid =
     (case map_of (host_limits s) hid of
        Some x \<Rightarrow> x
      | None \<Rightarrow> \<lparr>hs_max_concurrent_jobs = 2, hs_window_start = None, hs_window_end = None,
                 hs_window_timezone = ''UTC''\<rparr>)"

section \<open>What a backup captures\<close>

text \<open>\<^verbatim>\<open>>>> 0\<close> reduces to 32 bits, so the hash is a 32-bit word.\<close>

definition name_hash :: "string \<Rightarrow> 32 word" where
  "name_hash name = fold (\<lambda>ch h. h * 31 + of_nat (code ch)) name 0"

definition sizeFor :: "string \<Rightarrow> nat" where
  "sizeFor name = 64 * 1024 ^ 2 + (unat (name_hash name) mod 2048) * 1024 ^ 2"

definition SKIP_BIND :: "string list" where
  "SKIP_BIND =
     [''/proc'', ''/sys'', ''/dev'', ''/run'', ''/var/run'', ''/etc/localtime'', ''/etc/timezone'', ''/etc/hosts'',
      ''/etc/hostname'', ''/etc/resolv.conf'', ''/etc/machine-id'', ''/tmp/.X11-unix'']"

definition skipBind :: "string \<Rightarrow> bool" where
  "skipBind src \<longleftrightarrow>
     endsWith src ''.sock'' \<or> src = ''/'' \<or> list_ex (\<lambda>p. src = p \<or> startsWith src (p @ ''/'')) SKIP_BIND"

text \<open>\<^verbatim>\<open>list.includes(name)\<close> on a stored JSON value: a list, a string (as a substring), and on
  anything else a \<^verbatim>\<open>TypeError\<close>, for which \<open>has_includes\<close> is false.\<close>

fun has_includes :: "json \<Rightarrow> bool" where
  "has_includes (JArr xs) = True"
| "has_includes (JStr s) = True"
| "has_includes _ = False"

fun includes_name :: "json \<Rightarrow> string \<Rightarrow> bool" where
  "includes_name (JArr xs) name = (JStr name \<in> set xs)"
| "includes_name (JStr s) name = includes_str s name"
| "includes_name _ name = False"

definition plan_entry :: "string \<Rightarrow> string \<Rightarrow> string \<Rightarrow> string option \<Rightarrow> plan_item" where
  "plan_entry name kind path vol =
     \<lparr>pl_name = name, pl_kind = kind, pl_path = path, pl_volume = vol, pl_required = True, pl_size = 0\<rparr>"

fun plan_binds :: "bind_mount list \<Rightarrow> string list \<Rightarrow> plan_item list" where
  "plan_binds [] seen = []"
| "plan_binds (b # bs) seen =
     (if bi_source b = [] \<or> bi_source b \<in> set seen \<or> skipBind (bi_source b) then plan_binds bs seen
      else plan_entry (''bind:'' @ bi_source b) ''bind_mount'' (bi_source b) None #
           plan_binds bs (bi_source b # seen))"

definition plan_candidates :: "analysis \<Rightarrow> plan_item list" where
  "plan_candidates x =
     plan_entry ''config'' ''config'' (case an_working_dir x of Some d \<Rightarrow> d | None \<Rightarrow> []) None #
     map (\<lambda>v. plan_entry (''volume:'' @ vo_name v) ''volume'' (vo_mountpoint v) (Some (vo_name v)))
       (filter (\<lambda>v. vo_protected_by_default v \<and> vo_mountpoint v \<noteq> []) (an_volumes x)) @
     plan_binds (an_bind_mounts x) []"

text \<open>\<open>None\<close> is the exception of \<^verbatim>\<open>includes\<close>.\<close>

definition planFor :: "protection \<Rightarrow> app option \<Rightarrow> plan_item list option" where
  "planFor s app =
     (case app of
        None \<Rightarrow> Some []
      | Some a \<Rightarrow>
          (case ap_analysis a of
             None \<Rightarrow> Some []
           | Some x \<Rightarrow>
               let st = settings_of s (ap_id a);
                   kept = filter (\<lambda>c. \<not> includes_name (bs_excluded_components st) (pl_name c)) (plan_candidates x)
               in if \<not> has_includes (bs_excluded_components st) then None
                  else if list_ex (\<lambda>c. pl_kind c \<noteq> ''config'') kept \<and> \<not> has_includes (bs_optional_components st)
                  then None
                  else Some (map (\<lambda>c. c\<lparr>pl_required := pl_kind c = ''config'' \<or>
                                          \<not> includes_name (bs_optional_components st) (pl_name c),
                                        pl_size := if pl_kind c = ''config'' then 48213 else sizeFor (pl_name c)\<rparr>)
                         kept)))"

section \<open>Manifests\<close>

definition comp_entry :: "int \<Rightarrow> string \<Rightarrow> string \<Rightarrow> string \<Rightarrow> string \<Rightarrow> captured" where
  "comp_entry now snapshot_id root_id name kind =
     \<lparr>mc_name = name, mc_kind = kind, mc_status = ''succeeded'', mc_parent = None, mc_path = None,
      mc_size_bytes = Some 0, mc_files = None, mc_volume_name = None, mc_database = None,
      cp_required = True, cp_snapshot_id = Some (CHR ''k'' # snapshot_id), cp_root_object_id = Some (CHR ''k'' # root_id),
      cp_started_at = now - DAY, cp_finished_at = now - DAY + MINUTE, cp_snapshot_source = None,
      cp_owner = None, cp_selinux_context = None, cp_capture_method = None, cp_error = None,
      cp_database_format = None, cp_validation = None, cp_file_name = None\<rparr>"

definition service_of :: "analysis \<Rightarrow> string \<Rightarrow> string option" where
  "service_of x name =
     map_of (rev (concat (map (\<lambda>svc. map (\<lambda>c. (c, se_name svc)) (se_containers svc)) (an_services x)))) name"

definition keep_field :: "json \<Rightarrow> string \<Rightarrow> (string \<times> json) list" where
  "keep_field m k = (case jfield m k of Some v \<Rightarrow> [(k, v)] | None \<Rightarrow> [])"

definition topology_mount :: "json \<Rightarrow> json" where
  "topology_mount m =
     JObj (keep_field m ''type'' @
       (if truthy (jfield m ''name'') then keep_field m ''name'' else []) @
       (if jfield m ''type'' = Some (JStr ''bind'') \<and> truthy (jfield m ''source'') then keep_field m ''source'' else []) @
       keep_field m ''destination'' @ keep_field m ''rw'')"

definition topology_service :: "analysis \<Rightarrow> string \<Rightarrow> string option" where
  "topology_service x name =
     (case service_of x name of Some svc \<Rightarrow> if svc \<noteq> [] \<and> svc \<noteq> name then Some svc else None | None \<Rightarrow> None)"

definition topologyOf :: "app option \<Rightarrow> topology option" where
  "topologyOf app =
     (case app of
        None \<Rightarrow> None
      | Some a \<Rightarrow>
          map_option (\<lambda>x.
            \<lparr>tp_containers = map (\<lambda>c.
               \<lparr>tc_id = cd_id c, tc_name = cd_name c, tc_service = topology_service x (cd_name c),
                tc_image = cd_image c, tc_state = cd_state c, tc_ports = cd_ports c,
                tc_mounts = map topology_mount (cd_mounts c), tc_networks = cd_networks c\<rparr>)
               (ap_containers_detail a),
             tp_networks = an_networks x,
             tp_volumes = map (\<lambda>v. (vo_name v, vo_external v)) (an_volumes x)\<rparr>)
          (ap_analysis a))"

text \<open>The components of one planned item: the item itself and, except for the configuration, the
  component with its file metadata.\<close>

definition item_components :: "int \<Rightarrow> (nat \<Rightarrow> string) \<Rightarrow> stored_rp \<Rightarrow> string \<Rightarrow> nat \<times> plan_item \<Rightarrow> captured list" where
  "item_components now rnd r app_name = (\<lambda>(j, c).
     (comp_entry now (rnd (4 * j)) (rnd (4 * j + 1)) (pl_name c) (pl_kind c))
       \<lparr>cp_required := pl_required c,
        cp_snapshot_source := Some (if pl_kind c = ''config'' then ''maint@dbr2:/config/'' @ app_name
                                    else ''agent@'' @ rp_hostname r @ '':'' @ pl_path c),
        mc_size_bytes := Some (pl_size c),
        mc_files := Some (if pl_kind c = ''config'' then 3
                          else nat (js_round (of_nat (pl_size c) / 1048576)) + 17),
        mc_path := (if pl_path c = [] then None else Some (pl_path c)),
        mc_volume_name := (case pl_volume c of Some v \<Rightarrow> if v = [] then None else Some v | None \<Rightarrow> None),
        cp_started_at := rp_created_at r, cp_finished_at := now\<rparr> #
     (if pl_kind c \<noteq> ''config'' then
        [(comp_entry now (rnd (4 * j + 2)) (rnd (4 * j + 3)) (''fsmeta:'' @ pl_name c) ''fsmeta'')
           \<lparr>mc_size_bytes := Some 40960, mc_files := Some 1, mc_parent := Some (pl_name c),
            cp_snapshot_source := Some (''maint@dbr2:/fsmeta/'' @ app_name),
            cp_started_at := rp_created_at r, cp_finished_at := now\<rparr>]
      else []))"

definition or_none :: "string option \<Rightarrow> string option" where
  "or_none x = (case x of Some s \<Rightarrow> if s = [] then None else Some s | None \<Rightarrow> None)"

definition appManifest ::
  "protection \<Rightarrow> int \<Rightarrow> (nat \<Rightarrow> string) \<Rightarrow> stored_rp \<Rightarrow> app \<Rightarrow> plan_item list \<Rightarrow> manifest" where
  "appManifest s now rnd r a plan =
     \<lparr>mf_schema_version = 1, mf_recovery_point_id = rp_id r, mf_status = ''complete'',
      mf_created_at = rp_created_at r, mf_consistency_mode = rp_consistency_mode r,
      mf_consistency_point = Some (case rp_consistency_point r of Some t \<Rightarrow> t | None \<Rightarrow> rp_created_at r),
      mf_crash_consistent_only = rp_crash_consistent_only r, mf_quiesce = None,
      mf_application_id = ap_id a, mf_application_name = appName a,
      mf_compose_project = (case ap_analysis a of Some x \<Rightarrow> or_none (an_compose_project x) | None \<Rightarrow> None),
      mf_working_dir = (case ap_analysis a of Some x \<Rightarrow> or_none (an_working_dir x) | None \<Rightarrow> None),
      mf_host_id = rp_host_id r, mf_hostname = rp_hostname r, mf_repository_id = rp_repository_id r,
      mf_repository_name =
        (case find (\<lambda>x. re_id x = rp_repository_id r) (repositories s) of
           Some x \<Rightarrow> re_name x | None \<Rightarrow> ''nas01-backups''),
      mf_components = concat (map (item_components now rnd r (ap_name a)) (enumerate 0 plan)),
      mf_images =
        (case ap_analysis a of
           None \<Rightarrow> []
         | Some x \<Rightarrow> map (\<lambda>im. \<lparr>mi_service = None, mi_ref = ig_reference im,
                                 mi_digest = (case ig_digests im of d # ds \<Rightarrow> or_none (Some d) | [] \<Rightarrow> None)\<rparr>)
                       (an_images x)),
      mf_topology = topologyOf (Some a),
      mf_workflow_id = rp_workflow_id r,
      mf_run_id = (case rp_run_id r of Some u \<Rightarrow> u | None \<Rightarrow> rnd (4 * length plan)),
      mf_trigger = rp_trigger r, mf_contract = None\<rparr>"

definition simpleManifest :: "int \<Rightarrow> (nat \<Rightarrow> string) \<Rightarrow> stored_rp \<Rightarrow> string \<Rightarrow> string \<Rightarrow> manifest" where
  "simpleManifest now rnd r app_name vol =
     \<lparr>mf_schema_version = 1, mf_recovery_point_id = rp_id r, mf_status = ''complete'',
      mf_created_at = rp_created_at r, mf_consistency_mode = rp_consistency_mode r,
      mf_consistency_point = rp_consistency_point r,
      mf_crash_consistent_only = rp_crash_consistent_only r, mf_quiesce = None,
      mf_application_id = rp_application_id r, mf_application_name = app_name,
      mf_compose_project = None, mf_working_dir = None,
      mf_host_id = rp_host_id r, mf_hostname = rp_hostname r, mf_repository_id = rp_repository_id r,
      mf_repository_name = ''nas01-backups'',
      mf_components =
        [(comp_entry now (rnd 0) (rnd 1) ''config'' ''config'')
           \<lparr>cp_snapshot_source := Some (''maint@dbr2:/config/'' @ app_name),
            mc_size_bytes := Some 12004, mc_files := Some 1\<rparr>,
         (comp_entry now (rnd 2) (rnd 3) (''volume:'' @ vol) ''volume'')
           \<lparr>cp_snapshot_source := Some (''agent@'' @ rp_hostname r @ '':/var/lib/docker/volumes/'' @ vol @ ''/_data''),
            mc_size_bytes := Some (rp_size_bytes r - 12004), mc_files := Some 1311, mc_volume_name := Some vol,
            cp_owner := Some (999, 999, ''0700'')\<rparr>],
      mf_images = [], mf_topology = None,
      mf_workflow_id = rp_workflow_id r, mf_run_id = rnd 4, mf_trigger = rp_trigger r, mf_contract = None\<rparr>"

text \<open>The evaluation of the application's contract when its recovery point is captured; \<open>capture\<close> is
  the hook another module installs.\<close>

definition withContract ::
  "(string \<Rightarrow> captured list \<Rightarrow> contract_note option) \<Rightarrow> manifest \<Rightarrow> manifest" where
  "withContract capture m =
     (case capture (mf_application_id m) (mf_components m) of
        Some c \<Rightarrow> m\<lparr>mf_contract := Some c\<rparr> | None \<Rightarrow> m)"

definition verificationOf :: "manifest option \<Rightarrow> rat \<Rightarrow> (string \<times> string list) list \<Rightarrow> verification" where
  "verificationOf m readPercent errors =
     \<lparr>vn_read_percent = readPercent,
      vn_components =
        map (\<lambda>c. let files = (case mc_files c of Some n \<Rightarrow> n | None \<Rightarrow> 1) in
          \<lparr>vf_name = mc_name c, vf_snapshot_id = the (cp_snapshot_id c), vf_files = files,
           vf_dirs = (if mc_kind c = ''volume'' \<or> mc_kind c = ''bind_mount''
                      then max 1 (js_round (of_nat files / 40)) else 0),
           vf_files_read = max 1 (js_round (of_nat files * readPercent / 100)),
           vf_bytes_read = js_round (of_nat (case mc_size_bytes c of Some n \<Rightarrow> n | None \<Rightarrow> 0) * readPercent / 100),
           vf_errors = map_of errors (mc_name c)\<rparr>)
        (filter (\<lambda>c. mc_status c = ''succeeded'' \<and> or_none (cp_snapshot_id c) \<noteq> None)
          (case m of Some x \<Rightarrow> mf_components x | None \<Rightarrow> []))\<rparr>"

section \<open>New records\<close>

definition rp_base :: "int \<Rightarrow> string \<Rightarrow> string \<Rightarrow> string \<Rightarrow> string \<Rightarrow> string \<Rightarrow> rp_state \<Rightarrow> stored_rp" where
  "rp_base created bytes app_id app_name host hostname state =
     \<lparr>rp_id = rpId created bytes, rp_application_id = app_id, rp_application_name = app_name,
      rp_host_id = host, rp_hostname = hostname, rp_repository_id = NAS01, rp_state = state,
      rp_status = None, rp_verification = ''unverified'', rp_consistency_mode = ''live'',
      rp_consistency_point = Some created, rp_crash_consistent_only = True, rp_trigger = ''manual'',
      rp_workflow_id = ''application/'' @ app_id, rp_size_bytes = 0, rp_component_count = 0,
      rp_error = None, rp_created_at = created, rp_committed_at = None, rp_verified_at = None,
      rp_delete_after = None, rp_delete_reason = None, rp_deleted_at = None,
      rp_manifest = None, rp_verification_report = None, rp_start_ms = None, rp_finish_at = None,
      rp_plan = None, rp_run_id = None, rp_announced = False\<rparr>"

definition live_base :: "int \<Rightarrow> int \<Rightarrow> int \<Rightarrow> live_storage" where
  "live_base all_bytes free used =
     \<lparr>lv_initialized = True, lv_server_running = True, lv_kopia_version = ''0.22.3'',
      lv_storage_healthy = True, lv_total_bytes = all_bytes, lv_free_bytes = free, lv_used_bytes = used\<rparr>"

definition repo_base :: "int \<Rightarrow> string \<Rightarrow> string \<Rightarrow> string \<Rightarrow> string \<Rightarrow> string \<Rightarrow> stored_repo" where
  "repo_base now cert kopia rid name server =
     \<lparr>re_id = rid, re_name = name, re_description = [], re_backend = ''nfs'', re_status = Ready,
      re_is_default = False, re_server_url = server, re_internal_server_url = JStr [],
      re_management_url = ''http://dbr2-reposerver:8091'', re_cert_sha256 = cert,
      re_kopia_repository_id = kopia, re_splitter = ''DYNAMIC-4M-BUZHASH'', re_escrow_recipients = 2,
      re_escrow_generated_at = now - 30 * DAY, re_escrow_confirmed_at = Some (now - 30 * DAY + 20 * MINUTE),
      re_last_reindex_at = None, re_last_verified_at = None, re_delete_after = None,
      re_delete_reason = None, re_is_system = False, re_created_at = now - 30 * DAY,
      re_live = Some (live_base (8 * TiB) (js_round (24 / 5 * of_int TiB)) (js_round (16 / 5 * of_int TiB))),
      re_live_error = None, re_usage_by_host = [],
      re_code = [], re_package = [], re_recipient_ids = [], re_private_delete_reason = None\<rparr>"

section \<open>Moving time along\<close>

definition deletion_due :: "int \<Rightarrow> stored_rp \<Rightarrow> bool" where
  "deletion_due now r \<longleftrightarrow>
     (case rp_delete_after r of Some t \<Rightarrow> t \<le> now | None \<Rightarrow> False) \<and>
     rp_state r \<in> {RpCommitted, RpMissing, RpDeleting}"

definition expire_rp :: "int \<Rightarrow> stored_rp \<Rightarrow> stored_rp" where
  "expire_rp now r =
     (if deletion_due now r then r\<lparr>rp_state := RpDeleted, rp_deleted_at := Some now\<rparr> else r)"

definition retire_repo :: "int \<Rightarrow> stored_repo \<Rightarrow> stored_repo" where
  "retire_repo now r =
     (if re_status r = PendingDeletion \<and> (case re_delete_after r of Some t \<Rightarrow> t \<le> now | None \<Rightarrow> False)
      then r\<lparr>re_status := Retired\<rparr> else r)"

definition job_base :: "stored_rp \<Rightarrow> string \<Rightarrow> (string \<times> json) list" where
  "job_base r run =
     [(''command_id'', JStr (''application/'' @ rp_application_id r @ ''/'' @ run @ ''/snapshot-components'')),
      (''host_id'', JStr (rp_host_id r)), (''kind'', JStr ''snapshot_components''),
      (''workflow_id'', JStr (rp_workflow_id r)), (''run_id'', JStr run),
      (''application_id'', JStr (rp_application_id r))]"

definition backup_updated :: "stored_rp \<Rightarrow> string \<Rightarrow> effect" where
  "backup_updated r state =
     Publish ''backup.updated'' ''backup.read''
       (JObj [(''recovery_point_id'', JStr (rp_id r)), (''application_id'', JStr (rp_application_id r)),
              (''state'', JStr state), (''workflow_id'', JStr (rp_workflow_id r))])"

definition job_progress :: "stored_rp \<Rightarrow> string \<Rightarrow> string \<Rightarrow> (string \<times> json) list \<Rightarrow> effect" where
  "job_progress r run state progress =
     Publish ''job.progress'' ''backup.read''
       (JObj (job_base r run @ [(''state'', JStr state), (''progress'', JObj progress)]))"

definition count_json :: "nat \<Rightarrow> json" where
  "count_json n = JNum (of_nat n)"

definition commit_rp ::
  "(string \<Rightarrow> captured list \<Rightarrow> contract_note option) \<Rightarrow> protection \<Rightarrow> int \<Rightarrow> (nat \<Rightarrow> string) \<Rightarrow>
   app option \<Rightarrow> plan_item list \<Rightarrow> stored_rp \<Rightarrow> stored_rp" where
  "commit_rp capture s now rnd app plan r =
     (let r1 = r\<lparr>rp_state := RpCommitted, rp_status := Some ''complete'', rp_committed_at := Some now,
                rp_consistency_point := Some (case rp_consistency_point r of Some t \<Rightarrow> t | None \<Rightarrow> rp_created_at r)\<rparr>;
          m = withContract capture
                (case app of
                   Some a \<Rightarrow> appManifest s now rnd r1 a plan
                 | None \<Rightarrow> simpleManifest now rnd r1 (rp_application_name r) ''data'')
      in r1\<lparr>rp_manifest := Some m,
            rp_size_bytes := sum_list (map (\<lambda>c. case mc_size_bytes c of Some n \<Rightarrow> n | None \<Rightarrow> 0) (mf_components m)),
            rp_component_count := length (mf_components m)\<rparr>)"

definition next_alert_id :: "alert list \<Rightarrow> nat" where
  "next_alert_id als = foldr max (map al_id als) 0 + 1"

definition committed_alert :: "int \<Rightarrow> alert list \<Rightarrow> stored_rp \<Rightarrow> alert" where
  "committed_alert now als r =
     \<lparr>al_id = next_alert_id als, al_severity = ''info'', al_type = ''backup.completed'',
      al_target_type = ''application'', al_target_id = rp_application_id r,
      al_message = ''Backup of '' @ rp_application_name r @ '' committed (Complete, '' @
        show_nat (rp_component_count r) @ '' components)'',
      al_details = JObj [(''recovery_point_id'', JStr (rp_id r))],
      al_created_at = now, al_acknowledged_at = None\<rparr>"

definition alert_created :: "alert \<Rightarrow> effect" where
  "alert_created a =
     Publish ''alert.created'' ''backup.read''
       (JObj [(''severity'', JStr (al_severity a)), (''type'', JStr (al_type a)),
              (''target_type'', JStr (al_target_type a)), (''target_id'', JStr (al_target_id a)),
              (''message'', JStr (al_message a))])"

text \<open>The position of a running backup in its plan: the item being captured and the fraction of it
  that is done.\<close>

definition plan_position :: "int \<Rightarrow> int \<Rightarrow> int \<Rightarrow> nat \<Rightarrow> nat \<times> rat" where
  "plan_position now start finish n =
     (let frac = min (999 / 1000) (max 0 (of_int (now - start) / of_int (finish - start))) :: rat;
          pos = frac * of_nat n;
          i = min (int n - 1) \<lfloor>pos\<rfloor>
      in (nat i, pos - of_int i))"

definition running_progress :: "plan_item list \<Rightarrow> nat \<Rightarrow> rat \<Rightarrow> (string \<times> json) list" where
  "running_progress plan i part =
     (let c = plan ! i;
          hashed = js_round (of_nat (pl_size c) * part)
      in [(''component'', JStr (pl_name c)), (''hashed_bytes'', JNum (of_int hashed)),
          (''uploaded_bytes'', JNum (of_int (js_round (of_int hashed * (37 / 100))))),
          (''files'', JNum (of_int (js_round ((if pl_kind c = ''config'' then 3
             else of_nat (pl_size c) / 1048576 + 17) * part)))),
          (''done'', count_json i), (''total'', count_json (length plan))])"

text \<open>One pending recovery point; \<open>None\<close> is the exception of \<^verbatim>\<open>planFor\<close>.\<close>

definition advance_rp ::
  "(string \<Rightarrow> captured list \<Rightarrow> contract_note option) \<Rightarrow> fleet \<Rightarrow> protection \<Rightarrow> int \<Rightarrow> (nat \<Rightarrow> string) \<Rightarrow>
   alert list \<Rightarrow> stored_rp \<Rightarrow> (stored_rp \<times> alert list \<times> effect list) option" where
  "advance_rp capture f s now rnd als r =
     (case rp_finish_at r of
        None \<Rightarrow> Some (r, als, [])
      | Some finish \<Rightarrow>
          if rp_state r \<noteq> RpPending \<or> finish = 0 then Some (r, als, [])
          else
            let app = find_app (rp_application_id r) f in
            (case (case rp_plan r of Some p \<Rightarrow> Some p | None \<Rightarrow> planFor s app) of
               None \<Rightarrow> None
             | Some plan \<Rightarrow>
                 let run = (case rp_run_id r of Some u \<Rightarrow> u | None \<Rightarrow> rnd 0);
                     r1 = r\<lparr>rp_plan := Some plan, rp_run_id := Some run\<rparr>
                 in if finish \<le> now then
                      let r2 = commit_rp capture s now (\<lambda>k. rnd (Suc k)) app plan r1;
                          al = committed_alert now als r2
                      in Some (r2, als @ [al],
                           [job_progress r2 run ''succeeded''
                              [(''done'', count_json (length plan)), (''total'', count_json (length plan))],
                            backup_updated r2 ''committed'', alert_created al])
                    else if \<not> rp_announced r1 then
                      Some (r1\<lparr>rp_announced := True\<rparr>, als,
                        [backup_updated r1 ''pending'', job_progress r1 run ''accepted'' [(''queued'', JBool True)]])
                    else if plan = [] then Some (r1, als, [])
                    else
                      let start = (case rp_start_ms r1 of Some t \<Rightarrow> t | None \<Rightarrow> rp_created_at r1);
                          (i, part) = plan_position now start finish (length plan)
                      in Some (r1, als, [job_progress r1 run ''running'' (running_progress plan i part)])))"

text \<open>Separate streams of random values for the elements of a list.\<close>

definition sub_draws :: "(nat \<Rightarrow> string) \<Rightarrow> nat \<Rightarrow> nat \<Rightarrow> string" where
  "sub_draws rnd i k = rnd (2 ^ i * (2 * k + 1))"

fun advance_loop ::
  "(string \<Rightarrow> captured list \<Rightarrow> contract_note option) \<Rightarrow> fleet \<Rightarrow> protection \<Rightarrow> int \<Rightarrow> (nat \<Rightarrow> string) \<Rightarrow>
   nat \<Rightarrow> alert list \<Rightarrow> stored_rp list \<Rightarrow> stored_rp list \<times> alert list \<times> effect list \<times> bool" where
  "advance_loop capture f s now rnd i als [] = ([], als, [], True)"
| "advance_loop capture f s now rnd i als (r # rs) =
     (case advance_rp capture f s now (sub_draws rnd i) als r of
        None \<Rightarrow> (r # rs, als, [], False)
      | Some (r', als', es) \<Rightarrow>
          let (rs', als'', es', ok) = advance_loop capture f s now rnd (Suc i) als' rs
          in (r' # rs', als'', es @ es', ok))"

text \<open>The last component tells whether the run completed, that is, raised no exception.\<close>

definition advance ::
  "(string \<Rightarrow> captured list \<Rightarrow> contract_note option) \<Rightarrow> fleet \<Rightarrow> int \<Rightarrow> (nat \<Rightarrow> string) \<Rightarrow> protection \<Rightarrow>
   protection \<times> effect list \<times> bool" where
  "advance capture f now rnd s =
     (let s1 = s\<lparr>recovery_points := map (expire_rp now) (recovery_points s),
                repositories := map (retire_repo now) (repositories s)\<rparr>;
          (rps, als, es, ok) = advance_loop capture f s1 now rnd 0 (alerts s1) (recovery_points s1)
      in (s1\<lparr>recovery_points := rps, alerts := als\<rparr>, es, ok))"

end
