(* ===== verification/Protection_Seed.thy ===== *)
theory Protection_Seed
  imports Protection_Data
begin

text \<open>
  The initial data of the development server's repositories and backups
  (\<^verbatim>\<open>scripts/mock-protection.mjs\<close>): the state the server starts in. The clock at the start and the
  random values are arguments; each record draws its own values.
\<close>

section \<open>Escrow and repositories\<close>

definition seed_recipients :: "int \<Rightarrow> recipient list" where
  "seed_recipients now =
     [\<lparr>ec_id = ''6a1c2d3e-4f50-4617-8293-a4b5c6d7e801'', ec_name = ''Ada Lovelace (IT security)'',
       ec_public_key = ''age1ql3z7hjy54pw3hyww5ayyfg7zqgvc7w3j2elw8zmrj2kg5sfn9aqmcac8p'',
       ec_created_at = now - 40 * DAY\<rparr>,
      \<lparr>ec_id = ''6a1c2d3e-4f50-4617-8293-a4b5c6d7e802'', ec_name = ''Grace Hopper (infrastructure lead)'',
       ec_public_key = ''ssh-ed25519 AAAAC3NzaC1lZDI1NTE5AAAAIOMqqnkVzrm0SdG6UOoqKLsabgH5C9okWi0dh2l9GKJl grace@ops'',
       ec_created_at = now - 40 * DAY + HOUR\<rparr>]"

definition nas01_repo :: "int \<Rightarrow> (nat \<Rightarrow> string) \<Rightarrow> stored_repo" where
  "nas01_repo now rnd =
     (repo_base now (rnd 0) (rnd 1) NAS01 ''nas01-backups'' ''https://backup.example.lan:51515'')
       \<lparr>re_description := ''Primary Repository on nas01 (NFS, RAID 6)'', re_is_default := True,
        re_is_system := True, re_last_verified_at := Some (now - 5 * DAY),
        re_recipient_ids := [''6a1c2d3e-4f50-4617-8293-a4b5c6d7e801'', ''6a1c2d3e-4f50-4617-8293-a4b5c6d7e800''],
        re_internal_server_url := JStr ''https://dbr2-reposerver:51515'',
        re_last_reindex_at := Some (now - 2 * DAY),
        re_usage_by_host :=
          [\<lparr>hu_host_id = HOST_PROD, hu_hostname = ''docker-prod-01'', hu_applications = 3,
            hu_latest_bytes = js_round (2063 / 5 * of_int GiB)\<rparr>,
           \<lparr>hu_host_id = HOST_EDGE, hu_hostname = ''docker-edge-02'', hu_applications = 1,
            hu_latest_bytes = js_round (183 / 10 * of_int GiB)\<rparr>]\<rparr>"

definition lab_repo :: "int \<Rightarrow> (nat \<Rightarrow> string) \<Rightarrow> stored_repo" where
  "lab_repo now rnd =
     (repo_base now (rnd 2) (rnd 3) LAB ''lab-scratch'' ''https://lab-backup.example.lan:51515'')
       \<lparr>re_description := ''Scratch Repository for the lab hosts'', re_backend := ''filesystem'',
        re_status := AwaitingEscrow, re_escrow_generated_at := now - 3 * HOUR,
        re_escrow_confirmed_at := None, re_created_at := now - 3 * HOUR,
        re_live := Some (live_base (2 * TiB) (js_round (3 / 10 * of_int TiB)) (js_round (17 / 10 * of_int TiB))),
        re_code := ''K7QX-M2DA-PL4W-ZT6R''\<rparr>"

definition offsite_repo :: "int \<Rightarrow> (nat \<Rightarrow> string) \<Rightarrow> stored_repo" where
  "offsite_repo now rnd =
     (repo_base now (rnd 4) (rnd 5) OFFSITE ''offsite-nfs'' ''https://offsite-backup.example.net:51515'')
       \<lparr>re_description := ''Replica target in the second data center'', re_status := Unavailable,
        re_live := None, re_live_error := Some ''dial tcp 10.20.5.20:8091: connect: connection refused'',
        re_last_reindex_at := Some (now - 12 * DAY), re_created_at := now - 120 * DAY,
        re_escrow_generated_at := now - 100 * DAY,
        re_escrow_confirmed_at := Some (now - 100 * DAY + 30 * MINUTE)\<rparr>"

definition oldnas_repo :: "int \<Rightarrow> (nat \<Rightarrow> string) \<Rightarrow> stored_repo" where
  "oldnas_repo now rnd =
     (repo_base now (rnd 6) (rnd 7) OLDNAS ''old-nas02'' ''https://old-nas02.example.lan:51515'')
       \<lparr>re_description := ''Previous NAS, replaced by nas01'', re_status := PendingDeletion,
        re_delete_after := Some (now + 2 * DAY),
        re_delete_reason := Some ''Replaced by nas01; share decommissioned'',
        re_private_delete_reason := Some ''Hardware replaced by nas01; data migrated'',
        re_created_at := now - 400 * DAY,
        re_live := Some (live_base (4 * TiB) (js_round (11 / 10 * of_int TiB)) (js_round (29 / 10 * of_int TiB)))\<rparr>"

definition seal_repo :: "int \<Rightarrow> (nat \<Rightarrow> string) \<Rightarrow> nat \<times> stored_repo \<Rightarrow> stored_repo" where
  "seal_repo now rnd = (\<lambda>(i, r).
     let c = (if re_code r = [] then newCode (rnd (8 + 2 * i)) else re_code r)
     in r\<lparr>re_code := c, re_package := fakePackage (rnd (9 + 2 * i)) (re_name r) c,
          re_recipient_ids := (if re_recipient_ids r = [] then map ec_id (seed_recipients now) else re_recipient_ids r)\<rparr>)"

definition seed_repositories :: "int \<Rightarrow> (nat \<Rightarrow> string) \<Rightarrow> stored_repo list" where
  "seed_repositories now rnd =
     map (seal_repo now rnd)
       (enumerate 0 [nas01_repo now rnd, lab_repo now rnd, offsite_repo now rnd, oldnas_repo now rnd])"

definition seed_settings :: "int \<Rightarrow> (string \<times> backup_settings) list" where
  "seed_settings now =
     [(SHOP,
       \<lparr>bs_repository_id = None, bs_consistency_mode = None, bs_max_quiesce_seconds = 1800,
        bs_pre_hooks =
          [JObj [(''container'', JStr ''db''),
                 (''command'', JArr [JStr ''sh'', JStr ''-c'', JStr (''psql -U shop -c '' @ [DQ] @ ''CHECKPOINT'' @ [DQ])]),
                 (''timeout_seconds'', JNum 120)]],
        bs_post_hooks = [], bs_optional_components = JArr [JStr ''bind:/srv/shop/uploads''],
        bs_excluded_components = JArr [], bs_database_strategy = ''both'',
        bs_updated_at = Some (now - 5 * DAY)\<rparr>)]"

definition seed_host_limits :: "(string \<times> host_settings) list" where
  "seed_host_limits =
     [(HOST_PROD, \<lparr>hs_max_concurrent_jobs = 2, hs_window_start = Some (22 * 60), hs_window_end = Some (5 * 60 + 30),
                    hs_window_timezone = ''America/Chicago''\<rparr>)]"

section \<open>Recovery points\<close>

definition uploads_component :: "int \<Rightarrow> (nat \<Rightarrow> string) \<Rightarrow> bool \<Rightarrow> captured" where
  "uploads_component now rnd partial =
     (let c = (comp_entry now (rnd 6) (rnd 7) ''bind:/srv/shop/uploads'' ''bind_mount'')
                \<lparr>cp_required := False, mc_path := Some ''/srv/shop/uploads''\<rparr>
      in if partial then
           c\<lparr>mc_status := ''failed'', cp_snapshot_id := None, cp_root_object_id := None,
             cp_error := Some ''open /srv/shop/uploads/tmp/.lock: permission denied''\<rparr>
         else
           c\<lparr>cp_snapshot_source := Some ''agent@docker-prod-01:/srv/shop/uploads'',
             mc_size_bytes := Some 3221225472, mc_files := Some 18433,
             cp_owner := Some (1000, 1000, ''0755''),
             cp_selinux_context := Some ''system_u:object_r:container_file_t:s0:c12,c345'',
             cp_capture_method := Some ''live-path''\<rparr>)"

definition shop_components :: "int \<Rightarrow> (nat \<Rightarrow> string) \<Rightarrow> bool \<Rightarrow> captured list" where
  "shop_components now rnd partial =
     [(comp_entry now (rnd 0) (rnd 1) ''config'' ''config'')
        \<lparr>cp_snapshot_source := Some ''maint@dbr2:/config/shop'', mc_size_bytes := Some 48213,
         mc_files := Some 4, mc_path := Some ''/srv/shop'', cp_capture_method := Some ''agent-archive''\<rparr>,
      (comp_entry now (rnd 2) (rnd 3) ''volume:shop_pgdata'' ''volume'')
        \<lparr>cp_snapshot_source := Some ''agent@docker-prod-01:/var/lib/docker/volumes/shop_pgdata/_data'',
         mc_size_bytes := Some 12884901888, mc_files := Some 2143,
         mc_path := Some ''/var/lib/docker/volumes/shop_pgdata/_data'', mc_volume_name := Some ''shop_pgdata'',
         cp_owner := Some (999, 999, ''0700''),
         cp_selinux_context := Some ''system_u:object_r:container_file_t:s0'',
         cp_capture_method := Some ''live-path''\<rparr>,
      (comp_entry now (rnd 4) (rnd 5) ''fsmeta:volume:shop_pgdata'' ''fsmeta'')
        \<lparr>cp_snapshot_source := Some ''maint@dbr2:/fsmeta/shop/volume-shop_pgdata'',
         mc_size_bytes := Some 91442, mc_files := Some 1, mc_parent := Some ''volume:shop_pgdata''\<rparr>,
      uploads_component now rnd partial,
      (let c = (comp_entry now (rnd 8) (rnd 9) ''fsmeta:bind:/srv/shop/uploads'' ''fsmeta'')
                 \<lparr>cp_snapshot_source := Some ''maint@dbr2:/fsmeta/shop/bind-srv-shop-uploads'',
                  mc_size_bytes := Some (if partial then 0 else 402113), mc_files := Some 1,
                  mc_parent := Some ''bind:/srv/shop/uploads''\<rparr>
       in if partial then c\<lparr>mc_status := ''skipped'', cp_snapshot_id := None, cp_root_object_id := None\<rparr> else c)]"

definition shopManifest :: "fleet \<Rightarrow> int \<Rightarrow> (nat \<Rightarrow> string) \<Rightarrow> stored_rp \<Rightarrow> bool \<Rightarrow> manifest" where
  "shopManifest f now rnd r partial =
     \<lparr>mf_schema_version = 1, mf_recovery_point_id = rp_id r,
      mf_status = (if partial then ''partial'' else ''complete''), mf_created_at = rp_created_at r,
      mf_consistency_mode = rp_consistency_mode r, mf_consistency_point = rp_consistency_point r,
      mf_crash_consistent_only = rp_crash_consistent_only r,
      mf_quiesce =
        (if rp_consistency_mode r = ''quiesced''
         then Some (rp_consistency_point r, (case rp_consistency_point r of Some t \<Rightarrow> t + 94000 | None \<Rightarrow> 0)) else None),
      mf_application_id = SHOP, mf_application_name = ''Web shop'', mf_compose_project = Some ''shop'',
      mf_working_dir = Some ''/srv/shop'', mf_host_id = HOST_PROD, mf_hostname = ''docker-prod-01'',
      mf_repository_id = NAS01, mf_repository_name = ''nas01-backups'',
      mf_components = shop_components now rnd partial,
      mf_images =
        [\<lparr>mi_service = Some ''web'', mi_ref = ''registry.example.com/shop/web:2.4.1'',
          mi_digest = Some ''registry.example.com/shop/web@sha256:a1ea29fa28355559ef137d71fc570e508a214ec84ff8083e39bc5428980b015e''\<rparr>,
         \<lparr>mi_service = Some ''db'', mi_ref = ''postgres:18-alpine'',
          mi_digest = Some ''postgres@sha256:d3e1620b530c944afa6e887d22eb899824da68e19c52024bf98f5220c88a65b2''\<rparr>,
         \<lparr>mi_service = Some ''worker'', mi_ref = ''shop-worker:dev'', mi_digest = None\<rparr>],
      mf_topology = topologyOf (find_app SHOP f),
      mf_workflow_id = rp_workflow_id r, mf_run_id = rnd 10, mf_trigger = rp_trigger r, mf_contract = None\<rparr>"

definition shop_contract_note :: "bool \<Rightarrow> contract_note" where
  "shop_contract_note ok =
     \<lparr>cn_satisfied = ok, cn_max_rpo_minutes = Some 1440,
      cn_required_components = [''config'', ''volume:shop_pgdata'', ''bind:/srv/shop/uploads''],
      cn_missing_components = (if ok then [] else [''bind:/srv/shop/uploads''])\<rparr>"

definition shop_rp :: "int \<Rightarrow> string \<Rightarrow> rp_state \<Rightarrow> stored_rp" where
  "shop_rp created bytes state = rp_base created bytes SHOP ''Web shop'' HOST_PROD ''docker-prod-01'' state"

definition shop_complete :: "fleet \<Rightarrow> int \<Rightarrow> (nat \<Rightarrow> string) \<Rightarrow> stored_rp" where
  "shop_complete f now rnd =
     (let r = (shop_rp (now - 6 * HOUR) (rnd 0) RpCommitted)
            \<lparr>rp_status := Some ''complete'', rp_verification := ''verified'',
             rp_verified_at := Some (now - 5 * DAY + 6 * HOUR), rp_consistency_mode := ''quiesced'',
             rp_crash_consistent_only := False, rp_trigger := ''schedule'', rp_size_bytes := 16106838415,
             rp_component_count := 5, rp_committed_at := Some (now - 6 * HOUR + 7 * MINUTE)\<rparr>;
          m = (shopManifest f now (\<lambda>k. rnd (Suc k)) r False)\<lparr>mf_contract := Some (shop_contract_note True)\<rparr>
      in r\<lparr>rp_manifest := Some m, rp_verification_report := Some (verificationOf (Some m) 10 [])\<rparr>)"

definition shop_partial :: "fleet \<Rightarrow> int \<Rightarrow> (nat \<Rightarrow> string) \<Rightarrow> stored_rp" where
  "shop_partial f now rnd =
     (let r = (shop_rp (now - 30 * HOUR) (rnd 0) RpCommitted)
            \<lparr>rp_status := Some ''partial'', rp_size_bytes := 12885041543, rp_component_count := 5,
             rp_error := Some ''optional component bind:/srv/shop/uploads failed: permission denied'',
             rp_committed_at := Some (now - 30 * HOUR + 5 * MINUTE),
             rp_delete_after := Some (now + 4 * DAY),
             rp_delete_reason := Some ''Superseded by the verified quiesced backup''\<rparr>
      in r\<lparr>rp_manifest := Some ((shopManifest f now (\<lambda>k. rnd (Suc k)) r True)
               \<lparr>mf_contract := Some (shop_contract_note False)\<rparr>)\<rparr>)"

definition shop_deleted :: "int \<Rightarrow> (nat \<Rightarrow> string) \<Rightarrow> stored_rp" where
  "shop_deleted now rnd =
     (shop_rp (now - 14 * DAY) (rnd 0) RpDeleted)
       \<lparr>rp_status := Some ''complete'', rp_size_bytes := 11811160064, rp_component_count := 5,
        rp_committed_at := Some (now - 14 * DAY + 6 * MINUTE), rp_delete_after := Some (now - 3 * DAY),
        rp_delete_reason := Some ''Test backup before the migration'',
        rp_deleted_at := Some (now - 3 * DAY + 10 * MINUTE)\<rparr>"

definition shop_failed :: "int \<Rightarrow> (nat \<Rightarrow> string) \<Rightarrow> stored_rp" where
  "shop_failed now rnd =
     (shop_rp (now - 54 * HOUR) (rnd 0) RpFailed)
       \<lparr>rp_consistency_mode := ''quiesced'', rp_crash_consistent_only := False, rp_consistency_point := None,
        rp_trigger := ''schedule'',
        rp_error := Some ''pre-hook 1 (db) exited with status 2: psql: error: connection to server on socket failed''\<rparr>"

definition mft_database :: "int \<Rightarrow> (nat \<Rightarrow> string) \<Rightarrow> captured" where
  "mft_database now rnd =
     (comp_entry now (rnd 5) (rnd 6) ''database:db'' ''database'')
       \<lparr>mc_database := Some \<lparr>db_engine = ''postgresql'', db_container = ''mft-pg-db-1'', db_service = ''db''\<rparr>,
        cp_database_format := Some ''pg_dumpall-sql-zstd'',
        cp_validation := Some ''pg_dumpall exit 0; zstd frame verified; 42 CREATE statements'',
        cp_file_name := Some ''db.sql.zst'', cp_snapshot_source := Some ''agent@docker-prod-01:database/db'',
        mc_size_bytes := Some 18874368, mc_files := Some 1, cp_capture_method := Some ''logical-dump''\<rparr>"

definition mft_errors :: "manifest \<Rightarrow> (string \<times> string list) list" where
  "mft_errors m =
     (case find (\<lambda>c. mc_kind c = ''volume'') (mf_components m) of
        None \<Rightarrow> []
      | Some vol \<Rightarrow>
          [(mc_name vol,
            [''snapshot '' @ (case cp_snapshot_id vol of Some i \<Rightarrow> i | None \<Rightarrow> ''undefined'') @
               '': object 4f1a9c2e7b3d5a60 is missing'',
             ''file /pg_wal/000000010000000000000003: hash mismatch''])])"

definition mft_rp :: "fleet \<Rightarrow> int \<Rightarrow> (nat \<Rightarrow> string) \<Rightarrow> stored_rp" where
  "mft_rp f now rnd =
     (let r = (rp_base (now - 9 * HOUR) (rnd 0) MFT ''mft-pg'' HOST_PROD ''docker-prod-01'' RpCommitted)
            \<lparr>rp_status := Some ''complete'', rp_verification := ''verification_failed'',
             rp_verified_at := Some (now - 2 * HOUR), rp_size_bytes := 1342177280 + 18874368,
             rp_component_count := 3, rp_committed_at := Some (now - 9 * HOUR + 2 * MINUTE)\<rparr>;
          m = simpleManifest now (\<lambda>k. rnd (Suc k)) r ''mft-pg''
                ''3ab8b905bbca892b57bde6f1c10c79e8e86abd14032aa7e854cc8f15bac0eba0'';
          m' = m\<lparr>mf_components := mf_components m @ [mft_database now (\<lambda>k. rnd (Suc k))],
                 mf_topology := topologyOf (find_app MFT f)\<rparr>
      in r\<lparr>rp_manifest := Some m', rp_verification_report := Some (verificationOf (Some m') 10 (mft_errors m'))\<rparr>)"

definition monitoring_rp :: "int \<Rightarrow> (nat \<Rightarrow> string) \<Rightarrow> stored_rp" where
  "monitoring_rp now rnd =
     (rp_base (now - 40000) (rnd 0) MONITORING ''Monitoring stack'' HOST_PROD ''docker-prod-01'' RpPending)
       \<lparr>rp_consistency_point := None, rp_start_ms := Some (now - 40000),
        rp_finish_at := Some (now + 2 * MINUTE)\<rparr>"

definition wiki_rp :: "int \<Rightarrow> (nat \<Rightarrow> string) \<Rightarrow> stored_rp" where
  "wiki_rp now rnd =
     (rp_base (now - 8 * DAY) (rnd 0) WIKI ''wiki'' HOST_EDGE ''docker-edge-02'' RpMissing)
       \<lparr>rp_status := Some ''complete'', rp_size_bytes := 19649872332, rp_component_count := 3,
        rp_committed_at := Some (now - 8 * DAY + 11 * MINUTE),
        rp_error := Some ''manifest not found in the Repository during the last reindex''\<rparr>"

definition redis_rp :: "int \<Rightarrow> (nat \<Rightarrow> string) \<Rightarrow> stored_rp" where
  "redis_rp now rnd =
     (rp_base (now - 4 * HOUR) (rnd 0) REDIS ''redis-cache'' HOST_PROD ''docker-prod-01'' RpFailed)
       \<lparr>rp_trigger := ''schedule'', rp_consistency_point := None,
        rp_error := Some ''snapshot of config failed: agent docker-prod-01: context deadline exceeded''\<rparr>"

definition metrics_rp :: "int \<Rightarrow> (nat \<Rightarrow> string) \<Rightarrow> stored_rp" where
  "metrics_rp now rnd =
     (let r = (rp_base (now - 20 * HOUR) (rnd 0) METRICS ''metrics-agent'' HOST_EDGE ''docker-edge-02'' RpCommitted)
            \<lparr>rp_status := Some ''partial'', rp_size_bytes := 52113, rp_component_count := 2,
             rp_error := Some ''optional component bind:/etc/alloy failed: no such file or directory'',
             rp_committed_at := Some (now - 20 * HOUR + MINUTE)\<rparr>
      in r\<lparr>rp_manifest := Some ((simpleManifest now (\<lambda>k. rnd (Suc k)) r ''metrics-agent'' ''unused'')
              \<lparr>mf_status := ''partial'',
               mf_components :=
                 [(comp_entry now (rnd 6) (rnd 7) ''config'' ''config'')
                    \<lparr>cp_snapshot_source := Some ''maint@dbr2:/config/metrics-agent'',
                     mc_size_bytes := Some 52113, mc_files := Some 2\<rparr>,
                  (comp_entry now (rnd 8) (rnd 9) ''bind:/etc/alloy'' ''bind_mount'')
                    \<lparr>cp_required := False, mc_status := ''failed'', cp_snapshot_id := None, cp_root_object_id := None,
                     cp_error := Some ''lstat /etc/alloy: no such file or directory'',
                     mc_path := Some ''/etc/alloy''\<rparr>]\<rparr>)\<rparr>)"

definition seed_recovery_points :: "fleet \<Rightarrow> int \<Rightarrow> (nat \<Rightarrow> string) \<Rightarrow> stored_rp list" where
  "seed_recovery_points f now rnd =
     [shop_complete f now (sub_draws rnd 0), shop_partial f now (sub_draws rnd 1),
      shop_deleted now (sub_draws rnd 2), shop_failed now (sub_draws rnd 3), mft_rp f now (sub_draws rnd 4),
      monitoring_rp now (sub_draws rnd 5), wiki_rp now (sub_draws rnd 6), redis_rp now (sub_draws rnd 7),
      metrics_rp now (sub_draws rnd 8)]"

section \<open>Alerts\<close>

definition alert_entry ::
  "nat \<Rightarrow> string \<Rightarrow> string \<Rightarrow> string \<Rightarrow> string \<Rightarrow> string \<Rightarrow> json \<Rightarrow> int \<Rightarrow> int option \<Rightarrow> alert" where
  "alert_entry i severity type target_type target message details created acknowledged =
     \<lparr>al_id = i, al_severity = severity, al_type = type, al_target_type = target_type, al_target_id = target,
      al_message = message, al_details = details, al_created_at = created, al_acknowledged_at = acknowledged\<rparr>"

definition rp_details :: "stored_rp \<Rightarrow> json" where
  "rp_details r = JObj [(''recovery_point_id'', JStr (rp_id r))]"

definition seed_alerts :: "fleet \<Rightarrow> int \<Rightarrow> (nat \<Rightarrow> string) \<Rightarrow> alert list" where
  "seed_alerts f now rnd =
     (let failed = shop_failed now (sub_draws rnd 3);
          partial = shop_partial f now (sub_draws rnd 1);
          mft = mft_rp f now (sub_draws rnd 4)
      in [alert_entry 44 ''critical'' ''backup.failed'' ''application'' SHOP
            ''Backup of Web shop failed: pre-hook 1 (db) exited with status 2'' (rp_details failed)
            (now - 54 * HOUR + 3 * MINUTE) None,
          alert_entry 43 ''warning'' ''backup.completed'' ''application'' SHOP
            ''Backup of Web shop committed as Partial: optional components failed'' (rp_details partial)
            (now - 30 * HOUR + 5 * MINUTE) None,
          alert_entry 42 ''critical'' ''agent.auto_resumed'' ''agent'' HOST_EDGE
            ''docker-edge-02 resumed wiki on its own after the quiesce lease expired''
            (JObj [(''application_id'', JStr WIKI)]) (now - 3 * HOUR) None,
          alert_entry 41 ''info'' ''repository.reindexed'' ''repository'' NAS01
            ''Reindex of nas01-backups finished: 412 recovery points, 1 missing'' (JObj [])
            (now - 2 * DAY) (Some (now - 2 * DAY + HOUR)),
          alert_entry 45 ''critical'' ''contract.violated'' ''application'' REDIS
            ''Recovery Contract of redis-cache violated: no recovery point exists''
            (JObj [(''reasons'', JArr [JStr ''no recovery point exists''])]) (now - 4 * HOUR + 5 * MINUTE) None,
          alert_entry 46 ''critical'' ''verification.failed'' ''recovery_point'' (rp_id mft)
            ''Verification of an mft-pg recovery point failed: 2 errors in 1 component''
            (JObj [(''recovery_point_id'', JStr (rp_id mft)), (''repository_id'', JStr NAS01)]) (now - 2 * HOUR) None,
          alert_entry 47 ''critical'' ''escrow.unhealthy'' ''escrow'' ''platform''
            ''Escrow needs attention: the escrow recipients changed since the package of Repository nas01-backups was generated; regenerate it''
            (JObj []) (now - HOUR) None,
          alert_entry 48 ''warning'' ''platform.backup.partial'' ''platform'' ''platform''
            ''Platform self-backup partial: reposerver offsite-nfs: state export failed'' (JObj [])
            (now - 2 * DAY + 4 * MINUTE) None])"

definition seed_protection :: "fleet \<Rightarrow> int \<Rightarrow> (nat \<Rightarrow> string) \<Rightarrow> protection" where
  "seed_protection f now rnd =
     \<lparr>recipients = seed_recipients now, repositories = seed_repositories now (sub_draws rnd 9),
      settings = seed_settings now, recovery_points = seed_recovery_points f now rnd,
      alerts = seed_alerts f now rnd, host_limits = seed_host_limits\<rparr>"

end
