(* ===== verification/Protection_Server.thy ===== *)
theory Protection_Server
  imports Protection_Seed
begin

text \<open>
  The routes for repositories, escrow, backups, recovery points, alerts and host limits of the
  development server (\<^verbatim>\<open>scripts/mock-protection.mjs\<close>, \<^verbatim>\<open>protectionRoutes\<close>), and what they guarantee over
  any sequence of requests.

  Parameters: \<open>capture\<close> is the contract evaluation another module installs, \<open>f\<close> the hosts and
  applications, \<open>validTz\<close> the time zones the runtime knows, \<open>num\<close> the conversion of a JSON value
  that is not a number to a number (\<open>None\<close> is \<^verbatim>\<open>NaN\<close>).
\<close>

section \<open>Requests and replies\<close>

datatype protection_route =
  GetRecipients
| PostRecipient json
| DeleteRecipient string
| GetRepositories
| PostRepository json
| GetRepository string
| GetEscrowPackage string
| PostEscrowConfirm string json
| PostReindex string
| PostBackup string json
| GetBackupSettings string
| PutBackupSettings string json
| GetRecoveryPoints "string option" "string option" "rat option option"
| GetRecoveryPoint string
| GetAlerts "string option"
| PostAlertAcknowledge nat
| GetHostSettings string
| PutHostSettings string json

datatype protection_body =
  Recipients "recipient list"
| RecipientBody recipient
| Repositories "repository list"
| CreatedRepository repository string string
| RepositoryBody repository
| PackageBody string string
| WorkflowBody string
| SettingsBody backup_settings string
| RecoveryPoints "recovery_point list"
| RecoveryPointBody recovery_point "manifest option" "verification option"
| Alerts "alert list"
| HostSettingsBody host_settings

type_synonym prot_outcome = "(protection_body, protection) outcome"

section \<open>Escrow recipients\<close>

definition find_repo :: "string \<Rightarrow> protection \<Rightarrow> stored_repo option" where
  "find_repo rid s = find (\<lambda>x. re_id x = rid) (repositories s)"

definition update_repo :: "string \<Rightarrow> (stored_repo \<Rightarrow> stored_repo) \<Rightarrow> protection \<Rightarrow> protection" where
  "update_repo rid g s = s\<lparr>repositories := update_first (\<lambda>x. re_id x = rid) g (repositories s)\<rparr>"

definition post_recipient :: "ctx \<Rightarrow> json \<Rightarrow> protection \<Rightarrow> prot_outcome" where
  "post_recipient c body s =
     (let name = trimmed_field body ''name'';
          key = trimmed_field body ''public_key''
      in if name = [] \<or> length name > 100 then answer (Invalid ''name must be 1-100 characters'' ''body.name'') s
         else if includes_str (toUpperCase key) ''AGE-SECRET-KEY-'' \<or> includes_str (toUpperCase key) ''PRIVATE KEY'' then
           answer (Invalid (''that is a private identity '' @ em_dash @ '' paste the public key (age1'' @ ellipsis @
             '') only, and keep the identity offline'') ''body.public_key'') s
         else if \<not> startsWith key ''age1'' \<and> \<not> startsWith key ''ssh-'' then
           answer (Invalid (''recipient must be an age X25519 public key (age1'' @ ellipsis @
             '') or an SSH ed25519/RSA public key'') ''body.public_key'') s
         else if list_ex (\<lambda>r. ec_public_key r = key) (recipients s) then
           answer (conflict ''this public key is already a recipient'') s
         else
           let r = \<lparr>ec_id = c_random c 0, ec_name = name, ec_public_key = key, ec_created_at = c_now c\<rparr>
           in (Send 201 (RecipientBody r),
               [audit_by c ''escrow.recipient.added'' ''escrow_recipient'' (ec_id r) None],
               s\<lparr>recipients := recipients s @ [r]\<rparr>))"

fun remove_first :: "('a \<Rightarrow> bool) \<Rightarrow> 'a list \<Rightarrow> 'a list" where
  "remove_first p [] = []"
| "remove_first p (x # xs) = (if p x then xs else x # remove_first p xs)"

definition delete_recipient :: "ctx \<Rightarrow> string \<Rightarrow> protection \<Rightarrow> prot_outcome" where
  "delete_recipient c rid s =
     (if \<not> list_ex (\<lambda>r. ec_id r = rid) (recipients s) then answer (not_found ''escrow recipient not found'') s
      else (SendEmpty 204, [audit_by c ''escrow.recipient.removed'' ''escrow_recipient'' rid None],
            s\<lparr>recipients := remove_first (\<lambda>r. ec_id r = rid) (recipients s)\<rparr>))"

section \<open>Repositories\<close>

definition isUrl :: "json option \<Rightarrow> bool" where
  "isUrl v =
     (case v of
        Some (JStr s) \<Rightarrow>
          list_ex (\<lambda>p. startsWith s p \<and>
            (case drop (length p) s of [] \<Rightarrow> False | ch # t \<Rightarrow> \<not> js_space ch \<and> ch \<noteq> SLASH))
            [''http://'', ''https://'']
      | _ \<Rightarrow> False)"

definition json_text :: "json option \<Rightarrow> string" where
  "json_text v = (case v of Some (JStr s) \<Rightarrow> s | _ \<Rightarrow> [])"

definition repository_error :: "protection \<Rightarrow> json \<Rightarrow> protection_body reply option" where
  "repository_error s body =
     (let name = trimmed_field body ''name'';
          internal = jfield body ''internal_server_url''
      in if name = [] \<or> length name > 100 then Some (Invalid ''name must be 1-100 characters'' ''body.name'')
         else if jfield body ''backend'' \<notin> {Some (JStr ''nfs''), Some (JStr ''filesystem'')} then
           Some (Invalid ''backend must be nfs or filesystem'' ''body.backend'')
         else if \<not> isUrl (jfield body ''management_url'') then
           Some (Invalid ''management_url must be an http(s) URL'' ''body.management_url'')
         else if \<not> isUrl (jfield body ''server_url'') then
           Some (Invalid ''server_url must be an http(s) URL'' ''body.server_url'')
         else if truthy internal \<and> \<not> isUrl internal then
           Some (Invalid ''internal_server_url must be an http(s) URL'' ''body.internal_server_url'')
         else if length (recipients s) < 2 then
           Some (conflict (''at least 2 escrow recipients are required (have '' @ show_nat (length (recipients s)) @ '')''))
         else if list_ex (\<lambda>r. re_name r = name) (repositories s) then
           Some (conflict (''a Repository named '' @ name @ '' already exists''))
         else None)"

definition new_repository :: "ctx \<Rightarrow> json \<Rightarrow> protection \<Rightarrow> stored_repo" where
  "new_repository c body s =
     (let name = trimmed_field body ''name'';
          now = c_now c;
          secret = newCode (c_random c 0)
      in (repo_base now (c_random c 1) (c_random c 2) (c_random c 3) name (json_text (jfield body ''server_url'')))
           \<lparr>re_description := json_text (jfield body ''description''),
            re_backend := json_text (jfield body ''backend''),
            re_status := AwaitingEscrow,
            re_is_default := truthy (jfield body ''default'') \<or> length (repositories s) = 0,
            re_internal_server_url :=
              (case jfield body ''internal_server_url'' of None \<Rightarrow> JStr [] | Some JNull \<Rightarrow> JStr [] | Some v \<Rightarrow> v),
            re_management_url := json_text (jfield body ''management_url''),
            re_escrow_recipients := length (recipients s),
            re_escrow_generated_at := now, re_escrow_confirmed_at := None, re_created_at := now,
            re_live := Some (live_base (4 * TiB) (4 * TiB - 2 * 1024 ^ 2) (2 * 1024 ^ 2)),
            re_code := secret, re_package := fakePackage (c_random c 4) name secret,
            re_recipient_ids := map ec_id (recipients s)\<rparr>)"

definition post_repository :: "ctx \<Rightarrow> json \<Rightarrow> protection \<Rightarrow> prot_outcome" where
  "post_repository c body s =
     (case repository_error s body of
        Some r \<Rightarrow> answer r s
      | None \<Rightarrow>
          let r = new_repository c body s;
              others = (if truthy (jfield body ''default'')
                        then map (\<lambda>x. x\<lparr>re_is_default := False\<rparr>) (repositories s) else repositories s)
          in (Send 201 (CreatedRepository (publicRepo r) (re_package r) (escrowFilename r)),
              [audit_by c ''repository.created'' ''repository'' (re_id r) None],
              s\<lparr>repositories := others @ [r]\<rparr>))"

definition get_escrow_package :: "ctx \<Rightarrow> string \<Rightarrow> protection \<Rightarrow> prot_outcome" where
  "get_escrow_package c rid s =
     (case find_repo rid s of
        None \<Rightarrow> answer (not_found ''repository not found'') s
      | Some r \<Rightarrow> (Send 200 (PackageBody (escrowFilename r) (re_package r)),
                   [audit_by c ''repository.escrow.downloaded'' ''repository'' (re_id r) None], s))"

definition confirm_repo :: "int \<Rightarrow> stored_repo \<Rightarrow> stored_repo" where
  "confirm_repo now r =
     r\<lparr>re_status := (if re_status r = AwaitingEscrow then Ready else re_status r),
       re_escrow_confirmed_at := Some now\<rparr>"

definition audit_failed :: "ctx \<Rightarrow> string \<Rightarrow> string \<Rightarrow> string \<Rightarrow> effect" where
  "audit_failed c action target_type target =
     Audit action ''failure''
       \<lparr>a_actor = Some (u_display_name (c_user c)), a_target_type = Some target_type,
        a_target_id = Some target, a_reason = None, a_details = JObj []\<rparr>"

definition post_escrow_confirm :: "ctx \<Rightarrow> string \<Rightarrow> json \<Rightarrow> protection \<Rightarrow> prot_outcome" where
  "post_escrow_confirm c rid body s =
     (case find_repo rid s of
        None \<Rightarrow> answer (not_found ''repository not found'') s
      | Some r \<Rightarrow>
          let given = json_text (jfield body ''confirmation_code'')
          in if length given < 16 \<or> length given > 40 then
               answer (Invalid ''confirmation_code must be 16-40 characters'' ''body.confirmation_code'') s
             else if normCode given \<noteq> normCode (re_code r) then
               (Invalid (''the confirmation code does not match this Repository'' @ [SQ] @ ''s escrow package'')
                  ''body.confirmation_code'',
                [audit_failed c ''repository.escrow.confirmed'' ''repository'' (re_id r)], s)
             else
               (Send 200 (RepositoryBody (publicRepo (confirm_repo (c_now c) r))),
                [audit_by c ''repository.escrow.confirmed'' ''repository'' (re_id r) None],
                update_repo rid (confirm_repo (c_now c)) s))"

definition post_reindex :: "ctx \<Rightarrow> string \<Rightarrow> protection \<Rightarrow> prot_outcome" where
  "post_reindex c rid s =
     (case find_repo rid s of
        None \<Rightarrow> answer (not_found ''repository not found'') s
      | Some r \<Rightarrow>
          if re_status r = Unavailable then answer (conflict ''the reposerver is unreachable'') s
          else (Send 202 (WorkflowBody (''reindex-'' @ re_id r @ ''-'' @ show_int (c_now c))),
                [audit_by c ''repository.reindex.requested'' ''repository'' (re_id r) None],
                update_repo rid (\<lambda>x. x\<lparr>re_last_reindex_at := Some (c_now c)\<rparr>) s))"

section \<open>Backups and their settings\<close>

text \<open>The continuation of a handler after \<^verbatim>\<open>advance()\<close>: an exception ends it with a 500 reply.\<close>

definition after_advance ::
  "(string \<Rightarrow> captured list \<Rightarrow> contract_note option) \<Rightarrow> fleet \<Rightarrow> ctx \<Rightarrow> protection \<Rightarrow>
   (protection \<Rightarrow> ('b, protection) outcome) \<Rightarrow> ('b, protection) outcome" where
  "after_advance capture f c s k =
     (let (s1, es, ok) = advance capture f (c_now c) (c_random c) s
      in if \<not> ok then (internal_error, es, s1)
         else let (reply, es', s2) = k s1 in (reply, es @ es', s2))"

definition MODES :: "string list" where
  "MODES = [''live'', ''quiesced'', ''offline'']"

definition is_mode :: "json option \<Rightarrow> bool" where
  "is_mode v = (case v of Some (JStr m) \<Rightarrow> m \<in> set MODES | _ \<Rightarrow> False)"

definition has_pending :: "string \<Rightarrow> protection \<Rightarrow> bool" where
  "has_pending aid s = list_ex (\<lambda>r. rp_application_id r = aid \<and> rp_state r = RpPending) (recovery_points s)"

definition new_backup :: "fleet \<Rightarrow> ctx \<Rightarrow> app \<Rightarrow> string \<Rightarrow> protection \<Rightarrow> stored_rp" where
  "new_backup f c a mode s =
     (rp_base (c_now c) (c_random c 0) (ap_id a) (appName a) (ap_host_id a) (hostname_of f (ap_host_id a)) RpPending)
       \<lparr>rp_repository_id := (case bs_repository_id (fst (settingsOut s (ap_id a))) of Some x \<Rightarrow> x | None \<Rightarrow> NAS01),
        rp_consistency_mode := mode, rp_crash_consistent_only := mode = ''live'', rp_consistency_point := None,
        rp_start_ms := Some (c_now c), rp_finish_at := Some (c_now c + BACKUP_MS)\<rparr>"

definition start_backup :: "fleet \<Rightarrow> ctx \<Rightarrow> app \<Rightarrow> json \<Rightarrow> protection \<Rightarrow> prot_outcome" where
  "start_backup f c a body s =
     (if has_pending (ap_id a) s then
        answer (conflict ''an operation is already running for this application'') s
      else if ap_analysis a = None then
        answer (conflict ''the application is not in the latest inventory'') s
      else
        let mode = (if jfield body ''consistency_mode'' = None then snd (settingsOut s (ap_id a))
                    else json_text (jfield body ''consistency_mode''));
            r = new_backup f c a mode s
        in (Send 202 (WorkflowBody (rp_workflow_id r)),
            [audit_by c ''backup.requested'' ''application'' (ap_id a) None],
            s\<lparr>recovery_points := recovery_points s @ [r]\<rparr>))"

definition post_backup ::
  "(string \<Rightarrow> captured list \<Rightarrow> contract_note option) \<Rightarrow> fleet \<Rightarrow> ctx \<Rightarrow> string \<Rightarrow> json \<Rightarrow> protection \<Rightarrow> prot_outcome" where
  "post_backup capture f c aid body s =
     (case find_app aid f of
        None \<Rightarrow> answer (not_found ''application not found'') s
      | Some a \<Rightarrow>
          if jfield body ''consistency_mode'' \<noteq> None \<and> \<not> is_mode (jfield body ''consistency_mode'') then
            answer (Invalid ''consistency_mode must be live, quiesced or offline'' ''body.consistency_mode'') s
          else after_advance capture f c s (start_backup f c a body))"

text \<open>The outcome of a sequence of checks; \<open>Raise\<close> is an exception.\<close>

datatype check = Pass | Fail string string | Raise

fun then_check :: "check \<Rightarrow> check \<Rightarrow> check" where
  "then_check Pass k = k"
| "then_check (Fail d l) k = Fail d l"
| "then_check Raise k = Raise"

definition js_number :: "(json \<Rightarrow> rat option) \<Rightarrow> json \<Rightarrow> rat option" where
  "js_number num v = (case v of JNum n \<Rightarrow> Some n | _ \<Rightarrow> num v)"

definition or_default :: "json option \<Rightarrow> json \<Rightarrow> json" where
  "or_default v d = (case v of None \<Rightarrow> d | Some JNull \<Rightarrow> d | Some x \<Rightarrow> x)"

definition first_item :: "json option \<Rightarrow> json option" where
  "first_item v = (case v of Some (JArr (x # xs)) \<Rightarrow> Some x | _ \<Rightarrow> None)"

fun hook_items :: "(json \<Rightarrow> rat option) \<Rightarrow> string \<Rightarrow> nat \<Rightarrow> json list \<Rightarrow> check" where
  "hook_items num k i [] = Pass"
| "hook_items num k i (h # hs) =
     (if \<not> truthy (jfield h ''container'') \<or> \<not> truthy (first_item (jfield h ''command'')) then
        Fail (''hook '' @ show_nat (i + 1) @ '' needs a container and a command'') (''body.'' @ k)
      else if (case js_number num (or_default (jfield h ''timeout_seconds'') (JNum 0)) of
                 Some n \<Rightarrow> n > 3600 | None \<Rightarrow> False) then
        Fail (''hook '' @ show_nat (i + 1) @ '' timeout exceeds 3600 s'') (''body.'' @ k)
      else hook_items num k (Suc i) hs)"

definition hooks_check :: "(json \<Rightarrow> rat option) \<Rightarrow> json \<Rightarrow> string \<Rightarrow> check" where
  "hooks_check num b k =
     (case or_default (jfield b k) (JArr []) of JArr hs \<Rightarrow> hook_items num k 0 hs | _ \<Rightarrow> Raise)"

fun object_keys :: "json \<Rightarrow> string list" where
  "object_keys (JObj fs) = map fst fs"
| "object_keys (JArr xs) = map show_nat [0..<length xs]"
| "object_keys _ = []"

fun is_object :: "json \<Rightarrow> bool" where
  "is_object (JObj fs) = True"
| "is_object (JArr xs) = True"
| "is_object _ = False"

definition int_in :: "json option \<Rightarrow> int \<Rightarrow> int \<Rightarrow> bool" where
  "int_in v lo hi = (case v of Some (JNum n) \<Rightarrow> is_integer n \<and> of_int lo \<le> n \<and> n \<le> of_int hi | _ \<Rightarrow> False)"

definition json_int :: "json option \<Rightarrow> int" where
  "json_int v = (case v of Some (JNum n) \<Rightarrow> \<lfloor>n\<rfloor> | _ \<Rightarrow> 0)"

definition SETTINGS_KEYS :: "string list" where
  "SETTINGS_KEYS =
     [''repository_id'', ''consistency_mode'', ''max_quiesce_seconds'', ''pre_hooks'', ''post_hooks'',
      ''optional_components'', ''excluded_components'', ''database_strategy'']"

definition settings_check :: "(json \<Rightarrow> rat option) \<Rightarrow> protection \<Rightarrow> json \<Rightarrow> check" where
  "settings_check num s b =
     (if \<not> is_object b then Fail ''body must be a JSON object'' ''body''
      else case filter (\<lambda>k. k \<notin> set SETTINGS_KEYS) (object_keys b) of
        k # ks \<Rightarrow> Fail (''unexpected property '' @ k) (''body.'' @ k)
      | [] \<Rightarrow>
          if jfield b ''consistency_mode'' \<noteq> Some JNull \<and> \<not> is_mode (jfield b ''consistency_mode'') then
            Fail ''consistency_mode must be live, quiesced or offline'' ''body.consistency_mode''
          else if jfield b ''database_strategy'' \<noteq> None \<and>
            jfield b ''database_strategy'' \<notin> {Some (JStr ''logical''), Some (JStr ''volume''), Some (JStr ''both'')} then
            Fail ''database_strategy must be logical, volume or both'' ''body.database_strategy''
          else if \<not> int_in (jfield b ''max_quiesce_seconds'') 60 86400 then
            Fail (''max_quiesce_seconds must be 60'' @ dash_to @ ''86400'') ''body.max_quiesce_seconds''
          else then_check (hooks_check num b ''pre_hooks'') (then_check (hooks_check num b ''post_hooks'')
            (if jfield b ''repository_id'' \<noteq> Some JNull \<and>
               \<not> list_ex (\<lambda>r. jfield b ''repository_id'' = Some (JStr (re_id r))) (repositories s) then
               Fail ''unknown repository'' ''body.repository_id''
             else Pass)))"

definition text_option :: "json option \<Rightarrow> string option" where
  "text_option v = (case v of Some (JStr s) \<Rightarrow> Some s | _ \<Rightarrow> None)"

definition hook_list :: "json option \<Rightarrow> json list" where
  "hook_list v = (case v of Some (JArr hs) \<Rightarrow> hs | _ \<Rightarrow> [])"

definition new_settings :: "int \<Rightarrow> string \<Rightarrow> json \<Rightarrow> protection \<Rightarrow> backup_settings" where
  "new_settings now aid b s =
     \<lparr>bs_repository_id = text_option (jfield b ''repository_id''),
      bs_consistency_mode = text_option (jfield b ''consistency_mode''),
      bs_max_quiesce_seconds = json_int (jfield b ''max_quiesce_seconds''),
      bs_pre_hooks = hook_list (jfield b ''pre_hooks''), bs_post_hooks = hook_list (jfield b ''post_hooks''),
      bs_optional_components = or_default (jfield b ''optional_components'') (JArr []),
      bs_excluded_components = or_default (jfield b ''excluded_components'') (JArr []),
      bs_database_strategy =
        (case text_option (jfield b ''database_strategy'') of
           Some d \<Rightarrow> d
         | None \<Rightarrow> (case map_of (settings s) aid of Some x \<Rightarrow> bs_database_strategy x | None \<Rightarrow> ''both'')),
      bs_updated_at = Some now\<rparr>"

definition settings_body :: "protection \<Rightarrow> string \<Rightarrow> protection_body" where
  "settings_body s aid = SettingsBody (fst (settingsOut s aid)) (snd (settingsOut s aid))"

definition put_backup_settings ::
  "(json \<Rightarrow> rat option) \<Rightarrow> fleet \<Rightarrow> ctx \<Rightarrow> string \<Rightarrow> json \<Rightarrow> protection \<Rightarrow> prot_outcome" where
  "put_backup_settings num f c aid b s =
     (if find_app aid f = None then answer (not_found ''application not found'') s
      else case settings_check num s b of
        Fail d l \<Rightarrow> answer (Invalid d l) s
      | Raise \<Rightarrow> answer internal_error s
      | Pass \<Rightarrow>
          let s1 = s\<lparr>settings := AList.update aid (new_settings (c_now c) aid b s) (settings s)\<rparr>
          in (Send 200 (settings_body s1 aid),
              [audit_by c ''backup.settings.updated'' ''application'' aid None], s1))"

section \<open>Recovery points, alerts, host limits\<close>

definition get_recovery_points ::
  "string option \<Rightarrow> string option \<Rightarrow> rat option option \<Rightarrow> protection \<Rightarrow> prot_outcome" where
  "get_recovery_points app state limit s =
     answer (Send 200 (RecoveryPoints (map publicRp (take (page_limit limit 100 500)
       (js_sort (\<lambda>a b. rp_created_at b \<le> rp_created_at a)
         (filter (\<lambda>r. (case or_none app of None \<Rightarrow> True | Some x \<Rightarrow> rp_application_id r = x) \<and>
                      (case or_none state of None \<Rightarrow> True | Some x \<Rightarrow> rp_state_text (rp_state r) = x))
           (recovery_points s))))))) s"

definition get_recovery_point :: "string \<Rightarrow> protection \<Rightarrow> prot_outcome" where
  "get_recovery_point rid s =
     (case find (\<lambda>x. rp_id x = rid) (recovery_points s) of
        None \<Rightarrow> answer (not_found ''recovery point not found'') s
      | Some r \<Rightarrow>
          answer (Send 200 (RecoveryPointBody (publicRp r) (rp_manifest r)
            (if rp_verification r \<noteq> ''unverified'' then rp_verification_report r else None))) s)"

definition get_alerts :: "string option \<Rightarrow> protection \<Rightarrow> prot_outcome" where
  "get_alerts q s =
     answer (Send 200 (Alerts (js_sort (\<lambda>a b. al_created_at b \<le> al_created_at a)
       (filter (\<lambda>a. q = Some ''true'' \<or> al_acknowledged_at a = None) (alerts s))))) s"

definition acknowledge :: "int \<Rightarrow> alert \<Rightarrow> alert" where
  "acknowledge now a =
     a\<lparr>al_acknowledged_at := Some (case al_acknowledged_at a of Some t \<Rightarrow> t | None \<Rightarrow> now)\<rparr>"

definition post_alert_acknowledge :: "ctx \<Rightarrow> nat \<Rightarrow> protection \<Rightarrow> prot_outcome" where
  "post_alert_acknowledge c i s =
     (case find (\<lambda>x. al_id x = i) (alerts s) of
        None \<Rightarrow> answer (not_found ''alert not found'') s
      | Some a \<Rightarrow>
          (SendEmpty 204, [audit_by c ''alert.acknowledged'' ''alert'' (show_nat (al_id a)) None],
           s\<lparr>alerts := update_first (\<lambda>x. al_id x = i) (acknowledge (c_now c)) (alerts s)\<rparr>))"

definition window_bound :: "json option \<Rightarrow> int option" where
  "window_bound v = (case v of Some (JNum n) \<Rightarrow> Some \<lfloor>n\<rfloor> | _ \<Rightarrow> None)"

definition host_settings_error :: "(string \<Rightarrow> bool) \<Rightarrow> json \<Rightarrow> string \<Rightarrow> (string \<times> string) option" where
  "host_settings_error validTz b tz =
     (let lo = or_default (jfield b ''backup_window_start'') JNull;
          hi = or_default (jfield b ''backup_window_end'') JNull
      in if \<not> int_in (jfield b ''max_concurrent_jobs'') 1 16 then
           Some (''max_concurrent_jobs must be 1-16'', ''body.max_concurrent_jobs'')
         else if (lo = JNull) \<noteq> (hi = JNull) then
           Some (''set both backup window start and end, or neither'', ''body.backup_window_start'')
         else if list_ex (\<lambda>v. v \<noteq> JNull \<and> \<not> int_in (Some v) 0 1439) [lo, hi] then
           Some (''backup window bounds are minutes of the day (0'' @ dash_to @ ''1439)'', ''body.backup_window_start'')
         else if \<not> validTz tz then Some (''unknown timezone '' @ tz, ''body.backup_window_timezone'')
         else None)"

definition put_host_settings ::
  "(string \<Rightarrow> bool) \<Rightarrow> fleet \<Rightarrow> ctx \<Rightarrow> string \<Rightarrow> json \<Rightarrow> protection \<Rightarrow> prot_outcome" where
  "put_host_settings validTz f c hid b s =
     (if find_agent hid f = None then answer (not_found ''agent not found'') s
      else
        let tz = (case text_option (jfield b ''backup_window_timezone'') of
                    Some t \<Rightarrow> if t = [] then ''UTC'' else t | None \<Rightarrow> ''UTC'')
        in case host_settings_error validTz b tz of
             Some (d, l) \<Rightarrow> answer (Invalid d l) s
           | None \<Rightarrow>
               let out = \<lparr>hs_max_concurrent_jobs = json_int (jfield b ''max_concurrent_jobs''),
                          hs_window_start = window_bound (jfield b ''backup_window_start''),
                          hs_window_end = window_bound (jfield b ''backup_window_end''),
                          hs_window_timezone = tz\<rparr>
               in (Send 200 (HostSettingsBody out),
                   [audit_by c ''agent.settings.updated'' ''agent'' hid None],
                   s\<lparr>host_limits := AList.update hid out (host_limits s)\<rparr>))"

section \<open>Dispatch\<close>

fun protection_permission :: "protection_route \<Rightarrow> string" where
  "protection_permission GetRecipients = ''repository.read''"
| "protection_permission (PostRecipient b) = ''repository.manage''"
| "protection_permission (DeleteRecipient i) = ''repository.manage''"
| "protection_permission GetRepositories = ''repository.read''"
| "protection_permission (PostRepository b) = ''repository.manage''"
| "protection_permission (GetRepository i) = ''repository.read''"
| "protection_permission (GetEscrowPackage i) = ''repository.manage''"
| "protection_permission (PostEscrowConfirm i b) = ''repository.manage''"
| "protection_permission (PostReindex i) = ''repository.manage''"
| "protection_permission (PostBackup i b) = ''backup.execute''"
| "protection_permission (GetBackupSettings i) = ''policy.read''"
| "protection_permission (PutBackupSettings i b) = ''policy.manage''"
| "protection_permission (GetRecoveryPoints a st l) = ''backup.read''"
| "protection_permission (GetRecoveryPoint i) = ''backup.read''"
| "protection_permission (GetAlerts q) = ''backup.read''"
| "protection_permission (PostAlertAcknowledge n) = ''backup.execute''"
| "protection_permission (GetHostSettings i) = ''host.read''"
| "protection_permission (PutHostSettings i b) = ''host.manage''"

fun protection_action ::
  "(string \<Rightarrow> captured list \<Rightarrow> contract_note option) \<Rightarrow> (string \<Rightarrow> bool) \<Rightarrow> (json \<Rightarrow> rat option) \<Rightarrow> fleet \<Rightarrow>
   ctx \<Rightarrow> protection_route \<Rightarrow> protection \<Rightarrow> prot_outcome" where
  "protection_action capture validTz num f c GetRecipients s = answer (Send 200 (Recipients (recipients s))) s"
| "protection_action capture validTz num f c (PostRecipient b) s = post_recipient c b s"
| "protection_action capture validTz num f c (DeleteRecipient i) s = delete_recipient c i s"
| "protection_action capture validTz num f c GetRepositories s =
     answer (Send 200 (Repositories (map publicRepo (repositories s)))) s"
| "protection_action capture validTz num f c (PostRepository b) s = post_repository c b s"
| "protection_action capture validTz num f c (GetRepository i) s =
     answer (case find_repo i s of None \<Rightarrow> not_found ''repository not found''
             | Some r \<Rightarrow> Send 200 (RepositoryBody (publicRepo r))) s"
| "protection_action capture validTz num f c (GetEscrowPackage i) s = get_escrow_package c i s"
| "protection_action capture validTz num f c (PostEscrowConfirm i b) s = post_escrow_confirm c i b s"
| "protection_action capture validTz num f c (PostReindex i) s = post_reindex c i s"
| "protection_action capture validTz num f c (PostBackup i b) s = post_backup capture f c i b s"
| "protection_action capture validTz num f c (GetBackupSettings i) s =
     answer (if find_app i f = None then not_found ''application not found''
             else Send 200 (settings_body s i)) s"
| "protection_action capture validTz num f c (PutBackupSettings i b) s = put_backup_settings num f c i b s"
| "protection_action capture validTz num f c (GetRecoveryPoints app state limit) s =
     after_advance capture f c s (get_recovery_points app state limit)"
| "protection_action capture validTz num f c (GetRecoveryPoint i) s =
     after_advance capture f c s (get_recovery_point i)"
| "protection_action capture validTz num f c (GetAlerts q) s = get_alerts q s"
| "protection_action capture validTz num f c (PostAlertAcknowledge n) s = post_alert_acknowledge c n s"
| "protection_action capture validTz num f c (GetHostSettings i) s =
     answer (if find_agent i f = None then not_found ''agent not found''
             else Send 200 (HostSettingsBody (hostSettingsOut s i))) s"
| "protection_action capture validTz num f c (PutHostSettings i b) s = put_host_settings validTz f c i b s"

definition protection_handle ::
  "(string \<Rightarrow> captured list \<Rightarrow> contract_note option) \<Rightarrow> (string \<Rightarrow> bool) \<Rightarrow> (json \<Rightarrow> rat option) \<Rightarrow> fleet \<Rightarrow>
   ctx \<Rightarrow> protection_route \<Rightarrow> protection \<Rightarrow> prot_outcome" where
  "protection_handle capture validTz num f c r s =
     need c (protection_permission r) s (protection_action capture validTz num f c r s)"

section \<open>Lemmas\<close>

definition pending_apps :: "stored_rp list \<Rightarrow> string list" where
  "pending_apps rs = map rp_application_id (filter (\<lambda>r. rp_state r = RpPending) rs)"

definition protection_ok :: "protection \<Rightarrow> bool" where
  "protection_ok s \<longleftrightarrow>
     distinct (map re_name (repositories s)) \<and> length (filter re_is_default (repositories s)) \<le> 1 \<and>
     distinct (map ec_public_key (recipients s)) \<and> distinct (map al_id (alerts s)) \<and>
     distinct (pending_apps (recovery_points s))"

lemma pending_apps_simps [simp]:
  "pending_apps [] = []"
  "pending_apps (r # rs) = (if rp_state r = RpPending then [rp_application_id r] else []) @ pending_apps rs"
  "pending_apps (rs @ rs') = pending_apps rs @ pending_apps rs'"
  by (simp_all add: pending_apps_def)

lemma next_alert_id_fresh: "a \<in> set als \<Longrightarrow> al_id a < next_alert_id als"
  unfolding next_alert_id_def by (induction als) (auto simp: less_Suc_eq_le le_max_iff_disj)

lemma commit_rp_simps [simp]:
  "rp_application_id (commit_rp capture s now rnd app plan r) = rp_application_id r"
  "rp_id (commit_rp capture s now rnd app plan r) = rp_id r"
  "rp_state (commit_rp capture s now rnd app plan r) = RpCommitted"
  "rp_delete_after (commit_rp capture s now rnd app plan r) = rp_delete_after r"
  by (simp_all add: commit_rp_def Let_def)

lemma commit_rp_manifest [simp]: "\<exists>m. rp_manifest (commit_rp capture s now rnd app plan r) = Some m"
  by (simp add: commit_rp_def Let_def)

lemma committed_alert_id [simp]: "al_id (committed_alert now als r) = next_alert_id als"
  by (simp add: committed_alert_def)

lemma advance_rp_cases:
  assumes "advance_rp capture f s now rnd als r = Some (r', als', es)"
  obtains (idle) "r' = r" "als' = als" "es = []"
      "rp_state r \<noteq> RpPending \<or> rp_finish_at r = None \<or> rp_finish_at r = Some 0"
  | (runs) t p u b where "rp_state r = RpPending" "rp_finish_at r = Some t" "now < t" "als' = als"
      "r' = r\<lparr>rp_plan := Some p, rp_run_id := Some u, rp_announced := b\<rparr>"
  | (commits) t app p u rnd' where "rp_state r = RpPending" "rp_finish_at r = Some t" "t \<le> now"
      "r' = commit_rp capture s now rnd' app p (r\<lparr>rp_plan := Some p, rp_run_id := Some u\<rparr>)"
      "als' = als @ [committed_alert now als r']"
proof (cases "rp_state r \<noteq> RpPending \<or> rp_finish_at r = None \<or> rp_finish_at r = Some 0")
  case True
  with assms idle show ?thesis by (auto simp: advance_rp_def split: option.splits)
next
  case False
  then obtain t where t: "rp_finish_at r = Some t" "t \<noteq> 0" and p: "rp_state r = RpPending" by auto
  with assms obtain plan where
    plan: "(case rp_plan r of None \<Rightarrow> planFor s (find_app (rp_application_id r) f) | Some p \<Rightarrow> Some p) = Some plan"
    by (cases "case rp_plan r of None \<Rightarrow> planFor s (find_app (rp_application_id r) f) | Some p \<Rightarrow> Some p")
      (auto simp: advance_rp_def)
  define u where "u = (case rp_run_id r of None \<Rightarrow> rnd 0 | Some u \<Rightarrow> u)"
  define r1 where "r1 = r\<lparr>rp_plan := Some plan, rp_run_id := Some u\<rparr>"
  note unfold = assms [unfolded advance_rp_def t(1) option.case Let_def plan u_def [symmetric] r1_def [symmetric]]
  show ?thesis
  proof (cases "t \<le> now")
    case True
    with unfold t p have "r' = commit_rp capture s now (\<lambda>k. rnd (Suc k)) (find_app (rp_application_id r) f) plan r1"
      "als' = als @ [committed_alert now als r']"
      by auto
    with commits [OF p t(1) True] show ?thesis by (simp add: r1_def)
  next
    case F: False
    have "r' = r1\<lparr>rp_announced := True\<rparr> \<or> r' = r1" "als' = als"
      using unfold t p F by (auto split: if_splits prod.splits)
    then have "r' = r\<lparr>rp_plan := Some plan, rp_run_id := Some u, rp_announced := rp_announced r'\<rparr>"
      by (auto simp: r1_def)
    with runs [OF p t(1) _ \<open>als' = als\<close>] F show ?thesis by force
  qed
qed

lemma advance_rp_keeps:
  assumes "advance_rp capture f s now rnd als r = Some (r', als', es)"
  shows "rp_application_id r' = rp_application_id r \<and> rp_id r' = rp_id r \<and>
    rp_delete_after r' = rp_delete_after r \<and>
    (rp_state r' = RpPending \<longrightarrow> rp_state r = RpPending \<and> rp_finish_at r' = rp_finish_at r) \<and>
    (als' = als \<or> (\<exists>al. als' = als @ [al] \<and> al_id al = next_alert_id als)) \<and>
    (rp_state r \<noteq> RpPending \<longrightarrow> r' = r)"
  using assms by (cases rule: advance_rp_cases) simp_all

lemma advance_loop_keeps:
  "advance_loop capture f s now rnd i als rs = (rs', als', es, ok) \<Longrightarrow>
     length rs' = length rs \<and> set (pending_apps rs') \<subseteq> set (pending_apps rs) \<and>
     (distinct (pending_apps rs) \<longrightarrow> distinct (pending_apps rs')) \<and>
     (distinct (map al_id als) \<longrightarrow> distinct (map al_id als'))"
proof (induction rs arbitrary: i als rs' als' es ok)
  case (Cons r rs)
  show ?case
  proof (cases "advance_rp capture f s now (sub_draws rnd i) als r")
    case None
    with Cons.prems show ?thesis by auto
  next
    case (Some x)
    obtain r1 als1 es1 where x: "x = (r1, als1, es1)" by (cases x)
    obtain rs2 als2 es2 ok2 where l: "advance_loop capture f s now rnd (Suc i) als1 rs = (rs2, als2, es2, ok2)"
      by (cases "advance_loop capture f s now rnd (Suc i) als1 rs")
    from Some x l Cons.prems have eq: "rs' = r1 # rs2" "als' = als2" by auto
    note keeps = advance_rp_keeps [OF Some [unfolded x]]
    then have "distinct (map al_id als) \<Longrightarrow> distinct (map al_id als1)"
      using next_alert_id_fresh [of _ als] by fastforce
    with Cons.IH [OF l] keeps eq show ?thesis by (auto split: if_splits)
  qed
qed simp

lemma expire_rp_pending [simp]:
  "pending_apps (map (expire_rp now) rs) = pending_apps rs"
  by (induction rs) (auto simp: expire_rp_def deletion_due_def)

lemma retire_repo_simps [simp]:
  "re_name (retire_repo now r) = re_name r" "re_is_default (retire_repo now r) = re_is_default r"
  "re_id (retire_repo now r) = re_id r" "re_code (retire_repo now r) = re_code r"
  by (auto simp: retire_repo_def)

lemma map_retire_repo [simp]: "map (re_name \<circ> retire_repo now) rs = map re_name rs"
  by simp

lemma length_filter_map: "length (filter P (map g xs)) = length (filter (P \<circ> g) xs)"
  by (simp add: filter_map)

lemma advance_ok:
  assumes "protection_ok s"
  shows "protection_ok (fst (advance capture f now rnd s))"
proof -
  let ?s1 = "s\<lparr>recovery_points := map (expire_rp now) (recovery_points s),
                repositories := map (retire_repo now) (repositories s)\<rparr>"
  obtain rps als es ok where l:
    "advance_loop capture f ?s1 now rnd 0 (alerts s) (map (expire_rp now) (recovery_points s)) = (rps, als, es, ok)"
    by (metis prod_cases4)
  from advance_loop_keeps [OF l] assms l show ?thesis
    by (simp add: advance_def protection_ok_def comp_def length_filter_map)
qed

lemma after_advance_state:
  "out_state (after_advance capture f c s k) =
     (let (s1, es, ok) = advance capture f (c_now c) (c_random c) s in if ok then out_state (k s1) else s1)"
  by (simp add: after_advance_def Let_def case_prod_beta)

lemma after_advance_ok:
  assumes "protection_ok s" "\<And>s1. protection_ok s1 \<Longrightarrow> protection_ok (out_state (k s1))"
  shows "protection_ok (out_state (after_advance capture f c s k))"
  using advance_ok [OF assms(1), of capture f "c_now c" "c_random c"] assms(2)
  by (simp add: after_advance_state case_prod_beta)

lemma set_remove_first: "set (remove_first p xs) \<subseteq> set xs"
  by (induction xs) auto

lemma distinct_map_remove_first: "distinct (map g xs) \<Longrightarrow> distinct (map g (remove_first p xs))"
proof (induction xs)
  case (Cons x xs)
  have "g ` set (remove_first p xs) \<subseteq> g ` set xs" by (rule image_mono [OF set_remove_first])
  with Cons show ?case by auto
qed simp

lemma update_repo_ok:
  assumes "protection_ok s" "\<And>r. re_name (g r) = re_name r" "\<And>r. re_is_default (g r) = re_is_default r"
  shows "protection_ok (update_repo rid g s)"
proof -
  have "length (filter re_is_default (update_first p g xs)) = length (filter re_is_default xs)" for p xs
    by (induction xs) (auto simp: assms)
  then show ?thesis
    using assms by (simp add: protection_ok_def update_repo_def map_update_first)
qed

lemma post_repository_ok:
  assumes "protection_ok s"
  shows "protection_ok (out_state (post_repository c body s))"
proof (cases "repository_error s body")
  case None
  then have fresh: "trimmed_field body ''name'' \<notin> re_name ` set (repositories s)"
    by (auto simp: repository_error_def Let_def list_ex_iff split: if_splits)
  have r: "re_name (new_repository c body s) = trimmed_field body ''name''"
    "re_is_default (new_repository c body s) \<longleftrightarrow> truthy (jfield body ''default'') \<or> length (repositories s) = 0"
    by (simp_all add: new_repository_def repo_base_def Let_def)
  have "filter re_is_default (map (\<lambda>x. x\<lparr>re_is_default := False\<rparr>) xs) = []" for xs :: "stored_repo list"
    by (induction xs) auto
  with None fresh assms r show ?thesis
    by (auto simp: post_repository_def Let_def protection_ok_def comp_def)
qed (use assms in \<open>simp add: post_repository_def answer_def\<close>)

lemma start_backup_ok: "protection_ok s \<Longrightarrow> protection_ok (out_state (start_backup f c a body s))"
  by (auto simp: start_backup_def answer_def Let_def protection_ok_def new_backup_def rp_base_def has_pending_def
      pending_apps_def list_ex_iff)

lemma alerts_ok:
  "protection_ok s \<Longrightarrow> protection_ok (s\<lparr>alerts := update_first p (acknowledge now) (alerts s)\<rparr>)"
  by (simp add: protection_ok_def map_update_first acknowledge_def)

lemma recipients_ok:
  "protection_ok s \<Longrightarrow> distinct (map ec_public_key rs) \<Longrightarrow> protection_ok (s\<lparr>recipients := rs\<rparr>)"
  by (simp add: protection_ok_def)

lemma other_fields_ok:
  "protection_ok (s\<lparr>settings := x\<rparr>) \<longleftrightarrow> protection_ok s"
  "protection_ok (s\<lparr>host_limits := y\<rparr>) \<longleftrightarrow> protection_ok s"
  by (simp_all add: protection_ok_def)

lemma recipient_handlers_ok:
  assumes "protection_ok s"
  shows "protection_ok (out_state (post_recipient c body s)) \<and> protection_ok (out_state (delete_recipient c i s))"
proof
  show "protection_ok (out_state (post_recipient c body s))"
    using assms
    by (auto simp: post_recipient_def Let_def answer_def protection_ok_def list_ex_iff)
  show "protection_ok (out_state (delete_recipient c i s))"
    using assms by (auto simp: delete_recipient_def answer_def intro!: recipients_ok distinct_map_remove_first)
      (simp add: protection_ok_def)
qed

lemma protection_action_ok:
  assumes "protection_ok s"
  shows "protection_ok (out_state (protection_action capture validTz num f c r s))"
proof (cases r)
  case (PostEscrowConfirm i b)
  with assms show ?thesis
    by (auto simp: post_escrow_confirm_def answer_def Let_def confirm_repo_def intro!: update_repo_ok split: option.splits)
next
  case (PostReindex i)
  with assms show ?thesis
    by (auto simp: post_reindex_def answer_def intro!: update_repo_ok split: option.splits)
next
  case (PostBackup i b)
  with assms show ?thesis
    by (auto simp: post_backup_def answer_def intro!: after_advance_ok start_backup_ok split: option.splits)
next
  case (PutBackupSettings i b)
  with assms show ?thesis
    by (auto simp: put_backup_settings_def answer_def other_fields_ok Let_def split: check.splits)
next
  case (PostAlertAcknowledge n)
  with assms show ?thesis
    by (auto simp: post_alert_acknowledge_def answer_def intro!: alerts_ok split: option.splits)
next
  case (PutHostSettings i b)
  with assms show ?thesis
    by (auto simp: put_host_settings_def answer_def other_fields_ok Let_def split: option.splits)
next
  case (GetRecoveryPoints a st l)
  with assms show ?thesis by (simp add: after_advance_ok get_recovery_points_def answer_def)
next
  case (GetRecoveryPoint i)
  with assms show ?thesis
    by (auto simp: get_recovery_point_def answer_def intro!: after_advance_ok split: option.splits)
qed (use assms in \<open>auto simp: answer_def recipient_handlers_ok post_repository_ok get_escrow_package_def get_alerts_def
  split: option.splits\<close>)

interpretation protection_service: invariant_service protection_permission
  "protection_handle capture validTz num f" protection_ok for capture validTz num f
proof unfold_locales
  fix r c s
  show "protection_permission r \<notin> set (u_permissions (c_user c)) \<Longrightarrow>
    protection_handle capture validTz num f c r s = (forbidden (protection_permission r), [], s)"
    by (simp add: protection_handle_def need_def)
  show "protection_ok s \<Longrightarrow> protection_ok (out_state (protection_handle capture validTz num f c r s))"
    by (simp add: protection_handle_def need_def protection_action_ok)
qed

lemma seal_repo_simps [simp]:
  "re_name (seal_repo now rnd (i, r)) = re_name r" "re_is_default (seal_repo now rnd (i, r)) = re_is_default r"
  by (simp_all add: seal_repo_def Let_def)

lemma seed_repo_fields:
  "re_name (nas01_repo now rnd) = ''nas01-backups''" "re_name (lab_repo now rnd) = ''lab-scratch''"
  "re_name (offsite_repo now rnd) = ''offsite-nfs''" "re_name (oldnas_repo now rnd) = ''old-nas02''"
  "re_is_default (nas01_repo now rnd)" "\<not> re_is_default (lab_repo now rnd)"
  "\<not> re_is_default (offsite_repo now rnd)" "\<not> re_is_default (oldnas_repo now rnd)"
  by (simp_all add: nas01_repo_def lab_repo_def offsite_repo_def oldnas_repo_def repo_base_def)

lemma seed_rp_states:
  "rp_state (shop_complete f now rnd) = RpCommitted" "rp_state (shop_partial f now rnd) = RpCommitted"
  "rp_state (shop_deleted now rnd) = RpDeleted" "rp_state (shop_failed now rnd) = RpFailed"
  "rp_state (mft_rp f now rnd) = RpCommitted" "rp_state (monitoring_rp now rnd) = RpPending"
  "rp_state (wiki_rp now rnd) = RpMissing" "rp_state (redis_rp now rnd) = RpFailed"
  "rp_state (metrics_rp now rnd) = RpCommitted"
  by (simp_all add: shop_complete_def shop_partial_def shop_deleted_def shop_failed_def mft_rp_def monitoring_rp_def
      wiki_rp_def redis_rp_def metrics_rp_def shop_rp_def rp_base_def Let_def)

lemma seed_protection_ok: "protection_ok (seed_protection f now rnd)"
proof -
  have "map re_name (seed_repositories now rnd') = [''nas01-backups'', ''lab-scratch'', ''offsite-nfs'', ''old-nas02'']"
    "map re_is_default (seed_repositories now rnd') = [True, False, False, False]" for rnd'
    by (simp_all add: seed_repositories_def seed_repo_fields)
  moreover have "filter re_is_default (seed_repositories now rnd') = [hd (seed_repositories now rnd')]" for rnd'
    by (simp add: seed_repositories_def seed_repo_fields)
  moreover have "map al_id (seed_alerts f now rnd) = [44, 43, 42, 41, 45, 46, 47, 48]"
    by (simp add: seed_alerts_def alert_entry_def Let_def)
  moreover have "pending_apps (seed_recovery_points f now rnd) = [rp_application_id (monitoring_rp now (sub_draws rnd 5))]"
    by (simp add: seed_recovery_points_def seed_rp_states)
  ultimately show ?thesis
    by (simp add: protection_ok_def seed_protection_def seed_recipients_def)
qed

text \<open>In every state the server can reach, whatever requests anybody sends, in any order and at
  any times: repository names are unique, at most one repository is the default, no public key is
  an escrow recipient twice, alert numbers are unique, and no application has two backups running.\<close>

theorem protection_invariant:
  "(let s = serve (protection_handle capture validTz num f) rs (seed_protection f0 now rnd) in
      distinct (map re_name (repositories s)) \<and> length (filter re_is_default (repositories s)) \<le> 1 \<and>
      distinct (map ec_public_key (recipients s)) \<and> distinct (map al_id (alerts s)) \<and>
      distinct (map rp_application_id (filter (\<lambda>r. rp_state r = RpPending) (recovery_points s))))"
  using protection_service.serve_holds [OF seed_protection_ok, of capture validTz num f rs f0 now rnd]
  by (simp add: protection_ok_def pending_apps_def)

section \<open>The escrow gate\<close>

lemma find_map_same: "(\<And>x. p (g x) = p x) \<Longrightarrow> find p (map g xs) = map_option g (find p xs)"
  by (induction xs) auto

lemma advance_repositories [simp]:
  "repositories (fst (advance capture f now rnd s)) = map (retire_repo now) (repositories s)"
  by (simp add: advance_def Let_def case_prod_beta)

lemma after_advance_repositories:
  assumes "\<And>s1. repositories (out_state (k s1)) = repositories s1"
  shows "repositories (out_state (after_advance capture f c s k)) = map (retire_repo (c_now c)) (repositories s)"
  using assms advance_repositories [of capture f "c_now c" "c_random c" s]
  by (simp add: after_advance_state case_prod_beta)

definition confirms :: "string \<Rightarrow> string \<Rightarrow> ctx \<times> protection_route \<Rightarrow> bool" where
  "confirms rid secret = (\<lambda>(c, q). ''repository.manage'' \<in> set (u_permissions (c_user c)) \<and>
     (case q of
        PostEscrowConfirm i body \<Rightarrow>
          i = rid \<and> normCode (json_text (jfield body ''confirmation_code'')) = normCode secret
      | _ \<Rightarrow> False))"

text \<open>What one step may do to a repository.\<close>

definition repo_step :: "bool \<Rightarrow> stored_repo \<Rightarrow> stored_repo \<Rightarrow> bool" where
  "repo_step confirmed r r' \<longleftrightarrow> re_id r' = re_id r \<and> re_code r' = re_code r \<and>
     (re_status r = AwaitingEscrow \<longrightarrow> re_status r' = AwaitingEscrow \<or> confirmed)"

lemma repo_step_retire: "repo_step b r (retire_repo now r)"
  by (auto simp: repo_step_def retire_repo_def)

lemma repo_step_refl [simp]: "repo_step b r r"
  by (simp add: repo_step_def)

lemma find_repo_advance:
  assumes "find_repo rid s = Some r" "repositories s' = map (retire_repo now) (repositories s)"
  shows "\<exists>r'. find_repo rid s' = Some r' \<and> repo_step b r r'"
  using assms repo_step_retire by (auto simp: find_repo_def find_map_same)

lemma find_repo_update:
  assumes "find_repo rid s = Some r" "\<And>x. re_id (g x) = re_id x" "i = rid \<Longrightarrow> repo_step b r (g r)"
  shows "\<exists>r'. find_repo rid (update_repo i g s) = Some r' \<and> repo_step b r r'"
proof -
  have "find (\<lambda>x. re_id x = rid) (update_first (\<lambda>x. re_id x = i) g xs) =
      (if i = rid then map_option g (find (\<lambda>x. re_id x = rid) xs) else find (\<lambda>x. re_id x = rid) xs)" for xs
    by (induction xs) (auto simp: assms(2))
  with assms show ?thesis
    by (auto simp: find_repo_def update_repo_def)
qed

lemma find_repo_append:
  assumes "find_repo rid s = Some r" "repositories s' = map g (repositories s) @ rs"
    and "\<And>x. re_id (g x) = re_id x" "repo_step b r (g r)"
  shows "\<exists>r'. find_repo rid s' = Some r' \<and> repo_step b r r'"
  using assms by (auto simp: find_repo_def find_append find_map_same)

lemma protection_action_repo:
  assumes r: "find_repo rid s = Some r"
    and perm: "protection_permission q \<in> set (u_permissions (c_user c))"
  shows "\<exists>r'. find_repo rid (out_state (protection_action capture validTz num f c q s)) = Some r' \<and>
    repo_step (confirms rid (re_code r) (c, q)) r r'"
proof (cases q)
  case (PostEscrowConfirm i body)
  show ?thesis
  proof (cases "\<exists>r0. find_repo i s = Some r0 \<and> normCode (json_text (jfield body ''confirmation_code'')) = normCode (re_code r0)")
    case True
    then have "i = rid \<Longrightarrow> confirms rid (re_code r) (c, q)"
      using perm r PostEscrowConfirm by (auto simp: confirms_def)
    then have "i = rid \<Longrightarrow> repo_step (confirms rid (re_code r) (c, q)) r (confirm_repo (c_now c) r)"
      by (simp add: repo_step_def confirm_repo_def)
    from find_repo_update [OF r, of "confirm_repo (c_now c)" i, OF _ this] have
      "\<exists>r'. find_repo rid (update_repo i (confirm_repo (c_now c)) s) = Some r' \<and> repo_step (confirms rid (re_code r) (c, q)) r r'"
      by (simp add: confirm_repo_def)
    with r PostEscrowConfirm show ?thesis
      by (auto simp: post_escrow_confirm_def answer_def Let_def split: option.splits)
  next
    case False
    with r PostEscrowConfirm show ?thesis
      by (auto simp: post_escrow_confirm_def answer_def Let_def split: option.splits)
  qed
next
  case (PostReindex i)
  from find_repo_update [OF r, of "\<lambda>x. x\<lparr>re_last_reindex_at := Some (c_now c)\<rparr>"] PostReindex r show ?thesis
    by (auto simp: post_reindex_def answer_def repo_step_def split: option.splits)
next
  case (PostRepository body)
  from find_repo_append [OF r, of _ "\<lambda>x. x\<lparr>re_is_default := False\<rparr>"] find_repo_append [OF r, of _ "\<lambda>x. x"]
    PostRepository r show ?thesis
    by (auto simp: post_repository_def answer_def Let_def repo_step_def split: option.splits)
next
  case (PostBackup i body)
  have "repositories (out_state (start_backup f c a body s1)) = repositories s1" for a s1
    by (simp add: start_backup_def answer_def Let_def)
  from find_repo_advance [OF r after_advance_repositories [OF this]] PostBackup r show ?thesis
    by (auto simp: post_backup_def answer_def split: option.splits)
next
  case (GetRecoveryPoints a st l)
  have "repositories (out_state (get_recovery_points a st l s1)) = repositories s1" for s1
    by (simp add: get_recovery_points_def answer_def)
  from find_repo_advance [OF r after_advance_repositories [OF this]] GetRecoveryPoints show ?thesis by simp
next
  case (GetRecoveryPoint i)
  have "repositories (out_state (get_recovery_point i s1)) = repositories s1" for s1
    by (simp add: get_recovery_point_def answer_def split: option.splits)
  from find_repo_advance [OF r after_advance_repositories [OF this]] GetRecoveryPoint show ?thesis by simp
qed (use r in \<open>auto simp: answer_def post_recipient_def delete_recipient_def get_escrow_package_def get_alerts_def
  put_backup_settings_def post_alert_acknowledge_def put_host_settings_def Let_def find_repo_def
  split: option.splits check.splits\<close>)

lemma protection_handle_repo:
  assumes "find_repo rid s = Some r"
  shows "\<exists>r'. find_repo rid (out_state (protection_handle capture validTz num f c q s)) = Some r' \<and>
    repo_step (confirms rid (re_code r) (c, q)) r r'"
  using assms protection_action_repo [OF assms, of q c]
  by (auto simp: protection_handle_def need_def)

definition sample_protection :: protection where
  "sample_protection =
     \<lparr>recipients = [], repositories = [(repo_base 0 [] [] ''r1'' ''lab'' ''https://h'')
        \<lparr>re_status := AwaitingEscrow, re_code := ''K7QX-M2DA-PL4W-ZT6R''\<rparr>],
      settings = [], recovery_points = [], alerts = [], host_limits = []\<rparr>"


definition repo_manager :: ctx where
  "repo_manager =
     \<lparr>c_user = \<lparr>u_id = ''u1'', u_username = ''rita'', u_display_name = ''Rita'', u_email = None, u_kind = Oidc, u_roles = [],
        u_permissions = [''repository.manage'', ''backup.execute'', ''backup.read'']\<rparr>,
      c_now = 1000, c_random = (\<lambda>k. replicate 16 (CHR ''x''))\<rparr>"


section \<open>Backups finish\<close>

text \<open>How a recovery point may change over time, with no deletion scheduled for it.\<close>

definition evolves :: "stored_rp \<Rightarrow> stored_rp \<Rightarrow> bool" where
  "evolves r r' \<longleftrightarrow> rp_id r' = rp_id r \<and> rp_application_id r' = rp_application_id r \<and>
     rp_delete_after r' = rp_delete_after r \<and>
     (rp_state r' = RpPending \<longrightarrow> rp_state r = RpPending \<and> rp_finish_at r' = rp_finish_at r) \<and>
     (rp_delete_after r = None \<longrightarrow>
       (rp_state r = RpPending \<longrightarrow> rp_state r' = RpPending \<or> rp_state r' = RpCommitted \<and> rp_manifest r' \<noteq> None) \<and>
       (rp_state r \<noteq> RpPending \<longrightarrow> r' = r))"

lemma evolves_refl [simp]: "evolves r r"
  by (auto simp: evolves_def)

lemma evolves_trans: "evolves a b \<Longrightarrow> evolves b c \<Longrightarrow> evolves a c"
  unfolding evolves_def by (metis rp_state.distinct(1))

definition grows :: "stored_rp list \<Rightarrow> stored_rp list \<Rightarrow> bool" where
  "grows rs rs' \<longleftrightarrow> (\<exists>ys zs. rs' = ys @ zs \<and> list_all2 evolves rs ys)"

lemma grows_refl [simp]: "grows rs rs"
  unfolding grows_def by (metis append_Nil2 evolves_refl list_all2_refl)

lemma grows_trans:
  assumes "grows a b" "grows b c"
  shows "grows a c"
proof -
  from assms obtain y z y' z' where b: "b = y @ z" "list_all2 evolves a y" and c: "c = y' @ z'" "list_all2 evolves b y'"
    by (auto simp: grows_def)
  then obtain u v where "y' = u @ v" "list_all2 evolves y u" by (auto simp: list_all2_append1)
  moreover have "list_all2 evolves a u"
    by (rule list_all2_trans [OF evolves_trans b(2) \<open>list_all2 evolves y u\<close>])
  ultimately show ?thesis
    using c(1) unfolding grows_def by (intro exI [of _ u] exI [of _ "v @ z'"]) simp
qed

lemma grows_append: "list_all2 evolves rs ys \<Longrightarrow> grows rs (ys @ zs)"
  by (auto simp: grows_def)

lemma grows_nth:
  assumes "grows rs rs'" "i < length rs"
  shows "i < length rs' \<and> evolves (rs ! i) (rs' ! i)"
  using assms by (auto simp: grows_def nth_append list_all2_conv_all_nth)

lemma evolves_runs: "rp_state r = RpPending \<Longrightarrow> evolves r (r\<lparr>rp_plan := p, rp_run_id := u, rp_announced := b\<rparr>)"
  unfolding evolves_def by simp

lemma evolves_commits:
  "rp_state r = RpPending \<Longrightarrow> evolves r (commit_rp capture s now rnd app p (r\<lparr>rp_plan := q, rp_run_id := u\<rparr>))"
  unfolding evolves_def by simp

lemma advance_rp_evolves:
  assumes "advance_rp capture f s now rnd als r = Some (r', als', es)"
  shows "evolves r r'"
  using assms
proof (cases rule: advance_rp_cases)
  case idle
  then show ?thesis by simp
next
  case runs
  then show ?thesis using evolves_runs by blast
next
  case commits
  then show ?thesis using evolves_commits by blast
qed

lemma advance_loop_evolves:
  "advance_loop capture f s now rnd i als rs = (rs', als', es, ok) \<Longrightarrow> list_all2 evolves rs rs'"
proof (induction rs arbitrary: i als rs' als' es ok)
  case (Cons r rs)
  show ?case
  proof (cases "advance_rp capture f s now (sub_draws rnd i) als r")
    case None
    with Cons.prems show ?thesis by (auto simp: list_all2_refl)
  next
    case (Some x)
    obtain r1 als1 es1 where x: "x = (r1, als1, es1)" by (cases x)
    obtain rs2 als2 es2 ok2 where l: "advance_loop capture f s now rnd (Suc i) als1 rs = (rs2, als2, es2, ok2)"
      by (metis prod_cases4)
    from Some x l Cons.prems have "rs' = r1 # rs2" by simp
    with Cons.IH [OF l] advance_rp_evolves [OF Some [unfolded x]] show ?thesis by simp
  qed
qed simp

lemma expire_rp_evolves: "evolves r (expire_rp now r)"
  by (auto simp: evolves_def expire_rp_def deletion_due_def)

lemma advance_grows: "list_all2 evolves (recovery_points s) (recovery_points (fst (advance capture f now rnd s)))"
proof -
  let ?s1 = "s\<lparr>recovery_points := map (expire_rp now) (recovery_points s),
                repositories := map (retire_repo now) (repositories s)\<rparr>"
  obtain rps als es ok where l:
    "advance_loop capture f ?s1 now rnd 0 (alerts s) (map (expire_rp now) (recovery_points s)) = (rps, als, es, ok)"
    by (metis prod_cases4)
  have "list_all2 evolves rs (map (expire_rp now) rs)" for rs
    by (induction rs) (simp_all add: expire_rp_evolves)
  from list_all2_trans [OF evolves_trans this advance_loop_evolves [OF l]] l show ?thesis
    by (simp add: advance_def)
qed

text \<open>The stored component lists are lists or strings, as the console sends them.\<close>

definition settings_ok :: "protection \<Rightarrow> bool" where
  "settings_ok s \<longleftrightarrow>
     list_all (\<lambda>(a, x). has_includes (bs_excluded_components x) \<and> has_includes (bs_optional_components x)) (settings s)"

lemma planFor_ok:
  assumes "settings_ok s"
  shows "\<exists>p. planFor s app = Some p"
proof -
  have "has_includes (bs_excluded_components (settings_of s a)) \<and> has_includes (bs_optional_components (settings_of s a))" for a
    using assms
    by (auto simp: settings_of_def settings_ok_def defaultSettings_def list_all_iff split: option.splits dest!: map_of_SomeD)
  then show ?thesis by (auto simp: planFor_def Let_def split: option.splits)
qed

lemma advance_rp_some:
  assumes "settings_ok s"
  shows "\<exists>x. advance_rp capture f s now rnd als r = Some x"
proof -
  obtain p where p: "(case rp_plan r of None \<Rightarrow> planFor s (find_app (rp_application_id r) f) | Some p \<Rightarrow> Some p) = Some p"
    using planFor_ok [OF assms] by (cases "rp_plan r") auto
  show ?thesis
    unfolding advance_rp_def Let_def p by (cases "rp_finish_at r") (simp_all add: case_prod_beta)
qed

definition not_due :: "int \<Rightarrow> stored_rp \<Rightarrow> bool" where
  "not_due now r \<longleftrightarrow> rp_state r = RpPending \<longrightarrow>
     (case rp_finish_at r of None \<Rightarrow> True | Some t \<Rightarrow> t = 0 \<or> now < t)"

lemma not_due_runs:
  "rp_finish_at r = Some t \<Longrightarrow> now < t \<Longrightarrow> not_due now (r\<lparr>rp_plan := p, rp_run_id := u, rp_announced := b\<rparr>)"
  unfolding not_due_def by simp

lemma not_due_other: "rp_state r \<noteq> RpPending \<or> rp_finish_at r = None \<or> rp_finish_at r = Some 0 \<Longrightarrow> not_due now r"
  unfolding not_due_def by auto

lemma advance_rp_not_due:
  assumes "advance_rp capture f s now rnd als r = Some (r', als', es)"
  shows "not_due now r'"
  using assms
proof (cases rule: advance_rp_cases)
  case idle
  then show ?thesis using not_due_other by blast
next
  case runs
  then show ?thesis using not_due_runs by blast
next
  case (commits t app p u rnd')
  have "rp_state r' \<noteq> RpPending" unfolding commits(4) by simp
  then show ?thesis using not_due_other by blast
qed

lemma advance_loop_not_due:
  "settings_ok s \<Longrightarrow> advance_loop capture f s now rnd i als rs = (rs', als', es, ok) \<Longrightarrow> ok \<and> list_all (not_due now) rs'"
proof (induction rs arbitrary: i als rs' als' es ok)
  case (Cons r rs)
  from advance_rp_some [OF Cons.prems(1)] obtain r1 als1 es1
    where r1: "advance_rp capture f s now (sub_draws rnd i) als r = Some (r1, als1, es1)"
    by (metis prod_cases3)
  obtain rs2 als2 es2 ok2 where l: "advance_loop capture f s now rnd (Suc i) als1 rs = (rs2, als2, es2, ok2)"
    by (metis prod_cases4)
  from r1 l Cons.prems(2) have "rs' = r1 # rs2" "ok = ok2" by simp_all
  with Cons.IH [OF Cons.prems(1) l] advance_rp_not_due [OF r1] show ?case by simp
qed simp

lemma advance_completes:
  assumes "settings_ok s"
  shows "snd (snd (advance capture f now rnd s)) \<and>
    list_all (not_due now) (recovery_points (fst (advance capture f now rnd s)))"
proof -
  let ?s1 = "s\<lparr>recovery_points := map (expire_rp now) (recovery_points s),
                repositories := map (retire_repo now) (repositories s)\<rparr>"
  obtain rps als es ok where l:
    "advance_loop capture f ?s1 now rnd 0 (alerts s) (map (expire_rp now) (recovery_points s)) = (rps, als, es, ok)"
    by (metis prod_cases4)
  have "settings_ok ?s1" using assms by (simp add: settings_ok_def)
  from advance_loop_not_due [OF this l] l show ?thesis
    by (simp add: advance_def)
qed
lemma after_advance_grows:
  assumes "\<And>s1. grows (recovery_points s1) (recovery_points (out_state (k s1)))"
  shows "grows (recovery_points s) (recovery_points (out_state (after_advance capture f c s k)))"
proof -
  let ?s1 = "fst (advance capture f (c_now c) (c_random c) s)"
  have g: "grows (recovery_points s) (recovery_points ?s1)"
    using grows_append [OF advance_grows, of s capture f "c_now c" "c_random c" "[]"] by simp
  from grows_trans [OF g assms] g show ?thesis
    by (simp add: after_advance_state case_prod_beta)
qed

lemma start_backup_grows: "grows (recovery_points s) (recovery_points (out_state (start_backup f c a body s)))"
  using grows_append [of "recovery_points s" "recovery_points s"]
  by (auto simp: start_backup_def answer_def Let_def list_all2_refl)

lemma protection_handle_grows:
  "grows (recovery_points s) (recovery_points (out_state (protection_handle capture validTz num f c q s)))"
proof -
  have "grows (recovery_points s) (recovery_points (out_state (protection_action capture validTz num f c q s)))"
    by (cases q)
      (auto simp: answer_def post_recipient_def delete_recipient_def get_escrow_package_def get_alerts_def
        put_backup_settings_def post_alert_acknowledge_def put_host_settings_def Let_def post_repository_def
        post_escrow_confirm_def post_reindex_def update_repo_def post_backup_def get_recovery_points_def get_recovery_point_def
        intro!: after_advance_grows start_backup_grows split: option.splits check.splits)
  then show ?thesis by (simp add: protection_handle_def need_def)
qed

lemma serve_grows: "grows (recovery_points s) (recovery_points (serve (protection_handle capture validTz num f) rs s))"
proof (induction rs arbitrary: s)
  case (Cons cq rs)
  obtain c q where "cq = (c, q)" by (cases cq)
  with grows_trans [OF protection_handle_grows Cons.IH] show ?case by simp
qed simp

lemma accepted_backup:
  assumes "protection_handle capture validTz num f c (PostBackup aid body) s = (Send 202 b, es, s1)"
  shows "\<exists>r. recovery_points s1 ! length (recovery_points s) = r \<and> length (recovery_points s) < length (recovery_points s1) \<and>
    rp_application_id r = aid \<and> rp_state r = RpPending \<and> rp_delete_after r = None \<and>
    rp_finish_at r = Some (c_now c + BACKUP_MS)"
proof -
  from assms obtain a where a: "find_app aid f = Some a"
    "after_advance capture f c s (start_backup f c a body) = (Send 202 b, es, s1)"
    by (auto simp: protection_handle_def need_def post_backup_def answer_def forbidden_def not_found_def
        split: if_splits option.splits)
  let ?s0 = "fst (advance capture f (c_now c) (c_random c) s)"
  from a(2) obtain e where "start_backup f c a body ?s0 = (Send 202 b, e, s1)"
    by (auto simp: after_advance_def case_prod_beta Let_def internal_error_def split: if_splits)
      (metis prod.collapse)
  then obtain m where "recovery_points s1 = recovery_points ?s0 @ [new_backup f c a m ?s0]"
    by (auto simp: start_backup_def answer_def conflict_def Let_def split: if_splits)
  moreover have "length (recovery_points ?s0) = length (recovery_points s)"
    using list_all2_lengthD [OF advance_grows] by metis
  moreover have "ap_id a = aid" using a(1) by (auto simp: find_app_def find_Some_iff)
  ultimately show ?thesis by (simp add: new_backup_def rp_base_def nth_append)
qed

text \<open>C22: A backup that was accepted finishes. Whatever requests come in between, at any times, the
  first reading of the recovery points once the backup's time is over finds it committed, with a
  manifest, provided the stored component lists are lists (an exception ends the reading
  otherwise).\<close>

theorem backup_commits:
  assumes "protection_handle capture validTz num f c (PostBackup aid body) s = (Send 202 b, es, s1)"
    and "s2 = serve (protection_handle capture validTz num f) rs s1"
    and "settings_ok s2" "0 \<le> c_now c" "c_now c + BACKUP_MS \<le> c_now c'"
    and "''backup.read'' \<in> set (u_permissions (c_user c'))"
  shows "\<exists>r m. recovery_points (out_state (protection_handle capture validTz num f c' (GetRecoveryPoints app st n) s2)) !
      length (recovery_points s) = r \<and> rp_application_id r = aid \<and> rp_state r = RpCommitted \<and> rp_manifest r = Some m"
proof -
  let ?n = "length (recovery_points s)" and ?s3 = "fst (advance capture f (c_now c') (c_random c') s2)"
  from accepted_backup [OF assms(1)] obtain r1 where r1: "recovery_points s1 ! ?n = r1" "?n < length (recovery_points s1)"
    "rp_application_id r1 = aid" "rp_state r1 = RpPending" "rp_delete_after r1 = None"
    "rp_finish_at r1 = Some (c_now c + BACKUP_MS)"
    by blast
  have out: "out_state (protection_handle capture validTz num f c' (GetRecoveryPoints app st n) s2) = ?s3"
    using advance_completes [OF assms(3)] assms(6)
    by (simp add: protection_handle_def need_def after_advance_state case_prod_beta get_recovery_points_def answer_def)
  have "grows (recovery_points s2) (recovery_points ?s3)"
    using grows_append [OF advance_grows, of s2 capture f "c_now c'" "c_random c'" "[]"] by simp
  moreover have "grows (recovery_points s1) (recovery_points s2)"
    using serve_grows assms(2) by simp
  ultimately have g: "grows (recovery_points s1) (recovery_points ?s3)" using grows_trans by blast
  from grows_nth [OF g r1(2)] r1(1) have ev: "?n < length (recovery_points ?s3)" "evolves r1 (recovery_points ?s3 ! ?n)"
    by auto
  from advance_completes [OF assms(3), of capture f "c_now c'" "c_random c'"] ev(1)
  have "not_due (c_now c') (recovery_points ?s3 ! ?n)" by (simp add: list_all_length)
  with ev(2) r1(3-) assms(4,5) show ?thesis
    unfolding out by (auto simp: evolves_def not_due_def BACKUP_MS_def)
qed

definition plain_handle :: "ctx \<Rightarrow> protection_route \<Rightarrow> protection \<Rightarrow> prot_outcome" where
  "plain_handle = protection_handle (\<lambda>a cs. None) (\<lambda>tz. True) (\<lambda>j. None) sample_fleet"

theorem backup_commits_witness:
  "\<exists>r m. recovery_points (out_state (plain_handle (repo_manager\<lparr>c_now := 16000\<rparr>) (GetRecoveryPoints None None None)
      (serve plain_handle [(repo_manager\<lparr>c_now := 9000\<rparr>, GetRecoveryPoints None None None)]
        (out_state (plain_handle repo_manager (PostBackup ''a'' (JObj [])) sample_protection))))) ! 0 = r \<and>
    rp_application_id r = ''a'' \<and> rp_state r = RpCommitted \<and> rp_manifest r = Some m"
proof -
  let ?o = "plain_handle repo_manager (PostBackup ''a'' (JObj [])) sample_protection"
  let ?rs = "[(repo_manager\<lparr>c_now := 9000\<rparr>, GetRecoveryPoints None None None)]"
  have perms: "u_permissions (c_user repo_manager) = [''repository.manage'', ''backup.execute'', ''backup.read'']"
    "c_now repo_manager = 1000"
    by (simp_all add: repo_manager_def)
  have "out_reply ?o = Send 202 (WorkflowBody ''application/a'')"
    by (simp add: plain_handle_def protection_handle_def need_def perms post_backup_def sample_fleet_def find_app_def
      as_app_def simpleContainerApp_def app_base.defs after_advance_def advance_def sample_protection_def start_backup_def
      has_pending_def Let_def new_backup_def rp_base_def)
  then have acc: "plain_handle repo_manager (PostBackup ''a'' (JObj [])) sample_protection =
      (Send 202 (WorkflowBody ''application/a''), out_effects ?o, out_state ?o)"
    by (metis prod.collapse)
  have "settings (out_state (plain_handle (repo_manager\<lparr>c_now := 9000\<rparr>) (GetRecoveryPoints None None None) t)) = settings t" for t
    by (simp add: plain_handle_def protection_handle_def need_def perms after_advance_state case_prod_beta
      get_recovery_points_def answer_def advance_def Let_def)
  moreover have "settings (out_state ?o) = []"
    by (simp add: plain_handle_def protection_handle_def need_def perms post_backup_def answer_def
      after_advance_state case_prod_beta start_backup_def Let_def advance_def sample_protection_def split: option.split)
  ultimately have "settings_ok (serve plain_handle ?rs (out_state ?o))"
    by (simp add: settings_ok_def)
  with backup_commits [of "\<lambda>a cs. None" "\<lambda>tz. True" "\<lambda>j. None" sample_fleet, folded plain_handle_def, OF acc refl,
      of ?rs "repo_manager\<lparr>c_now := 16000\<rparr>" None None None] perms
  show ?thesis by (simp add: BACKUP_MS_def sample_protection_def)
qed

end
