(* ===== verification/Policy_Schedule.thy ===== *)
theory Policy_Schedule
  imports Protection_Server Cron_Schedule Event_Patterns
begin

text \<open>
  Protection policies, recovery contracts, deletion with a grace period, notification channels and
  SMTP settings of the development server, \<^verbatim>\<open>scripts/mock-policies.mjs\<close>. The handlers change the
  state of this module and, for deletions, the recovery points and repositories.

  What the JavaScript runtime supplies is a record of parameters: conversions of JSON values that
  are not strings, the URL constructor, the time zone database and the collation of strings.
\<close>

record runtime =
  rt_string :: "json \<Rightarrow> string"
  rt_stringify :: "json \<Rightarrow> string"
  rt_url :: "string \<Rightarrow> (string \<times> string) option"
  rt_valid_tz :: "string \<Rightarrow> bool"
  rt_wall :: "int \<Rightarrow> string \<Rightarrow> int \<times> int \<times> int \<times> int \<times> int"
  rt_le :: "string \<Rightarrow> string \<Rightarrow> bool"

text \<open>\<^verbatim>\<open>String(v ?? "")\<close>\<close>

definition text_of :: "runtime \<Rightarrow> json option \<Rightarrow> string" where
  "text_of rt v = (case v of None \<Rightarrow> [] | Some JNull \<Rightarrow> [] | Some (JStr s) \<Rightarrow> s | Some x \<Rightarrow> rt_string rt x)"

section \<open>Cron\<close>

definition CRON_FIELDS :: "field_spec list" where
  "CRON_FIELDS =
     [\<lparr>fs_name = ''minute'', fs_min = 0, fs_max = 59, fs_names = []\<rparr>,
      \<lparr>fs_name = ''hour'', fs_min = 0, fs_max = 23, fs_names = []\<rparr>,
      \<lparr>fs_name = ''day of month'', fs_min = 1, fs_max = 31, fs_names = []\<rparr>,
      \<lparr>fs_name = ''month'', fs_min = 1, fs_max = 12, fs_names = MONTHS\<rparr>,
      \<lparr>fs_name = ''day of week'', fs_min = 0, fs_max = 6, fs_names = DAYS\<rparr>]"

text \<open>The left value is the message of the error that is thrown.\<close>

definition cronValue :: "string \<Rightarrow> field_spec \<Rightarrow> string + nat" where
  "cronValue t f =
     (if all_digits t then
        (let n = digits_val t
         in if n < fs_min f \<or> n > fs_max f
            then Inl (fs_name f @ '': end of range ('' @ show_nat n @ '') above maximum ('' @ show_nat (fs_max f) @ '')'')
            else Inr n)
      else case index_of (toUpperCase t) (fs_names f) of
             None \<Rightarrow> Inl (''failed to parse int from '' @ t)
           | Some i \<Rightarrow> Inr (fs_min f + i))"

definition cron_step :: "string list \<Rightarrow> string + nat" where
  "cron_step pieces =
     (case pieces of
        rng # stepText # rest \<Rightarrow>
          if \<not> all_digits stepText \<or> digits_val stepText < 1 then Inl (''failed to parse int from '' @ stepText)
          else Inr (digits_val stepText)
      | _ \<Rightarrow> Inr 1)"

definition cron_range :: "field_spec \<Rightarrow> string \<Rightarrow> bool \<Rightarrow> string + nat \<times> nat" where
  "cron_range f rng hasStep =
     (if rng = ''*'' \<or> rng = ''?'' then Inr (fs_min f, fs_max f)
      else if CHR ''-'' \<in> set rng then
        (case cronValue (split_on (CHR ''-'') rng ! 0) f of
           Inl e \<Rightarrow> Inl e
         | Inr lo \<Rightarrow>
             (case cronValue (split_on (CHR ''-'') rng ! 1) f of
                Inl e \<Rightarrow> Inl e
              | Inr hi \<Rightarrow>
                  if lo > hi then Inl (''beginning of range ('' @ show_nat lo @ '') beyond end of range ('' @
                    show_nat hi @ ''): '' @ rng)
                  else Inr (lo, hi)))
      else case cronValue rng f of
             Inl e \<Rightarrow> Inl e
           | Inr lo \<Rightarrow> Inr (lo, if hasStep then fs_max f else lo))"

definition cron_part :: "field_spec \<Rightarrow> string \<Rightarrow> string + nat list" where
  "cron_part f part =
     (let pieces = split_on SLASH part
      in if length pieces > 2 \<or> hd pieces = [] then Inl (''too many slashes: '' @ part)
         else case cron_step pieces of
                Inl e \<Rightarrow> Inl e
              | Inr step \<Rightarrow>
                  (case cron_range f (hd pieces) (length pieces > 1) of
                     Inl e \<Rightarrow> Inl e
                   | Inr (lo, hi) \<Rightarrow> Inr (step_values lo hi step)))"

fun cron_parts :: "field_spec \<Rightarrow> string list \<Rightarrow> string + nat list" where
  "cron_parts f [] = Inr []"
| "cron_parts f (p # ps) =
     (case cron_part f p of
        Inl e \<Rightarrow> Inl e
      | Inr vs \<Rightarrow> (case cron_parts f ps of Inl e \<Rightarrow> Inl e | Inr ws \<Rightarrow> Inr (vs @ ws)))"

definition cronField :: "string \<Rightarrow> field_spec \<Rightarrow> string + bool \<times> nat list" where
  "cronField raw f =
     (case cron_parts f (split_on (CHR '','') raw) of
        Inl e \<Rightarrow> Inl e
      | Inr vs \<Rightarrow> Inr (raw = ''*'' \<or> raw = ''?'', nub vs))"

fun cron_fields :: "string list \<Rightarrow> field_spec list \<Rightarrow> string + (bool \<times> nat list) list" where
  "cron_fields (p # ps) (f # fs) =
     (case cronField p f of
        Inl e \<Rightarrow> Inl e
      | Inr x \<Rightarrow> (case cron_fields ps fs of Inl e \<Rightarrow> Inl e | Inr xs \<Rightarrow> Inr (x # xs)))"
| "cron_fields _ _ = Inr []"

text \<open>Splitting into words skips the white space around the text, so its \<^verbatim>\<open>trim\<close> only matters for the
  preset names.

  Looking up \<^verbatim>\<open>PRESETS[name]\<close> also finds the inherited properties of the object; \<open>Some None\<close> is
  such a value, which is not a string.\<close>

definition PRESETS :: "string \<Rightarrow> string option option" where
  "PRESETS name =
     (if name = ''hourly'' then Some (Some ''0 * * * *'') else if name = ''daily'' then Some (Some ''0 1 * * *'')
      else if name = ''weekly'' then Some (Some ''0 1 * * 0'') else if name = ''monthly'' then Some (Some ''0 1 1 * *'')
      else if name = ''constructor'' \<or> name = ''__proto__'' then Some None
      else None)"

definition normalizeSchedule :: "string \<Rightarrow> string + string option" where
  "normalizeSchedule s =
     (case PRESETS (toLowerCase (trim s)) of
        Some p \<Rightarrow> Inr p
      | None \<Rightarrow>
          let parts = words_by js_space s
          in if length parts \<noteq> 5 then
               Inl (''expected exactly 5 fields, found '' @ show_nat (length parts) @ '': ['' @ js_join '' '' parts @ '']'')
             else case cron_fields parts CRON_FIELDS of
                    Inl e \<Rightarrow> Inl e
                  | Inr fs \<Rightarrow> Inr (Some (js_join '' '' parts)))"

text \<open>\<^verbatim>\<open>Date.UTC\<close> on a date and a time: the inverse of \<^const>\<open>civil_from_days\<close>.\<close>

definition days_from_civil :: "int \<Rightarrow> int \<Rightarrow> int \<Rightarrow> int" where
  "days_from_civil y m d =
     (let y' = (if m \<le> 2 then y - 1 else y);
          era = y' div 400;
          yoe = y' mod 400;
          doy = (153 * ((m + 9) mod 12) + 2) div 5 + d - 1;
          doe = yoe * 365 + yoe div 4 - yoe div 100 + doy
      in era * 146097 + doe - 719468)"

definition utc :: "int \<times> int \<times> int \<times> int \<times> int \<Rightarrow> int" where
  "utc = (\<lambda>(y, mo, d, h, mi). ((days_from_civil y mo d * 24 + h) * 60 + mi) * 60000)"

definition fromWall :: "runtime \<Rightarrow> int \<times> int \<times> int \<times> int \<times> int \<Rightarrow> string \<Rightarrow> int" where
  "fromWall rt w tz =
     (let guess = utc w;
          t1 = guess + (guess - utc (rt_wall rt guess tz))
      in t1 + (guess - utc (rt_wall rt t1 tz)))"

definition day_matches :: "bool \<times> nat list \<Rightarrow> bool \<times> nat list \<Rightarrow> bool \<times> nat list \<Rightarrow> int \<Rightarrow> bool" where
  "day_matches domF moF dowF day =
     (let (y, m, d) = civil_from_days day;
          domOk = nat d \<in> set (snd domF);
          dowOk = nat ((day + 4) mod 7) \<in> set (snd dowF)
      in nat m \<in> set (snd moF) \<and> (if fst domF \<or> fst dowF then domOk \<and> dowOk else domOk \<or> dowOk))"

definition day_times :: "runtime \<Rightarrow> nat list \<Rightarrow> nat list \<Rightarrow> string \<Rightarrow> int \<Rightarrow> int list" where
  "day_times rt hs ms tz day =
     (let (y, m, d) = civil_from_days day
      in concat (map (\<lambda>hh. map (\<lambda>mm. fromWall rt (y, m, d, int hh, int mm) tz) (sort ms)) (sort hs)))"

definition run_times :: "runtime \<Rightarrow> (bool \<times> nat list) list \<Rightarrow> string \<Rightarrow> int \<Rightarrow> int list" where
  "run_times rt fs tz now =
     (case fs of
        [mi, h, domF, moF, dowF] \<Rightarrow>
          (let (y, m, d, hh, mm) = rt_wall rt now tz;
               today = days_from_civil y m d
           in concat (map (\<lambda>i. let day = today + int i in
                if day_matches domF moF dowF day then day_times rt (snd h) (snd mi) tz day else []) [0..<400]))
      | _ \<Rightarrow> [])"

text \<open>\<open>Inl\<close> is an exception of the parser; \<open>Inr None\<close> is \<^verbatim>\<open>null\<close>.\<close>

definition nextRun :: "runtime \<Rightarrow> string \<Rightarrow> string \<Rightarrow> int \<Rightarrow> string + int option" where
  "nextRun rt cron tz now =
     (case cron_fields (split_on (CHR '' '') cron) CRON_FIELDS of
        Inl e \<Rightarrow> Inl e
      | Inr fs \<Rightarrow> Inr (find (\<lambda>t. t > now) (run_times rt fs tz now)))"

section \<open>Agreement with the console\<close>

text \<open>A field of the server's table against the console's: same bounds and names.\<close>

definition same_spec :: "field_spec \<Rightarrow> field_spec \<Rightarrow> bool" where
  "same_spec f g \<longleftrightarrow> fs_min f = fs_min g \<and> fs_max f = fs_max g \<and> fs_names f = fs_names g \<and> [] \<notin> set (fs_names f)"

lemma FIELDS_same: "list_all2 same_spec CRON_FIELDS FIELDS"
  by (simp add: CRON_FIELDS_def FIELDS_def same_spec_def MONTHS_def DAYS_def)

text \<open>Both parsers fail or both succeed, with related results.\<close>

definition both :: "('a \<Rightarrow> 'b \<Rightarrow> bool) \<Rightarrow> 'e + 'a \<Rightarrow> 'f + 'b \<Rightarrow> bool" where
  "both R x y = (case (x, y) of (Inr a, Inr b) \<Rightarrow> R a b | (Inl _, Inl _) \<Rightarrow> True | _ \<Rightarrow> False)"

lemma both_simps [simp]:
  "both R (Inl e) (Inl e')" "both R (Inr a) (Inr b) = R a b" "\<not> both R (Inl e) (Inr b)" "\<not> both R (Inr a) (Inl e)"
  by (simp_all add: both_def)

lemma cronValue_both: "same_spec f g \<Longrightarrow> both (=) (cronValue t f) (parseValue t g)"
  by (auto simp: cronValue_def parseValue_def same_spec_def Let_def both_def split: option.splits)

lemma cron_range_both:
  assumes "same_spec f g"
  shows "both (=) (cron_range f rng b) (parseRange g rng b)"
proof (cases "rng = ''*'' \<or> rng = ''?'' \<or> CHR ''-'' \<notin> set rng")
  case True
  with assms cronValue_both [OF assms, of rng] show ?thesis
    by (auto simp: cron_range_def parseRange_def both_def same_spec_def split: sum.splits)
next
  case False
  obtain u v where uv: "rng = u @ CHR ''-'' # v" "CHR ''-'' \<notin> set u"
    using False by (meson split_list_first)
  obtain w ws where w: "split_on (CHR ''-'') v = w # ws" by (cases "split_on (CHR ''-'') v") auto
  from uv w have "split_on (CHR ''-'') rng = u # w # ws" by (simp add: split_on_append_sep)
  with False cronValue_both [OF assms, of u] cronValue_both [OF assms, of w] show ?thesis
    by (auto simp: cron_range_def parseRange_def both_def split: sum.splits)
qed

lemma index_of_None: "x \<notin> set xs \<Longrightarrow> index_of x xs = None"
  by (induction xs) auto

lemma parseRange_Nil: "same_spec f g \<Longrightarrow> \<exists>e. parseRange g [] b = Inl e"
  by (auto simp: parseRange_def parseValue_def all_digits_def same_spec_def toUpperCase_def index_of_None)

lemma cron_part_both:
  assumes "same_spec f g"
  shows "both (=) (cron_part f p) (parsePart g p)"
proof -
  obtain q qs where q: "split_on SLASH p = q # qs" by (cases "split_on SLASH p") auto
  consider "q = []" | "q \<noteq> []" "qs = []" | s where "q \<noteq> []" "qs = [s]" | s t rest where "q \<noteq> []" "qs = s # t # rest"
    by (metis list.exhaust)
  then show ?thesis
  proof cases
    case 1
    with q parseRange_Nil [OF assms, of "length (q # qs) > 1"] show ?thesis
      by (auto simp: cron_part_def parsePart_def both_def Let_def split: sum.splits)
  next
    case 2
    with q cron_range_both [OF assms, of q False] show ?thesis
      by (auto simp: cron_part_def parsePart_def both_def Let_def cron_step_def parseStep_def split: sum.splits)
  next
    case 3
    with q cron_range_both [OF assms, of q True] show ?thesis
      by (auto simp: cron_part_def parsePart_def both_def Let_def cron_step_def parseStep_def split: sum.splits)
  next
    case 4
    with q show ?thesis
      by (auto simp: cron_part_def parsePart_def both_def Let_def parseStep_def split: sum.splits)
  qed
qed

lemma cron_parts_both:
  assumes "same_spec f g"
  shows "both (=) (cron_parts f ps) (parseParts g ps)"
proof (induction ps)
  case (Cons p ps)
  with cron_part_both [OF assms, of p] show ?case by (auto simp: both_def split: sum.splits)
qed simp

text \<open>The two readings of a field: the marker for any value, and the values.\<close>

definition same_field :: "bool \<times> nat list \<Rightarrow> cron_field \<Rightarrow> bool" where
  "same_field x y \<longleftrightarrow> fst x = cf_any y \<and> sort (snd x) = cf_values y"

lemma cronField_both: "same_spec f g \<Longrightarrow> both same_field (cronField p f) (parseField p g)"
  using cron_parts_both [of f g "split_on (CHR '','') p"]
  by (auto simp: cronField_def parseField_def both_def same_field_def split: sum.splits)

lemma cron_fields_both:
  "list_all2 same_spec fs gs \<Longrightarrow> both (list_all2 same_field) (cron_fields ps fs) (parseFields ps gs)"
proof (induction ps arbitrary: fs gs)
  case (Cons p ps)
  show ?case
  proof (cases fs)
    case (Cons f fs')
    with Cons.prems obtain g gs' where gs: "gs = g # gs'" "same_spec f g" "list_all2 same_spec fs' gs'" by (cases gs) auto
    from cronField_both [OF gs(2), of p] Cons.IH [OF gs(3)] show ?thesis
      by (fastforce simp: Cons gs both_def split: sum.splits)
  qed (use Cons.prems in auto)
qed simp

lemma split_on_join_words:
  assumes "ws \<noteq> []" "list_all (\<lambda>w. d \<notin> set w) ws"
  shows "split_on d (js_join [d] ws) = ws"
  using assms by (induction "[d]" ws rule: js_join.induct) (auto simp: split_on_no_sep split_on_append_sep)

lemma words_no_space: "list_all (\<lambda>w. CHR '' '' \<notin> set w) (words_by js_space s)"
proof -
  have "js_space (CHR '' '')" by (simp add: js_space_def)
  then show ?thesis by (auto simp: list_all_iff dest!: words_by_parts)
qed

text \<open>C23: The console and the server agree on schedules. A text that is not the name of a preset is
  accepted by the server exactly if the console's parser accepts it; the server stores its words
  separated by single spaces, and reading that stored text back gives, field by field, the values
  the console shows.\<close>

theorem schedule_agreement:
  assumes "PRESETS (toLowerCase (trim s)) = None"
  shows "case normalizeSchedule s of
      Inl e \<Rightarrow> \<exists>e'. parseCron s = Inl e'
    | Inr t \<Rightarrow> t = Some (js_join '' '' (words_by js_space s)) \<and>
        (\<exists>fs xs. cron_fields (split_on (CHR '' '') (the t)) CRON_FIELDS = Inr fs \<and> parseCron s = Inr xs \<and>
          list_all2 same_field fs xs)"
proof -
  let ?ws = "words_by js_space s"
  have "split_on (CHR '' '') (js_join '' '' ?ws) = ?ws" if "length ?ws = 5"
    using that by (intro split_on_join_words words_no_space) auto
  with cron_fields_both [OF FIELDS_same, of ?ws] assms show ?thesis
    by (auto simp: normalizeSchedule_def parseCron_def Let_def both_def split: sum.splits)
qed

theorem schedule_agreement_witness:
  "normalizeSchedule '' 15  */6 * jan-MAR ? '' = Inr (Some ''15 */6 * jan-MAR ?'') \<and>
   (\<exists>fs xs. cron_fields (split_on (CHR '' '') ''15 */6 * jan-MAR ?'') CRON_FIELDS = Inr fs \<and>
      parseCron '' 15  */6 * jan-MAR ? '' = Inr xs \<and> list_all2 same_field fs xs)"
proof -
  have "PRESETS (toLowerCase (trim '' 15  */6 * jan-MAR ? '')) = None" by code_simp
  moreover have "normalizeSchedule '' 15  */6 * jan-MAR ? '' = Inr (Some ''15 */6 * jan-MAR ?'')" by code_simp
  ultimately show ?thesis
    using schedule_agreement [of "'' 15  */6 * jan-MAR ? ''"] by (simp only: sum.case option.sel)
qed

end
