(* ===== verification/Policy_Server.thy ===== *)
theory Policy_Server
  imports Policy_Schedule
begin

text \<open>
  The routes of \<^verbatim>\<open>scripts/mock-policies.mjs\<close>: policies and their assignment to applications, recovery
  contracts, scheduled deletions, notification channels with their deliveries, and SMTP settings.
  The state a handler works on is the pair of the backup data and this module's own data.
\<close>

section \<open>Records\<close>

record policy =
  po_id :: string
  po_name :: string
  po_description :: string
  po_schedule :: "string option"
  po_timezone :: json
  po_enabled :: bool
  po_consistency_mode :: "string option"
  po_repository_id :: "string option"
  po_retention :: "(string \<times> int) list"
  po_created_at :: int
  po_updated_at :: int

record policy_out =
  pu_policy :: policy
  pu_applications :: nat
  pu_next_run :: "int option"

record contract =
  co_max_rpo_minutes :: "int option"
  co_required_components :: "string list"
  co_violated_since :: "int option"
  co_updated_at :: int

datatype contract_state = Satisfied | Violated | UnknownContract

record contract_out =
  cu_application_id :: string
  cu_application_name :: string
  cu_max_rpo_minutes :: "int option"
  cu_required_components :: "string list"
  cu_state :: contract_state
  cu_reasons :: "string list"
  cu_evaluated_at :: int
  cu_violated_since :: "int option"

datatype channel_config = MailTo "string list" | HookUrl string

record channel =
  ch_id :: string
  ch_name :: string
  ch_kind :: string
  ch_enabled :: json
  ch_config :: channel_config
  ch_events :: "string list"
  ch_min_severity :: string
  ch_created_at :: int
  ch_updated_at :: int
  ch_last_delivery_at :: "int option"
  ch_last_error :: "string option"

record stored_channel = channel +
  ch_secret :: "string option"

record delivery =
  de_id :: nat
  de_notification_id :: nat
  de_event_type :: string
  de_severity :: string
  de_message :: string
  de_state :: string
  de_attempts :: nat
  de_next_attempt_at :: "int option"
  de_last_error :: "string option"
  de_sent_at :: "int option"
  de_created_at :: int

record stored_delivery = delivery +
  de_channel :: string

record smtp_settings =
  sp_configured :: bool
  sp_host :: string
  sp_port :: int
  sp_username :: string
  sp_from :: string
  sp_tls :: string
  sp_updated_at :: int

record stored_smtp = smtp_settings +
  sp_password :: "string option"

record policy_state =
  policies :: "policy list"
  assignments :: "(string \<times> string) list"
  contracts :: "(string \<times> contract) list"
  channels :: "stored_channel list"
  deliveries :: "stored_delivery list"
  smtp :: stored_smtp

section \<open>Policies\<close>

definition RETENTION_DEFAULTS :: "(string \<times> json) list" where
  "RETENTION_DEFAULTS =
     [(''keep_last'', JNum 7), (''keep_hourly'', JNum 0), (''keep_daily'', JNum 14), (''keep_weekly'', JNum 8),
      (''keep_monthly'', JNum 12), (''keep_yearly'', JNum 0)]"

definition policy_next :: "runtime \<Rightarrow> int \<Rightarrow> policy \<Rightarrow> int option" where
  "policy_next rt now p =
     (if po_enabled p then
        (case po_schedule p of
           None \<Rightarrow> None
         | Some cron \<Rightarrow>
             (case nextRun rt cron (text_of rt (Some (po_timezone p))) now of Inl e \<Rightarrow> None | Inr t \<Rightarrow> t))
      else None)"

definition policyOut :: "runtime \<Rightarrow> int \<Rightarrow> policy_state \<Rightarrow> policy \<Rightarrow> policy_out" where
  "policyOut rt now s p =
     \<lparr>pu_policy = p, pu_applications = length (filter (\<lambda>(aid, pid). pid = po_id p) (assignments s)),
      pu_next_run = policy_next rt now p\<rparr>"

definition assigned_apps :: "runtime \<Rightarrow> fleet \<Rightarrow> policy_state \<Rightarrow> policy \<Rightarrow> (string \<times> string \<times> string) list" where
  "assigned_apps rt f s p =
     js_sort (\<lambda>a b. rt_le rt (fst (snd a)) (fst (snd b)))
       (map (\<lambda>a. (ap_id a, appName a, ap_host_id a))
         (List.map_filter (\<lambda>(aid, pid). if pid = po_id p then find_app aid f else None) (assignments s)))"

text \<open>\<^verbatim>\<open>{...RETENTION_DEFAULTS, ...(b.retention ?? {})}\<close>, its entries in the order of \<^verbatim>\<open>Object.entries\<close>:
  array indices first.\<close>

fun spread :: "json \<Rightarrow> (string \<times> json) list" where
  "spread (JObj fs) = fs"
| "spread (JArr xs) = map (\<lambda>(i, x). (show_nat i, x)) (enumerate 0 xs)"
| "spread (JStr s) = map (\<lambda>(i, c). (show_nat i, JStr [c])) (enumerate 0 s)"
| "spread _ = []"

definition array_index :: "string \<Rightarrow> bool" where
  "array_index k \<longleftrightarrow> all_digits k \<and> (k = ''0'' \<or> hd k \<noteq> CHR ''0'') \<and> digits_val k < 2 ^ 32 - 1"

definition retention_entries :: "json option \<Rightarrow> (string \<times> json) list" where
  "retention_entries v =
     (let es = fold (\<lambda>(k, x) acc. AList.update k x acc) (spread (or_default v (JObj []))) RETENTION_DEFAULTS
      in filter (\<lambda>(k, x). array_index k) es @ filter (\<lambda>(k, x). \<not> array_index k) es)"

definition retention_ok :: "string \<times> json \<Rightarrow> bool" where
  "retention_ok = (\<lambda>(k, v).
     case v of JNum n \<Rightarrow> is_integer n \<and> n \<ge> (if k = ''keep_last'' then 1 else 0) | _ \<Rightarrow> False)"

definition POLICY_KEYS :: "string list" where
  "POLICY_KEYS =
     [''name'', ''description'', ''schedule'', ''timezone'', ''enabled'', ''consistency_mode'', ''repository_id'', ''retention'']"

definition policy_error :: "runtime \<Rightarrow> protection \<Rightarrow> json \<Rightarrow> (string \<times> string) option" where
  "policy_error rt q b =
     (if \<not> is_object b then Some (''body must be a JSON object'', ''body'')
      else case find (\<lambda>k. k \<notin> set POLICY_KEYS) (object_keys b) of
        Some k \<Rightarrow> if k \<noteq> [] then Some (''unexpected property '' @ k, ''body.'' @ k) else None
      | None \<Rightarrow> None)"

definition field_error :: "runtime \<Rightarrow> protection \<Rightarrow> json \<Rightarrow> (string \<times> string) option" where
  "field_error rt q b =
     (let name = trimmed_field b ''name'';
          tz = (if truthy (jfield b ''timezone'') then text_of rt (jfield b ''timezone'') else ''UTC'')
      in if name = [] \<or> length name > 100 then Some (''name is required (at most 100 characters)'', ''body.name'')
         else if (case jfield b ''enabled'' of Some (JBool e) \<Rightarrow> False | _ \<Rightarrow> True) then
           Some (''enabled is required'', ''body.enabled'')
         else case normalizeSchedule (text_of rt (jfield b ''schedule'')) of
           Inl e \<Rightarrow> Some (''schedule must be hourly, daily, weekly, monthly or a 5-field cron expression: '' @ e, ''body.schedule'')
         | Inr sched \<Rightarrow>
             if \<not> rt_valid_tz rt tz then
               Some (''unknown timezone '' @ [DQ] @ tz @ [DQ], ''body.timezone'')
             else if jfield b ''consistency_mode'' \<noteq> None \<and> \<not> is_mode (jfield b ''consistency_mode'') then
               Some (''consistency_mode must be live, quiesced or offline'', ''body.consistency_mode'')
             else if jfield b ''repository_id'' \<noteq> None \<and>
               \<not> list_ex (\<lambda>r. jfield b ''repository_id'' = Some (JStr (re_id r))) (repositories q) then
               Some (''unknown repository'', ''body.repository_id'')
             else case find (\<lambda>e. \<not> retention_ok e) (retention_entries (jfield b ''retention'')) of
                    Some (k, v) \<Rightarrow>
                      Some (''keep_last must be at least 1 and the other retention counts non-negative'', ''body.retention.'' @ k)
                  | None \<Rightarrow> None)"

text \<open>A value that passed the checks, over a policy that supplies the remaining fields.\<close>

definition policy_value :: "runtime \<Rightarrow> json \<Rightarrow> policy \<Rightarrow> policy" where
  "policy_value rt b p =
     p\<lparr>po_name := trimmed_field b ''name'', po_description := trimmed_field b ''description'',
       po_schedule := (case normalizeSchedule (text_of rt (jfield b ''schedule'')) of Inr t \<Rightarrow> t | Inl e \<Rightarrow> None),
       po_timezone := (case jfield b ''timezone'' of Some v \<Rightarrow> if truthy (Some v) then v else JStr ''UTC'' | None \<Rightarrow> JStr ''UTC''),
       po_enabled := (jfield b ''enabled'' = Some (JBool True)),
       po_consistency_mode := text_option (jfield b ''consistency_mode''),
       po_repository_id := text_option (jfield b ''repository_id''),
       po_retention := map (\<lambda>(k, v). (k, json_int (Some v))) (retention_entries (jfield b ''retention''))\<rparr>"

definition readPolicy :: "runtime \<Rightarrow> protection \<Rightarrow> json \<Rightarrow> (string \<times> string) + (policy \<Rightarrow> policy)" where
  "readPolicy rt q b =
     (case policy_error rt q b of
        Some e \<Rightarrow> Inl e
      | None \<Rightarrow> (case field_error rt q b of Some e \<Rightarrow> Inl e | None \<Rightarrow> Inr (policy_value rt b)))"

section \<open>Recovery contracts\<close>

definition hoursText :: "int \<Rightarrow> string" where
  "hoursText ms =
     (if ms \<ge> 2 * HOUR then show_int (js_round (of_int ms / of_int HOUR)) @ '' h''
      else show_int (max 1 (js_round (of_int ms / of_int MINUTE))) @ '' min'')"

definition rpoText :: "int \<Rightarrow> string" where
  "rpoText m = (if m mod 60 = 0 then show_int (m div 60) @ '' h'' else show_int m @ '' min'')"

definition latest_rp :: "protection \<Rightarrow> string \<Rightarrow> stored_rp option" where
  "latest_rp q appId =
     (case js_sort (\<lambda>a b. rp_created_at b \<le> rp_created_at a)
             (filter (\<lambda>r. rp_application_id r = appId \<and> rp_state r = RpCommitted) (recovery_points q)) of
        [] \<Rightarrow> None | r # rs \<Rightarrow> Some r)"

definition succeeded_names :: "captured list \<Rightarrow> string list" where
  "succeeded_names cs = map mc_name (filter (\<lambda>x. mc_status x = ''succeeded'') cs)"

definition rp_components :: "stored_rp \<Rightarrow> captured list" where
  "rp_components r = (case rp_manifest r of Some m \<Rightarrow> mf_components m | None \<Rightarrow> [])"

definition rp_age :: "int \<Rightarrow> stored_rp \<Rightarrow> int" where
  "rp_age now r = now - (case rp_committed_at r of Some t \<Rightarrow> t | None \<Rightarrow> rp_created_at r)"

definition violation_reasons :: "int \<Rightarrow> contract \<Rightarrow> stored_rp option \<Rightarrow> string list" where
  "violation_reasons now c latest =
     (case latest of
        None \<Rightarrow> [''no recovery point exists'']
      | Some r \<Rightarrow>
          (case co_max_rpo_minutes c of
             None \<Rightarrow> []
           | Some m \<Rightarrow>
               if rp_age now r > m * MINUTE then
                 [''the latest recovery point is '' @ hoursText (rp_age now r) @ '' old (maximum RPO '' @ rpoText m @ '')'']
               else []) @
          map (\<lambda>n. ''required component '' @ n @ '' is not in the latest recovery point'')
            (filter (\<lambda>n. n \<notin> set (succeeded_names (rp_components r))) (co_required_components c)))"

definition app_present :: "fleet \<Rightarrow> string \<Rightarrow> bool" where
  "app_present f appId = (case find_app appId f of Some a \<Rightarrow> ap_missing_since a = None | None \<Rightarrow> False)"

definition evaluate :: "fleet \<Rightarrow> protection \<Rightarrow> int \<Rightarrow> string \<Rightarrow> contract \<Rightarrow> contract_state \<times> string list" where
  "evaluate f q now appId c =
     (if \<not> app_present f appId then
        (UnknownContract, [''the application is missing from its host'' @ [SQ] @ ''s latest inventory''])
      else
        let reasons = violation_reasons now c (latest_rp q appId)
        in (if reasons \<noteq> [] then Violated else Satisfied, reasons))"

definition observe :: "int \<Rightarrow> contract_state \<Rightarrow> contract \<Rightarrow> contract" where
  "observe now st c =
     (case st of
        Violated \<Rightarrow> (if co_violated_since c = None then c\<lparr>co_violated_since := Some now\<rparr> else c)
      | Satisfied \<Rightarrow> c\<lparr>co_violated_since := None\<rparr>
      | UnknownContract \<Rightarrow> c)"

definition contract_view :: "fleet \<Rightarrow> int \<Rightarrow> string \<Rightarrow> contract_state \<Rightarrow> string list \<Rightarrow> contract \<Rightarrow> contract_out" where
  "contract_view f now appId st reasons c =
     \<lparr>cu_application_id = appId,
      cu_application_name = (case find_app appId f of Some a \<Rightarrow> appName a | None \<Rightarrow> appId),
      cu_max_rpo_minutes = co_max_rpo_minutes c, cu_required_components = co_required_components c,
      cu_state = st, cu_reasons = reasons, cu_evaluated_at = now,
      cu_violated_since = (if st = Violated then co_violated_since c else None)\<rparr>"

definition contractOut ::
  "fleet \<Rightarrow> protection \<Rightarrow> int \<Rightarrow> string \<Rightarrow> contract \<Rightarrow> contract_out \<times> contract" where
  "contractOut f q now appId c =
     (let (st, reasons) = evaluate f q now appId c;
          c' = observe now st c
      in (contract_view f now appId st reasons c', c'))"

definition contractAtCapture :: "(string \<times> contract) list \<Rightarrow> string \<Rightarrow> captured list \<Rightarrow> contract_note option" where
  "contractAtCapture cs appId components =
     map_option (\<lambda>c.
       let missing = filter (\<lambda>r. r \<notin> set (succeeded_names components)) (co_required_components c)
       in \<lparr>cn_satisfied = (length missing = 0), cn_max_rpo_minutes = co_max_rpo_minutes c,
           cn_required_components = co_required_components c, cn_missing_components = missing\<rparr>)
     (map_of cs appId)"

section \<open>Requests and replies\<close>

datatype policy_route =
  GetPolicies
| PostPolicy json
| GetPolicy string
| PutPolicy string json
| DeletePolicy string
| PutAppPolicy string json
| GetContracts
| GetContract string
| PutContract string json
| DeleteContract string
| PostRpDelete string json
| PostRpUndelete string
| PostRepoDelete string json
| PostRepoUndelete string
| GetChannels
| PostChannel json
| GetChannel string
| PutChannel string json
| DeleteChannel string
| PostChannelTest string
| GetDeliveries string "rat option option"
| GetSmtp
| PutSmtp json

datatype policy_body =
  Policies "policy_out list"
| PolicyBody policy_out
| PolicyDetail policy_out "(string \<times> string \<times> string) list"
| Contracts "contract_out list"
| ContractBody contract_out
| RpBody recovery_point
| RepoBody repository
| Channels "(channel \<times> bool) list"
| ChannelBody channel bool
| TestResult bool nat "string option"
| Deliveries "delivery list"
| SmtpBody smtp_settings bool

type_synonym pol_state = "protection \<times> policy_state"
type_synonym pol_outcome = "(policy_body, pol_state) outcome"

definition gone :: "string \<Rightarrow> 'b reply" where
  "gone what = not_found (what @ '' not found'')"

definition audit_with :: "ctx \<Rightarrow> string \<Rightarrow> string \<Rightarrow> string \<Rightarrow> json \<Rightarrow> effect" where
  "audit_with c action target_type target details =
     Audit action ''success''
       \<lparr>a_actor = Some (u_display_name (c_user c)), a_target_type = Some target_type,
        a_target_id = Some target, a_reason = None, a_details = details\<rparr>"

section \<open>Policy routes\<close>

definition find_policy :: "string \<Rightarrow> policy_state \<Rightarrow> policy option" where
  "find_policy pid s = find (\<lambda>x. po_id x = pid) (policies s)"

definition blank_policy :: "string \<Rightarrow> int \<Rightarrow> policy" where
  "blank_policy pid now =
     \<lparr>po_id = pid, po_name = [], po_description = [], po_schedule = None, po_timezone = JNull, po_enabled = False,
      po_consistency_mode = None, po_repository_id = None, po_retention = [], po_created_at = now, po_updated_at = now\<rparr>"

definition name_taken :: "string \<Rightarrow> 'b reply" where
  "name_taken name = conflict (''a policy named '' @ name @ '' already exists'')"

definition post_policy :: "runtime \<Rightarrow> ctx \<Rightarrow> json \<Rightarrow> pol_state \<Rightarrow> pol_outcome" where
  "post_policy rt c b = (\<lambda>(q, s).
     case readPolicy rt q b of
       Inl (d, l) \<Rightarrow> answer (Invalid d l) (q, s)
     | Inr value \<Rightarrow>
         let p = value (blank_policy (c_random c 0) (c_now c))
         in if list_ex (\<lambda>x. po_name x = po_name p) (policies s) then answer (name_taken (po_name p)) (q, s)
            else
              let s1 = s\<lparr>policies := policies s @ [p]\<rparr>
              in (Send 201 (PolicyBody (policyOut rt (c_now c) s1 p)),
                  [audit_by c ''policy.created'' ''policy'' (po_id p) None], (q, s1)))"

definition put_policy :: "runtime \<Rightarrow> ctx \<Rightarrow> string \<Rightarrow> json \<Rightarrow> pol_state \<Rightarrow> pol_outcome" where
  "put_policy rt c pid b = (\<lambda>(q, s).
     case find_policy pid s of
       None \<Rightarrow> answer (gone ''policy'') (q, s)
     | Some p \<Rightarrow>
         (case readPolicy rt q b of
            Inl (d, l) \<Rightarrow> answer (Invalid d l) (q, s)
          | Inr value \<Rightarrow>
              let p1 = (value p)\<lparr>po_updated_at := c_now c\<rparr>
              in if list_ex (\<lambda>x. po_id x \<noteq> po_id p \<and> po_name x = po_name p1) (policies s)
                 then answer (name_taken (po_name p1)) (q, s)
                 else
                   let s1 = s\<lparr>policies := update_first (\<lambda>x. po_id x = pid) (\<lambda>x. p1) (policies s)\<rparr>
                   in (Send 200 (PolicyBody (policyOut rt (c_now c) s1 p1)),
                       [audit_by c ''policy.updated'' ''policy'' (po_id p) None], (q, s1))))"

definition delete_policy :: "ctx \<Rightarrow> string \<Rightarrow> pol_state \<Rightarrow> pol_outcome" where
  "delete_policy c pid = (\<lambda>(q, s).
     if find_policy pid s = None then answer (gone ''policy'') (q, s)
     else (SendEmpty 204, [audit_by c ''policy.deleted'' ''policy'' pid None],
           (q, s\<lparr>assignments := filter (\<lambda>(aid, p). p \<noteq> pid) (assignments s),
                 policies := remove_first (\<lambda>x. po_id x = pid) (policies s)\<rparr>)))"

text \<open>\<^verbatim>\<open>"policy_id" in b\<close> raises on a value that is neither an object nor false in a condition.\<close>

definition put_app_policy :: "fleet \<Rightarrow> ctx \<Rightarrow> string \<Rightarrow> json \<Rightarrow> pol_state \<Rightarrow> pol_outcome" where
  "put_app_policy f c aid b = (\<lambda>(q, s).
     if find_app aid f = None then answer (gone ''application'') (q, s)
     else if truthy (Some b) \<and> \<not> is_object b then answer internal_error (q, s)
     else case jfield b ''policy_id'' of
            None \<Rightarrow> answer (Invalid ''policy_id is required (null removes the assignment)'' ''body.policy_id'') (q, s)
          | Some v \<Rightarrow>
              if v = JNull \<or> v = JStr [] then
                (SendEmpty 204, [audit_with c ''policy.assigned'' ''application'' aid (JObj [(''policy_id'', v)])],
                 (q, s\<lparr>assignments := AList.delete aid (assignments s)\<rparr>))
              else
                (case find (\<lambda>p. v = JStr (po_id p)) (policies s) of
                   None \<Rightarrow> answer (Invalid ''unknown policy'' ''body.policy_id'') (q, s)
                 | Some p \<Rightarrow>
                     (SendEmpty 204, [audit_with c ''policy.assigned'' ''application'' aid (JObj [(''policy_id'', v)])],
                      (q, s\<lparr>assignments := AList.update aid (po_id p) (assignments s)\<rparr>))))"

section \<open>Contract routes\<close>

fun observe_all :: "fleet \<Rightarrow> protection \<Rightarrow> int \<Rightarrow> (string \<times> contract) list \<Rightarrow> contract_out list \<times> (string \<times> contract) list" where
  "observe_all f q now [] = ([], [])"
| "observe_all f q now ((aid, c) # cs) =
     (let (v, c') = contractOut f q now aid c;
          (vs, cs') = observe_all f q now cs
      in (v # vs, (aid, c') # cs'))"

definition get_contracts :: "runtime \<Rightarrow> fleet \<Rightarrow> ctx \<Rightarrow> pol_state \<Rightarrow> pol_outcome" where
  "get_contracts rt f c = (\<lambda>(q, s).
     let (vs, cs) = observe_all f q (c_now c) (contracts s)
     in (Send 200 (Contracts (js_sort (\<lambda>a b. rt_le rt (cu_application_name a) (cu_application_name b)) vs)), [],
         (q, s\<lparr>contracts := cs\<rparr>)))"

text \<open>\<^verbatim>\<open>send(res, 200, contractOut(id))\<close> for a contract that exists.\<close>

definition send_contract :: "fleet \<Rightarrow> ctx \<Rightarrow> string \<Rightarrow> contract \<Rightarrow> effect list \<Rightarrow> pol_state \<Rightarrow> pol_outcome" where
  "send_contract f c aid x es = (\<lambda>(q, s).
     let (v, x') = contractOut f q (c_now c) aid x
     in (Send 200 (ContractBody v), es, (q, s\<lparr>contracts := AList.update aid x' (contracts s)\<rparr>)))"

definition get_contract :: "fleet \<Rightarrow> ctx \<Rightarrow> string \<Rightarrow> pol_state \<Rightarrow> pol_outcome" where
  "get_contract f c aid = (\<lambda>(q, s).
     if find_app aid f = None then answer (gone ''application'') (q, s)
     else case map_of (contracts s) aid of
            None \<Rightarrow> answer (gone ''contract'') (q, s)
          | Some x \<Rightarrow> send_contract f c aid x [] (q, s))"

definition component_names :: "json \<Rightarrow> string list option" where
  "component_names v =
     (case v of
        JArr xs \<Rightarrow>
          (if list_all (\<lambda>x. case x of JStr n \<Rightarrow> trim n \<noteq> [] | _ \<Rightarrow> False) xs
           then Some (map (\<lambda>x. json_text (Some x)) xs) else None)
      | _ \<Rightarrow> None)"

definition contract_error :: "json \<Rightarrow> (string \<times> string) option" where
  "contract_error b =
     (if \<not> is_object b then Some (''body must be a JSON object'', ''body'')
      else if or_default (jfield b ''max_rpo_minutes'') JNull \<noteq> JNull \<and>
        (case jfield b ''max_rpo_minutes'' of Some (JNum n) \<Rightarrow> \<not> (is_integer n \<and> n \<ge> 1) | _ \<Rightarrow> True) then
        Some (''max_rpo_minutes must be at least 1'', ''body.max_rpo_minutes'')
      else if component_names (or_default (jfield b ''required_components'') (JArr [])) = None then
        Some (''required_components must be a list of component names'', ''body.required_components'')
      else None)"

definition new_contract :: "int \<Rightarrow> json \<Rightarrow> contract option \<Rightarrow> contract" where
  "new_contract now b prev =
     \<lparr>co_max_rpo_minutes = window_bound (jfield b ''max_rpo_minutes''),
      co_required_components =
        nub (map trim (the (component_names (or_default (jfield b ''required_components'') (JArr []))))),
      co_violated_since = (case prev of Some p \<Rightarrow> co_violated_since p | None \<Rightarrow> None), co_updated_at = now\<rparr>"

definition put_contract :: "fleet \<Rightarrow> ctx \<Rightarrow> string \<Rightarrow> json \<Rightarrow> pol_state \<Rightarrow> pol_outcome" where
  "put_contract f c aid b = (\<lambda>(q, s).
     if find_app aid f = None then answer (gone ''application'') (q, s)
     else case contract_error b of
            Some (d, l) \<Rightarrow> answer (Invalid d l) (q, s)
          | None \<Rightarrow>
              send_contract f c aid (new_contract (c_now c) b (map_of (contracts s) aid))
                [audit_by c ''contract.updated'' ''application'' aid None] (q, s))"

definition delete_contract :: "fleet \<Rightarrow> ctx \<Rightarrow> string \<Rightarrow> pol_state \<Rightarrow> pol_outcome" where
  "delete_contract f c aid = (\<lambda>(q, s).
     if find_app aid f = None then answer (gone ''application'') (q, s)
     else if map_of (contracts s) aid = None then answer (gone ''contract'') (q, s)
     else (SendEmpty 204, [audit_by c ''contract.deleted'' ''application'' aid None],
           (q, s\<lparr>contracts := AList.delete aid (contracts s)\<rparr>)))"

section \<open>Deletion with a grace period\<close>

definition GRACE_MS :: int where "GRACE_MS = 7 * DAY"

definition confirmed :: "json \<Rightarrow> string \<Rightarrow> bool" where
  "confirmed b name = (case jfield b ''confirmation'' of Some (JStr s) \<Rightarrow> trim s = name | _ \<Rightarrow> False)"

definition find_rp :: "string \<Rightarrow> protection \<Rightarrow> stored_rp option" where
  "find_rp rid q = find (\<lambda>x. rp_id x = rid) (recovery_points q)"

definition update_rp :: "string \<Rightarrow> (stored_rp \<Rightarrow> stored_rp) \<Rightarrow> protection \<Rightarrow> protection" where
  "update_rp rid g q = q\<lparr>recovery_points := update_first (\<lambda>x. rp_id x = rid) g (recovery_points q)\<rparr>"

definition schedule_rp :: "int \<Rightarrow> string \<Rightarrow> stored_rp \<Rightarrow> stored_rp" where
  "schedule_rp now reason r = r\<lparr>rp_delete_after := Some (now + GRACE_MS), rp_delete_reason := Some reason\<rparr>"

definition post_rp_delete :: "ctx \<Rightarrow> string \<Rightarrow> json \<Rightarrow> pol_state \<Rightarrow> pol_outcome" where
  "post_rp_delete c rid b = (\<lambda>(q, s).
     case find_rp rid q of
       None \<Rightarrow> answer (gone ''recovery point'') (q, s)
     | Some r \<Rightarrow>
         let reason = trimmed_field b ''reason''
         in if length reason < 3 \<or> length reason > 500 then
              answer (Invalid ''reason must be 3-500 characters'' ''body.reason'') (q, s)
            else if \<not> confirmed b (rp_application_name r) then
              answer (Invalid ''confirmation must match the application name'' ''body.confirmation'') (q, s)
            else if rp_state r \<notin> {RpCommitted, RpMissing} \<or> rp_delete_after r \<noteq> None then
              answer (conflict (if rp_delete_after r \<noteq> None then ''the recovery point is already scheduled for deletion''
                else ''a '' @ rp_state_text (rp_state r) @ '' recovery point cannot be deleted'')) (q, s)
            else
              let g = schedule_rp (c_now c) reason
              in (Send 200 (RpBody (publicRp (g r))),
                  [audit_by c ''backup.delete_scheduled'' ''recovery_point'' (rp_id r) (Some reason),
                   backup_updated r ''committed''], (update_rp rid g q, s)))"

definition unschedule_rp :: "stored_rp \<Rightarrow> stored_rp" where
  "unschedule_rp r = r\<lparr>rp_delete_after := None, rp_delete_reason := None\<rparr>"

definition post_rp_undelete :: "ctx \<Rightarrow> string \<Rightarrow> pol_state \<Rightarrow> pol_outcome" where
  "post_rp_undelete c rid = (\<lambda>(q, s).
     case find_rp rid q of
       None \<Rightarrow> answer (gone ''recovery point'') (q, s)
     | Some r \<Rightarrow>
         if rp_delete_after r = None \<or> rp_state r \<notin> {RpCommitted, RpMissing} then
           answer (conflict ''the recovery point is not scheduled for deletion'') (q, s)
         else (Send 200 (RpBody (publicRp (unschedule_rp r))),
               [audit_by c ''backup.delete_cancelled'' ''recovery_point'' (rp_id r) None,
                backup_updated r ''committed''], (update_rp rid unschedule_rp q, s)))"

definition schedule_repo :: "int \<Rightarrow> string \<Rightarrow> stored_repo \<Rightarrow> stored_repo" where
  "schedule_repo now reason r =
     r\<lparr>re_status := PendingDeletion, re_is_default := False, re_delete_after := Some (now + GRACE_MS),
       re_private_delete_reason := Some reason\<rparr>"

fun replace_underscore :: "string \<Rightarrow> string" where
  "replace_underscore [] = []"
| "replace_underscore (x # xs) = (if x = CHR ''_'' then CHR '' '' # xs else x # replace_underscore xs)"

definition post_repo_delete :: "ctx \<Rightarrow> string \<Rightarrow> json \<Rightarrow> pol_state \<Rightarrow> pol_outcome" where
  "post_repo_delete c rid b = (\<lambda>(q, s).
     case find_repo rid q of
       None \<Rightarrow> answer (gone ''repository'') (q, s)
     | Some r \<Rightarrow>
         let reason = trimmed_field b ''reason''
         in if length reason < 3 \<or> length reason > 500 then
              answer (Invalid ''reason must be 3-500 characters'' ''body.reason'') (q, s)
            else if \<not> confirmed b (re_name r) then
              answer (Invalid ''confirmation must match the Repository name'' ''body.confirmation'') (q, s)
            else if re_status r \<notin> {Ready, AwaitingEscrow, Unavailable} then
              answer (conflict (''a '' @ replace_underscore (repo_status_text (re_status r)) @ '' Repository cannot be deleted'')) (q, s)
            else
              let g = schedule_repo (c_now c) reason
              in (Send 200 (RepoBody (publicRepo (g r))),
                  [audit_by c ''repository.delete_scheduled'' ''repository'' (re_id r) (Some reason)],
                  (update_repo rid g q, s)))"

definition unschedule_repo :: "stored_repo \<Rightarrow> stored_repo" where
  "unschedule_repo r =
     r\<lparr>re_status := (if re_escrow_confirmed_at r \<noteq> None then Ready else AwaitingEscrow),
       re_delete_after := None, re_private_delete_reason := None\<rparr>"

definition post_repo_undelete :: "ctx \<Rightarrow> string \<Rightarrow> pol_state \<Rightarrow> pol_outcome" where
  "post_repo_undelete c rid = (\<lambda>(q, s).
     case find_repo rid q of
       None \<Rightarrow> answer (gone ''repository'') (q, s)
     | Some r \<Rightarrow>
         if re_status r \<noteq> PendingDeletion then answer (conflict ''the Repository is not pending deletion'') (q, s)
         else (Send 200 (RepoBody (publicRepo (unschedule_repo r))),
               [audit_by c ''repository.delete_cancelled'' ''repository'' (re_id r) None],
               (update_repo rid unschedule_repo q, s)))"

section \<open>Notification channels\<close>

text \<open>The server's patterns for events and addresses are the console's regular expressions,
  \<^const>\<open>PATTERN\<close> and \<^const>\<open>looksLikeEmail\<close>.\<close>

definition hook_url_error :: "runtime \<Rightarrow> json option \<Rightarrow> string option" where
  "hook_url_error rt raw =
     (case rt_url rt (trim (text_of rt raw)) of
        None \<Rightarrow> Some ''url must be an absolute https URL''
      | Some (proto, host) \<Rightarrow>
          let h = strip_brackets host
          in if proto = ''https:'' then None
             else if proto = ''http:'' \<and> (h = ''localhost'' \<or> h = ''::1'' \<or> startsWith h ''127.'') then None
             else Some ''webhook URLs must use https (plain http only for localhost / loopback addresses)'')"

record channel_value =
  cx_name :: string
  cx_config :: channel_config
  cx_events :: "string list"
  cx_min_severity :: string
  cx_enabled :: json
  cx_secret :: "string option"

fun event_list :: "runtime \<Rightarrow> json list \<Rightarrow> string list \<Rightarrow> string + string list" where
  "event_list rt [] evs = Inr evs"
| "event_list rt (e0 # es) evs =
     (let e = trim (case e0 of JStr s \<Rightarrow> s | _ \<Rightarrow> rt_string rt e0)
      in if e = [] \<or> e \<in> set evs then event_list rt es evs
         else if length e > 100 \<or> \<not> PATTERN e then Inl e
         else event_list rt es (evs @ [e]))"

definition mail_ok :: "json \<Rightarrow> bool" where
  "mail_ok t = (case t of JStr s \<Rightarrow> looksLikeEmail (trim s) | _ \<Rightarrow> False)"

definition quote_json :: "runtime \<Rightarrow> json \<Rightarrow> string" where
  "quote_json rt v = (case v of JStr s \<Rightarrow> json_quote s | _ \<Rightarrow> rt_stringify rt v)"

text \<open>The recipients or the URL.\<close>

definition channel_target :: "runtime \<Rightarrow> json option \<Rightarrow> json \<Rightarrow> (string \<times> string) + channel_config" where
  "channel_target rt kind b =
     (let cfg = or_default (jfield b ''config'') (JObj []);
          recipients_in = array_field cfg ''to'';
          url = jfield cfg ''url'';
          secret = jfield b ''secret''
      in if kind = Some (JStr ''email'') then
           (if length recipients_in = 0 \<or> length recipients_in > 50 then
              Inl (''an email channel needs 1-50 recipients'', ''body.config.to'')
            else if truthy url then Inl (''url applies to webhook channels only'', ''body.config.url'')
            else if truthy secret then Inl (''secret applies to webhook channels only'', ''body.secret'')
            else case find (\<lambda>t. \<not> mail_ok t) recipients_in of
                   Some bad \<Rightarrow> Inl (''mail: invalid address '' @ quote_json rt bad, ''body.config.to'')
                 | None \<Rightarrow> Inr (MailTo (map (\<lambda>t. trim (json_text (Some t))) recipients_in)))
         else if kind = Some (JStr ''webhook'') then
           (if recipients_in \<noteq> [] then Inl (''to applies to email channels only'', ''body.config.to'')
            else case hook_url_error rt url of
                   Some e \<Rightarrow> Inl (e, ''body.config.url'')
                 | None \<Rightarrow>
                     if truthy secret \<and> length (json_text secret) < 16 then
                       Inl (''the webhook secret must be at least 16 characters'', ''body.secret'')
                     else Inr (HookUrl (trim (text_of rt url))))
         else Inl (''kind must be email or webhook'', ''body.kind''))"

definition validateChannel :: "runtime \<Rightarrow> json option \<Rightarrow> json \<Rightarrow> (string \<times> string) + channel_value" where
  "validateChannel rt kind b =
     (let name = trimmed_field b ''name'';
          events_in = array_field b ''events'';
          severity = or_default (jfield b ''min_severity'') (JStr ''warning'')
      in if name = [] \<or> length name > 100 then Inl (''name is required (at most 100 characters)'', ''body.name'')
         else if (case jfield b ''secret'' of None \<Rightarrow> False | Some (JStr s) \<Rightarrow> False | _ \<Rightarrow> True) then
           Inl (''secret must be a string'', ''body.secret'')
         else case channel_target rt kind b of
           Inl e \<Rightarrow> Inl e
         | Inr cfg \<Rightarrow>
             if length events_in > 100 then Inl (''at most 100 event patterns'', ''body.events'')
             else case event_list rt events_in [] of
               Inl e \<Rightarrow> Inl (''invalid event pattern '' @ [DQ] @ e @ [DQ] @
                 '' (use an event type such as backup.failed, or a prefix wildcard such as backup.*)'', ''body.events'')
             | Inr evs \<Rightarrow>
                 if severity \<notin> {JStr ''info'', JStr ''warning'', JStr ''critical''} then
                   Inl (''min_severity must be info, warning or critical'', ''body.min_severity'')
                 else Inr \<lparr>cx_name = name, cx_config = cfg, cx_events = evs,
                           cx_min_severity = json_text (Some severity),
                           cx_enabled = or_default (jfield b ''enabled'') (JBool True),
                           cx_secret = text_option (jfield b ''secret'')\<rparr>)"

definition channelOut :: "stored_channel \<Rightarrow> channel \<times> bool" where
  "channelOut c = (channel.truncate c, or_none (ch_secret c) \<noteq> None)"

definition find_channel :: "string \<Rightarrow> policy_state \<Rightarrow> stored_channel option" where
  "find_channel cid s = find (\<lambda>x. ch_id x = cid) (channels s)"

definition channel_reply :: "nat \<Rightarrow> stored_channel \<Rightarrow> policy_body reply" where
  "channel_reply n x = Send n (ChannelBody (fst (channelOut x)) (snd (channelOut x)))"

definition new_channel :: "ctx \<Rightarrow> string \<Rightarrow> channel_value \<Rightarrow> stored_channel" where
  "new_channel c kind v =
     \<lparr>ch_id = c_random c 0, ch_name = cx_name v, ch_kind = kind, ch_enabled = cx_enabled v, ch_config = cx_config v,
      ch_events = cx_events v, ch_min_severity = cx_min_severity v, ch_created_at = c_now c, ch_updated_at = c_now c,
      ch_last_delivery_at = None, ch_last_error = None, ch_secret = or_none (cx_secret v)\<rparr>"

definition post_channel :: "runtime \<Rightarrow> ctx \<Rightarrow> json \<Rightarrow> pol_state \<Rightarrow> pol_outcome" where
  "post_channel rt c b = (\<lambda>(q, s).
     case validateChannel rt (jfield b ''kind'') b of
       Inl (d, l) \<Rightarrow> answer (Invalid d l) (q, s)
     | Inr v \<Rightarrow>
         let x = new_channel c (json_text (jfield b ''kind'')) v
         in (channel_reply 201 x,
             [audit_by c ''notification.channel.created'' ''notification_channel'' (ch_id x) None],
             (q, s\<lparr>channels := channels s @ [x]\<rparr>)))"

definition update_channel :: "int \<Rightarrow> channel_value \<Rightarrow> stored_channel \<Rightarrow> stored_channel" where
  "update_channel now v x =
     x\<lparr>ch_name := cx_name v, ch_config := cx_config v, ch_events := cx_events v, ch_min_severity := cx_min_severity v,
       ch_enabled := cx_enabled v, ch_updated_at := now,
       ch_secret := (case cx_secret v of None \<Rightarrow> ch_secret x | Some t \<Rightarrow> or_none (Some t))\<rparr>"

definition put_channel :: "runtime \<Rightarrow> ctx \<Rightarrow> string \<Rightarrow> json \<Rightarrow> pol_state \<Rightarrow> pol_outcome" where
  "put_channel rt c cid b = (\<lambda>(q, s).
     case find_channel cid s of
       None \<Rightarrow> answer (gone ''notification channel'') (q, s)
     | Some x \<Rightarrow>
         if b \<noteq> JNull \<and> \<not> is_object b then answer internal_error (q, s)
         else if jfield b ''kind'' \<noteq> None then
           answer (Invalid (''unexpected property kind (a channel'' @ [SQ] @ ''s kind cannot change)'') ''body.kind'') (q, s)
         else if (case jfield b ''enabled'' of Some (JBool e) \<Rightarrow> False | _ \<Rightarrow> True) then
           answer (Invalid ''enabled is required'' ''body.enabled'') (q, s)
         else case validateChannel rt (Some (JStr (ch_kind x))) b of
                Inl (d, l) \<Rightarrow> answer (Invalid d l) (q, s)
              | Inr v \<Rightarrow>
                  (channel_reply 200 (update_channel (c_now c) v x),
                   [audit_by c ''notification.channel.updated'' ''notification_channel'' (ch_id x) None],
                   (q, s\<lparr>channels := update_first (\<lambda>y. ch_id y = cid) (update_channel (c_now c) v) (channels s)\<rparr>)))"

definition delete_channel :: "ctx \<Rightarrow> string \<Rightarrow> pol_state \<Rightarrow> pol_outcome" where
  "delete_channel c cid = (\<lambda>(q, s).
     if find_channel cid s = None then answer (gone ''notification channel'') (q, s)
     else (SendEmpty 204, [audit_by c ''notification.channel.deleted'' ''notification_channel'' cid None],
           (q, s\<lparr>channels := remove_first (\<lambda>x. ch_id x = cid) (channels s),
                 deliveries := filter (\<lambda>d. de_channel d \<noteq> cid) (deliveries s)\<rparr>)))"

text \<open>\<open>None\<close> is an exception of the URL constructor, \<open>Some None\<close> a delivered test.\<close>

definition test_error :: "runtime \<Rightarrow> policy_state \<Rightarrow> stored_channel \<Rightarrow> string option option" where
  "test_error rt s x =
     (case ch_config x of
        MailTo ts \<Rightarrow> Some (if sp_configured (smtp s) then None else Some ''SMTP is not configured'')
      | HookUrl url \<Rightarrow>
          (case rt_url rt url of
             None \<Rightarrow> None
           | Some (proto, host) \<Rightarrow>
               Some (if includes_str host ''pagerduty'' \<or> includes_str host ''fail''
                     then Some (''POST '' @ url @ '': 503 Service Unavailable'') else None)))"

definition post_channel_test :: "runtime \<Rightarrow> ctx \<Rightarrow> string \<Rightarrow> pol_state \<Rightarrow> pol_outcome" where
  "post_channel_test rt c cid = (\<lambda>(q, s).
     case find_channel cid s of
       None \<Rightarrow> answer (gone ''notification channel'') (q, s)
     | Some x \<Rightarrow>
         (case test_error rt s x of
            None \<Rightarrow> answer internal_error (q, s)
          | Some (Some e) \<Rightarrow>
              (Send 200 (TestResult False 1843 (Some e)),
               [audit_failed c ''notification.channel.tested'' ''notification_channel'' (ch_id x)], (q, s))
          | Some None \<Rightarrow>
              (Send 200 (TestResult True (if ch_kind x = ''email'' then 412 else 187) None),
               [audit_by c ''notification.channel.tested'' ''notification_channel'' (ch_id x) None], (q, s))))"

definition get_deliveries :: "string \<Rightarrow> rat option option \<Rightarrow> pol_state \<Rightarrow> pol_outcome" where
  "get_deliveries cid limit = (\<lambda>(q, s).
     if find_channel cid s = None then answer (gone ''notification channel'') (q, s)
     else answer (Send 200 (Deliveries (map delivery.truncate (take (page_limit limit 50 500)
       (js_sort (\<lambda>a b. de_created_at b \<le> de_created_at a) (filter (\<lambda>d. de_channel d = cid) (deliveries s))))))) (q, s))"

section \<open>SMTP\<close>

definition smtpOut :: "stored_smtp \<Rightarrow> policy_body" where
  "smtpOut x = SmtpBody (smtp_settings.truncate x) (or_none (sp_password x) \<noteq> None)"

definition smtp_error :: "json \<Rightarrow> (string \<times> string) option" where
  "smtp_error b =
     (let host = trimmed_field b ''host''; sender = trimmed_field b ''from''; tls = jfield b ''tls''
      in if host = [] \<or> length host > 253 then Some (''host is required'', ''body.host'')
         else if \<not> int_in (jfield b ''port'') 1 65535 then Some (''port must be 1-65535'', ''body.port'')
         else if length sender < 3 \<or> CHR ''@'' \<notin> set sender then
           Some (''mail: invalid sender address '' @ json_quote sender, ''body.from'')
         else if tls \<notin> {Some (JStr ''starttls''), Some (JStr ''tls''), Some (JStr ''none'')} then
           Some (''tls must be starttls, tls or none'', ''body.tls'')
         else if tls = Some (JStr ''none'') \<and> host \<notin> {''localhost'', ''127.0.0.1'', ''::1''} then
           Some (''tls none (plain text) is allowed only for a relay on localhost'', ''body.tls'')
         else None)"

definition put_smtp :: "ctx \<Rightarrow> json \<Rightarrow> pol_state \<Rightarrow> pol_outcome" where
  "put_smtp c b = (\<lambda>(q, s).
     case smtp_error b of
       Some (d, l) \<Rightarrow> answer (Invalid d l) (q, s)
     | None \<Rightarrow>
         (case or_default (jfield b ''username'') (JStr []) of
            JStr u \<Rightarrow>
              let x = (smtp s)\<lparr>sp_configured := True, sp_host := trimmed_field b ''host'',
                        sp_port := json_int (jfield b ''port''), sp_username := trim u,
                        sp_from := trimmed_field b ''from'', sp_tls := json_text (jfield b ''tls''),
                        sp_updated_at := c_now c,
                        sp_password := (case jfield b ''password'' of Some (JStr t) \<Rightarrow> or_none (Some t) | _ \<Rightarrow> sp_password (smtp s))\<rparr>
              in (Send 200 (smtpOut x), [audit_by c ''settings.smtp.updated'' ''settings'' ''smtp'' None], (q, s\<lparr>smtp := x\<rparr>))
          | _ \<Rightarrow> answer internal_error (q, s)))"

section \<open>Dispatch\<close>

fun policy_permission :: "policy_route \<Rightarrow> string" where
  "policy_permission GetPolicies = ''policy.read''"
| "policy_permission (GetPolicy i) = ''policy.read''"
| "policy_permission GetContracts = ''policy.read''"
| "policy_permission (GetContract i) = ''policy.read''"
| "policy_permission GetChannels = ''policy.read''"
| "policy_permission (GetChannel i) = ''policy.read''"
| "policy_permission (GetDeliveries i l) = ''policy.read''"
| "policy_permission GetSmtp = ''policy.read''"
| "policy_permission (PostRpDelete i b) = ''backup.delete''"
| "policy_permission (PostRpUndelete i) = ''backup.delete''"
| "policy_permission (PostRepoDelete i b) = ''repository.manage''"
| "policy_permission (PostRepoUndelete i) = ''repository.manage''"
| "policy_permission _ = ''policy.manage''"

fun policy_action :: "runtime \<Rightarrow> fleet \<Rightarrow> ctx \<Rightarrow> policy_route \<Rightarrow> pol_state \<Rightarrow> pol_outcome" where
  "policy_action rt f c GetPolicies (q, s) =
     answer (Send 200 (Policies (map (policyOut rt (c_now c) s) (policies s)))) (q, s)"
| "policy_action rt f c (PostPolicy b) s = post_policy rt c b s"
| "policy_action rt f c (GetPolicy i) (q, s) =
     answer (case find_policy i s of None \<Rightarrow> gone ''policy''
             | Some p \<Rightarrow> Send 200 (PolicyDetail (policyOut rt (c_now c) s p) (assigned_apps rt f s p))) (q, s)"
| "policy_action rt f c (PutPolicy i b) s = put_policy rt c i b s"
| "policy_action rt f c (DeletePolicy i) s = delete_policy c i s"
| "policy_action rt f c (PutAppPolicy i b) s = put_app_policy f c i b s"
| "policy_action rt f c GetContracts s = get_contracts rt f c s"
| "policy_action rt f c (GetContract i) s = get_contract f c i s"
| "policy_action rt f c (PutContract i b) s = put_contract f c i b s"
| "policy_action rt f c (DeleteContract i) s = delete_contract f c i s"
| "policy_action rt f c (PostRpDelete i b) s = post_rp_delete c i b s"
| "policy_action rt f c (PostRpUndelete i) s = post_rp_undelete c i s"
| "policy_action rt f c (PostRepoDelete i b) s = post_repo_delete c i b s"
| "policy_action rt f c (PostRepoUndelete i) s = post_repo_undelete c i s"
| "policy_action rt f c GetChannels (q, s) = answer (Send 200 (Channels (map channelOut (channels s)))) (q, s)"
| "policy_action rt f c (PostChannel b) s = post_channel rt c b s"
| "policy_action rt f c (GetChannel i) (q, s) =
     answer (case find_channel i s of None \<Rightarrow> gone ''notification channel'' | Some x \<Rightarrow> channel_reply 200 x) (q, s)"
| "policy_action rt f c (PutChannel i b) s = put_channel rt c i b s"
| "policy_action rt f c (DeleteChannel i) s = delete_channel c i s"
| "policy_action rt f c (PostChannelTest i) s = post_channel_test rt c i s"
| "policy_action rt f c (GetDeliveries i l) s = get_deliveries i l s"
| "policy_action rt f c GetSmtp (q, s) = answer (Send 200 (smtpOut (smtp s))) (q, s)"
| "policy_action rt f c (PutSmtp b) s = put_smtp c b s"

definition policy_handle :: "runtime \<Rightarrow> fleet \<Rightarrow> ctx \<Rightarrow> policy_route \<Rightarrow> pol_state \<Rightarrow> pol_outcome" where
  "policy_handle rt f c r s = need c (policy_permission r) s (policy_action rt f c r s)"

section \<open>Initial data\<close>

definition POLICY_NIGHTLY :: string where "POLICY_NIGHTLY = ''7c1d2e3f-4a5b-4c6d-8e7f-9a0b1c2d3e01''"
definition POLICY_HOURLY :: string where "POLICY_HOURLY = ''7c1d2e3f-4a5b-4c6d-8e7f-9a0b1c2d3e02''"
definition POLICY_WEEKLY :: string where "POLICY_WEEKLY = ''7c1d2e3f-4a5b-4c6d-8e7f-9a0b1c2d3e03''"

definition retention_counts :: "int \<Rightarrow> int \<Rightarrow> int \<Rightarrow> int \<Rightarrow> int \<Rightarrow> int \<Rightarrow> (string \<times> int) list" where
  "retention_counts l h d w m y =
     [(''keep_last'', l), (''keep_hourly'', h), (''keep_daily'', d), (''keep_weekly'', w), (''keep_monthly'', m), (''keep_yearly'', y)]"

definition seed_policies :: "int \<Rightarrow> policy list" where
  "seed_policies now =
     [\<lparr>po_id = POLICY_NIGHTLY, po_name = ''Nightly production'',
       po_description = ''Every production application, once a night after the business day'',
       po_schedule = Some ''0 1 * * *'', po_timezone = JStr ''America/Chicago'', po_enabled = True,
       po_consistency_mode = None, po_repository_id = None, po_retention = retention_counts 7 0 14 8 12 0,
       po_created_at = now - 20 * DAY, po_updated_at = now - 6 * DAY\<rparr>,
      \<lparr>po_id = POLICY_HOURLY, po_name = ''Hourly critical'',
       po_description = ''Caches and queues that must lose at most an hour'',
       po_schedule = Some ''15 * * * *'', po_timezone = JStr ''UTC'', po_enabled = True,
       po_consistency_mode = Some ''live'', po_repository_id = None, po_retention = retention_counts 24 48 7 4 6 0,
       po_created_at = now - 15 * DAY, po_updated_at = now - 15 * DAY\<rparr>,
      \<lparr>po_id = POLICY_WEEKLY, po_name = ''Weekly archive'',
       po_description = ''Long-term copies in the second data center'',
       po_schedule = Some ''0 3 * * 0'', po_timezone = JStr ''Europe/Berlin'', po_enabled = False,
       po_consistency_mode = None, po_repository_id = Some OFFSITE, po_retention = retention_counts 4 0 0 8 12 3,
       po_created_at = now - 60 * DAY, po_updated_at = now - 10 * DAY\<rparr>]"

definition seed_assignments :: "(string \<times> string) list" where
  "seed_assignments = [(SHOP, POLICY_NIGHTLY), (MFT, POLICY_NIGHTLY), (REDIS, POLICY_HOURLY)]"

definition seed_contracts :: "int \<Rightarrow> (string \<times> contract) list" where
  "seed_contracts now =
     [(SHOP, \<lparr>co_max_rpo_minutes = Some 1440,
              co_required_components = [''config'', ''volume:shop_pgdata'', ''bind:/srv/shop/uploads''],
              co_violated_since = None, co_updated_at = now - 10 * DAY\<rparr>),
      (REDIS, \<lparr>co_max_rpo_minutes = Some 60, co_required_components = [''config''],
               co_violated_since = Some (now - 4 * HOUR + 5 * MINUTE), co_updated_at = now - 12 * DAY\<rparr>),
      (WIKI, \<lparr>co_max_rpo_minutes = None, co_required_components = [''config''], co_violated_since = None,
              co_updated_at = now - 30 * DAY\<rparr>)]"

definition CHANNEL_EMAIL :: string where "CHANNEL_EMAIL = ''5e6f7a8b-9c0d-4e1f-8a2b-3c4d5e6f7a01''"
definition CHANNEL_WEBHOOK :: string where "CHANNEL_WEBHOOK = ''5e6f7a8b-9c0d-4e1f-8a2b-3c4d5e6f7a02''"
definition PD_URL :: string where "PD_URL = ''https://events.pagerduty.example.com/integration/dbr2/enqueue''"
definition PD_ERROR :: string where "PD_ERROR = ''POST '' @ PD_URL @ '': 503 Service Unavailable''"

definition seed_channels :: "int \<Rightarrow> stored_channel list" where
  "seed_channels now =
     [\<lparr>ch_id = CHANNEL_EMAIL, ch_name = ''Ops email'', ch_kind = ''email'', ch_enabled = JBool True,
       ch_config = MailTo [''ops@example.com'', ''oncall@example.com''], ch_events = [], ch_min_severity = ''warning'',
       ch_created_at = now - 20 * DAY, ch_updated_at = now - 20 * DAY,
       ch_last_delivery_at = Some (now - 2 * HOUR), ch_last_error = None, ch_secret = None\<rparr>,
      \<lparr>ch_id = CHANNEL_WEBHOOK, ch_name = ''PagerDuty webhook'', ch_kind = ''webhook'', ch_enabled = JBool True,
       ch_config = HookUrl PD_URL, ch_events = [''backup.failed'', ''contract.*'', ''agent.offline''],
       ch_min_severity = ''critical'', ch_created_at = now - 18 * DAY, ch_updated_at = now - 3 * DAY,
       ch_last_delivery_at = Some (now - DAY), ch_last_error = Some PD_ERROR,
       ch_secret = Some ''pd-signing-secret-0123456789''\<rparr>]"

definition delivery_entry ::
  "nat \<Rightarrow> string \<Rightarrow> string \<Rightarrow> string \<Rightarrow> string \<Rightarrow> string \<Rightarrow> int \<Rightarrow> stored_delivery" where
  "delivery_entry i channel_id event severity message state created =
     \<lparr>de_id = 900 + i, de_notification_id = 300 + i, de_event_type = event, de_severity = severity,
      de_message = message, de_state = state, de_attempts = 1, de_next_attempt_at = None, de_last_error = None,
      de_sent_at = None, de_created_at = created, de_channel = channel_id\<rparr>"

definition seed_deliveries :: "int \<Rightarrow> stored_delivery list" where
  "seed_deliveries now =
     [(delivery_entry 1 CHANNEL_EMAIL ''backup.failed'' ''critical''
         ''Backup of redis-cache failed: snapshot of config failed: agent docker-prod-01: context deadline exceeded''
         ''sent'' (now - 4 * HOUR))\<lparr>de_sent_at := Some (now - 4 * HOUR + MINUTE)\<rparr>,
      (delivery_entry 2 CHANNEL_EMAIL ''contract.violated'' ''critical''
         ''Recovery Contract of redis-cache violated: no recovery point exists''
         ''sent'' (now - 2 * HOUR - MINUTE))\<lparr>de_sent_at := Some (now - 2 * HOUR)\<rparr>,
      (delivery_entry 3 CHANNEL_EMAIL ''backup.completed'' ''warning''
         ''Backup of Web shop committed as Partial: optional components failed''
         ''sent'' (now - 30 * HOUR + 5 * MINUTE))\<lparr>de_sent_at := Some (now - 30 * HOUR + 6 * MINUTE)\<rparr>,
      (delivery_entry 4 CHANNEL_WEBHOOK ''contract.violated'' ''critical''
         ''Recovery Contract of redis-cache violated: no recovery point exists'' ''pending'' (now - 3 * HOUR - 55 * MINUTE))
        \<lparr>de_attempts := 3, de_next_attempt_at := Some (now + 25 * MINUTE), de_last_error := Some PD_ERROR\<rparr>,
      (delivery_entry 5 CHANNEL_WEBHOOK ''backup.failed'' ''critical''
         ''Backup of Web shop failed: pre-hook 1 (db) exited with status 2'' ''failed'' (now - 54 * HOUR + 3 * MINUTE))
        \<lparr>de_attempts := 6, de_last_error := Some PD_ERROR\<rparr>,
      (delivery_entry 6 CHANNEL_WEBHOOK ''agent.offline'' ''critical'' ''Agent legacy-db is offline'' ''sent'' (now - DAY - MINUTE))
        \<lparr>de_sent_at := Some (now - DAY)\<rparr>]"

definition seed_smtp :: "int \<Rightarrow> stored_smtp" where
  "seed_smtp now =
     \<lparr>sp_configured = True, sp_host = ''smtp.example.com'', sp_port = 587, sp_username = ''dbr2'',
      sp_from = ''DBR2 <dbr2@example.com>'', sp_tls = ''starttls'', sp_updated_at = now - 20 * DAY,
      sp_password = Some ''mock-smtp-password''\<rparr>"

definition seed_policy_state :: "int \<Rightarrow> policy_state" where
  "seed_policy_state now =
     \<lparr>policies = seed_policies now, assignments = seed_assignments, contracts = seed_contracts now,
      channels = seed_channels now, deliveries = seed_deliveries now, smtp = seed_smtp now\<rparr>"

section \<open>The invariant of the stored data\<close>

text \<open>A stored schedule can be read back.\<close>

definition schedule_ok :: "string option \<Rightarrow> bool" where
  "schedule_ok t = (case t of None \<Rightarrow> True
     | Some cron \<Rightarrow> (case cron_fields (split_on (CHR '' '') cron) CRON_FIELDS of Inl e \<Rightarrow> False | Inr fs \<Rightarrow> length fs = 5))"

definition counts_ok :: "(string \<times> int) list \<Rightarrow> bool" where
  "counts_ok es \<longleftrightarrow> ''keep_last'' \<in> set (map fst es) \<and>
     list_all (\<lambda>(k, n). n \<ge> (if k = ''keep_last'' then 1 else 0)) es"

definition channel_ok :: "runtime \<Rightarrow> stored_channel \<Rightarrow> bool" where
  "channel_ok rt x \<longleftrightarrow>
     (case ch_config x of
        MailTo ts \<Rightarrow> ch_kind x = ''email'' \<and> ts \<noteq> [] \<and> length ts \<le> 50 \<and> list_all looksLikeEmail ts \<and> ch_secret x = None
      | HookUrl url \<Rightarrow> ch_kind x = ''webhook'' \<and> hook_url_error rt (Some (JStr url)) = None \<and>
          (case ch_secret x of None \<Rightarrow> True | Some t \<Rightarrow> length t \<ge> 16)) \<and>
     list_all isValidEventPattern (ch_events x) \<and> distinct (ch_events x) \<and> length (ch_events x) \<le> 100 \<and>
     ch_name x \<noteq> [] \<and> trim (ch_name x) = ch_name x \<and> length (ch_name x) \<le> 100 \<and>
     ch_min_severity x \<in> {''info'', ''warning'', ''critical''}"

definition policy_state_ok :: "runtime \<Rightarrow> policy_state \<Rightarrow> bool" where
  "policy_state_ok rt s \<longleftrightarrow>
     list_all (\<lambda>p. schedule_ok (po_schedule p) \<and> counts_ok (po_retention p)) (policies s) \<and>
     distinct (map fst (assignments s)) \<and>
     set (map snd (assignments s)) \<subseteq> set (map po_id (policies s)) \<and>
     list_all (channel_ok rt) (channels s) \<and>
     set (map de_channel (deliveries s)) \<subseteq> set (map ch_id (channels s))"

lemma cron_fields_length: "cron_fields ps fs = Inr xs \<Longrightarrow> length xs = min (length ps) (length fs)"
  by (induction ps fs arbitrary: xs rule: cron_fields.induct) (auto split: sum.splits)

lemma normalizeSchedule_ok:
  assumes "normalizeSchedule t = Inr r"
  shows "schedule_ok r"
proof (cases "PRESETS (toLowerCase (trim t))")
  case None
  let ?ws = "words_by js_space t"
  have "split_on (CHR '' '') (js_join '' '' ?ws) = ?ws" if "length ?ws = 5"
    using that by (intro split_on_join_words words_no_space) auto
  moreover have "length fs = 5" if "cron_fields ?ws CRON_FIELDS = Inr fs" "length ?ws = 5" for fs
    using cron_fields_length [OF that(1)] that(2) by (simp add: CRON_FIELDS_def)
  ultimately show ?thesis
    using None assms by (auto simp: normalizeSchedule_def schedule_ok_def Let_def split: if_splits sum.splits)
next
  case (Some p)
  have "schedule_ok (Some ''0 * * * *'') \<and> schedule_ok (Some ''0 1 * * *'') \<and> schedule_ok (Some ''0 1 * * 0'') \<and>
      schedule_ok (Some ''0 1 1 * *'') \<and> schedule_ok None"
    by code_simp
  with Some assms show ?thesis
    by (auto simp: normalizeSchedule_def PRESETS_def split: if_splits)
qed

lemma retention_keys: "''keep_last'' \<in> set (map fst (retention_entries v))"
proof -
  have "''keep_last'' \<in> set (map fst (fold (\<lambda>(k, x) acc. AList.update k x acc) es acc))"
    if "''keep_last'' \<in> set (map fst acc)" for es :: "(string \<times> json) list" and acc
    using that
  proof (induction es arbitrary: acc)
    case (Cons e es)
    have "''keep_last'' \<in> set (map fst (AList.update (fst e) (snd e) acc))"
      using Cons.prems by (simp add: dom_update)
    with Cons.IH show ?case by (simp add: case_prod_beta)
  qed simp
  then have "''keep_last'' \<in> set (map fst (fold (\<lambda>(k, x) acc. AList.update k x acc)
      (spread (or_default v (JObj []))) RETENTION_DEFAULTS))"
    by (simp add: RETENTION_DEFAULTS_def)
  then show ?thesis by (auto simp: retention_entries_def Let_def)
qed

lemma policy_value_ok:
  assumes "field_error rt q b = None"
  shows "schedule_ok (po_schedule (policy_value rt b p)) \<and> counts_ok (po_retention (policy_value rt b p))"
proof
  from assms obtain t where "normalizeSchedule (text_of rt (jfield b ''schedule'')) = Inr t"
    by (auto simp: field_error_def Let_def split: if_splits sum.splits)
  with normalizeSchedule_ok [OF this] show "schedule_ok (po_schedule (policy_value rt b p))"
    by (simp add: policy_value_def)
  let ?es = "retention_entries (jfield b ''retention'')"
  from assms have "find (\<lambda>e. \<not> retention_ok e) ?es = None"
    by (auto simp: field_error_def Let_def split: if_splits sum.splits option.splits)
  then have "retention_ok (k, v)" if "(k, v) \<in> set ?es" for k v
    using that by (auto simp: find_None_iff)
  moreover have "json_int (Some v) \<ge> (if k = ''keep_last'' then 1 else 0)" if "retention_ok (k, v)" for k v
    using that by (cases v) (simp_all add: retention_ok_def json_int_def le_floor_iff split: if_splits)
  ultimately have "list_all (\<lambda>(k, n). n \<ge> (if k = ''keep_last'' then 1 else 0)) (map (\<lambda>(k, v). (k, json_int (Some v))) ?es)"
    by (auto simp: list_all_iff)
  moreover have "''keep_last'' \<in> set (map fst (map (\<lambda>(k, v). (k, json_int (Some v))) ?es))"
    using retention_keys [of "jfield b ''retention''"] by (auto simp: image_iff case_prod_beta)
  ultimately show "counts_ok (po_retention (policy_value rt b p))"
    by (simp add: policy_value_def counts_ok_def)
qed

lemma readPolicy_ok:
  assumes "readPolicy rt q b = Inr value"
  shows "value = policy_value rt b" "schedule_ok (po_schedule (value p)) \<and> counts_ok (po_retention (value p))"
proof -
  from assms show v: "value = policy_value rt b"
    by (auto simp: readPolicy_def split: option.splits)
  from assms have "field_error rt q b = None"
    by (auto simp: readPolicy_def split: option.splits)
  from policy_value_ok [OF this] v show "schedule_ok (po_schedule (value p)) \<and> counts_ok (po_retention (value p))" by simp
qed

lemma policy_value_id [simp]: "po_id (policy_value rt b p) = po_id p"
  by (simp add: policy_value_def)

lemma event_list_ok:
  "event_list rt es evs = Inr out \<Longrightarrow> list_all isValidEventPattern evs \<Longrightarrow> distinct evs \<Longrightarrow>
   list_all isValidEventPattern out \<and> distinct out \<and> length out \<le> length evs + length es"
  by (induction rt es evs rule: event_list.induct) (fastforce simp: Let_def isValidEventPattern_def split: if_splits)+

lemma channel_target_ok:
  assumes "channel_target rt (Some (JStr kind)) b = Inr cfg" "text_option (jfield b ''secret'') = t"
    and "jfield b ''secret'' = None \<or> (\<exists>u. jfield b ''secret'' = Some (JStr u))"
  shows "case cfg of
      MailTo ts \<Rightarrow> kind = ''email'' \<and> ts \<noteq> [] \<and> length ts \<le> 50 \<and> list_all looksLikeEmail ts \<and> or_none t = None
    | HookUrl url \<Rightarrow> kind = ''webhook'' \<and> hook_url_error rt (Some (JStr url)) = None \<and>
        (case or_none t of None \<Rightarrow> True | Some u \<Rightarrow> length u \<ge> 16)"
  using assms
  by (fastforce simp: channel_target_def Let_def or_none_def text_option_def mail_ok_def json_text_def list_all_iff
      find_None_iff hook_url_error_def text_of_def split: if_splits option.splits json.splits)

lemma validateChannel_ok:
  assumes "validateChannel rt (Some (JStr kind)) b = Inr v"
  shows "(case cx_config v of
      MailTo ts \<Rightarrow> kind = ''email'' \<and> ts \<noteq> [] \<and> length ts \<le> 50 \<and> list_all looksLikeEmail ts \<and> or_none (cx_secret v) = None
    | HookUrl url \<Rightarrow> kind = ''webhook'' \<and> hook_url_error rt (Some (JStr url)) = None \<and>
        (case or_none (cx_secret v) of None \<Rightarrow> True | Some u \<Rightarrow> length u \<ge> 16)) \<and>
    list_all isValidEventPattern (cx_events v) \<and> distinct (cx_events v) \<and> length (cx_events v) \<le> 100 \<and>
    cx_name v \<noteq> [] \<and> trim (cx_name v) = cx_name v \<and> length (cx_name v) \<le> 100 \<and>
    cx_min_severity v \<in> {''info'', ''warning'', ''critical''}"
proof -
  have "trim [] = []" by (simp add: trim_def)
  then have "trim (trimmed_field b ''name'') = trimmed_field b ''name''"
    by (simp add: trimmed_field_def split: option.split json.split)
  with assms have "cx_name v \<noteq> [] \<and> trim (cx_name v) = cx_name v \<and> length (cx_name v) \<le> 100 \<and>
      cx_min_severity v \<in> {''info'', ''warning'', ''critical''}"
    by (auto simp: validateChannel_def Let_def json_text_def split: if_splits sum.splits)
  moreover from assms obtain cfg evs where r: "channel_target rt (Some (JStr kind)) b = Inr cfg"
    "event_list rt (array_field b ''events'') [] = Inr evs" "length (array_field b ''events'') \<le> 100"
    "jfield b ''secret'' = None \<or> (\<exists>u. jfield b ''secret'' = Some (JStr u))"
    "cx_config v = cfg" "cx_events v = evs" "cx_secret v = text_option (jfield b ''secret'')"
    by (auto simp: validateChannel_def Let_def split: if_splits sum.splits option.splits json.splits)
  from channel_target_ok [OF r(1) refl r(4)] event_list_ok [OF r(2)] r(3) calculation show ?thesis
    unfolding r(5-) by simp
qed

lemma channel_kind_text:
  "validateChannel rt k b = Inr v \<Longrightarrow> \<exists>kind. k = Some (JStr kind)"
  by (auto simp: validateChannel_def channel_target_def Let_def split: if_splits sum.splits)

lemma new_channel_ok:
  assumes "validateChannel rt k b = Inr v"
  shows "channel_ok rt (new_channel c (json_text k) v)"
proof -
  from channel_kind_text [OF assms] obtain kind where "k = Some (JStr kind)" by blast
  with validateChannel_ok [of rt kind b v] assms show ?thesis
    by (cases "cx_config v") (auto simp: channel_ok_def new_channel_def json_text_def split: option.splits)
qed

lemma update_channel_ok:
  assumes "validateChannel rt (Some (JStr (ch_kind x))) b = Inr v" "channel_ok rt x"
  shows "channel_ok rt (update_channel now v x)"
proof -
  have "ch_config x = MailTo ts \<Longrightarrow> cx_config v \<noteq> HookUrl u" "ch_config x = HookUrl u \<Longrightarrow> cx_config v \<noteq> MailTo ts" for ts u
    using validateChannel_ok [OF assms(1)] assms(2) by (auto simp: channel_ok_def)
  with validateChannel_ok [OF assms(1)] assms(2) show ?thesis
    by (cases "cx_config v"; cases "ch_config x"; cases "cx_secret v")
      (auto simp: channel_ok_def update_channel_def)
qed

lemma list_all_update_first:
  "list_all P xs \<Longrightarrow> (\<And>x. x \<in> set xs \<Longrightarrow> p x \<Longrightarrow> P x \<Longrightarrow> P (g x)) \<Longrightarrow> list_all P (update_first p g xs)"
  by (induction xs) auto

lemma remove_first_image:
  "(\<And>x. x \<in> set xs \<Longrightarrow> p x \<longleftrightarrow> h x = i) \<Longrightarrow> h ` set xs - {i} \<subseteq> h ` set (remove_first p xs)"
  by (induction xs) auto

lemma list_all_remove_first: "list_all P xs \<Longrightarrow> list_all P (remove_first p xs)"
  by (induction xs) auto

lemma policy_state_ok_simps:
  "policy_state_ok rt (s\<lparr>contracts := x\<rparr>) = policy_state_ok rt s"
  "policy_state_ok rt (s\<lparr>smtp := y\<rparr>) = policy_state_ok rt s"
  by (simp_all add: policy_state_ok_def)

lemma post_policy_ok:
  "policy_state_ok rt (snd s) \<Longrightarrow> policy_state_ok rt (snd (out_state (post_policy rt c b s)))"
  by (cases s)
    (auto simp: post_policy_def answer_def Let_def policy_state_ok_def dest: readPolicy_ok split: sum.splits)

lemma put_policy_ok:
  assumes "policy_state_ok rt (snd s)"
  shows "policy_state_ok rt (snd (out_state (put_policy rt c i b s)))"
proof -
  obtain q t where s: "s = (q, t)" by (cases s)
  show ?thesis
  proof (cases "find_policy i t")
    case (Some p)
    then have "po_id p = i" by (auto simp: find_policy_def find_Some_iff)
    have ids: "map po_id (update_first (\<lambda>x. po_id x = i) (\<lambda>x. p1) xs) = map po_id xs" if "po_id p1 = i" for p1 xs
      using that by (induction xs) auto
    show ?thesis
    proof (cases "readPolicy rt q b")
      case (Inr g)
      let ?p1 = "(g p)\<lparr>po_updated_at := c_now c\<rparr>"
      have "po_id ?p1 = i" "schedule_ok (po_schedule ?p1) \<and> counts_ok (po_retention ?p1)"
        using readPolicy_ok [OF Inr] \<open>po_id p = i\<close> by simp_all
      with s Some Inr assms ids [of ?p1 "policies t"] show ?thesis
        by (auto simp: put_policy_def answer_def Let_def policy_state_ok_def list_all_update_first set_map [symmetric]
            simp del: set_map)
    qed (use s Some assms in \<open>auto simp: put_policy_def answer_def\<close>)
  qed (use s assms in \<open>simp add: put_policy_def answer_def\<close>)
qed

lemma delete_policy_ok:
  assumes "policy_state_ok rt (snd s)"
  shows "policy_state_ok rt (snd (out_state (delete_policy c i s)))"
proof -
  obtain q t where s: "s = (q, t)" by (cases s)
  have "po_id ` set (policies t) - {i} \<subseteq> po_id ` set (remove_first (\<lambda>x. po_id x = i) (policies t))"
    by (rule remove_first_image) simp
  moreover have "distinct (map fst (filter P xs))" if "distinct (map fst xs)" for P and xs :: "(string \<times> string) list"
    using that by (induction xs) auto
  ultimately show ?thesis
    using s assms
    by (auto simp: delete_policy_def answer_def policy_state_ok_def list_all_remove_first subset_iff)
qed

lemma assignment_delete_ok:
  assumes "policy_state_ok rt t"
  shows "policy_state_ok rt (t\<lparr>assignments := AList.delete i (assignments t)\<rparr>)"
proof -
  have "snd ` set (AList.delete i xs) \<subseteq> snd ` set xs" for xs :: "(string \<times> string) list"
    by (auto simp: AList.delete_eq)
  from order_trans [OF this] assms show ?thesis by (simp add: policy_state_ok_def distinct_delete)
qed

lemma assignment_update_ok:
  assumes "policy_state_ok rt t" "p \<in> set (policies t)"
  shows "policy_state_ok rt (t\<lparr>assignments := AList.update i (po_id p) (assignments t)\<rparr>)"
proof -
  have "snd ` set (AList.update i (po_id p) xs) \<subseteq> insert (po_id p) (snd ` set xs)" for xs :: "(string \<times> string) list"
    by (induction xs) auto
  from order_trans [OF this] assms show ?thesis by (simp add: policy_state_ok_def distinct_update)
qed

lemma put_app_policy_ok:
  assumes "policy_state_ok rt (snd s)"
  shows "policy_state_ok rt (snd (out_state (put_app_policy f c i b s)))"
proof -
  obtain q t where s: "s = (q, t)" by (cases s)
  have "p \<in> set (policies t)" if "find P (policies t) = Some p" for P p
    using that by (auto simp: find_Some_iff)
  then show ?thesis
    using s assms assignment_delete_ok [of rt t i] assignment_update_ok [of rt t _ i]
    by (simp add: put_app_policy_def answer_def split: option.split)
qed

lemma channel_routes_ok:
  assumes "policy_state_ok rt (snd s)"
  shows "policy_state_ok rt (snd (out_state (post_channel rt c b s)))"
    "policy_state_ok rt (snd (out_state (put_channel rt c i b s)))"
    "policy_state_ok rt (snd (out_state (delete_channel c i s)))"
proof -
  obtain q t where s: "s = (q, t)" by (cases s)
  show "policy_state_ok rt (snd (out_state (post_channel rt c b s)))"
    using s assms new_channel_ok [of rt "jfield b ''kind''" b _ c]
    by (auto simp: post_channel_def answer_def Let_def policy_state_ok_def split: sum.splits)
  have "map ch_id (update_first p (update_channel now v) xs) = map ch_id xs" for p now v xs
    by (rule map_update_first) (simp add: update_channel_def)
  moreover have "list_all (channel_ok rt) (update_first (\<lambda>y. ch_id y = i) (update_channel now v) (channels t))"
    if "find_channel i t = Some x" "validateChannel rt (Some (JStr (ch_kind x))) b = Inr v" for x v now
  proof -
    note hyp = that
    obtain ys zs where ys: "channels t = ys @ x # zs" "ch_id x = i" "list_all (\<lambda>y. ch_id y \<noteq> i) ys"
      using hyp(1) unfolding find_channel_def by (blast elim: find_split)
    with update_channel_ok [OF hyp(2)] s assms show ?thesis
      by (simp add: update_first_split policy_state_ok_def)
  qed
  ultimately show "policy_state_ok rt (snd (out_state (put_channel rt c i b s)))"
    using s assms
    by (auto simp: put_channel_def answer_def policy_state_ok_def set_map [symmetric] simp del: set_map
      split: option.splits sum.splits)
  have "ch_id ` set (channels t) - {i} \<subseteq> ch_id ` set (remove_first (\<lambda>x. ch_id x = i) (channels t))"
    by (rule remove_first_image) simp
  then show "policy_state_ok rt (snd (out_state (delete_channel c i s)))"
    using s assms
    by (auto simp: delete_channel_def answer_def policy_state_ok_def list_all_remove_first subset_iff)
qed

lemma update_rp_ok:
  assumes "protection_ok q" "\<And>r. rp_state (g r) = rp_state r" "\<And>r. rp_application_id (g r) = rp_application_id r"
  shows "protection_ok (update_rp rid g q)"
proof -
  have "pending_apps (update_first p g rs) = pending_apps rs" for p rs
    by (induction rs) (auto simp: assms)
  with assms(1) show ?thesis by (simp add: protection_ok_def update_rp_def)
qed

lemma schedule_repo_ok:
  assumes "protection_ok q"
  shows "protection_ok (update_repo rid (schedule_repo now reason) q)"
proof -
  have "length (filter re_is_default (update_first p (schedule_repo now reason) xs)) \<le> length (filter re_is_default xs)" for p xs
    by (induction xs) (auto simp: schedule_repo_def le_SucI)
  from order_trans [OF this] assms show ?thesis
    by (simp add: protection_ok_def update_repo_def map_update_first schedule_repo_def)
qed

definition pol_ok :: "runtime \<Rightarrow> pol_state \<Rightarrow> bool" where
  "pol_ok rt s \<longleftrightarrow> protection_ok (fst s) \<and> policy_state_ok rt (snd s)"

lemma deletion_routes_ok:
  assumes "pol_ok rt s"
  shows "pol_ok rt (out_state (post_rp_delete c i b s))" "pol_ok rt (out_state (post_rp_undelete c i s))"
    "pol_ok rt (out_state (post_repo_delete c i b s))" "pol_ok rt (out_state (post_repo_undelete c i s))"
proof -
  obtain q t where s: "s = (q, t)" by (cases s)
  with assms have ok: "protection_ok q" "policy_state_ok rt t" by (simp_all add: pol_ok_def)
  have "protection_ok (update_rp i (schedule_rp now reason) q)" for now reason
    by (rule update_rp_ok [OF ok(1)]) (simp_all add: schedule_rp_def)
  then show "pol_ok rt (out_state (post_rp_delete c i b s))"
    using s ok by (auto simp: post_rp_delete_def answer_def Let_def pol_ok_def split: option.splits)
  have "protection_ok (update_rp i unschedule_rp q)"
    by (rule update_rp_ok [OF ok(1)]) (simp_all add: unschedule_rp_def)
  then show "pol_ok rt (out_state (post_rp_undelete c i s))"
    using s ok by (auto simp: post_rp_undelete_def answer_def pol_ok_def split: option.splits)
  show "pol_ok rt (out_state (post_repo_delete c i b s))"
    using s ok schedule_repo_ok [OF ok(1)]
    by (auto simp: post_repo_delete_def answer_def Let_def pol_ok_def split: option.splits)
  have "protection_ok (update_repo i unschedule_repo q)"
    by (rule update_repo_ok [OF ok(1)]) (simp_all add: unschedule_repo_def)
  then show "pol_ok rt (out_state (post_repo_undelete c i s))"
    using s ok by (auto simp: post_repo_undelete_def answer_def pol_ok_def split: option.splits)
qed

lemma send_contract_state [simp]:
  "fst (out_state (send_contract f c i x es s)) = fst s"
  "policy_state_ok rt (snd (out_state (send_contract f c i x es s))) = policy_state_ok rt (snd s)"
  by (simp_all add: send_contract_def case_prod_beta Let_def policy_state_ok_simps)

lemma same_data:
  "fst (out_state (post_policy rt c b s)) = fst s" "fst (out_state (put_policy rt c i b s)) = fst s"
  "fst (out_state (delete_policy c i s)) = fst s" "fst (out_state (put_app_policy f c i b s)) = fst s"
  "fst (out_state (post_channel rt c b s)) = fst s" "fst (out_state (put_channel rt c i b s)) = fst s"
  "fst (out_state (delete_channel c i s)) = fst s"
  by (cases s; simp add: post_policy_def put_policy_def delete_policy_def put_app_policy_def post_channel_def
      put_channel_def delete_channel_def answer_def Let_def case_prod_beta split: option.split sum.split)+

lemma policy_action_ok:
  assumes "pol_ok rt s"
  shows "pol_ok rt (out_state (policy_action rt f c r s))"
proof -
  obtain q t where s: "s = (q, t)" by (cases s)
  have ok: "protection_ok (fst s)" "policy_state_ok rt (snd s)" using assms by (simp_all add: pol_ok_def)
  show ?thesis
  proof (cases r)
    case GetContracts
    with s ok show ?thesis by (simp add: get_contracts_def pol_ok_def case_prod_beta Let_def policy_state_ok_simps)
  next
    case (GetContract i)
    with s ok show ?thesis by (simp add: get_contract_def pol_ok_def answer_def split: option.split)
  next
    case (PutContract i b)
    with s ok show ?thesis by (simp add: put_contract_def pol_ok_def answer_def case_prod_beta split: option.split)
  next
    case (DeleteContract i)
    with s ok show ?thesis by (simp add: delete_contract_def pol_ok_def answer_def policy_state_ok_simps)
  next
    case (PostChannelTest i)
    with s ok show ?thesis by (simp add: post_channel_test_def pol_ok_def answer_def split: option.split)
  next
    case (GetDeliveries i l)
    with s ok show ?thesis by (simp add: get_deliveries_def pol_ok_def answer_def)
  next
    case (PutSmtp b)
    with s ok show ?thesis
      by (simp add: put_smtp_def pol_ok_def answer_def policy_state_ok_simps case_prod_beta Let_def split: option.split json.split)
  qed (use s ok assms deletion_routes_ok [OF assms] in
    \<open>simp_all add: pol_ok_def answer_def same_data post_policy_ok put_policy_ok delete_policy_ok put_app_policy_ok
      channel_routes_ok\<close>)
qed

interpretation policy_service: invariant_service policy_permission "policy_handle rt f" "pol_ok rt" for rt f
proof unfold_locales
  fix r c s
  show "policy_permission r \<notin> set (u_permissions (c_user c)) \<Longrightarrow>
    policy_handle rt f c r s = (forbidden (policy_permission r), [], s)"
    by (simp add: policy_handle_def need_def)
  show "pol_ok rt s \<Longrightarrow> pol_ok rt (out_state (policy_handle rt f c r s))"
    by (simp add: policy_handle_def need_def policy_action_ok)
qed

lemma seed_policy_state_ok:
  assumes "rt_url rt PD_URL = Some (''https:'', host)"
  shows "policy_state_ok rt (seed_policy_state now)"
proof -
  have "schedule_ok (Some ''15 * * * *'') \<and> schedule_ok (Some ''0 1 * * *'') \<and> schedule_ok (Some ''0 3 * * 0'')"
    by code_simp
  then have "list_all (\<lambda>p. schedule_ok (po_schedule p) \<and> counts_ok (po_retention p)) (seed_policies now)"
    by (simp add: seed_policies_def counts_ok_def retention_counts_def)
  moreover have "looksLikeEmail ''ops@example.com'' \<and> looksLikeEmail ''oncall@example.com'' \<and>
      list_all isValidEventPattern [''backup.failed'', ''contract.*'', ''agent.offline''] \<and> trim PD_URL = PD_URL \<and>
      trim ''Ops email'' = ''Ops email'' \<and> trim ''PagerDuty webhook'' = ''PagerDuty webhook''"
    by code_simp
  then have "list_all (channel_ok rt) (seed_channels now)"
    using assms by (simp add: seed_channels_def channel_ok_def hook_url_error_def text_of_def)
  moreover have "distinct (map fst seed_assignments)"
    by code_simp
  ultimately show ?thesis
    by (simp add: policy_state_ok_def seed_policy_state_def seed_assignments_def seed_policies_def seed_channels_def
        seed_deliveries_def delivery_entry_def)
qed


definition plain_runtime :: runtime where
  "plain_runtime =
     \<lparr>rt_string = (\<lambda>j. []), rt_stringify = (\<lambda>j. []),
      rt_url = (\<lambda>u. if startsWith u ''https://'' then Some (''https:'', drop 8 u) else None),
      rt_valid_tz = (\<lambda>tz. tz = ''UTC''), rt_wall = (\<lambda>ms tz. (1970, 1, 1, 0, 0)), rt_le = (\<lambda>a b. True)\<rparr>"

definition policy_manager :: ctx where
  "policy_manager = repo_manager\<lparr>c_user := (c_user repo_manager)\<lparr>u_permissions := [''policy.manage'', ''backup.delete'']\<rparr>\<rparr>"


section \<open>Contracts\<close>

lemma latest_rp_spec:
  "latest_rp q aid = Some r \<Longrightarrow>
     r \<in> set (recovery_points q) \<and> rp_application_id r = aid \<and> rp_state r = RpCommitted \<and>
     (\<forall>r' \<in> set (recovery_points q). rp_application_id r' = aid \<and> rp_state r' = RpCommitted \<longrightarrow>
        rp_created_at r' \<le> rp_created_at r)"
proof -
  let ?rs = "filter (\<lambda>r. rp_application_id r = aid \<and> rp_state r = RpCommitted) (recovery_points q)"
  let ?le = "\<lambda>a b. rp_created_at b \<le> rp_created_at (a :: stored_rp)"
  assume "latest_rp q aid = Some r"
  then obtain rs where rs: "js_sort ?le ?rs = r # rs"
    by (auto simp: latest_rp_def split: list.splits)
  have "sorted_wrt ?le (r # rs)"
    unfolding rs [symmetric] by (rule js_sort_sorted_wrt) (auto simp: transp_def totalp_on_def reflp_def)
  moreover have "set (r # rs) = set ?rs" unfolding rs [symmetric] by simp
  ultimately show ?thesis by auto
qed

lemma latest_rp_None:
  "latest_rp q aid = None \<longleftrightarrow>
     list_all (\<lambda>r. \<not> (rp_application_id r = aid \<and> rp_state r = RpCommitted)) (recovery_points q)"
proof -
  have "js_sort le xs = [] \<longleftrightarrow> xs = []" for le and xs :: "stored_rp list"
    by (metis set_empty set_js_sort)
  moreover have "latest_rp q aid = None \<longleftrightarrow> js_sort (\<lambda>a b. rp_created_at b \<le> rp_created_at a)
      (filter (\<lambda>r. rp_application_id r = aid \<and> rp_state r = RpCommitted) (recovery_points q)) = []"
    by (simp add: latest_rp_def split: list.split)
  ultimately show ?thesis by (simp add: list_all_iff filter_empty_conv)
qed

text \<open>A contract is met by a recovery point that is young enough and holds every required component.\<close>

definition meets :: "int \<Rightarrow> contract \<Rightarrow> stored_rp \<Rightarrow> bool" where
  "meets now c r \<longleftrightarrow>
     (case co_max_rpo_minutes c of None \<Rightarrow> True | Some m \<Rightarrow> rp_age now r \<le> m * MINUTE) \<and>
     set (co_required_components c) \<subseteq> set (succeeded_names (rp_components r))"

lemma violation_reasons_Nil:
  "violation_reasons now c latest = [] \<longleftrightarrow> (\<exists>r. latest = Some r \<and> meets now c r)"
  by (auto simp: violation_reasons_def meets_def filter_empty_conv split: option.splits)


section \<open>The grace period\<close>

text \<open>The recovery points after readings at given times, with the random values each reading draws.\<close>

fun readings ::
  "(string \<Rightarrow> captured list \<Rightarrow> contract_note option) \<Rightarrow> fleet \<Rightarrow> (int \<times> (nat \<Rightarrow> string)) list \<Rightarrow> protection \<Rightarrow> protection" where
  "readings capture f [] q = q"
| "readings capture f ((now, rnd) # ts) q = readings capture f ts (fst (advance capture f now rnd q))"

lemma advance_loop_idle:
  "advance_loop capture f s now rnd i als rs = (rs', als', es, ok) \<Longrightarrow> find (\<lambda>x. rp_id x = rid) rs = Some r \<Longrightarrow>
   rp_state r \<noteq> RpPending \<Longrightarrow> find (\<lambda>x. rp_id x = rid) rs' = Some r"
proof (induction rs arbitrary: i als rs' als' es ok)
  case (Cons x rs)
  show ?case
  proof (cases "advance_rp capture f s now (sub_draws rnd i) als x")
    case None
    with Cons.prems show ?thesis by auto
  next
    case (Some y)
    obtain x1 als1 es1 where y: "y = (x1, als1, es1)" by (cases y)
    obtain rs2 als2 es2 ok2 where l: "advance_loop capture f s now rnd (Suc i) als1 rs = (rs2, als2, es2, ok2)"
      by (metis prod_cases4)
    from Some y l Cons.prems(1) have rs': "rs' = x1 # rs2" by simp
    note keeps = advance_rp_keeps [OF Some [unfolded y]]
    show ?thesis
    proof (cases "rp_id x = rid")
      case True
      with Cons.prems(2) have "x = r" by simp
      with keeps Cons.prems(3) True rs' show ?thesis by simp
    next
      case False
      with Cons.prems(2) have "find (\<lambda>x. rp_id x = rid) rs = Some r" by simp
      from Cons.IH [OF l this Cons.prems(3)] False keeps rs' show ?thesis by simp
    qed
  qed
qed simp

lemma expire_rp_id [simp]: "rp_id (expire_rp now r) = rp_id r"
  by (simp add: expire_rp_def)

lemma advance_find_rp:
  assumes "find_rp rid q = Some r" "rp_state r \<noteq> RpPending"
  shows "find_rp rid (fst (advance capture f now rnd q)) = Some (expire_rp now r)"
proof -
  let ?s1 = "q\<lparr>recovery_points := map (expire_rp now) (recovery_points q),
                repositories := map (retire_repo now) (repositories q)\<rparr>"
  obtain rps als es ok where l:
    "advance_loop capture f ?s1 now rnd 0 (alerts q) (map (expire_rp now) (recovery_points q)) = (rps, als, es, ok)"
    by (metis prod_cases4)
  have "find (\<lambda>x. rp_id x = rid) (map (expire_rp now) (recovery_points q)) = Some (expire_rp now r)"
    using assms(1) by (simp add: find_map_same find_rp_def)
  moreover have "rp_state (expire_rp now r) \<noteq> RpPending"
    using assms(2) by (simp add: expire_rp_def)
  ultimately show ?thesis
    using advance_loop_idle [OF l] l by (simp add: advance_def find_rp_def)
qed

lemma readings_find_rp:
  assumes "find_rp rid q = Some r" "rp_state r \<in> {RpCommitted, RpMissing}" "rp_delete_after r = Some d"
    and "list_all (\<lambda>(t, rnd). t < d) ts"
  shows "find_rp rid (readings capture f ts q) = Some r"
  using assms
proof (induction ts arbitrary: q)
  case (Cons x ts)
  obtain t rnd where x: "x = (t, rnd)" by (cases x)
  have "expire_rp t r = r" using Cons.prems(3,4) x by (simp add: expire_rp_def deletion_due_def)
  with advance_find_rp [OF Cons.prems(1), of capture f t rnd] Cons.prems(2)
  have "find_rp rid (fst (advance capture f t rnd q)) = Some r" by auto
  with Cons.IH [OF this Cons.prems(2,3)] Cons.prems(4) x show ?case by simp
qed simp

lemma find_after_update: "find p xs = Some r \<Longrightarrow> p (g r) \<Longrightarrow> find p (update_first p g xs) = Some (g r)"
  by (induction xs) (auto split: if_splits)

lemma find_update_rp:
  "find_rp rid q = Some r \<Longrightarrow> rp_id (g r) = rid \<Longrightarrow> find_rp rid (update_rp rid g q) = Some (g r)"
  by (simp add: find_rp_def update_rp_def find_after_update)

lemma accepted_deletion:
  assumes "policy_handle rt f c (PostRpDelete rid b) (q, s) = (Send 200 body, es, (q1, s1))" "find_rp rid q = Some r"
  shows "rp_state r \<in> {RpCommitted, RpMissing} \<and> rp_delete_after r = None \<and> s1 = s \<and>
    (\<exists>reason. q1 = update_rp rid (schedule_rp (c_now c) reason) q)"
  using assms
  by (auto simp: policy_handle_def need_def post_rp_delete_def answer_def Let_def forbidden_def conflict_def
      split: if_splits)

lemma schedule_unschedule:
  "rp_delete_after r = None \<Longrightarrow> rp_delete_reason r = None \<Longrightarrow> unschedule_rp (schedule_rp now reason r) = r"
  by (simp add: unschedule_rp_def schedule_rp_def)

text \<open>C26: Deleting a recovery point can be taken back for seven days, and not later. Once the server
  has accepted the deletion, readings before the grace period is over do not change the recovery
  point, and cancelling gives back exactly the one there was; the first reading after the grace
  period deletes it, and cancelling is refused from then on.\<close>

theorem deletion_grace:
  assumes "policy_handle rt f c (PostRpDelete rid b) (q, s) = (Send 200 body, es, (q1, s1))"
    and "find_rp rid q = Some r" "rp_delete_reason r = None"
    and "list_all (\<lambda>(t, rnd). t < c_now c + GRACE_MS) ts" "c_now c + GRACE_MS \<le> late"
    and "''backup.delete'' \<in> set (u_permissions (c_user c'))"
  shows "(let q2 = readings capture f0 ts q1;
              (reply, es', (q3, s3)) = policy_handle rt f c' (PostRpUndelete rid) (q2, s1)
          in reply = Send 200 (RpBody (publicRp r)) \<and> find_rp rid q3 = Some r) \<and>
    (let q4 = fst (advance capture f0 late rnd (readings capture f0 ts q1)) in
      map_option rp_state (find_rp rid q4) = Some RpDeleted \<and>
      policy_handle rt f c' (PostRpUndelete rid) (q4, s1) =
        (conflict ''the recovery point is not scheduled for deletion'', [], (q4, s1)))"
proof -
  from accepted_deletion [OF assms(1,2)] obtain reason where acc: "rp_state r \<in> {RpCommitted, RpMissing}"
    "rp_delete_after r = None" "q1 = update_rp rid (schedule_rp (c_now c) reason) q"
    by blast
  define r1 where "r1 = schedule_rp (c_now c) reason r"
  have "rp_id r = rid" using assms(2) by (auto simp: find_rp_def find_Some_iff)
  then have r1: "rp_id r1 = rid" "rp_state r1 = rp_state r" "rp_delete_after r1 = Some (c_now c + GRACE_MS)"
    by (simp_all add: r1_def schedule_rp_def)
  have "find_rp rid q1 = Some r1"
    using find_update_rp [OF assms(2)] r1(1) by (simp add: acc(3) r1_def)
  from readings_find_rp [OF this _ r1(3) assms(4)] r1(2) acc(1)
  have q2: "find_rp rid (readings capture f0 ts q1) = Some r1" by metis
  have undo_r1: "unschedule_rp r1 = r" using schedule_unschedule acc(2) assms(3) r1_def by simp
  with find_update_rp [OF q2, of unschedule_rp] \<open>rp_id r = rid\<close>
  have "find_rp rid (update_rp rid unschedule_rp (readings capture f0 ts q1)) = Some r" by simp
  moreover have "find_rp rid (fst (advance capture f0 late rnd (readings capture f0 ts q1))) = Some (expire_rp late r1)"
    using advance_find_rp [OF q2] r1(2) acc(1) by auto
  moreover have "rp_state (expire_rp late r1) = RpDeleted"
    using r1 acc(1) assms(5) by (auto simp: expire_rp_def deletion_due_def)
  ultimately show ?thesis
    using q2 r1 acc(1) undo_r1 assms(6)
    by (simp add: policy_handle_def need_def post_rp_undelete_def answer_def)
qed

definition sample_rp :: stored_rp where
  "sample_rp = rp_base 0 [] ''a'' ''shop'' ''h'' ''host'' RpCommitted"

definition delete_body :: json where
  "delete_body = JObj [(''reason'', JStr ''too old''), (''confirmation'', JStr ''shop'')]"

theorem deletion_grace_witness:
  "(let q = sample_protection\<lparr>recovery_points := [sample_rp]\<rparr>;
        (reply, es, (q1, s1)) = policy_handle plain_runtime sample_fleet policy_manager (PostRpDelete (rp_id sample_rp) delete_body)
          (q, seed_policy_state 0);
        q2 = readings (\<lambda>a cs. None) sample_fleet [(5000, \<lambda>k. []), (GRACE_MS, \<lambda>k. [])] q1;
        (reply', es', (q3, s3)) = policy_handle plain_runtime sample_fleet policy_manager (PostRpUndelete (rp_id sample_rp)) (q2, s1)
    in reply = Send 200 (RpBody (publicRp (schedule_rp 1000 ''too old'' sample_rp))) \<and>
       reply' = Send 200 (RpBody (publicRp sample_rp)) \<and> find_rp (rp_id sample_rp) q3 = Some sample_rp)"
proof -
  let ?q = "sample_protection\<lparr>recovery_points := [sample_rp]\<rparr>"
  let ?o = "policy_handle plain_runtime sample_fleet policy_manager (PostRpDelete (rp_id sample_rp) delete_body) (?q, seed_policy_state 0)"
  have m: "u_permissions (c_user policy_manager) = [''policy.manage'', ''backup.delete'']" "c_now policy_manager = 1000"
    by (simp_all add: policy_manager_def repo_manager_def)
  have b: "trimmed_field delete_body ''reason'' = ''too old''" "confirmed delete_body ''shop''"
    by code_simp+
  have r: "rp_application_name sample_rp = ''shop''" "rp_state sample_rp = RpCommitted" "rp_delete_after sample_rp = None"
    "rp_delete_reason sample_rp = None"
    by (simp_all add: sample_rp_def rp_base_def)
  have f: "find_rp (rp_id sample_rp) ?q = Some sample_rp" by (simp add: find_rp_def)
  have o: "out_reply ?o = Send 200 (RpBody (publicRp (schedule_rp 1000 ''too old'' sample_rp)))"
    using f by (simp add: policy_handle_def need_def m post_rp_delete_def b r Let_def)
  have eq: "?o = (Send 200 (RpBody (publicRp (schedule_rp 1000 ''too old'' sample_rp))), out_effects ?o,
      (fst (out_state ?o), snd (out_state ?o)))"
    unfolding o [symmetric] by simp
  from deletion_grace [OF eq f r(4), of "[(5000, \<lambda>k. []), (GRACE_MS, \<lambda>k. [])]" "1000 + GRACE_MS" policy_manager
      "\<lambda>a cs. None" sample_fleet] m
  show ?thesis
    using o by (simp add: GRACE_MS_def DAY_def case_prod_beta Let_def)
qed

end
