(* ===== verification/Channel_Form.thy ===== *)
theory Channel_Form
  imports Policy_Server
begin

text \<open>
  The notification channel editor of the console (\<^verbatim>\<open>components/notifications/channels.tsx\<close> and
  \<^verbatim>\<open>event-picker.tsx\<close>, with the request schemas of \<^verbatim>\<open>lib/api/policy-schemas.ts\<close>): the draft behind
  the form, the request it builds or the message it shows, and the list operations of the event
  picker. The properties relate the editor to the server of \<^verbatim>\<open>scripts/mock-policies.mjs\<close>.
\<close>

section \<open>Drafts and requests\<close>

datatype channel_kind = EmailKind | WebhookKind

fun kind_text :: "channel_kind \<Rightarrow> string" where
  "kind_text EmailKind = ''email''"
| "kind_text WebhookKind = ''webhook''"

datatype severity = InfoLevel | WarningLevel | CriticalLevel

fun severity_text :: "severity \<Rightarrow> string" where
  "severity_text InfoLevel = ''info''"
| "severity_text WarningLevel = ''warning''"
| "severity_text CriticalLevel = ''critical''"

record channel_draft =
  df_kind :: channel_kind
  df_name :: string
  df_enabled :: bool
  df_recipients :: string
  df_url :: string
  df_secret_action :: secret_action
  df_secret :: string
  df_events :: "string list"
  df_min_severity :: severity

definition newChannelDraft :: "channel_kind \<Rightarrow> channel_draft" where
  "newChannelDraft kind =
     \<lparr>df_kind = kind, df_name = [], df_enabled = True, df_recipients = [], df_url = [], df_secret_action = Keep,
      df_secret = [], df_events = [''backup.failed'', ''restore.failed'', ''agent.offline'', ''contract.violated''],
      df_min_severity = WarningLevel\<rparr>"

text \<open>A channel as the console reads it from a reply: the schema admits two kinds and three
  severities, and turns a missing list into the empty one.\<close>

record channel_view =
  vw_kind :: channel_kind
  vw_name :: string
  vw_enabled :: bool
  vw_to :: "string list"
  vw_url :: "string option"
  vw_events :: "string list"
  vw_min_severity :: severity

definition NotificationChannelSchema :: "channel \<Rightarrow> channel_view option" where
  "NotificationChannelSchema x =
     (case (find (\<lambda>k. kind_text k = ch_kind x) [EmailKind, WebhookKind],
            find (\<lambda>v. severity_text v = ch_min_severity x) [InfoLevel, WarningLevel, CriticalLevel], ch_enabled x) of
        (Some k, Some v, JBool e) \<Rightarrow>
          Some \<lparr>vw_kind = k, vw_name = ch_name x, vw_enabled = e,
                vw_to = (case ch_config x of MailTo ts \<Rightarrow> ts | HookUrl u \<Rightarrow> []),
                vw_url = (case ch_config x of MailTo ts \<Rightarrow> None | HookUrl u \<Rightarrow> Some u),
                vw_events = ch_events x, vw_min_severity = v\<rparr>
      | _ \<Rightarrow> None)"

definition channelToDraft :: "channel_view \<Rightarrow> channel_draft" where
  "channelToDraft c =
     \<lparr>df_kind = vw_kind c, df_name = vw_name c, df_enabled = vw_enabled c,
      df_recipients = js_join [CHR 0x0A] (vw_to c), df_url = (case vw_url c of Some u \<Rightarrow> u | None \<Rightarrow> []),
      df_secret_action = Keep, df_secret = [], df_events = vw_events c, df_min_severity = vw_min_severity c\<rparr>"

record channel_request =
  cr_kind :: "channel_kind option"
  cr_name :: string
  cr_enabled :: bool
  cr_config :: channel_config
  cr_events :: "string list"
  cr_min_severity :: severity
  cr_secret :: "string option"

datatype form_error =
  EventsError events_error
| NoRecipients
| NotAnAddress string
| UrlError webhook_error
| ShortSecret
| EnterName
| NameTooLong
| TooManyRecipients
| UrlTooLong
| TooManyEvents
| SecretTooLong

definition draft_config :: "(string \<Rightarrow> (string \<times> string) option) \<Rightarrow> channel_draft \<Rightarrow> form_error + channel_config" where
  "draft_config parse_url d =
     (case df_kind d of
        EmailKind \<Rightarrow>
          (let ts = splitRecipients (df_recipients d)
           in if ts = [] then Inl NoRecipients
              else case find (\<lambda>t. \<not> looksLikeEmail t) ts of
                     Some bad \<Rightarrow> Inl (NotAnAddress bad)
                   | None \<Rightarrow> Inr (MailTo ts))
      | WebhookKind \<Rightarrow>
          (case webhookUrlError parse_url (df_url d) of
             Some e \<Rightarrow> Inl (UrlError e)
           | None \<Rightarrow> Inr (HookUrl (trim (df_url d)))))"

definition common :: "(string \<Rightarrow> (string \<times> string) option) \<Rightarrow> channel_draft \<Rightarrow> form_error + channel_request" where
  "common parse_url d =
     (case normalizeEvents (filter (\<lambda>e. e \<noteq> ''*'') (df_events d)) of
        Inl e \<Rightarrow> Inl (EventsError e)
      | Inr evs \<Rightarrow>
          (case draft_config parse_url d of
             Inl e \<Rightarrow> Inl e
           | Inr cfg \<Rightarrow>
               Inr \<lparr>cr_kind = None, cr_name = df_name d, cr_enabled = df_enabled d, cr_config = cfg, cr_events = evs,
                    cr_min_severity = df_min_severity d, cr_secret = None\<rparr>))"

definition secretOf :: "channel_draft \<Rightarrow> form_error + string option" where
  "secretOf d =
     (if df_kind d \<noteq> WebhookKind then Inr None
      else case secretField (df_secret_action d) (df_secret d) of
             None \<Rightarrow> Inr None
           | Some t \<Rightarrow> if t \<noteq> [] \<and> length t < MIN_WEBHOOK_SECRET then Inl ShortSecret else Inr (Some t))"

text \<open>The constraints of \<^verbatim>\<open>channelFields\<close>, in the order of the schema; parsing trims the name. The
  editor shows the first message.\<close>

definition channelFields :: "channel_request \<Rightarrow> form_error + channel_request" where
  "channelFields r =
     (let name = trim (cr_name r)
      in if length name < 1 then Inl EnterName
         else if length name > 100 then Inl NameTooLong
         else if (case cr_config r of MailTo ts \<Rightarrow> length ts > 50 | HookUrl u \<Rightarrow> False) then Inl TooManyRecipients
         else if (case cr_config r of MailTo ts \<Rightarrow> False | HookUrl u \<Rightarrow> length u > 2000) then Inl UrlTooLong
         else if length (cr_events r) > 100 then Inl TooManyEvents
         else if (case cr_secret r of Some t \<Rightarrow> length t > 500 | None \<Rightarrow> False) then Inl SecretTooLong
         else if (case cr_secret r of Some t \<Rightarrow> t \<noteq> [] \<and> length t < MIN_WEBHOOK_SECRET | None \<Rightarrow> False) then
           Inl ShortSecret
         else Inr (r\<lparr>cr_name := name\<rparr>))"

definition draftToCreateRequest ::
  "(string \<Rightarrow> (string \<times> string) option) \<Rightarrow> channel_draft \<Rightarrow> form_error + channel_request" where
  "draftToCreateRequest parse_url d =
     (case common parse_url d of
        Inl e \<Rightarrow> Inl e
      | Inr base \<Rightarrow>
          (case secretOf (d\<lparr>df_secret_action := (if df_secret_action d = Remove then Keep else df_secret_action d)\<rparr>) of
             Inl e \<Rightarrow> Inl e
           | Inr secret \<Rightarrow> channelFields (base\<lparr>cr_kind := Some (df_kind d), cr_secret := or_none secret\<rparr>)))"

definition draftToUpdateRequest ::
  "(string \<Rightarrow> (string \<times> string) option) \<Rightarrow> channel_draft \<Rightarrow> form_error + channel_request" where
  "draftToUpdateRequest parse_url d =
     (case common parse_url d of
        Inl e \<Rightarrow> Inl e
      | Inr base \<Rightarrow>
          (case secretOf d of
             Inl e \<Rightarrow> Inl e
           | Inr secret \<Rightarrow> channelFields (base\<lparr>cr_secret := secret\<rparr>)))"

text \<open>The JSON body of a request; absent fields are left out.\<close>

definition config_json :: "channel_config \<Rightarrow> json" where
  "config_json cfg =
     (case cfg of MailTo ts \<Rightarrow> JObj [(''to'', JArr (map JStr ts))] | HookUrl u \<Rightarrow> JObj [(''url'', JStr u)])"

definition request_json :: "channel_request \<Rightarrow> json" where
  "request_json r =
     JObj ((case cr_kind r of Some k \<Rightarrow> [(''kind'', JStr (kind_text k))] | None \<Rightarrow> []) @
       [(''name'', JStr (cr_name r)), (''config'', config_json (cr_config r)), (''enabled'', JBool (cr_enabled r)),
        (''events'', JArr (map JStr (cr_events r))), (''min_severity'', JStr (severity_text (cr_min_severity r)))] @
       (case cr_secret r of Some t \<Rightarrow> [(''secret'', JStr t)] | None \<Rightarrow> []))"

section \<open>The event picker\<close>

definition wildcard :: "string \<Rightarrow> string" where
  "wildcard g = g @ ''.*''"

definition toggleWildcard :: "string list \<Rightarrow> string \<Rightarrow> bool \<Rightarrow> string list" where
  "toggleWildcard evs g on =
     (let w = wildcard g
      in if \<not> on then filter (\<lambda>e. e \<noteq> w) evs
         else filter (\<lambda>e. \<not> startsWith e (g @ ''.'')) evs @ [w])"

definition toggleEvent :: "string list \<Rightarrow> string \<Rightarrow> bool \<Rightarrow> string list" where
  "toggleEvent evs type on = (if on then nub (evs @ [type]) else filter (\<lambda>e. e \<noteq> type) evs)"

definition customPatterns :: "string list \<Rightarrow> string list" where
  "customPatterns evs =
     (let known = KNOWN_EVENT_TYPES @ map (\<lambda>g. wildcard (group g)) NOTIFICATION_EVENTS @ [''*'']
      in filter (\<lambda>e. e \<notin> set known) evs)"

section \<open>Lemmas\<close>

lemma request_fields [simp]:
  "jfield (request_json r) ''kind'' = map_option (\<lambda>k. JStr (kind_text k)) (cr_kind r)"
  "jfield (request_json r) ''name'' = Some (JStr (cr_name r))"
  "jfield (request_json r) ''config'' = Some (config_json (cr_config r))"
  "jfield (request_json r) ''enabled'' = Some (JBool (cr_enabled r))"
  "jfield (request_json r) ''events'' = Some (JArr (map JStr (cr_events r)))"
  "jfield (request_json r) ''min_severity'' = Some (JStr (severity_text (cr_min_severity r)))"
  "jfield (request_json r) ''secret'' = map_option JStr (cr_secret r)"
  "is_object (request_json r)"
  by (auto simp: request_json_def split: option.split)

lemma severity_json: "JStr (severity_text v) \<in> {JStr ''info'', JStr ''warning'', JStr ''critical''}"
  by (cases v) auto

lemma event_list_clean:
  "list_all (\<lambda>e. isValidEventPattern e \<and> trim e = e \<and> e \<noteq> []) es \<Longrightarrow> distinct (evs @ es) \<Longrightarrow>
   event_list rt (map JStr es) evs = Inr (evs @ es)"
  by (induction es arbitrary: evs) (auto simp: isValidEventPattern_def)

lemma hook_url_error_console:
  "webhookUrlError (rt_url rt) url = None \<Longrightarrow> hook_url_error rt (Some (JStr (trim url))) = None"
  by (auto simp: webhookUrlError_def hook_url_error_def text_of_def Let_def split: if_splits option.splits)

text \<open>What a request holds that the editor lets pass.\<close>

definition request_ok :: "runtime \<Rightarrow> channel_kind \<Rightarrow> channel_request \<Rightarrow> bool" where
  "request_ok rt kind r \<longleftrightarrow>
     cr_name r \<noteq> [] \<and> trim (cr_name r) = cr_name r \<and> length (cr_name r) \<le> 100 \<and>
     list_all (\<lambda>e. isValidEventPattern e \<and> trim e = e \<and> e \<noteq> []) (cr_events r) \<and> distinct (cr_events r) \<and>
     length (cr_events r) \<le> 100 \<and>
     (case cr_config r of
        MailTo ts \<Rightarrow> kind = EmailKind \<and> ts \<noteq> [] \<and> length ts \<le> 50 \<and> list_all (\<lambda>t. looksLikeEmail t \<and> trim t = t) ts \<and>
          cr_secret r = None
      | HookUrl u \<Rightarrow> kind = WebhookKind \<and> trim u = u \<and> hook_url_error rt (Some (JStr u)) = None \<and>
          (case cr_secret r of None \<Rightarrow> True | Some t \<Rightarrow> t = [] \<or> 16 \<le> length t))"

lemma request_accepted:
  assumes "request_ok rt kind r"
  shows "validateChannel rt (Some (JStr (kind_text kind))) (request_json r) =
    Inr \<lparr>cx_name = cr_name r, cx_config = cr_config r, cx_events = cr_events r,
         cx_min_severity = severity_text (cr_min_severity r), cx_enabled = JBool (cr_enabled r), cx_secret = cr_secret r\<rparr>"
proof -
  have "channel_target rt (Some (JStr (kind_text kind))) (request_json r) = Inr (cr_config r)"
  proof (cases "cr_config r")
    case (MailTo ts)
    moreover from MailTo assms have "find (\<lambda>t. \<not> mail_ok t) (map JStr ts) = None"
      by (auto simp: request_ok_def find_None_iff mail_ok_def list_all_iff)
    moreover from MailTo assms have "map (\<lambda>t. trim (json_text (Some t))) (map JStr ts) = ts"
      by (auto simp: request_ok_def list_all_iff json_text_def intro!: map_idI)
    ultimately show ?thesis
      using assms by (simp add: request_ok_def channel_target_def config_json_def or_default_def array_field_def)
  next
    case (HookUrl u)
    with assms show ?thesis
      by (auto simp: request_ok_def channel_target_def config_json_def or_default_def array_field_def json_text_def
          text_of_def split: option.splits)
  qed
  moreover have "event_list rt (map JStr (cr_events r)) [] = Inr (cr_events r)"
    using assms event_list_clean [of "cr_events r" "[]" rt] by (simp add: request_ok_def)
  ultimately show ?thesis
    using assms severity_json [of "cr_min_severity r"]
    by (cases "cr_secret r")
      (auto simp: request_ok_def validateChannel_def trimmed_field_def array_field_def or_default_def json_text_def
        text_option_def Let_def)
qed

lemma normalizeEvents_clean:
  assumes "normalizeEvents input = Inr es"
  shows "es = candidates input" "list_all (\<lambda>e. isValidEventPattern e \<and> trim e = e \<and> e \<noteq> []) es" "distinct es"
    "length es \<le> 100"
proof -
  from assms show es: "es = candidates input"
    by (auto simp: normalizeEvents_def normalize_loop_ref Let_def split: option.splits if_splits)
  from assms have "find (\<lambda>e. \<not> isValidEventPattern e) (candidates input) = None"
    by (auto simp: normalizeEvents_def normalize_loop_ref Let_def split: option.splits if_splits)
  then show "list_all (\<lambda>e. isValidEventPattern e \<and> trim e = e \<and> e \<noteq> []) es"
    by (auto simp: es find_None_iff list_all_iff candidates_def)
  from assms show "length es \<le> 100"
    by (auto simp: normalizeEvents_def MAX_EVENT_PATTERNS_def split: sum.splits if_splits)
  show "distinct es" by (simp add: es candidates_def)
qed

lemma draft_config_ok:
  assumes "draft_config (rt_url rt) d = Inr cfg"
  shows "cfg = (case df_kind d of EmailKind \<Rightarrow> MailTo (splitRecipients (df_recipients d)) | WebhookKind \<Rightarrow> HookUrl (trim (df_url d)))"
    and "case cfg of
      MailTo ts \<Rightarrow> df_kind d = EmailKind \<and> ts \<noteq> [] \<and> list_all (\<lambda>t. looksLikeEmail t \<and> trim t = t) ts
    | HookUrl u \<Rightarrow> df_kind d = WebhookKind \<and> trim u = u \<and> hook_url_error rt (Some (JStr u)) = None"
proof -
  from assms show cfg: "cfg = (case df_kind d of EmailKind \<Rightarrow> MailTo (splitRecipients (df_recipients d)) | WebhookKind \<Rightarrow> HookUrl (trim (df_url d)))"
    by (auto simp: draft_config_def Let_def split: channel_kind.splits if_splits option.splits)
  have "trim t = t" if "t \<in> set (splitRecipients (df_recipients d))" for t
    using that by (auto simp: splitRecipients_def)
  with assms cfg show "case cfg of
      MailTo ts \<Rightarrow> df_kind d = EmailKind \<and> ts \<noteq> [] \<and> list_all (\<lambda>t. looksLikeEmail t \<and> trim t = t) ts
    | HookUrl u \<Rightarrow> df_kind d = WebhookKind \<and> trim u = u \<and> hook_url_error rt (Some (JStr u)) = None"
    by (auto simp: draft_config_def Let_def find_None_iff list_all_iff hook_url_error_console
        split: channel_kind.splits if_splits option.splits)
qed

lemma common_ok:
  assumes "common (rt_url rt) d = Inr base"
  shows "base = \<lparr>cr_kind = None, cr_name = df_name d, cr_enabled = df_enabled d,
      cr_config = (case df_kind d of EmailKind \<Rightarrow> MailTo (splitRecipients (df_recipients d)) | WebhookKind \<Rightarrow> HookUrl (trim (df_url d))),
      cr_events = candidates (filter (\<lambda>e. e \<noteq> ''*'') (df_events d)), cr_min_severity = df_min_severity d, cr_secret = None\<rparr>"
    and "channelFields (base\<lparr>cr_kind := k, cr_secret := t\<rparr>) = Inr r \<Longrightarrow> df_kind d = EmailKind \<Longrightarrow> t = None \<Longrightarrow>
      request_ok rt EmailKind r"
    and "channelFields (base\<lparr>cr_kind := k, cr_secret := t\<rparr>) = Inr r \<Longrightarrow> df_kind d = WebhookKind \<Longrightarrow>
      request_ok rt WebhookKind r"
proof -
  from assms obtain evs cfg where h: "normalizeEvents (filter (\<lambda>e. e \<noteq> ''*'') (df_events d)) = Inr evs"
    "draft_config (rt_url rt) d = Inr cfg"
    "base = \<lparr>cr_kind = None, cr_name = df_name d, cr_enabled = df_enabled d, cr_config = cfg, cr_events = evs,
       cr_min_severity = df_min_severity d, cr_secret = None\<rparr>"
    by (auto simp: common_def split: sum.splits)
  note facts = normalizeEvents_clean [OF h(1)] draft_config_ok [OF h(2)]
  show "base = \<lparr>cr_kind = None, cr_name = df_name d, cr_enabled = df_enabled d,
      cr_config = (case df_kind d of EmailKind \<Rightarrow> MailTo (splitRecipients (df_recipients d)) | WebhookKind \<Rightarrow> HookUrl (trim (df_url d))),
      cr_events = candidates (filter (\<lambda>e. e \<noteq> ''*'') (df_events d)), cr_min_severity = df_min_severity d, cr_secret = None\<rparr>"
    unfolding h(3) using facts(1,5) by simp
  show "request_ok rt EmailKind r"
    if "channelFields (base\<lparr>cr_kind := k, cr_secret := t\<rparr>) = Inr r" "df_kind d = EmailKind" "t = None"
    using that facts(2-4,6) unfolding h(3)
    by (cases cfg) (auto simp: channelFields_def request_ok_def Let_def not_less Suc_le_eq split: if_splits)
  show "request_ok rt WebhookKind r"
    if "channelFields (base\<lparr>cr_kind := k, cr_secret := t\<rparr>) = Inr r" "df_kind d = WebhookKind"
    using that facts(2-4,6) unfolding h(3)
    by (cases cfg; cases t) (auto simp: channelFields_def request_ok_def MIN_WEBHOOK_SECRET_def Let_def not_less split: if_splits)
qed

lemma policy_handle_allowed:
  "policy_permission r \<in> set (u_permissions (c_user c)) \<Longrightarrow> policy_handle rt f c r s = policy_action rt f c r s"
  by (simp add: policy_handle_def need_def)

section \<open>Creating a channel\<close>

text \<open>C24: What the editor sends, the server accepts. If the form of a new channel yields a request,
  posting it with \<^verbatim>\<open>policy.manage\<close> creates exactly the channel that the form describes: the trimmed
  name, the recipients or the URL, the event patterns each once without the all-events pattern, and
  the signing secret if one was entered.\<close>

theorem create_channel_refines:
  assumes "draftToCreateRequest (rt_url rt) d = Inr req" "''policy.manage'' \<in> set (u_permissions (c_user c))"
  shows "let x = \<lparr>ch_id = c_random c 0, ch_name = trim (df_name d), ch_kind = kind_text (df_kind d),
      ch_enabled = JBool (df_enabled d),
      ch_config = (case df_kind d of EmailKind \<Rightarrow> MailTo (splitRecipients (df_recipients d))
                   | WebhookKind \<Rightarrow> HookUrl (trim (df_url d))),
      ch_events = candidates (filter (\<lambda>e. e \<noteq> ''*'') (df_events d)),
      ch_min_severity = severity_text (df_min_severity d), ch_created_at = c_now c, ch_updated_at = c_now c,
      ch_last_delivery_at = None, ch_last_error = None,
      ch_secret = (if df_kind d = WebhookKind \<and> df_secret_action d = Replace then or_none (Some (df_secret d)) else None)\<rparr>
    in policy_handle rt f c (PostChannel (request_json req)) (q, s) =
      (channel_reply 201 x, [audit_by c ''notification.channel.created'' ''notification_channel'' (ch_id x) None],
       (q, s\<lparr>channels := channels s @ [x]\<rparr>))"
proof -
  let ?d = "d\<lparr>df_secret_action := (if df_secret_action d = Remove then Keep else df_secret_action d)\<rparr>"
  from assms(1) obtain base t where h: "common (rt_url rt) d = Inr base" "secretOf ?d = Inr t"
    "channelFields (base\<lparr>cr_kind := Some (df_kind d), cr_secret := or_none t\<rparr>) = Inr req"
    by (auto simp: draftToCreateRequest_def split: sum.splits)
  from h(2) have t: "or_none t =
      (if df_kind d = WebhookKind \<and> df_secret_action d = Replace then or_none (Some (df_secret d)) else None)"
    by (cases "df_secret_action d") (auto simp: secretOf_def or_none_def split: if_splits)
  from h(3) have req: "req = base\<lparr>cr_kind := Some (df_kind d), cr_secret := or_none t, cr_name := trim (cr_name base)\<rparr>"
    by (auto simp: channelFields_def Let_def split: if_splits)
  have "request_ok rt (df_kind d) req"
    using common_ok(2) [OF h(1,3)] common_ok(3) [OF h(1,3)] t by (cases "df_kind d") auto
  from request_accepted [OF this] assms(2) t show ?thesis
    unfolding req common_ok(1) [OF h(1)]
    by (simp add: policy_handle_allowed post_channel_def new_channel_def Let_def json_text_def or_none_def)
qed

definition hook_draft :: channel_draft where
  "hook_draft = (newChannelDraft WebhookKind)\<lparr>df_name := '' on call '', df_url := ''https://a.b/c'', df_secret_action := Replace,
     df_secret := ''0123456789abcdef''\<rparr>"

theorem create_channel_refines_witness:
  "\<exists>req x. draftToCreateRequest (rt_url plain_runtime) hook_draft = Inr req \<and> ch_name x = ''on call'' \<and>
     ch_secret x = Some ''0123456789abcdef'' \<and>
     out_reply (policy_handle plain_runtime sample_fleet policy_manager (PostChannel (request_json req))
       (sample_protection, seed_policy_state 0)) = channel_reply 201 x"
proof -
  have "isl (draftToCreateRequest (rt_url plain_runtime) hook_draft) = False" by code_simp
  then obtain req where r: "draftToCreateRequest (rt_url plain_runtime) hook_draft = Inr req"
    by (cases "draftToCreateRequest (rt_url plain_runtime) hook_draft") auto
  have "''policy.manage'' \<in> set (u_permissions (c_user policy_manager))" by (simp add: policy_manager_def)
  note created = create_channel_refines [OF r this, of sample_fleet sample_protection "seed_policy_state 0", unfolded Let_def]
  obtain x es st where "policy_handle plain_runtime sample_fleet policy_manager (PostChannel (request_json req))
      (sample_protection, seed_policy_state 0) = (channel_reply 201 x, es, st)"
    "ch_name x = trim (df_name hook_draft)" "ch_secret x = or_none (Some (df_secret hook_draft))"
    by (rule that [OF created]) (simp_all add: hook_draft_def newChannelDraft_def)
  moreover have "trim (df_name hook_draft) = ''on call''" by code_simp
  moreover have "or_none (Some (df_secret hook_draft)) = Some ''0123456789abcdef''" by code_simp
  ultimately show ?thesis using r by auto
qed

section \<open>Editing a channel\<close>

text \<open>Recipients that the text area of the form can hold: each once, without separators.\<close>

definition editable :: "stored_channel \<Rightarrow> bool" where
  "editable x \<longleftrightarrow>
     (case ch_config x of
        MailTo ts \<Rightarrow> distinct ts \<and> list_all (\<lambda>t. t \<noteq> [] \<and> list_all (\<lambda>c. \<not> recipient_sep c) t) ts
      | HookUrl u \<Rightarrow> u \<noteq> [] \<and> trim u = u \<and> length u \<le> 2000) \<and>
     (case ch_enabled x of JBool e \<Rightarrow> True | _ \<Rightarrow> False)"

lemma splitRecipients_join:
  assumes "distinct ts" "list_all (\<lambda>t. t \<noteq> [] \<and> list_all (\<lambda>c. \<not> recipient_sep c) t) ts"
  shows "splitRecipients (js_join [CHR 0x0A] ts) = ts"
proof -
  have "words_by recipient_sep (js_join [CHR 0x0A] ts) = ts"
    using assms(2) by (intro words_by_join) (auto simp: recipient_sep_def js_space_def)
  moreover have "trim t = t" if "t \<in> set ts" for t
    using that assms(2) by (intro trim_id) (auto simp: list_all_iff recipient_sep_def)
  ultimately show ?thesis
    using assms by (simp add: splitRecipients_def nub_distinct list_all_iff filter_id_conv map_idI)
qed

lemma split_on_chars: "c \<in> set s \<Longrightarrow> c = d \<or> (\<exists>w \<in> set (split_on d s). c \<in> set w)"
proof -
  have "c \<in> set (js_join [d] ws) \<Longrightarrow> c = d \<or> (\<exists>w \<in> set ws. c \<in> set w)" for ws
    by (induction "[d]" ws rule: js_join.induct) auto
  from this [of "split_on d s"] show "c \<in> set s \<Longrightarrow> c = d \<or> (\<exists>w \<in> set (split_on d s). c \<in> set w)"
    by (simp add: join_split_on)
qed

lemma pattern_trim:
  assumes "isValidEventPattern e"
  shows "trim e = e" "e \<noteq> []"
proof -
  let ?ws = "split_on (CHR ''.'') e"
  have plain: "\<not> js_space c" if "w = ''*'' \<or> pattern_word w" "c \<in> set w" for w c
    using that by (auto simp: pattern_word_def pattern_char_def js_lower_def js_digit_def js_space_def list_all_iff)
  from assms have ws: "e = ''*'' \<or> (\<forall>w \<in> set ?ws. w = ''*'' \<or> pattern_word w)"
    by (cases ?ws rule: rev_cases)
      (auto simp: isValidEventPattern_def PATTERN_def Let_def list_all_iff split: if_splits)
  show "e \<noteq> []" using ws by (auto simp: pattern_word_def)
  have "\<not> js_space c" if "c \<in> set e" for c
    using split_on_chars [OF that, of "CHR ''.''"] ws plain that by (fastforce simp: js_space_def)
  then show "trim e = e" using \<open>e \<noteq> []\<close> by (intro trim_id) simp
qed

lemma hook_url_error_server:
  "hook_url_error rt (Some (JStr u)) = None \<Longrightarrow> u \<noteq> [] \<Longrightarrow> trim u = u \<Longrightarrow> webhookUrlError (rt_url rt) u = None"
  by (auto simp: webhookUrlError_def hook_url_error_def text_of_def Let_def split: if_splits option.splits)

lemma normalizeEvents_id:
  assumes "list_all isValidEventPattern es" "distinct es" "length es \<le> 100"
  shows "normalizeEvents es = Inr es"
proof -
  have "candidates es = es"
    using assms pattern_trim by (simp add: candidates_def nub_distinct list_all_iff filter_id_conv map_idI)
  moreover have "find (\<lambda>e. \<not> isValidEventPattern e) es = None" using assms(1) by (simp add: find_None_iff list_all_iff)
  ultimately show ?thesis
    using assms(3) by (simp add: normalizeEvents_def normalize_loop_ref MAX_EVENT_PATTERNS_def Let_def)
qed

lemma update_first_const: "find p xs = Some x \<Longrightarrow> update_first p g xs = update_first p (\<lambda>_. g x) xs"
  by (induction xs) auto

text \<open>The view of a stored channel and what the form sends for it.\<close>

lemma stored_view:
  assumes "channel_ok rt x" "editable x"
  obtains k w e where "ch_kind x = kind_text k" "ch_min_severity x = severity_text w" "ch_enabled x = JBool e"
    and "k = (case ch_config x of MailTo ts \<Rightarrow> EmailKind | HookUrl u \<Rightarrow> WebhookKind)"
    and "NotificationChannelSchema (fst (channelOut x)) =
      Some \<lparr>vw_kind = k, vw_name = ch_name x, vw_enabled = e, vw_to = (case ch_config x of MailTo ts \<Rightarrow> ts | HookUrl u \<Rightarrow> []),
        vw_url = (case ch_config x of MailTo ts \<Rightarrow> None | HookUrl u \<Rightarrow> Some u), vw_events = ch_events x, vw_min_severity = w\<rparr>"
proof -
  define k where "k = (case ch_config x of MailTo ts \<Rightarrow> EmailKind | HookUrl u \<Rightarrow> WebhookKind)"
  from assms(2) obtain e where e: "ch_enabled x = JBool e" by (auto simp: editable_def split: json.splits)
  from assms(1) have "ch_min_severity x \<in> {''info'', ''warning'', ''critical''}" by (auto simp: channel_ok_def)
  then obtain w where w: "ch_min_severity x = severity_text w"
    by (metis insertE singletonD severity_text.simps)
  have kx: "ch_kind x = kind_text k"
    using assms(1) by (auto simp: channel_ok_def k_def split: channel_config.splits)
  have sel: "ch_kind (channel.truncate x) = ch_kind x" "ch_name (channel.truncate x) = ch_name x"
    "ch_enabled (channel.truncate x) = ch_enabled x" "ch_config (channel.truncate x) = ch_config x"
    "ch_events (channel.truncate x) = ch_events x" "ch_min_severity (channel.truncate x) = ch_min_severity x"
    by (simp_all add: channel.truncate_def)
  have "NotificationChannelSchema (fst (channelOut x)) =
      Some \<lparr>vw_kind = k, vw_name = ch_name x, vw_enabled = e, vw_to = (case ch_config x of MailTo ts \<Rightarrow> ts | HookUrl u \<Rightarrow> []),
        vw_url = (case ch_config x of MailTo ts \<Rightarrow> None | HookUrl u \<Rightarrow> Some u), vw_events = ch_events x, vw_min_severity = w\<rparr>"
    by (cases k; cases w) (simp_all add: NotificationChannelSchema_def channelOut_def sel kx w e)
  from that [OF kx w e k_def this] show thesis .
qed

lemma stored_request:
  assumes "channel_ok rt x" "editable x" "ch_enabled x = JBool e" "ch_min_severity x = severity_text w"
    and "k = (case ch_config x of MailTo ts \<Rightarrow> EmailKind | HookUrl u \<Rightarrow> WebhookKind)"
  defines "v \<equiv> \<lparr>vw_kind = k, vw_name = ch_name x, vw_enabled = e, vw_to = (case ch_config x of MailTo ts \<Rightarrow> ts | HookUrl u \<Rightarrow> []),
        vw_url = (case ch_config x of MailTo ts \<Rightarrow> None | HookUrl u \<Rightarrow> Some u), vw_events = ch_events x, vw_min_severity = w\<rparr>"
    and "req \<equiv> \<lparr>cr_kind = None, cr_name = ch_name x, cr_enabled = e, cr_config = ch_config x,
        cr_events = filter (\<lambda>e. e \<noteq> ''*'') (ch_events x), cr_min_severity = w, cr_secret = None\<rparr>"
  shows "draftToUpdateRequest (rt_url rt) (channelToDraft v) = Inr req" "request_ok rt k req"
proof -
  let ?es = "filter (\<lambda>e. e \<noteq> ''*'') (ch_events x)"
  from assms(1) have es: "list_all isValidEventPattern ?es" "distinct ?es" "length ?es \<le> 100"
    by (auto simp: channel_ok_def list_all_iff intro: order_trans [OF length_filter_le])
  have name: "ch_name x \<noteq> []" "trim (ch_name x) = ch_name x" "length (ch_name x) \<le> 100"
    using assms(1) by (auto simp: channel_ok_def)
  have cfg: "draft_config (rt_url rt) (channelToDraft v) = Inr (ch_config x)"
  proof (cases "ch_config x")
    case (MailTo ts)
    with assms(1,2) have "find (\<lambda>t. \<not> looksLikeEmail t) ts = None" "ts \<noteq> []" "splitRecipients (js_join [CHR 0x0A] ts) = ts"
      by (auto simp: channel_ok_def editable_def find_None_iff list_all_iff intro!: splitRecipients_join)
    with MailTo show ?thesis by (simp add: draft_config_def channelToDraft_def v_def assms(5))
  next
    case (HookUrl u)
    with assms(1,2) have "webhookUrlError (rt_url rt) u = None" "trim u = u"
      by (auto simp: channel_ok_def editable_def intro: hook_url_error_server)
    with HookUrl show ?thesis by (simp add: draft_config_def channelToDraft_def v_def assms(5))
  qed
  have base: "common (rt_url rt) (channelToDraft v) = Inr req"
    using cfg normalizeEvents_id [OF es] by (simp add: common_def channelToDraft_def v_def req_def)
  have bounds: "case ch_config x of MailTo ts \<Rightarrow> length ts \<le> 50 | HookUrl u \<Rightarrow> length u \<le> 2000"
    using assms(1,2) by (auto simp: channel_ok_def editable_def split: channel_config.splits)
  have fields: "channelFields (req\<lparr>cr_kind := None, cr_secret := None\<rparr>) = Inr req"
    using name es(3) bounds
    by (cases "ch_config x") (auto simp: channelFields_def req_def Let_def Suc_le_eq)
  moreover have "secretOf (channelToDraft v) = Inr None" by (simp add: secretOf_def channelToDraft_def)
  ultimately show "draftToUpdateRequest (rt_url rt) (channelToDraft v) = Inr req"
    using base by (simp add: draftToUpdateRequest_def req_def)
  show "request_ok rt k req"
    using common_ok(2) [OF base fields] common_ok(3) [OF base fields]
    by (cases k) (auto simp: channelToDraft_def v_def)
qed

definition sample_channel :: stored_channel where
  "sample_channel =
     \<lparr>ch_id = ''c1'', ch_name = ''ops'', ch_kind = ''email'', ch_enabled = JBool True, ch_config = MailTo [''a@b.io'', ''c@d.io''],
      ch_events = [''*'', ''backup.*''], ch_min_severity = ''info'', ch_created_at = 0, ch_updated_at = 0,
      ch_last_delivery_at = None, ch_last_error = None, ch_secret = None\<rparr>"

text \<open>C39: Opening a channel in the editor and saving it without a change keeps it. The form of a
  stored channel yields a request, and the server answers it with the same channel: its
  recipients, URL, signing secret, name and severity as they were, only the time of the update
  new. The one exception is the all-events pattern, which the form does not send back. For email,
  the recipients are distinct and free of separators.\<close>

theorem edit_channel_unchanged:
  assumes "find_channel cid s = Some x" "channel_ok rt x" "editable x"
    and "''policy.manage'' \<in> set (u_permissions (c_user c))"
  shows "\<exists>v req. NotificationChannelSchema (fst (channelOut x)) = Some v \<and>
    draftToUpdateRequest (rt_url rt) (channelToDraft v) = Inr req \<and>
    (let x' = x\<lparr>ch_events := filter (\<lambda>e. e \<noteq> ''*'') (ch_events x), ch_updated_at := c_now c\<rparr> in
      policy_handle rt f c (PutChannel cid (request_json req)) (q, s) =
        (channel_reply 200 x', [audit_by c ''notification.channel.updated'' ''notification_channel'' (ch_id x) None],
         (q, s\<lparr>channels := update_first (\<lambda>y. ch_id y = cid) (\<lambda>_. x') (channels s)\<rparr>)))"
proof -
  from stored_view [OF assms(2,3)] obtain k w e where
    x: "ch_kind x = kind_text k" "ch_min_severity x = severity_text w" "ch_enabled x = JBool e"
      "k = (case ch_config x of MailTo ts \<Rightarrow> EmailKind | HookUrl u \<Rightarrow> WebhookKind)"
    and v: "NotificationChannelSchema (fst (channelOut x)) =
      Some \<lparr>vw_kind = k, vw_name = ch_name x, vw_enabled = e, vw_to = (case ch_config x of MailTo ts \<Rightarrow> ts | HookUrl u \<Rightarrow> []),
        vw_url = (case ch_config x of MailTo ts \<Rightarrow> None | HookUrl u \<Rightarrow> Some u), vw_events = ch_events x, vw_min_severity = w\<rparr>"
    by blast
  note req = stored_request [OF assms(2,3) x(3,2,4)]
  have upd: "update_channel (c_now c) \<lparr>cx_name = ch_name x, cx_config = ch_config x,
      cx_events = filter (\<lambda>e. e \<noteq> ''*'') (ch_events x), cx_min_severity = severity_text w, cx_enabled = JBool e, cx_secret = None\<rparr> x =
    x\<lparr>ch_events := filter (\<lambda>e. e \<noteq> ''*'') (ch_events x), ch_updated_at := c_now c\<rparr>"
    by (simp add: update_channel_def flip: x(2,3))
  have find: "find (\<lambda>y. ch_id y = cid) (channels s) = Some x" using assms(1) by (simp add: find_channel_def)
  show ?thesis
    using v req(1) request_accepted [OF req(2)] assms(1,4) x(1) upd
    by (intro exI conjI) (auto simp: policy_handle_allowed put_channel_def Let_def update_first_const [OF find, of "update_channel _ _"])
qed

theorem edit_channel_unchanged_witness:
  "\<exists>v req. NotificationChannelSchema (fst (channelOut sample_channel)) = Some v \<and>
    draftToUpdateRequest (rt_url plain_runtime) (channelToDraft v) = Inr req \<and>
    out_reply (policy_handle plain_runtime sample_fleet policy_manager (PutChannel ''c1'' (request_json req))
      (sample_protection, (seed_policy_state 0)\<lparr>channels := [sample_channel]\<rparr>)) =
      channel_reply 200 (sample_channel\<lparr>ch_events := [''backup.*''], ch_updated_at := c_now policy_manager\<rparr>)"
proof -
  let ?s = "(seed_policy_state 0)\<lparr>channels := [sample_channel]\<rparr>"
  have "find_channel ''c1'' ?s = Some sample_channel" by (simp add: find_channel_def sample_channel_def)
  moreover have "channel_ok plain_runtime sample_channel" by code_simp
  moreover have "editable sample_channel" by code_simp
  moreover have "''policy.manage'' \<in> set (u_permissions (c_user policy_manager))" by (simp add: policy_manager_def)
  ultimately show ?thesis
    using edit_channel_unchanged [of "''c1''" ?s sample_channel plain_runtime policy_manager sample_fleet sample_protection]
    by (fastforce simp: Let_def sample_channel_def)
qed


section \<open>Choosing events\<close>

lemma endsWith_wildcard: "endsWith (g @ ''.'' @ r) ''.*'' \<Longrightarrow> \<exists>r'. r = r' @ ''*''"
  by (cases r rule: rev_cases) (auto simp: endsWith_def)

lemma matches_wildcard: "matches_one t (wildcard g) \<longleftrightarrow> startsWith t (g @ ''.'')"
proof -
  have "wildcard g \<noteq> ''*''" by (cases g) (auto simp: wildcard_def)
  moreover have "endsWith (wildcard g) ''.*''" by (simp add: wildcard_def endsWith_def)
  moreover have "butlast (wildcard g) = g @ ''.''" by (simp add: wildcard_def butlast_append)
  ultimately show ?thesis by (simp add: matches_one_def)
qed

lemma matches_in_group:
  assumes "matches_one t e" "startsWith e (g @ ''.'')"
  shows "startsWith t (g @ ''.'')"
proof -
  from assms(2) obtain r where e: "e = g @ ''.'' @ r" by (auto simp: startsWith_iff)
  then have "e \<noteq> ''*''" by (cases g) auto
  with assms show ?thesis
    using endsWith_wildcard [of g r]
    by (auto simp: matches_one_def e startsWith_iff butlast_append split: if_splits)
qed

text \<open>The switches of the event picker. Turning a group on subscribes, beside what the
  entries of the list subscribed before, exactly the events of the group, and leaves no other pattern of the group in the list;
  turning it off again removes the group. Ticking an event subscribes that event and keeps the
  entries, each once; unticking removes the entry.\<close>

theorem event_picker:
  "(list_ex (matches_one t) (toggleWildcard evs g True) \<longleftrightarrow>
      startsWith t (g @ ''.'') \<or> list_ex (matches_one t) evs) \<and>
   filter (\<lambda>e. startsWith e (g @ ''.'')) (toggleWildcard evs g True) = [wildcard g] \<and>
   filter (\<lambda>e. startsWith e (g @ ''.'')) (toggleWildcard (toggleWildcard evs g True) g False) = [] \<and>
   (list_ex (matches_one t) (toggleEvent evs e True) \<longleftrightarrow> matches_one t e \<or> list_ex (matches_one t) evs) \<and>
   distinct (toggleEvent evs e True) \<and> set (toggleEvent evs e True) = insert e (set evs) \<and>
   set (toggleEvent evs e False) = set evs - {e}"
proof -
  have "list_ex (matches_one t) (toggleWildcard evs g True) \<longleftrightarrow>
      startsWith t (g @ ''.'') \<or> list_ex (matches_one t) evs"
    using matches_in_group [of t _ g] by (auto simp: toggleWildcard_def Let_def list_ex_iff matches_wildcard)
  moreover have "startsWith (wildcard g) (g @ ''.'')" by (simp add: wildcard_def startsWith_iff)
  ultimately show ?thesis
    by (auto simp: toggleWildcard_def toggleEvent_def Let_def list_ex_iff filter_empty_conv)
qed

end
