(* ===== verification/Policy_Form.thy ===== *)
theory Policy_Form
  imports Policy_Server
begin

text \<open>
  The Protection Policy editor and the SMTP settings form of the console
  (\<^verbatim>\<open>components/policies/policy-form.tsx\<close>, \<^verbatim>\<open>components/notifications/smtp-settings.tsx\<close>, with the
  request schemas of \<^verbatim>\<open>lib/api/policy-schemas.ts\<close>): drafts, the requests they build or the first
  message, and what the server of \<^verbatim>\<open>scripts/mock-policies.mjs\<close> makes of those requests. The parameter
  \<open>num\<close> is \<^verbatim>\<open>Number\<close> on a text, \<open>None\<close> where it gives no finite number.
\<close>

section \<open>The policy editor\<close>

datatype consistency_mode = LiveMode | QuiescedMode | OfflineMode

fun mode_text :: "consistency_mode \<Rightarrow> string" where
  "mode_text LiveMode = ''live''"
| "mode_text QuiescedMode = ''quiesced''"
| "mode_text OfflineMode = ''offline''"

definition CONSISTENCY_MODES :: "consistency_mode list" where
  "CONSISTENCY_MODES = [LiveMode, QuiescedMode, OfflineMode]"

fun preset_text :: "schedule_preset \<Rightarrow> string" where
  "preset_text Hourly = ''hourly''"
| "preset_text Daily = ''daily''"
| "preset_text Weekly = ''weekly''"
| "preset_text Monthly = ''monthly''"

text \<open>The counts of a retention as texts, in the order of \<^verbatim>\<open>RETENTION_FIELDS\<close>.\<close>

record retention_texts =
  kt_last :: string
  kt_hourly :: string
  kt_daily :: string
  kt_weekly :: string
  kt_monthly :: string
  kt_yearly :: string

definition NONE :: string where "NONE = ''__none__''"

text \<open>A schedule of \<open>None\<close> is the custom one; a mode of \<open>None\<close> is the application's own.\<close>

record policy_draft =
  pd_name :: string
  pd_description :: string
  pd_schedule :: "schedule_preset option"
  pd_cron :: string
  pd_timezone :: string
  pd_enabled :: bool
  pd_mode :: "consistency_mode option"
  pd_repository_id :: string
  pd_retention :: retention_texts

definition retentionDraft :: "retention \<Rightarrow> retention_texts" where
  "retentionDraft r =
     \<lparr>kt_last = show_nat (keep_last r), kt_hourly = show_nat (keep_hourly r), kt_daily = show_nat (keep_daily r),
      kt_weekly = show_nat (keep_weekly r), kt_monthly = show_nat (keep_monthly r), kt_yearly = show_nat (keep_yearly r)\<rparr>"

text \<open>The browser's time zone is a parameter, \<open>None\<close> where it is unknown.\<close>

definition newPolicyDraft :: "string option \<Rightarrow> policy_draft" where
  "newPolicyDraft zone =
     \<lparr>pd_name = [], pd_description = [], pd_schedule = Some Daily, pd_cron = SCHEDULE_PRESETS Daily,
      pd_timezone = (case zone of Some z \<Rightarrow> if z = [] then ''UTC'' else z | None \<Rightarrow> ''UTC''), pd_enabled = True, pd_mode = None,
      pd_repository_id = NONE, pd_retention = retentionDraft DEFAULT_RETENTION\<rparr>"

record policy_view =
  vp_name :: string
  vp_description :: string
  vp_schedule :: string
  vp_timezone :: string
  vp_enabled :: bool
  vp_consistency_mode :: "string option"
  vp_repository_id :: "string option"
  vp_retention :: retention

definition policyToDraft :: "policy_view \<Rightarrow> policy_draft" where
  "policyToDraft p =
     \<lparr>pd_name = vp_name p, pd_description = vp_description p, pd_schedule = presetOf (vp_schedule p),
      pd_cron = vp_schedule p, pd_timezone = vp_timezone p, pd_enabled = vp_enabled p,
      pd_mode = find (\<lambda>m. Some (mode_text m) = vp_consistency_mode p) CONSISTENCY_MODES,
      pd_repository_id = (case vp_repository_id p of Some i \<Rightarrow> i | None \<Rightarrow> NONE),
      pd_retention = retentionDraft (vp_retention p)\<rparr>"

definition draftCron :: "policy_draft \<Rightarrow> string" where
  "draftCron d = (case pd_schedule d of None \<Rightarrow> trim (pd_cron d) | Some p \<Rightarrow> SCHEDULE_PRESETS p)"

record policy_request =
  pq_name :: string
  pq_description :: "string option"
  pq_schedule :: string
  pq_timezone :: string
  pq_enabled :: bool
  pq_consistency_mode :: "consistency_mode option"
  pq_repository_id :: "string option"
  pq_retention :: "(string \<times> int) list"

datatype policy_form_error =
  ScheduleError cron_error
| UnknownTimezone string
| PolicyNameMissing
| PolicyNameTooLong
| DescriptionTooLong
| ScheduleMissing
| TimezoneMissing
| NotWhole string
| TooSmall string
| TooLarge string

definition isValidTimeZone :: "runtime \<Rightarrow> string \<Rightarrow> bool" where
  "isValidTimeZone rt tz \<longleftrightarrow> trim tz \<noteq> [] \<and> rt_valid_tz rt tz"

definition MAX_SAFE_INTEGER :: int where "MAX_SAFE_INTEGER = 2 ^ 53 - 1"

text \<open>A whole number; the schema library asks for a safe one.\<close>

definition whole :: "rat \<Rightarrow> bool" where
  "whole n \<longleftrightarrow> is_integer n \<and> \<bar>n\<bar> \<le> of_int MAX_SAFE_INTEGER"

definition count_check :: "string \<Rightarrow> int \<Rightarrow> rat option \<Rightarrow> policy_form_error + int" where
  "count_check label least v =
     (case v of
        None \<Rightarrow> Inl (NotWhole label)
      | Some n \<Rightarrow>
          if \<not> whole n then Inl (NotWhole label)
          else if n < of_int least then Inl (TooSmall label)
          else if n > 100000 then Inl (TooLarge label)
          else Inr \<lfloor>n\<rfloor>)"

definition retention_number :: "(string \<Rightarrow> rat option) \<Rightarrow> string \<Rightarrow> rat option" where
  "retention_number num t = (let raw = trim t in if raw = [] then None else num raw)"

fun counts :: "(string \<Rightarrow> rat option) \<Rightarrow> (string \<times> string \<times> int \<times> string) list \<Rightarrow> policy_form_error + (string \<times> int) list" where
  "counts num [] = Inr []"
| "counts num ((key, label, least, t) # fs) =
     (case count_check label least (retention_number num t) of
        Inl e \<Rightarrow> Inl e
      | Inr n \<Rightarrow> (case counts num fs of Inl e \<Rightarrow> Inl e | Inr ns \<Rightarrow> Inr ((key, n) # ns)))"

definition retention_fields :: "retention_texts \<Rightarrow> (string \<times> string \<times> int \<times> string) list" where
  "retention_fields r =
     [(''keep_last'', ''Keep last'', 1, kt_last r), (''keep_hourly'', ''Hourly'', 0, kt_hourly r),
      (''keep_daily'', ''Daily'', 0, kt_daily r), (''keep_weekly'', ''Weekly'', 0, kt_weekly r),
      (''keep_monthly'', ''Monthly'', 0, kt_monthly r), (''keep_yearly'', ''Yearly'', 0, kt_yearly r)]"

text \<open>The request schema on the values of a draft.\<close>

definition PolicyRequestSchema :: "(string \<Rightarrow> rat option) \<Rightarrow> policy_draft \<Rightarrow> policy_form_error + policy_request" where
  "PolicyRequestSchema num d =
     (let name = trim (pd_name d); description = trim (pd_description d); zone = trim (pd_timezone d);
          schedule = (case pd_schedule d of None \<Rightarrow> js_join '' '' (words_by js_space (pd_cron d)) | Some p \<Rightarrow> preset_text p)
      in if length name < 1 then Inl PolicyNameMissing
         else if length name > 100 then Inl PolicyNameTooLong
         else if length description > 500 then Inl DescriptionTooLong
         else if length schedule < 1 then Inl ScheduleMissing
         else if length zone < 1 then Inl TimezoneMissing
         else case counts num (retention_fields (pd_retention d)) of
                Inl e \<Rightarrow> Inl e
              | Inr ns \<Rightarrow>
                  Inr \<lparr>pq_name = name, pq_description = or_none (Some description), pq_schedule = schedule, pq_timezone = zone,
                       pq_enabled = pd_enabled d, pq_consistency_mode = pd_mode d,
                       pq_repository_id = (if pd_repository_id d = NONE then None else Some (pd_repository_id d)),
                       pq_retention = ns\<rparr>)"

definition policyDraftToRequest ::
  "(string \<Rightarrow> rat option) \<Rightarrow> runtime \<Rightarrow> policy_draft \<Rightarrow> policy_form_error + policy_request" where
  "policyDraftToRequest num rt d =
     (case (if pd_schedule d = None then parseCron (pd_cron d) else Inr []) of
        Inl e \<Rightarrow> Inl (ScheduleError e)
      | Inr _ \<Rightarrow>
          if \<not> isValidTimeZone rt (pd_timezone d) then Inl (UnknownTimezone (pd_timezone d))
          else PolicyRequestSchema num d)"

text \<open>The JSON body; absent fields are left out.\<close>

definition policy_json :: "policy_request \<Rightarrow> json" where
  "policy_json r =
     JObj ([(''name'', JStr (pq_name r))] @
       (case pq_description r of Some t \<Rightarrow> [(''description'', JStr t)] | None \<Rightarrow> []) @
       [(''schedule'', JStr (pq_schedule r)), (''timezone'', JStr (pq_timezone r)), (''enabled'', JBool (pq_enabled r))] @
       (case pq_consistency_mode r of Some m \<Rightarrow> [(''consistency_mode'', JStr (mode_text m))] | None \<Rightarrow> []) @
       (case pq_repository_id r of Some i \<Rightarrow> [(''repository_id'', JStr i)] | None \<Rightarrow> []) @
       [(''retention'', JObj (map (\<lambda>(k, n). (k, JNum (of_int n))) (pq_retention r)))])"

text \<open>Numeric retention for the live summary, \<open>None\<close> while a field is invalid.\<close>

fun draft_counts :: "(string \<Rightarrow> rat option) \<Rightarrow> string list \<Rightarrow> nat list option" where
  "draft_counts num [] = Some []"
| "draft_counts num (t # ts) =
     (case num t of
        None \<Rightarrow> None
      | Some n \<Rightarrow>
          if trim t = [] \<or> \<not> is_integer n \<or> n < 0 then None else map_option (\<lambda>ns. nat \<lfloor>n\<rfloor> # ns) (draft_counts num ts))"

definition draftRetention :: "(string \<Rightarrow> rat option) \<Rightarrow> policy_draft \<Rightarrow> retention option" where
  "draftRetention num d =
     (case draft_counts num (map (\<lambda>(k, l, least, t). t) (retention_fields (pd_retention d))) of
        Some [l, h, dl, w, m, y] \<Rightarrow>
          if l \<ge> 1 then Some \<lparr>keep_last = l, keep_hourly = h, keep_daily = dl, keep_weekly = w, keep_monthly = m, keep_yearly = y\<rparr>
          else None
      | _ \<Rightarrow> None)"

section \<open>Lemmas\<close>

lemma policy_json_fields [simp]:
  "jfield (policy_json r) ''name'' = Some (JStr (pq_name r))"
  "jfield (policy_json r) ''description'' = map_option JStr (pq_description r)"
  "jfield (policy_json r) ''schedule'' = Some (JStr (pq_schedule r))"
  "jfield (policy_json r) ''timezone'' = Some (JStr (pq_timezone r))"
  "jfield (policy_json r) ''enabled'' = Some (JBool (pq_enabled r))"
  "jfield (policy_json r) ''consistency_mode'' = map_option (\<lambda>m. JStr (mode_text m)) (pq_consistency_mode r)"
  "jfield (policy_json r) ''repository_id'' = map_option JStr (pq_repository_id r)"
  "jfield (policy_json r) ''retention'' = Some (JObj (map (\<lambda>(k, n). (k, JNum (of_int n))) (pq_retention r)))"
  by (auto simp: policy_json_def split: option.split)

lemma policy_json_keys: "policy_error rt q (policy_json r) = None"
  by (auto simp: policy_error_def policy_json_def POLICY_KEYS_def find_None_iff split: option.split)

lemma PRESETS_word: "CHR '' '' \<in> set name \<Longrightarrow> PRESETS name = None"
  by (simp add: PRESETS_def) (intro conjI impI notI; simp)

lemma trim_joined:
  "list_all (\<lambda>w. w \<noteq> [] \<and> list_all (\<lambda>x. \<not> js_space x) w) ws \<Longrightarrow> trim (js_join '' '' ws) = js_join '' '' ws"
proof -
  have h: "js_join '' '' ws \<noteq> [] \<and> \<not> js_space (hd (js_join '' '' ws)) \<and> \<not> js_space (last (js_join '' '' ws))"
    if "list_all (\<lambda>w. w \<noteq> [] \<and> list_all (\<lambda>x. \<not> js_space x) w) ws" "ws \<noteq> []"
    using that
  proof (induction "'' ''" ws rule: js_join.induct)
    case (2 w)
    then have "hd w \<in> set w" "last w \<in> set w" by auto
    with 2 show ?case by (auto simp: list_all_iff)
  next
    case (3 w v vs)
    then have "hd w \<in> set w" by auto
    with 3 show ?case by (auto simp: list_all_iff)
  qed simp
  then show "list_all (\<lambda>w. w \<noteq> [] \<and> list_all (\<lambda>x. \<not> js_space x) w) ws \<Longrightarrow> trim (js_join '' '' ws) = js_join '' '' ws"
    by (cases "ws = []") (auto intro: trim_id)
qed

lemma joined_words:
  assumes "1 < length (words_by js_space s)"
  defines "j \<equiv> js_join '' '' (words_by js_space s)"
  shows "words_by js_space j = words_by js_space s" "PRESETS (toLowerCase (trim j)) = None"
proof -
  let ?ws = "words_by js_space s"
  have ws: "list_all (\<lambda>w. w \<noteq> [] \<and> list_all (\<lambda>x. \<not> js_space x) w) ?ws"
    using words_by_parts by (auto simp: list_all_iff)
  have sp: "js_space (CHR '' '')" by (simp add: js_space_def)
  from words_by_join [OF ws sp] show w: "words_by js_space j = ?ws" by (simp add: j_def)
  obtain u v vs where "?ws = u # v # vs" using assms(1) by (cases ?ws; cases "tl ?ws") auto
  then have "CHR '' '' \<in> set j" by (simp add: j_def)
  moreover have "to_lower (CHR '' '') = CHR '' ''" by (simp add: to_lower_def js_upper_def)
  ultimately have "CHR '' '' \<in> set (toLowerCase j)" by (force simp: toLowerCase_def)
  then show "PRESETS (toLowerCase (trim j)) = None"
    using trim_joined [OF ws] by (simp add: j_def PRESETS_word)
qed

lemma preset_schedule: "normalizeSchedule (preset_text p) = Inr (Some (SCHEDULE_PRESETS p))"
proof -
  have "toLowerCase (trim ''hourly'') = ''hourly''" "toLowerCase (trim ''daily'') = ''daily''"
    "toLowerCase (trim ''weekly'') = ''weekly''" "toLowerCase (trim ''monthly'') = ''monthly''"
    by code_simp+
  then show ?thesis by (cases p) (simp_all add: normalizeSchedule_def PRESETS_def)
qed

lemma preset_words: "js_join '' '' (words_by js_space (SCHEDULE_PRESETS p)) = SCHEDULE_PRESETS p"
proof -
  have "list_all (\<lambda>q. js_join '' '' (words_by js_space (SCHEDULE_PRESETS q)) = SCHEDULE_PRESETS q) SCHEDULE_PRESET_NAMES"
    by code_simp
  then show ?thesis by (cases p) (simp_all only: SCHEDULE_PRESET_NAMES_def list.pred_inject)
qed

lemma words_by_append_seps: "list_all sep t \<Longrightarrow> words_by sep (s @ t) = words_by sep s"
proof (induction sep s rule: words_by.induct)
  case (1 sep s)
  show ?case
  proof (cases "dropWhile sep s")
    case Nil
    then have "dropWhile sep (s @ t) = []" using 1(2) by (simp add: list_all_iff dropWhile_eq_Nil_conv)
    with Nil show ?thesis by (subst (1 2) words_by.simps) (simp only: list.case)
  next
    case (Cons c cs)
    then obtain x where "x \<in> set s" "\<not> sep x" by (metis dropWhile_eq_Nil_conv list.distinct(1))
    then have d: "dropWhile sep (s @ t) = c # cs @ t" by (simp add: dropWhile_append1 Cons)
    have app: "takeWhile (\<lambda>x. \<not> sep x) (u @ t) = takeWhile (\<lambda>x. \<not> sep x) u"
      "dropWhile (\<lambda>x. \<not> sep x) (u @ t) = dropWhile (\<lambda>x. \<not> sep x) u @ t" for u
      using 1(2) by (induction u; cases t; simp)+
    have "words_by sep (s @ t) = takeWhile (\<lambda>x. \<not> sep x) ((c # cs) @ t) # words_by sep (dropWhile (\<lambda>x. \<not> sep x) ((c # cs) @ t))"
      by (subst words_by.simps) (simp only: d list.case append_Cons)
    also have "\<dots> = words_by sep s"
      unfolding app 1(1) [OF Cons 1(2)] by (subst (2) words_by.simps) (simp only: Cons list.case)
    finally show ?thesis .
  qed
qed

lemma words_by_trim: "words_by js_space (trim s) = words_by js_space s"
proof -
  let ?u = "dropWhile js_space s"
  have "?u = trim s @ rev (takeWhile js_space (rev ?u))"
    by (metis trim_def rev_append rev_rev_ident takeWhile_dropWhile_id)
  then have "words_by js_space ?u = words_by js_space (trim s)"
    by (metis words_by_append_seps list_all_rev list_all_iff set_takeWhileD)
  moreover have "words_by js_space ?u = words_by js_space s"
    by (subst (1 2) words_by.simps) simp
  ultimately show ?thesis by simp
qed

text \<open>What the server stores for the schedule of a draft.\<close>

lemma draft_schedule:
  assumes "pd_schedule d = None \<Longrightarrow> \<exists>fs. parseCron (pd_cron d) = Inr fs"
  shows "normalizeSchedule (case pd_schedule d of None \<Rightarrow> js_join '' '' (words_by js_space (pd_cron d)) | Some p \<Rightarrow> preset_text p) =
    Inr (Some (js_join '' '' (words_by js_space (draftCron d))))"
proof (cases "pd_schedule d")
  case None
  let ?ws = "words_by js_space (pd_cron d)"
  from assms [OF None] obtain fs where "parseCron (pd_cron d) = Inr fs" by blast
  then have five: "length ?ws = 5" and ok: "parseFields ?ws FIELDS = Inr fs"
    by (auto simp: parseCron_def Let_def split: if_splits)
  from cron_fields_both [OF FIELDS_same, of ?ws] ok obtain xs where "cron_fields ?ws CRON_FIELDS = Inr xs"
    by (auto simp: both_def split: sum.splits)
  moreover note joined_words [of "pd_cron d"]
  ultimately show ?thesis
    using five None by (simp add: normalizeSchedule_def draftCron_def words_by_trim)
next
  case (Some p)
  then show ?thesis by (simp add: draftCron_def preset_schedule preset_words)
qed

lemma counts_Inr:
  "counts num fs = Inr ns \<Longrightarrow>
   list_all2 (\<lambda>(key, label, least, t) (k, n). k = key \<and> least \<le> n \<and> retention_number num t = Some (of_int n)) fs ns"
proof (induction num fs arbitrary: ns rule: counts.induct)
  case (2 num key label least t fs)
  then obtain n ms where n: "count_check label least (retention_number num t) = Inr n" "counts num fs = Inr ms" "ns = (key, n) # ms"
    by (auto split: sum.splits)
  moreover from n(1) have "retention_number num t = Some (of_int n)" "least \<le> n"
    by (auto simp: count_check_def whole_def is_integer_def le_floor_iff split: option.splits if_splits)
  ultimately show ?case using 2 by simp
qed simp

lemma retention_stored:
  assumes "counts num (retention_fields r) = Inr ns"
  defines "v \<equiv> Some (JObj (map (\<lambda>(k, n). (k, JNum (of_int n))) ns))"
  shows "retention_entries v = map (\<lambda>(k, n). (k, JNum (of_int n))) ns"
    "find (\<lambda>e. \<not> retention_ok e) (retention_entries v) = None"
    "map (\<lambda>(k, w). (k, json_int (Some w))) (retention_entries v) = ns"
    "map (\<lambda>(k, n). Some (of_int n)) ns = map (\<lambda>(k, l, least, t). retention_number num t) (retention_fields r)"
proof -
  from counts_Inr [OF assms(1)] obtain a b c d e f where ns:
    "ns = [(''keep_last'', a), (''keep_hourly'', b), (''keep_daily'', c), (''keep_weekly'', d), (''keep_monthly'', e), (''keep_yearly'', f)]"
    "1 \<le> a" "0 \<le> b" "0 \<le> c" "0 \<le> d" "0 \<le> e" "0 \<le> f"
    "map (\<lambda>(k, n). Some (of_int n)) ns = map (\<lambda>(k, l, least, t). retention_number num t) (retention_fields r)"
    by (auto simp: retention_fields_def list_all2_Cons1)
  show entries: "retention_entries v = map (\<lambda>(k, n). (k, JNum (of_int n))) ns"
    by (simp add: retention_entries_def v_def ns(1) or_default_def RETENTION_DEFAULTS_def array_index_def js_digit_def all_digits_def)
  show "find (\<lambda>e. \<not> retention_ok e) (retention_entries v) = None"
    unfolding entries using ns(2-7) by (auto simp: ns(1) retention_ok_def is_integer_def)
  show "map (\<lambda>(k, w). (k, json_int (Some w))) (retention_entries v) = ns"
    unfolding entries by (simp add: ns(1) json_int_def)
  show "map (\<lambda>(k, n). Some (of_int n)) ns = map (\<lambda>(k, l, least, t). retention_number num t) (retention_fields r)"
    by (rule ns(8))
qed

lemma schema_Inr:
  assumes "PolicyRequestSchema num d = Inr req"
  obtains ns where "trim (pd_name d) \<noteq> []" "length (trim (pd_name d)) \<le> 100"
    and "counts num (retention_fields (pd_retention d)) = Inr ns"
    and "req = \<lparr>pq_name = trim (pd_name d), pq_description = or_none (Some (trim (pd_description d))),
      pq_schedule = (case pd_schedule d of None \<Rightarrow> js_join '' '' (words_by js_space (pd_cron d)) | Some p \<Rightarrow> preset_text p),
      pq_timezone = trim (pd_timezone d), pq_enabled = pd_enabled d, pq_consistency_mode = pd_mode d,
      pq_repository_id = (if pd_repository_id d = NONE then None else Some (pd_repository_id d)), pq_retention = ns\<rparr>"
  using assms by (auto simp: PolicyRequestSchema_def Let_def Suc_le_eq split: if_splits sum.splits)

lemma mode_text_ok [simp]: "is_mode (map_option (\<lambda>m. JStr (mode_text m)) v) \<longleftrightarrow> v \<noteq> None"
proof (cases v)
  case (Some m)
  then show ?thesis by (cases m) (simp_all add: is_mode_def MODES_def)
qed (simp add: is_mode_def)

section \<open>Creating a policy\<close>

text \<open>C25: A policy the editor sends is a policy the server creates. If the form of a new policy yields a
  request, the server accepts it with \<^verbatim>\<open>policy.manage\<close> unless the name is taken or the repository is
  unknown, and stores what the form says: the trimmed texts, the schedule that the form previews
  with its words separated by single spaces, the mode, the repository and the six retention
  counts as the numbers that were entered. Time zone names are assumed to be the same with the
  white space around them removed.\<close>

theorem create_policy_refines:
  assumes "policyDraftToRequest num rt d = Inr req" "''policy.manage'' \<in> set (u_permissions (c_user c))"
    and "\<And>z. rt_valid_tz rt z \<Longrightarrow> rt_valid_tz rt (trim z)"
    and "trim (pd_name d) \<notin> set (map po_name (policies s))"
    and "pd_repository_id d = NONE \<or> pd_repository_id d \<in> set (map re_id (repositories q))"
  shows "let p = \<lparr>po_id = c_random c 0, po_name = trim (pd_name d), po_description = trim (pd_description d),
      po_schedule = Some (js_join '' '' (words_by js_space (draftCron d))), po_timezone = JStr (trim (pd_timezone d)),
      po_enabled = pd_enabled d, po_consistency_mode = map_option mode_text (pd_mode d),
      po_repository_id = (if pd_repository_id d = NONE then None else Some (pd_repository_id d)),
      po_retention = pq_retention req, po_created_at = c_now c, po_updated_at = c_now c\<rparr>;
      s1 = s\<lparr>policies := policies s @ [p]\<rparr>
    in policy_handle rt f c (PostPolicy (policy_json req)) (q, s) =
        (Send 201 (PolicyBody (policyOut rt (c_now c) s1 p)), [audit_by c ''policy.created'' ''policy'' (po_id p) None], (q, s1)) \<and>
      map (\<lambda>(k, n). Some (of_int n)) (pq_retention req) =
        map (\<lambda>(k, l, least, t). retention_number num t) (retention_fields (pd_retention d))"
proof -
  let ?r = "policy_json req"
  from assms(1) have h: "PolicyRequestSchema num d = Inr req" "isValidTimeZone rt (pd_timezone d)"
    "pd_schedule d = None \<Longrightarrow> \<exists>fs. parseCron (pd_cron d) = Inr fs"
    by (auto simp: policyDraftToRequest_def split: sum.splits if_splits)
  from schema_Inr [OF h(1)] obtain ns where r: "trim (pd_name d) \<noteq> []" "length (trim (pd_name d)) \<le> 100"
    "counts num (retention_fields (pd_retention d)) = Inr ns"
    "req = \<lparr>pq_name = trim (pd_name d), pq_description = or_none (Some (trim (pd_description d))),
      pq_schedule = (case pd_schedule d of None \<Rightarrow> js_join '' '' (words_by js_space (pd_cron d)) | Some p \<Rightarrow> preset_text p),
      pq_timezone = trim (pd_timezone d), pq_enabled = pd_enabled d, pq_consistency_mode = pd_mode d,
      pq_repository_id = (if pd_repository_id d = NONE then None else Some (pd_repository_id d)), pq_retention = ns\<rparr>" .
  note kept = retention_stored [OF r(3)]
  have sched: "normalizeSchedule (pq_schedule req) = Inr (Some (js_join '' '' (words_by js_space (draftCron d))))"
    using draft_schedule [OF h(3)] by (simp add: r(4))
  have zone: "trim (pd_timezone d) \<noteq> []" "rt_valid_tz rt (trim (pd_timezone d))"
    using h(2) assms(3) by (auto simp: isValidTimeZone_def)
  have ok: "field_error rt q ?r = None"
    using r(1,2) sched zone kept(2) assms(5)
    by (auto simp: field_error_def trimmed_field_def text_of_def r(4) Let_def list_ex_iff split: option.split)
  have "trimmed_field ?r ''description'' = trim (pd_description d)"
    by (simp add: trimmed_field_def r(4) or_none_def split: option.split)
  with sched zone kept(3) have stored: "policy_value rt ?r (blank_policy (c_random c 0) (c_now c)) =
      \<lparr>po_id = c_random c 0, po_name = trim (pd_name d), po_description = trim (pd_description d),
      po_schedule = Some (js_join '' '' (words_by js_space (draftCron d))), po_timezone = JStr (trim (pd_timezone d)),
      po_enabled = pd_enabled d, po_consistency_mode = map_option mode_text (pd_mode d),
      po_repository_id = (if pd_repository_id d = NONE then None else Some (pd_repository_id d)),
      po_retention = pq_retention req, po_created_at = c_now c, po_updated_at = c_now c\<rparr>"
    by (simp add: policy_value_def blank_policy_def trimmed_field_def text_of_def text_option_def r(4) split: option.split)
  have "policy_handle rt f c (PostPolicy ?r) (q, s) = post_policy rt c ?r (q, s)"
    using assms(2) by (simp add: policy_handle_def need_def)
  moreover have "readPolicy rt q ?r = Inr (policy_value rt ?r)" by (simp add: readPolicy_def policy_json_keys ok)
  moreover have "\<not> list_ex (\<lambda>x. po_name x = trim (pd_name d)) (policies s)" using assms(4) by (force simp: list_ex_iff)
  moreover have "pq_retention req = ns" by (simp add: r(4))
  ultimately show ?thesis using kept(4) by (simp add: post_policy_def stored Let_def)
qed

definition night_draft :: policy_draft where
  "night_draft = (newPolicyDraft None)\<lparr>pd_name := '' night '', pd_schedule := None, pd_cron := ''15  2 * * 1-5''\<rparr>"

text \<open>Reading the decimal numerals of the default retention.\<close>

definition plain_num :: "string \<Rightarrow> rat option" where
  "plain_num t = (if all_digits t then Some (of_nat (digits_val t)) else None)"

theorem create_policy_refines_witness:
  "\<exists>req p. policyDraftToRequest plain_num plain_runtime night_draft = Inr req \<and>
    po_name p = ''night'' \<and> po_schedule p = Some ''15 2 * * 1-5'' \<and>
    policies (snd (out_state (policy_handle plain_runtime sample_fleet policy_manager (PostPolicy (policy_json req))
      (sample_protection, (seed_policy_state 0)\<lparr>policies := []\<rparr>)))) = [p]"
proof -
  let ?s = "(seed_policy_state 0)\<lparr>policies := []\<rparr>"
  have "isl (policyDraftToRequest plain_num plain_runtime night_draft) = False" by code_simp
  then obtain req where r: "policyDraftToRequest plain_num plain_runtime night_draft = Inr req"
    by (cases "policyDraftToRequest plain_num plain_runtime night_draft") auto
  have "''policy.manage'' \<in> set (u_permissions (c_user policy_manager))" by (simp add: policy_manager_def)
  moreover have "rt_valid_tz plain_runtime (trim z)" if "rt_valid_tz plain_runtime z" for z
  proof -
    have "trim ''UTC'' = ''UTC''" by code_simp
    with that show ?thesis by (simp add: plain_runtime_def)
  qed
  moreover have "trim (pd_name night_draft) \<notin> set (map po_name (policies ?s))" by simp
  moreover have "pd_repository_id night_draft = NONE \<or> pd_repository_id night_draft \<in> set (map re_id (repositories sample_protection))"
    by (simp add: night_draft_def newPolicyDraft_def)
  ultimately have created: "let p = \<lparr>po_id = c_random policy_manager 0, po_name = trim (pd_name night_draft),
        po_description = trim (pd_description night_draft),
        po_schedule = Some (js_join '' '' (words_by js_space (draftCron night_draft))), po_timezone = JStr (trim (pd_timezone night_draft)),
        po_enabled = pd_enabled night_draft, po_consistency_mode = map_option mode_text (pd_mode night_draft),
        po_repository_id = (if pd_repository_id night_draft = NONE then None else Some (pd_repository_id night_draft)),
        po_retention = pq_retention req, po_created_at = c_now policy_manager, po_updated_at = c_now policy_manager\<rparr>
      in policies (snd (out_state (policy_handle plain_runtime sample_fleet policy_manager (PostPolicy (policy_json req))
        (sample_protection, ?s)))) = [p]"
    using create_policy_refines [OF r, of policy_manager ?s sample_protection sample_fleet] by (simp add: Let_def)
  have "trim (pd_name night_draft) = ''night''" by code_simp
  moreover have "js_join '' '' (words_by js_space (draftCron night_draft)) = ''15 2 * * 1-5''" by code_simp
  ultimately show ?thesis using r created by (auto simp: Let_def)
qed

section \<open>SMTP settings\<close>

datatype smtp_tls = StartTls | ImplicitTls | NoTls

fun tls_text :: "smtp_tls \<Rightarrow> string" where
  "tls_text StartTls = ''starttls''"
| "tls_text ImplicitTls = ''tls''"
| "tls_text NoTls = ''none''"

record smtp_draft =
  sd_host :: string
  sd_port :: string
  sd_tls :: smtp_tls
  sd_username :: string
  sd_from :: string
  sd_password_action :: secret_action
  sd_password :: string

text \<open>The settings as the console reads them; the mode of an unconfigured server is empty.\<close>

record smtp_view =
  sv_host :: string
  sv_port :: int
  sv_tls :: "smtp_tls option"
  sv_username :: string
  sv_from :: string

definition smtpToDraft :: "smtp_view \<Rightarrow> smtp_draft" where
  "smtpToDraft v =
     \<lparr>sd_host = sv_host v, sd_port = (if sv_port v \<noteq> 0 then show_int (sv_port v) else ''587''),
      sd_tls = (case sv_tls v of Some t \<Rightarrow> t | None \<Rightarrow> StartTls), sd_username = sv_username v, sd_from = sv_from v,
      sd_password_action = Keep, sd_password = []\<rparr>"

record smtp_request =
  sq_host :: string
  sq_port :: int
  sq_username :: "string option"
  sq_password :: "string option"
  sq_from :: string
  sq_tls :: smtp_tls

datatype smtp_form_error =
  EnterPassword
| HostMissing
| HostTooLong
| PortMissing
| PortNotWhole
| PortRange
| UsernameTooLong
| PasswordTooLong
| SenderMissing
| SenderTooLong

definition port_error :: "rat option \<Rightarrow> smtp_form_error option" where
  "port_error v =
     (case v of
        None \<Rightarrow> Some PortMissing
      | Some n \<Rightarrow> if \<not> whole n then Some PortNotWhole else if n < 1 \<or> n > 65535 then Some PortRange else None)"

definition smtpDraftToRequest :: "(string \<Rightarrow> rat option) \<Rightarrow> smtp_draft \<Rightarrow> smtp_form_error + smtp_request" where
  "smtpDraftToRequest num d =
     (let host = trim (sd_host d); user = trim (sd_username d); sender = trim (sd_from d);
          port = (if trim (sd_port d) = [] then None else num (sd_port d));
          password = secretField (sd_password_action d) (sd_password d)
      in if sd_password_action d = Replace \<and> sd_password d = [] then Inl EnterPassword
         else if length host < 1 then Inl HostMissing
         else if length host > 253 then Inl HostTooLong
         else case port_error port of
           Some e \<Rightarrow> Inl e
         | None \<Rightarrow>
             if length user > 200 then Inl UsernameTooLong
             else if (case password of Some t \<Rightarrow> length t > 500 | None \<Rightarrow> False) then Inl PasswordTooLong
             else if length sender < 3 then Inl SenderMissing
             else if length sender > 320 then Inl SenderTooLong
             else Inr \<lparr>sq_host = host, sq_port = \<lfloor>the port\<rfloor>, sq_username = or_none (Some user), sq_password = password,
                       sq_from = sender, sq_tls = sd_tls d\<rparr>)"

definition smtp_json :: "smtp_request \<Rightarrow> json" where
  "smtp_json r =
     JObj ([(''host'', JStr (sq_host r)), (''port'', JNum (of_int (sq_port r)))] @
       (case sq_username r of Some t \<Rightarrow> [(''username'', JStr t)] | None \<Rightarrow> []) @
       (case sq_password r of Some t \<Rightarrow> [(''password'', JStr t)] | None \<Rightarrow> []) @
       [(''from'', JStr (sq_from r)), (''tls'', JStr (tls_text (sq_tls r)))])"

lemma smtp_json_fields [simp]:
  "jfield (smtp_json r) ''host'' = Some (JStr (sq_host r))"
  "jfield (smtp_json r) ''port'' = Some (JNum (of_int (sq_port r)))"
  "jfield (smtp_json r) ''username'' = map_option JStr (sq_username r)"
  "jfield (smtp_json r) ''password'' = map_option JStr (sq_password r)"
  "jfield (smtp_json r) ''from'' = Some (JStr (sq_from r))"
  "jfield (smtp_json r) ''tls'' = Some (JStr (tls_text (sq_tls r)))"
  by (auto simp: smtp_json_def split: option.split)

text \<open>C40: What the server makes of the SMTP form. A request of the form is accepted exactly if the sender
  contains an at sign and plain text transport goes to this host only; then the stored settings
  are those of the form, and the stored password is kept, removed or replaced as chosen. Otherwise
  nothing changes and the answer names the field.\<close>

theorem smtp_form_saved:
  assumes "smtpDraftToRequest num d = Inr req" "''policy.manage'' \<in> set (u_permissions (c_user c))"
  shows "case policy_handle rt f c (PutSmtp (smtp_json req)) (q, s) of (reply, es, (q', s')) \<Rightarrow>
    q' = q \<and>
    (if CHR ''@'' \<in> set (trim (sd_from d)) \<and>
        (sd_tls d = NoTls \<longrightarrow> trim (sd_host d) \<in> {''localhost'', ''127.0.0.1'', ''::1''})
     then s' = s\<lparr>smtp := (smtp s)\<lparr>sp_configured := True, sp_host := trim (sd_host d), sp_port := sq_port req,
          sp_username := trim (sd_username d), sp_from := trim (sd_from d), sp_tls := tls_text (sd_tls d),
          sp_updated_at := c_now c,
          sp_password := (case sd_password_action d of Keep \<Rightarrow> sp_password (smtp s) | Remove \<Rightarrow> None | Replace \<Rightarrow> Some (sd_password d))\<rparr>\<rparr> \<and>
       num (sd_port d) = Some (of_int (sq_port req)) \<and> reply = Send 200 (smtpOut (smtp s'))
     else s' = s \<and> (\<exists>msg. reply = Invalid msg (if CHR ''@'' \<in> set (trim (sd_from d)) then ''body.tls'' else ''body.from'')))"
proof -
  from assms(1) have pw: "sd_password_action d = Replace \<Longrightarrow> sd_password d \<noteq> []"
    and host: "trim (sd_host d) \<noteq> []" "length (trim (sd_host d)) \<le> 253"
    and port: "port_error (if trim (sd_port d) = [] then None else num (sd_port d)) = None"
    and sender: "3 \<le> length (trim (sd_from d))"
    and req: "req = \<lparr>sq_host = trim (sd_host d), sq_port = \<lfloor>the (num (sd_port d))\<rfloor>, sq_username = or_none (Some (trim (sd_username d))),
      sq_password = secretField (sd_password_action d) (sd_password d), sq_from = trim (sd_from d), sq_tls = sd_tls d\<rparr>"
    by (auto simp: smtpDraftToRequest_def Let_def port_error_def Suc_le_eq split: if_splits option.splits)
  from port obtain n where n: "num (sd_port d) = Some (of_int n)" "1 \<le> n" "n \<le> 65535"
    by (auto simp: port_error_def whole_def is_integer_def split: if_splits option.splits elim!: Ints_cases)
  have "tls_text (sd_tls d) \<in> {''starttls'', ''tls'', ''none''}" "tls_text (sd_tls d) = ''none'' \<longleftrightarrow> sd_tls d = NoTls"
    by (cases "sd_tls d"; simp)+
  with host n sender have err: "smtp_error (smtp_json req) =
      (if CHR ''@'' \<notin> set (trim (sd_from d)) then Some (''mail: invalid sender address '' @ json_quote (trim (sd_from d)), ''body.from'')
       else if sd_tls d = NoTls \<and> trim (sd_host d) \<notin> {''localhost'', ''127.0.0.1'', ''::1''} then
         Some (''tls none (plain text) is allowed only for a relay on localhost'', ''body.tls'')
       else None)"
    by (auto simp: smtp_error_def trimmed_field_def int_in_def is_integer_def req Let_def)
  have user: "or_default (jfield (smtp_json req) ''username'') (JStr []) = JStr (trim (sd_username d))"
    by (auto simp: req or_none_def or_default_def)
  have act: "policy_handle rt f c (PutSmtp (smtp_json req)) (q, s) = put_smtp c (smtp_json req) (q, s)"
    using assms(2) by (simp add: policy_handle_def need_def)
  show ?thesis
    using pw unfolding act put_smtp_def err user
    by (cases "sd_password_action d")
      (auto simp: answer_def Let_def trimmed_field_def json_int_def json_text_def req n(1) or_none_def)
qed

definition relay_draft :: smtp_draft where
  "relay_draft = smtpToDraft \<lparr>sv_host = ''mx'', sv_port = 0, sv_tls = None, sv_username = [], sv_from = ''a@b''\<rparr>"

theorem smtp_form_saved_witness:
  "\<exists>req. smtpDraftToRequest plain_num relay_draft = Inr req \<and>
     sp_host (smtp (snd (out_state (policy_handle plain_runtime sample_fleet policy_manager (PutSmtp (smtp_json req))
       (sample_protection, seed_policy_state 0))))) = ''mx''"
proof -
  have "isl (smtpDraftToRequest plain_num relay_draft) = False" by code_simp
  then obtain req where r: "smtpDraftToRequest plain_num relay_draft = Inr req"
    by (cases "smtpDraftToRequest plain_num relay_draft") auto
  have perm: "''policy.manage'' \<in> set (u_permissions (c_user policy_manager))" by (simp add: policy_manager_def)
  have "CHR ''@'' \<in> set (trim (sd_from relay_draft))" by code_simp
  moreover have "trim (sd_host relay_draft) = ''mx''" by code_simp
  moreover have "sd_tls relay_draft \<noteq> NoTls" by code_simp
  ultimately show ?thesis
    using r smtp_form_saved [OF r perm, where rt = plain_runtime and f = sample_fleet and q = sample_protection and s = "seed_policy_state 0"]
    by (auto simp: case_prod_beta)
qed

end
