(* ===== verification/Restore_Server.thy ===== *)
theory Restore_Server
  imports Policy_Schedule
begin

text \<open>
  Restores of the development server, \<^verbatim>\<open>scripts/mock-restore.mjs\<close>: the preview of a restore, runs that a
  timer moves along the steps of the workflow, and the routes that preview, start, list, show and
  cancel restores. Previews are computed from the manifest of a recovery point and the application's
  containers. The state is the list of runs beside the data of \<^verbatim>\<open>scripts/mock-protection.mjs\<close>; the hosts
  and applications of \<^verbatim>\<open>scripts/mock-fleet.mjs\<close> are only read.

  The timer is an event of its own among the requests. Positions in the workflow are computed with
  exact rational numbers. The duration of a run is the default of its environment variable.
\<close>

section \<open>Preview\<close>

definition RUN_MS :: int where "RUN_MS = 15000"
definition QUEUE_MS :: int where "QUEUE_MS = 1000"

definition restoreId :: "int \<Rightarrow> string \<Rightarrow> string" where
  "restoreId ms bytes = ''rs_'' @ rp_time 10 (nat ms) [] @ map (\<lambda>x. CROCKFORD ! (code x mod 32)) bytes"

datatype http_error = HttpError nat string string

text \<open>Path remaps of a request that passed the check.\<close>

definition remap_pair :: "json \<Rightarrow> string \<times> string" where
  "remap_pair r = (json_text (jfield r ''from''), json_text (jfield r ''to''))"

fun remap :: "string \<Rightarrow> (string \<times> string) list \<Rightarrow> string" where
  "remap p [] = p"
| "remap p ((f, t) # remaps) =
     (let src = strip_slashes f
      in if p = src \<or> startsWith p (src @ ''/'')
         then (let q = strip_slashes t @ drop (length src) p in if q = [] then ''/'' else q)
         else remap p remaps)"

definition remap_bad :: "json \<Rightarrow> bool" where
  "remap_bad r =
     (case (jfield r ''from'', jfield r ''to'') of
        (Some (JStr f), Some (JStr t)) \<Rightarrow> \<not> startsWith f ''/'' \<or> \<not> startsWith t ''/'' \<or> includes_str t ''..''
      | _ \<Rightarrow> True)"

text \<open>A JSON value in a template literal.\<close>

definition shown :: "runtime \<Rightarrow> json \<Rightarrow> string" where
  "shown rt v = (case v of JStr s \<Rightarrow> s | _ \<Rightarrow> rt_string rt v)"

fun select_components :: "runtime \<Rightarrow> captured list \<Rightarrow> json list \<Rightarrow> captured list \<Rightarrow> http_error + captured list" where
  "select_components rt cs [] selected = Inr selected"
| "select_components rt cs (n # ns) selected =
     (case find (\<lambda>x. JStr (mc_name x) = n) cs of
        None \<Rightarrow> Inl (HttpError 400 ''validation_failed''
                  (''the recovery point has no component '' @ [DQ] @ shown rt n @ [DQ]))
      | Some x \<Rightarrow>
          if mc_status x \<noteq> ''succeeded'' then
            Inl (HttpError 400 ''validation_failed''
              (''component '' @ shown rt n @ '' was not captured ('' @ mc_status x @ '')''))
          else if mc_kind x = ''fsmeta'' \<or> mc_kind x = ''image'' then
            Inl (HttpError 400 ''validation_failed'' (''component '' @ shown rt n @ '' cannot be restored on its own''))
          else select_components rt cs ns (if x \<in> set selected then selected else selected @ [x]))"

definition wanted :: "captured list \<Rightarrow> json \<Rightarrow> json list" where
  "wanted cs body =
     (let want = array_field body ''components''
      in if length want = 0
         then map (\<lambda>x. JStr (mc_name x))
                (filter (\<lambda>x. mc_kind x \<noteq> ''fsmeta'' \<and> mc_kind x \<noteq> ''image'' \<and> mc_status x = ''succeeded'') cs)
         else want)"

definition resolve ::
  "runtime \<Rightarrow> fleet \<Rightarrow> stored_rp option \<Rightarrow> json \<Rightarrow>
   http_error + (stored_rp \<times> manifest \<times> agent \<times> (string \<times> string) list \<times> captured list)" where
  "resolve rt f rp body =
     (case rp of
        None \<Rightarrow> Inl (HttpError 404 ''not_found'' ''recovery point not found'')
      | Some r \<Rightarrow>
          (case (rp_state r, rp_manifest r) of
             (RpCommitted, Some m) \<Rightarrow>
               let wish = jfield body ''target_host_id'';
                   target_id = (if truthy wish then the wish else JStr (rp_host_id r));
                   remaps = array_field body ''path_remaps''
               in (case find (\<lambda>a. JStr (ag_id a) = target_id) (agents f) of
                     None \<Rightarrow> Inl (HttpError 404 ''not_found'' ''target host not found'')
                   | Some target \<Rightarrow>
                       if list_ex remap_bad remaps then
                         Inl (HttpError 400 ''validation_failed''
                           (''path remaps must be absolute paths without '' @ [SQ] @ ''..'' @ [SQ]))
                       else map_sum id (\<lambda>selected. (r, m, target, map remap_pair remaps, selected))
                              (select_components rt (mf_components m) (wanted (mf_components m) body) []))
           | _ \<Rightarrow> Inl (HttpError 409 ''conflict''
                 (''recovery point '' @ rp_id r @ '' is '' @ rp_state_text (rp_state r) @
                  ''; only committed recovery points can be restored''))))"

text \<open>Containers, published ports and networks of the source application.\<close>

record source_container = preview_container +
  sc_ports :: "string list"

definition read_container :: "container \<Rightarrow> source_container" where
  "read_container c =
     \<lparr>pc_id = cd_id c, pc_name = cd_name c, pc_state = cd_state c,
      sc_ports = List.map_filter (\<lambda>p. map_option (\<lambda>h. h @ ''/'' @ po_protocol p) (or_none (po_host_port p))) (cd_ports c)\<rparr>"

definition topology_of ::
  "fleet \<Rightarrow> (nat \<Rightarrow> string) \<Rightarrow> stored_rp \<Rightarrow> app option \<times> source_container list \<times> network list" where
  "topology_of f rnd r =
     (let app = find_app (rp_application_id r) f;
          containers = (case app of Some a \<Rightarrow> map read_container (ap_containers_detail a) | None \<Rightarrow> []);
          networks = (case app of Some a \<Rightarrow> (case ap_analysis a of Some y \<Rightarrow> an_networks y | None \<Rightarrow> []) | None \<Rightarrow> [])
      in (app,
          (if containers = []
           then [\<lparr>pc_id = rnd 0, pc_name = rp_application_name r, pc_state = ''running'', sc_ports = []\<rparr>] else containers),
          filter (\<lambda>n. ne_name n \<notin> {''bridge'', ''host'', ''none''}) networks))"

text \<open>The default order of \<^verbatim>\<open>sort()\<close> on strings.\<close>

fun text_le :: "string \<Rightarrow> string \<Rightarrow> bool" where
  "text_le [] t = True"
| "text_le (c # s) [] = False"
| "text_le (c # s) (d # t) = (if c = d then text_le s t else code c < code d)"

definition blank_preview :: "stored_rp \<Rightarrow> manifest \<Rightarrow> agent \<Rightarrow> source_container list \<Rightarrow> app option \<Rightarrow> preview" where
  "blank_preview r m target containers app =
     (let in_place = (ag_id target = rp_host_id r)
      in \<lparr>p_recovery_point_id = rp_id r, p_application_name = mf_application_name m, p_source_host_id = rp_host_id r,
          p_target_host_id = ag_id target, p_target_hostname = ag_hostname target,
          p_target_application_id = (if in_place then map_option ap_id app else None),
          p_mode = (if in_place then ''in_place'' else ''alternate_host''), p_production = False,
          p_production_reasons = [], p_components = [], p_stop_containers = [], p_create_containers = [], p_networks = [],
          p_images = [], p_ports = js_sort text_le (nub (concat (map sc_ports containers))), p_collisions = [],
          p_warnings = [], p_blocked = False\<rparr>)"

definition production_reasons :: "app option \<Rightarrow> source_container list \<Rightarrow> string list" where
  "production_reasons app containers =
     (if (case app of Some a \<Rightarrow> ap_environment a = Some ''production'' | None \<Rightarrow> False)
      then [''the target application is tagged environment: production''] else []) @
     (if list_ex (\<lambda>c. pc_state c \<in> set RUNNING_STATES) containers
      then [''the restore overwrites a running application in place''] else [])"

definition in_place_part :: "app option \<Rightarrow> source_container list \<Rightarrow> network list \<Rightarrow> preview \<Rightarrow> preview" where
  "in_place_part app containers networks p =
     (let reasons = production_reasons app containers
      in p\<lparr>p_stop_containers := map preview_container.truncate containers, p_production := (reasons \<noteq> []),
           p_production_reasons := reasons,
           p_networks := map (\<lambda>n. \<lparr>pi_name = ne_name n, pi_action = ''exists''\<rparr>) networks\<rparr>)"

definition alternate_part :: "bool \<Rightarrow> source_container list \<Rightarrow> network list \<Rightarrow> preview \<Rightarrow> preview" where
  "alternate_part edge containers networks p =
     (let taken = (if edge then take 1 containers else []);
          fresh = (if edge then drop 1 containers else containers)
      in p\<lparr>p_collisions :=
             map (\<lambda>c. \<lparr>co_kind = ''container_name'', co_name = pc_name c,
                       co_detail = ''a container with this name exists on the target and belongs to Compose project shop-staging''\<rparr>) taken @
             (if edge then map (\<lambda>t. \<lparr>co_kind = ''port'', co_name = t,
                                     co_detail = ''already published by container staging-proxy''\<rparr>) (p_ports p) else []),
           p_create_containers := map pc_name fresh,
           p_networks := map (\<lambda>n. \<lparr>pi_name = ne_name n, pi_action = (if ne_external n then ''exists'' else ''create'')\<rparr>) networks,
           p_warnings := (if edge then [''the latest inventory of docker-edge-02 is 3 hours old: collisions are checked against it''] else [])\<rparr>)"

definition image_part :: "bool \<Rightarrow> manifest_image list \<Rightarrow> preview \<Rightarrow> preview" where
  "image_part in_place images p =
     p\<lparr>p_images := map (\<lambda>im. \<lparr>im_ref = mi_ref im, im_digest = or_none (mi_digest im),
                             im_action = (if in_place then ''present'' else ''pull'')\<rparr>) images,
       p_warnings := p_warnings p @
         (if in_place then []
          else map (\<lambda>im. ''image '' @ mi_ref im @
                 '' has no registry digest (local build): it must be pulled by tag or built on the target first'')
               (filter (\<lambda>im. or_none (mi_digest im) = None) images))\<rparr>"

text \<open>\<^verbatim>\<open>s.replace(/^prefix/, "")\<close>\<close>

definition without :: "string \<Rightarrow> string \<Rightarrow> string" where
  "without start s = (if startsWith s start then drop (length start) s else s)"

text \<open>The preview of a selected component and the collision it causes.\<close>

definition component_part ::
  "bool \<Rightarrow> bool \<Rightarrow> string \<Rightarrow> (string \<times> string) list \<Rightarrow> captured \<Rightarrow> preview_component \<times> collision list" where
  "component_part in_place edge working_dir remaps c =
     (let item = (\<lambda>action target. \<lparr>pv_name = mc_name c, pv_kind = mc_kind c,
                    pv_size_bytes = (case mc_size_bytes c of Some n \<Rightarrow> n | None \<Rightarrow> 0), pv_action = action, pv_target = target\<rparr>)
      in if mc_kind c = ''volume'' then
           (let target = (case mc_volume_name c of Some v \<Rightarrow> v | None \<Rightarrow> without ''volume:'' (mc_name c))
            in (item (if in_place \<or> edge then ''overwrite'' else ''create'') target,
                if edge then [\<lparr>co_kind = ''volume'', co_name = target, co_detail = ''exists and belongs to Compose project shop-staging''\<rparr>]
                else []))
         else if mc_kind c = ''bind_mount'' then
           (let target = remap (case mc_path c of Some q \<Rightarrow> q | None \<Rightarrow> without ''bind:'' (mc_name c)) remaps
            in (item ''overwrite'' target,
                if edge \<and> target = (case mc_path c of Some q \<Rightarrow> q | None \<Rightarrow> [])
                then [\<lparr>co_kind = ''bind_path'', co_name = target,
                       co_detail = ''path is mounted by container legacy-files (another application)''\<rparr>]
                else []))
         else if mc_kind c = ''config'' then (item ''restore_files'' (remap working_dir remaps), [])
         else if mc_kind c = ''database'' then
           (item ''load_dump''
              (case mc_database c of
                 Some d \<Rightarrow> db_engine d @ '' in '' @ (if db_container d = [] then db_service d else db_container d)
               | None \<Rightarrow> ''database''), [])
         else (item ''overwrite'' [], []))"

definition host_collision :: "agent \<Rightarrow> collision list" where
  "host_collision target =
     (if ag_status target \<noteq> ActiveAgent
      then [\<lparr>co_kind = ''dependency'', co_name = ag_hostname target, co_detail = ''target host is '' @ status_text (ag_status target)\<rparr>]
      else [])"

definition computePreview ::
  "runtime \<Rightarrow> fleet \<Rightarrow> (nat \<Rightarrow> string) \<Rightarrow> stored_rp option \<Rightarrow> json \<Rightarrow> http_error + preview" where
  "computePreview rt f rnd rp body =
     (case resolve rt f rp body of
        Inl e \<Rightarrow> Inl e
      | Inr (r, m, target, remaps, selected) \<Rightarrow>
          let (app, containers, networks) = topology_of f rnd r;
              in_place = (ag_id target = rp_host_id r);
              edge = (ag_id target = HOST_EDGE);
              p0 = blank_preview r m target containers app;
              p1 = (if in_place then in_place_part app containers networks p0
                    else alternate_part edge containers networks p0);
              p2 = image_part in_place (mf_images m) p1;
              working_dir = (case mf_working_dir m of Some w \<Rightarrow> if w = [] then ''/srv/'' @ rp_application_name r else w
                             | None \<Rightarrow> ''/srv/'' @ rp_application_name r);
              parts = map (component_part in_place edge working_dir remaps) selected;
              collisions = p_collisions p2 @ concat (map snd parts) @ host_collision target
          in Inr (p2\<lparr>p_components := map fst parts, p_collisions := collisions, p_blocked := (length collisions > 0)\<rparr>))"

section \<open>Runs\<close>

definition STEPS :: "restore_step list" where
  "STEPS =
     [GrantAccess, AgentAccess, Images, StopApplication, RestoreData, RecreateContainers,
      StartApplication, RestoreDatabase, HealthCheck, Commit]"

definition stepsFor :: "preview \<Rightarrow> restore_step list" where
  "stepsFor p =
     (let running = list_ex (\<lambda>c. pc_state c \<in> set RUNNING_STATES) (p_stop_containers p)
      in filter (\<lambda>s. case s of
             GrantAccess \<Rightarrow> p_target_host_id p \<noteq> p_source_host_id p
           | Images \<Rightarrow> length (p_images p) > 0
           | StopApplication \<Rightarrow> running
           | RecreateContainers \<Rightarrow> length (p_create_containers p) > 0
           | RestoreDatabase \<Rightarrow> list_ex (\<lambda>c. pv_action c = ''load_dump'') (p_components p)
           | HealthCheck \<Rightarrow> running \<or> length (p_create_containers p) > 0
           | _ \<Rightarrow> True) STEPS)"

record result_image =
  ri_ref :: string
  ri_digest :: "string option"
  ri_status :: string
  ri_error :: "string option"

record result_component =
  rc_name :: string
  rc_status :: string
  rc_target_path :: string
  rc_bytes :: nat
  rc_files :: nat
  rc_metadata_applied :: "nat option"
  rc_created_volume :: "bool option"
  rc_previous_path :: "string option"

record result_container =
  ro_name :: string
  ro_status :: string
  ro_container_id :: string
  ro_was_running :: bool

record health_container =
  hc_container_id :: string
  hc_name :: string
  hc_state :: string
  hc_health :: string
  hc_ok :: bool
  hc_exit_code :: "int option"
  hc_log_tail :: "string option"

record restore_result =
  rr_images :: "result_image list"
  rr_components :: "result_component list option"
  rr_containers :: "result_container list option"
  rr_health :: "(bool \<times> health_container list) option"
  rr_rolled_back :: bool

record run =
  rn_id :: string
  rn_recovery_point_id :: string
  rn_application_id :: string
  rn_application_name :: string
  rn_source_host_id :: string
  rn_source_hostname :: string
  rn_target_host_id :: string
  rn_target_hostname :: string
  rn_target_application_id :: "string option"
  rn_mode :: string
  rn_production :: bool
  rn_components :: "string list"
  rn_path_remaps :: "json list"
  rn_reason :: "string option"
  rn_requested_by :: string
  rn_state :: restore_state
  rn_step :: "restore_step option"
  rn_error :: "string option"
  rn_workflow_id :: "string option"
  rn_created_at :: int
  rn_started_at :: "int option"
  rn_finished_at :: "int option"

record stored_run = run +
  rn_preview :: preview
  rn_result :: "restore_result option"
  rn_start_ms :: "int option"
  rn_cancel_at :: "int option"
  rn_cancel_by :: string
  rn_run_id :: "string option"

fun restore_state_text :: "restore_state \<Rightarrow> string" where
  "restore_state_text Requested = ''requested''"
| "restore_state_text Running = ''running''"
| "restore_state_text Succeeded = ''succeeded''"
| "restore_state_text Failed = ''failed''"
| "restore_state_text RolledBack = ''rolled_back''"

definition volume_path :: "preview_component \<Rightarrow> string" where
  "volume_path c =
     (if pv_kind c = ''volume'' then ''/var/lib/docker/volumes/'' @ pv_target c @ ''/_data'' else pv_target c)"

definition result_part :: "string \<Rightarrow> captured list \<Rightarrow> preview_component \<Rightarrow> result_component" where
  "result_part run_id cs c =
     (let src = map_of (rev (map (\<lambda>x. (mc_name x, x)) cs)) (pv_name c);
          files = (case src of Some x \<Rightarrow> (case mc_files x of Some n \<Rightarrow> n | None \<Rightarrow> 1) | None \<Rightarrow> 1);
          meta = list_ex (\<lambda>x. mc_kind x = ''fsmeta'' \<and> mc_parent x = Some (pv_name c)) cs;
          path = volume_path c
      in \<lparr>rc_name = pv_name c, rc_status = ''restored'', rc_target_path = path, rc_bytes = pv_size_bytes c,
          rc_files = files, rc_metadata_applied = (if meta then Some files else None),
          rc_created_volume = (if pv_action c = ''create'' then Some (pv_kind c = ''volume'') else None),
          rc_previous_path = (if pv_action c = ''create'' then None
            else Some (path @ ''.dbr2-prev-'' @ toLowerCase (drop (length run_id - 8) run_id)))\<rparr>)"

definition successResult :: "protection \<Rightarrow> (nat \<Rightarrow> string) \<Rightarrow> stored_run \<Rightarrow> restore_result" where
  "successResult q rnd r =
     (let p = rn_preview r;
          cs = (case find (\<lambda>x. rp_id x = rn_recovery_point_id r) (recovery_points q) of
                  Some x \<Rightarrow> (case rp_manifest x of Some m \<Rightarrow> mf_components m | None \<Rightarrow> []) | None \<Rightarrow> []);
          names = (if p_mode p = ''in_place'' then map pc_name (p_stop_containers p) else p_create_containers p);
          n = length (p_create_containers p)
      in \<lparr>rr_images = map (\<lambda>im. \<lparr>ri_ref = im_ref im, ri_digest = or_none (im_digest im),
                               ri_status = (if im_action im = ''pull'' then ''pulled'' else ''present''), ri_error = None\<rparr>) (p_images p),
          rr_components = Some (map (result_part (rn_id r) cs) (p_components p)),
          rr_containers = Some (map (\<lambda>(i, name). \<lparr>ro_name = name, ro_status = ''created'', ro_container_id = rnd i,
                               ro_was_running = True\<rparr>) (List.enumerate 0 (p_create_containers p))),
          rr_health = Some (True, map (\<lambda>(i, name). \<lparr>hc_container_id = rnd i, hc_name = name, hc_state = ''running'',
                               hc_health = (if includes_str name ''db'' then ''healthy'' else ''none''), hc_ok = True,
                               hc_exit_code = None, hc_log_tail = None\<rparr>) (List.enumerate n names)),
          rr_rolled_back = False\<rparr>)"

definition restore_updated :: "stored_run \<Rightarrow> effect" where
  "restore_updated r =
     Publish ''restore.updated'' ''restore.read''
       (JObj ([(''restore_id'', JStr (rn_id r)), (''application_id'', JStr (rn_application_id r)),
               (''state'', JStr (restore_state_text (rn_state r)))] @
              (case rn_step r of Some t \<Rightarrow> [(''step'', JStr (step_id t))] | None \<Rightarrow> []) @
              (case or_none (rn_error r) of Some e \<Rightarrow> [(''error'', JStr e)] | None \<Rightarrow> [])))"

definition emit :: "stored_run \<Rightarrow> stored_run \<Rightarrow> effect list" where
  "emit before r = (if rn_state r = rn_state before \<and> rn_step r = rn_step before then [] else [restore_updated r])"

definition run_application :: "stored_run \<Rightarrow> string" where
  "run_application r = (case or_none (rn_target_application_id r) of Some a \<Rightarrow> a | None \<Rightarrow> rn_application_id r)"

definition restore_progress :: "string \<Rightarrow> nat \<Rightarrow> stored_run \<Rightarrow> effect" where
  "restore_progress run_id j r =
     Publish ''job.progress'' ''backup.read''
       (JObj [(''command_id'', JStr (''application/'' @ run_application r @ ''/'' @ run_id @ ''/restore-components'')),
              (''host_id'', JStr (rn_target_host_id r)), (''kind'', JStr ''restore_components''),
              (''state'', JStr ''running''),
              (''workflow_id'', case rn_workflow_id r of Some w \<Rightarrow> JStr w | None \<Rightarrow> JNull),
              (''run_id'', JStr run_id), (''application_id'', JStr (run_application r)),
              (''progress'', JObj [(''done'', count_json j), (''total'', count_json (length (p_components (rn_preview r)))),
                 (''component'', JStr (pv_name (p_components (rn_preview r) ! j)))])])"

text \<open>A cancelled run: it rolls back, or fails when nothing had changed yet.\<close>

definition cancel_run :: "protection \<Rightarrow> int \<Rightarrow> (nat \<Rightarrow> string) \<Rightarrow> stored_run \<Rightarrow> stored_run" where
  "cancel_run q now rnd r =
     (let changed = (rn_started_at r \<noteq> None \<and> rn_step r \<noteq> Some GrantAccess \<and> rn_step r \<noteq> Some AgentAccess)
      in r\<lparr>rn_state := (if changed then RolledBack else Failed), rn_error := Some (''cancelled by '' @ rn_cancel_by r),
           rn_finished_at := Some now,
           rn_result := (if changed then Some ((successResult q rnd r)\<lparr>rr_rolled_back := True, rr_health := None\<rparr>) else None),
           rn_step := None\<rparr>)"

text \<open>The time per step and the number of the step at a time.\<close>

definition per_step :: "restore_step list \<Rightarrow> rat" where
  "per_step steps = of_int (RUN_MS - QUEUE_MS) / of_nat (length steps)"

definition step_index :: "restore_step list \<Rightarrow> int \<Rightarrow> int" where
  "step_index steps elapsed = \<lfloor>of_int (elapsed - QUEUE_MS) / per_step steps\<rfloor>"

definition started :: "int \<Rightarrow> stored_run \<Rightarrow> stored_run" where
  "started start r =
     (case rn_started_at r of None \<Rightarrow> r\<lparr>rn_started_at := Some (start + QUEUE_MS)\<rparr> | Some t \<Rightarrow> r)"

definition finish_run :: "protection \<Rightarrow> (nat \<Rightarrow> string) \<Rightarrow> int \<Rightarrow> stored_run \<Rightarrow> stored_run" where
  "finish_run q rnd start r =
     r\<lparr>rn_state := Succeeded, rn_step := None, rn_finished_at := Some (start + RUN_MS),
       rn_result := Some (successResult q rnd r)\<rparr>"

text \<open>The component being restored, from the part of the step that is over.\<close>

definition progress_index :: "restore_step list \<Rightarrow> int \<Rightarrow> nat \<Rightarrow> nat \<Rightarrow> nat" where
  "progress_index steps elapsed i n =
     (let over = (of_int (elapsed - QUEUE_MS) - of_nat i * per_step steps) / per_step steps
      in nat (min (int n - 1) \<lfloor>over * of_nat n\<rfloor>))"

definition run_at_step :: "(nat \<Rightarrow> string) \<Rightarrow> restore_step list \<Rightarrow> int \<Rightarrow> nat \<Rightarrow> stored_run \<Rightarrow> stored_run \<times> effect list" where
  "run_at_step rnd steps elapsed i r =
     (let r1 = r\<lparr>rn_state := Running, rn_step := Some (steps ! i)\<rparr>;
          n = length (p_components (rn_preview r))
      in if steps ! i = RestoreData \<and> n > 0 then
           (let u = (case rn_run_id r of Some x \<Rightarrow> x | None \<Rightarrow> rnd 0)
            in (r1\<lparr>rn_run_id := Some u\<rparr>, [restore_progress u (progress_index steps elapsed i n) r1]))
         else (r1, []))"

definition advance_run :: "protection \<Rightarrow> int \<Rightarrow> (nat \<Rightarrow> string) \<Rightarrow> stored_run \<Rightarrow> stored_run \<times> effect list" where
  "advance_run q now rnd r =
     (case rn_start_ms r of
        None \<Rightarrow> (r, [])
      | Some start \<Rightarrow>
          if start = 0 \<or> \<not> (rn_state r = Requested \<or> rn_state r = Running) then (r, [])
          else if (case rn_cancel_at r of Some t \<Rightarrow> t \<noteq> 0 | None \<Rightarrow> False) then
            (let r' = cancel_run q now rnd r in (r', emit r r'))
          else if now - start < QUEUE_MS then (r, [])
          else
            let steps = stepsFor (rn_preview r);
                i = step_index steps (now - start);
                r1 = started start r
            in if i \<ge> int (length steps) then (let r' = finish_run q rnd start r1 in (r', emit r r'))
               else (let (r', es) = run_at_step rnd steps (now - start) (nat i) r1 in (r', emit r r' @ es)))"

fun advance_runs :: "protection \<Rightarrow> int \<Rightarrow> (nat \<Rightarrow> string) \<Rightarrow> nat \<Rightarrow> stored_run list \<Rightarrow> stored_run list \<times> effect list" where
  "advance_runs q now rnd i [] = ([], [])"
| "advance_runs q now rnd i (r # rs) =
     (let (r', es) = advance_run q now (sub_draws rnd i) r; (rs', es') = advance_runs q now rnd (Suc i) rs
      in (r' # rs', es @ es'))"

definition listItem :: "stored_run \<Rightarrow> run" where
  "listItem r = run.truncate r"

section \<open>Routes\<close>

datatype restore_route =
  PostPreview string json
| PostRestore string json
| GetRestores "string option" "string option" "rat option option"
| PostRestoreCancel string
| GetRestore string

datatype restore_body =
  PreviewBody preview
| RunBody run
| Runs "run list"
| RunDetail run preview "restore_result option"

type_synonym rest_state = "protection \<times> stored_run list"
type_synonym rest_outcome = "(restore_body, rest_state) outcome"

fun restore_fail :: "http_error \<Rightarrow> restore_body reply" where
  "restore_fail (HttpError status kind msg) =
     (if status = 400 then Invalid msg ''body''
      else Problem status kind (if status = 404 then ''Not Found'' else if status = 403 then ''Forbidden'' else ''Conflict'') msg)"

text \<open>\<^verbatim>\<open>findRp\<close>, with the rest of the handler; an exception while the backups advance ends it.\<close>

definition with_rp ::
  "(string \<Rightarrow> captured list \<Rightarrow> contract_note option) \<Rightarrow> fleet \<Rightarrow> ctx \<Rightarrow> string \<Rightarrow> rest_state \<Rightarrow>
   (protection \<Rightarrow> stored_rp option \<Rightarrow> rest_outcome) \<Rightarrow> rest_outcome" where
  "with_rp capture f c rid s k =
     (let (q, es, ok) = advance capture f (c_now c) (sub_draws (c_random c) 0) (fst s)
      in if \<not> ok then (internal_error, es, (q, snd s))
         else let (reply, es', s') = k q (find (\<lambda>r. rp_id r = rid) (recovery_points q)) in (reply, es @ es', s'))"

definition post_preview ::
  "(string \<Rightarrow> captured list \<Rightarrow> contract_note option) \<Rightarrow> runtime \<Rightarrow> fleet \<Rightarrow> ctx \<Rightarrow> string \<Rightarrow> json \<Rightarrow> rest_state \<Rightarrow> rest_outcome" where
  "post_preview capture rt f c rid body s =
     with_rp capture f c rid s (\<lambda>q rp.
       answer (case computePreview rt f (sub_draws (c_random c) 1) rp body of
                 Inl e \<Rightarrow> restore_fail e | Inr p \<Rightarrow> Send 200 (PreviewBody p)) (q, snd s))"

definition confirm_text :: "preview \<Rightarrow> string" where
  "confirm_text p = ''type the application name '' @ [DQ] @ p_application_name p @ [DQ] @ '' to confirm a production restore''"

text \<open>The checks of a start request on its preview; \<open>None\<close> if all pass.\<close>

definition start_error :: "runtime \<Rightarrow> ctx \<Rightarrow> json \<Rightarrow> preview \<Rightarrow> restore_body reply option" where
  "start_error rt c body p =
     (let reason = trimmed_field body ''reason''
      in if p_blocked p then
           Some (conflict (''the restore is blocked by '' @ show_nat (length (p_collisions p)) @ '' collision(s); see the preview''))
         else if p_production p then
           (if ''restore.production'' \<notin> set (u_permissions (c_user c)) then
              Some (Problem 403 ''forbidden'' ''Forbidden'' (''this is a production restore ('' @
                js_join ''; '' (p_production_reasons p) @ '') and requires restore.production''))
            else if trim (text_of rt (jfield body ''confirmation'')) \<noteq> p_application_name p then
              Some (restore_fail (HttpError 400 ''validation_failed'' (confirm_text p)))
            else if length reason < 3 then
              Some (restore_fail (HttpError 400 ''validation_failed'' ''a reason (or change ticket) is required for a production restore''))
            else None)
         else None)"

definition active_run :: "string \<Rightarrow> stored_run \<Rightarrow> bool" where
  "active_run aid r \<longleftrightarrow> rn_application_id r = aid \<and> (rn_state r = Requested \<or> rn_state r = Running)"

definition new_run :: "ctx \<Rightarrow> json \<Rightarrow> stored_rp \<Rightarrow> preview \<Rightarrow> stored_run" where
  "new_run c body rp p =
     \<lparr>rn_id = restoreId (c_now c) (sub_draws (c_random c) 3 0), rn_recovery_point_id = rp_id rp,
      rn_application_id = rp_application_id rp, rn_application_name = rp_application_name rp,
      rn_source_host_id = rp_host_id rp, rn_source_hostname = rp_hostname rp, rn_target_host_id = p_target_host_id p,
      rn_target_hostname = p_target_hostname p, rn_target_application_id = p_target_application_id p, rn_mode = p_mode p,
      rn_production = p_production p, rn_components = map pv_name (p_components p),
      rn_path_remaps = array_field body ''path_remaps'', rn_reason = or_none (Some (trimmed_field body ''reason'')),
      rn_requested_by = u_username (c_user c), rn_state = Requested, rn_step = None, rn_error = None,
      rn_workflow_id = Some (''application/'' @ (case or_none (p_target_application_id p) of
         Some a \<Rightarrow> a | None \<Rightarrow> rp_application_id rp)),
      rn_created_at = c_now c, rn_started_at = None, rn_finished_at = None, rn_preview = p, rn_result = None,
      rn_start_ms = Some (c_now c), rn_cancel_at = None, rn_cancel_by = [], rn_run_id = None\<rparr>"

definition start_restore :: "runtime \<Rightarrow> fleet \<Rightarrow> ctx \<Rightarrow> json \<Rightarrow> stored_run list \<Rightarrow> protection \<Rightarrow> stored_rp option \<Rightarrow> rest_outcome" where
  "start_restore rt f c body rns q rp =
     (case computePreview rt f (sub_draws (c_random c) 1) rp body of
        Inl e \<Rightarrow> answer (restore_fail e) (q, rns)
      | Inr p \<Rightarrow>
          (case start_error rt c body p of
             Some e \<Rightarrow> answer e (q, rns)
           | None \<Rightarrow>
               let (rns1, es) = advance_runs q (c_now c) (sub_draws (c_random c) 2) 0 rns;
                   r = the rp
               in if list_ex (active_run (rp_application_id r)) rns1 then
                    (conflict ''an operation is already running for this application'', es, (q, rns1))
                  else
                    let run = new_run c body r p
                    in (Send 202 (RunBody (listItem run)),
                        es @ [audit_by c ''restore.requested'' ''application'' (rp_application_id r)
                                (or_none (Some (trimmed_field body ''reason'')))],
                        (q, run # rns1))))"

definition post_restore ::
  "(string \<Rightarrow> captured list \<Rightarrow> contract_note option) \<Rightarrow> runtime \<Rightarrow> fleet \<Rightarrow> ctx \<Rightarrow> string \<Rightarrow> json \<Rightarrow> rest_state \<Rightarrow> rest_outcome" where
  "post_restore capture rt f c rid body s = with_rp capture f c rid s (start_restore rt f c body (snd s))"

text \<open>The continuation of a handler after \<^verbatim>\<open>advanceRuns()\<close>.\<close>

definition with_runs :: "ctx \<Rightarrow> rest_state \<Rightarrow> (stored_run list \<Rightarrow> rest_outcome) \<Rightarrow> rest_outcome" where
  "with_runs c s k =
     (let (rns, es) = advance_runs (fst s) (c_now c) (sub_draws (c_random c) 2) 0 (snd s);
          (reply, es', s') = k rns
      in (reply, es @ es', s'))"

definition get_restores :: "string option \<Rightarrow> string option \<Rightarrow> rat option option \<Rightarrow> ctx \<Rightarrow> rest_state \<Rightarrow> rest_outcome" where
  "get_restores app state limit c s =
     with_runs c s (\<lambda>rns. answer (Send 200 (Runs (map listItem (take (page_limit limit 100 500)
       (js_sort (\<lambda>a b. rn_created_at b \<le> rn_created_at a)
         (filter (\<lambda>r. (case or_none app of None \<Rightarrow> True
                       | Some x \<Rightarrow> rn_application_id r = x \<or> rn_target_application_id r = Some x) \<and>
                      (case or_none state of None \<Rightarrow> True | Some x \<Rightarrow> restore_state_text (rn_state r) = x)) rns)))))) (fst s, rns))"

definition post_restore_cancel :: "string \<Rightarrow> ctx \<Rightarrow> rest_state \<Rightarrow> rest_outcome" where
  "post_restore_cancel i c s =
     with_runs c s (\<lambda>rns.
       case find (\<lambda>x. rn_id x = i) rns of
         None \<Rightarrow> answer (not_found ''restore not found'') (fst s, rns)
       | Some r \<Rightarrow>
           if \<not> (rn_state r = Requested \<or> rn_state r = Running) then
             answer (conflict (''the restore is '' @ restore_state_text (rn_state r) @ ''; only a running restore can be cancelled'')) (fst s, rns)
           else
             (SendEmpty 202, [audit_by c ''restore.cancel_requested'' ''restore'' (rn_id r) None],
              (fst s, update_first (\<lambda>x. rn_id x = i)
                 (\<lambda>x. x\<lparr>rn_cancel_at := Some (c_now c), rn_cancel_by := u_username (c_user c)\<rparr>) rns)))"

definition get_restore :: "string \<Rightarrow> ctx \<Rightarrow> rest_state \<Rightarrow> rest_outcome" where
  "get_restore i c s =
     with_runs c s (\<lambda>rns.
       answer (case find (\<lambda>x. rn_id x = i) rns of
                 None \<Rightarrow> not_found ''restore not found''
               | Some r \<Rightarrow> Send 200 (RunDetail (listItem r) (rn_preview r) (rn_result r))) (fst s, rns))"

fun restore_permission :: "restore_route \<Rightarrow> string" where
  "restore_permission (PostPreview i b) = ''restore.execute''"
| "restore_permission (PostRestore i b) = ''restore.execute''"
| "restore_permission (GetRestores a st l) = ''restore.read''"
| "restore_permission (PostRestoreCancel i) = ''restore.execute''"
| "restore_permission (GetRestore i) = ''restore.read''"

fun restore_action ::
  "(string \<Rightarrow> captured list \<Rightarrow> contract_note option) \<Rightarrow> runtime \<Rightarrow> fleet \<Rightarrow> ctx \<Rightarrow> restore_route \<Rightarrow> rest_state \<Rightarrow> rest_outcome" where
  "restore_action capture rt f c (PostPreview i b) s = post_preview capture rt f c i b s"
| "restore_action capture rt f c (PostRestore i b) s = post_restore capture rt f c i b s"
| "restore_action capture rt f c (GetRestores a st l) s = get_restores a st l c s"
| "restore_action capture rt f c (PostRestoreCancel i) s = post_restore_cancel i c s"
| "restore_action capture rt f c (GetRestore i) s = get_restore i c s"

definition restore_handle ::
  "(string \<Rightarrow> captured list \<Rightarrow> contract_note option) \<Rightarrow> runtime \<Rightarrow> fleet \<Rightarrow> ctx \<Rightarrow> restore_route \<Rightarrow> rest_state \<Rightarrow> rest_outcome" where
  "restore_handle capture rt f c r s = need c (restore_permission r) s (restore_action capture rt f c r s)"

section \<open>Initial data\<close>

text \<open>\<^verbatim>\<open>base\<close>, with the fields its callers set; the identifier is made from the time of creation.\<close>

definition seed_run ::
  "stored_rp \<Rightarrow> preview \<Rightarrow> string \<Rightarrow> int \<Rightarrow> restore_state \<Rightarrow> int \<Rightarrow> int \<Rightarrow> string \<Rightarrow> string \<Rightarrow> stored_run" where
  "seed_run rp p bytes created state start finish reason by =
     \<lparr>rn_id = restoreId created bytes, rn_recovery_point_id = rp_id rp, rn_application_id = rp_application_id rp,
      rn_application_name = rp_application_name rp, rn_source_host_id = rp_host_id rp, rn_source_hostname = rp_hostname rp,
      rn_target_host_id = p_target_host_id p, rn_target_hostname = p_target_hostname p,
      rn_target_application_id = p_target_application_id p, rn_mode = p_mode p, rn_production = p_production p,
      rn_components = map pv_name (p_components p), rn_path_remaps = [], rn_reason = Some reason, rn_requested_by = by,
      rn_state = state, rn_step = None, rn_error = None,
      rn_workflow_id = Some (''application/'' @ rp_application_id rp), rn_created_at = created, rn_started_at = Some start,
      rn_finished_at = Some finish, rn_preview = p, rn_result = None, rn_start_ms = None, rn_cancel_at = None,
      rn_cancel_by = [], rn_run_id = None\<rparr>"

definition shop_remap :: json where
  "shop_remap = JObj [(''from'', JStr ''/srv/shop''), (''to'', JStr ''/srv/shop-restored'')]"

definition image_digest :: "preview \<Rightarrow> nat \<Rightarrow> string option" where
  "image_digest p i = (if i < length (p_images p) then im_digest (p_images p ! i) else None)"

definition seed_failed :: "int \<Rightarrow> string \<Rightarrow> stored_rp \<Rightarrow> preview \<Rightarrow> stored_run" where
  "seed_failed now bytes rp p =
     (let t0 = now - 4 * HOUR
      in (seed_run rp p bytes t0 Failed (t0 + 2000) (t0 + 41000) ''DR drill Q3'' ''admin'')
         \<lparr>rn_path_remaps := [shop_remap], rn_step := Some Images,
          rn_error := Some ''images: pull registry.example.com/shop/web@sha256:a1ea29fa2835: unauthorized: authentication required'',
          rn_result := Some
            \<lparr>rr_images =
               [\<lparr>ri_ref = ''registry.example.com/shop/web:2.4.1'', ri_digest = image_digest p 0, ri_status = ''failed'',
                 ri_error = Some ''unauthorized: authentication required''\<rparr>,
                \<lparr>ri_ref = ''postgres:18-alpine'', ri_digest = image_digest p 1, ri_status = ''pulled'', ri_error = None\<rparr>],
             rr_components = None, rr_containers = None, rr_health = None, rr_rolled_back = False\<rparr>\<rparr>)"

definition db_log_tail :: string where
  "db_log_tail = js_join newline
     [''2026-09-23 09:14:02.113 UTC [1] LOG:  starting PostgreSQL 18.0 on x86_64-pc-linux-musl'',
      ''2026-09-23 09:14:02.118 UTC [1] LOG:  listening on IPv4 address '' @ [DQ] @ ''0.0.0.0'' @ [DQ] @ '', port 5432'',
      ''2026-09-23 09:14:02.131 UTC [29] LOG:  database system was interrupted; last known up at 2026-09-23 08:00:03 UTC'',
      ''2026-09-23 09:14:02.139 UTC [29] LOG:  invalid primary checkpoint record'',
      ''2026-09-23 09:14:02.139 UTC [29] PANIC:  could not locate a valid checkpoint record'',
      ''2026-09-23 09:14:02.412 UTC [1] LOG:  startup process (PID 29) was terminated by signal 6: Aborted'',
      ''2026-09-23 09:14:02.412 UTC [1] LOG:  aborting startup due to startup process failure'',
      ''2026-09-23 09:14:02.419 UTC [1] LOG:  database system is shut down'']"

definition seed_health :: "string \<Rightarrow> string \<Rightarrow> string \<Rightarrow> bool \<Rightarrow> health_container" where
  "seed_health cid name state ok =
     \<lparr>hc_container_id = cid, hc_name = name, hc_state = state, hc_health = ''none'', hc_ok = ok,
      hc_exit_code = (if ok then None else Some 1), hc_log_tail = (if ok then None else Some db_log_tail)\<rparr>"

definition seed_rolled_part :: "preview_component \<Rightarrow> result_component" where
  "seed_rolled_part c =
     (let files = (if pv_kind c = ''volume'' then 2143 else if pv_kind c = ''config'' then 4 else 18433)
      in \<lparr>rc_name = pv_name c, rc_status = ''restored'', rc_target_path = volume_path c, rc_bytes = pv_size_bytes c,
          rc_files = files, rc_metadata_applied = (if pv_kind c = ''config'' then None else Some files),
          rc_created_volume = None, rc_previous_path = Some (volume_path c @ ''.dbr2-prev-4f2a'')\<rparr>)"

definition seed_rolled_back :: "int \<Rightarrow> (nat \<Rightarrow> string) \<Rightarrow> stored_rp \<Rightarrow> preview \<Rightarrow> stored_run" where
  "seed_rolled_back now rnd rp p =
     (let t0 = now - 2 * DAY
      in (seed_run rp p (rnd 0) t0 RolledBack (t0 + 3000) (t0 + 9 * MINUTE)
            ''INC-48391: orders table corrupted by failed migration'' ''ada@example.com'')
         \<lparr>rn_step := Some HealthCheck,
          rn_error := Some ''the restored application did not become healthy: shop-db-1 (exited/none)'',
          rn_result := Some
            \<lparr>rr_images = map (\<lambda>im. \<lparr>ri_ref = im_ref im, ri_digest = or_none (im_digest im), ri_status = ''present'', ri_error = None\<rparr>)
               (p_images p),
             rr_components = Some (map seed_rolled_part (p_components p)), rr_containers = None,
             rr_health = Some (False,
               [seed_health (rnd 1) ''shop-web-1'' ''running'' True, seed_health (rnd 2) ''shop-db-1'' ''exited'' False,
                seed_health (rnd 3) ''shop-worker-1'' ''running'' True]),
             rr_rolled_back = True\<rparr>\<rparr>)"

definition seed_succeeded :: "protection \<Rightarrow> int \<Rightarrow> (nat \<Rightarrow> string) \<Rightarrow> stored_rp \<Rightarrow> preview \<Rightarrow> stored_run" where
  "seed_succeeded q now rnd rp p =
     (let t0 = now - 26 * HOUR;
          r = seed_run rp p (rnd 0) t0 Succeeded (t0 + 1500) (t0 + 3 * MINUTE + 12000)
                ''Restore test for the quarterly DR report'' ''admin''
      in r\<lparr>rn_result := Some (successResult q (\<lambda>k. rnd (Suc k)) r)\<rparr>)"

text \<open>\<open>None\<close> is an exception while the module is loaded.\<close>

definition seed_restores :: "runtime \<Rightarrow> fleet \<Rightarrow> protection \<Rightarrow> int \<Rightarrow> (nat \<Rightarrow> string) \<Rightarrow> stored_run list option" where
  "seed_restores rt f q now rnd =
     (let shop = find (\<lambda>r. rp_application_name r = ''Web shop'' \<and> rp_state r = RpCommitted \<and> rp_status r = Some ''complete'')
                   (recovery_points q);
          mft = find (\<lambda>r. rp_application_name r = ''mft-pg'' \<and> rp_state r = RpCommitted) (recovery_points q)
      in case (shop, mft) of
           (Some srp, Some mrp) \<Rightarrow>
             (case (computePreview rt f (sub_draws rnd 0) shop
                      (JObj [(''target_host_id'', JStr HOST_DR), (''path_remaps'', JArr [shop_remap])]),
                    computePreview rt f (sub_draws rnd 1) shop (JObj []),
                    computePreview rt f (sub_draws rnd 2) mft (JObj [(''target_host_id'', JStr HOST_DR)])) of
                (Inr p1, Inr p2, Inr p3) \<Rightarrow>
                  Some [seed_failed now (sub_draws rnd 3 0) srp p1, seed_rolled_back now (sub_draws rnd 4) srp p2,
                        seed_succeeded q now (sub_draws rnd 5) mrp p3]
              | _ \<Rightarrow> None)
         | _ \<Rightarrow> Some [])"

section \<open>Requests and the timer\<close>

text \<open>What can happen: a request to a restore route, the timer, and requests to the other modules, which
  may change the recovery points in any way.\<close>

datatype restore_event =
  Request fleet ctx restore_route
| Timer int "nat \<Rightarrow> string"
| Elsewhere protection

fun restore_step_event ::
  "(string \<Rightarrow> captured list \<Rightarrow> contract_note option) \<Rightarrow> runtime \<Rightarrow> restore_event \<Rightarrow> rest_state \<Rightarrow> rest_state" where
  "restore_step_event capture rt (Request f c r) s = out_state (restore_handle capture rt f c r s)"
| "restore_step_event capture rt (Timer now rnd) s = (fst s, fst (advance_runs (fst s) now rnd 0 (snd s)))"
| "restore_step_event capture rt (Elsewhere q) s = (q, snd s)"

definition restore_events ::
  "(string \<Rightarrow> captured list \<Rightarrow> contract_note option) \<Rightarrow> runtime \<Rightarrow> restore_event list \<Rightarrow> rest_state \<Rightarrow> rest_state" where
  "restore_events capture rt evs s = fold (restore_step_event capture rt) evs s"

lemma restore_events_simps [simp]:
  "restore_events capture rt [] s = s"
  "restore_events capture rt (e # es) s = restore_events capture rt es (restore_step_event capture rt e s)"
  by (simp_all add: restore_events_def)

interpretation restore_service: guarded_service restore_permission "restore_handle capture rt f"
  by unfold_locales (simp add: restore_handle_def need_def)

end
