(* ===== verification/Live_Server.thy ===== *)
theory Live_Server
  imports Restore_Server Policy_Server
begin

text \<open>
  Fleet-wide views and user administration of the development server, \<^verbatim>\<open>scripts/mock-live.mjs\<close>: the
  protection status of an application, computed from its recovery points, its restores and the
  plan of its backup; the lists of jobs, containers and volumes; and users, roles and group
  mappings.

  The views only read the hosts and applications, the recovery points and the restore runs, which
  are arguments of the handlers. The state of the module is the directory of users and mappings.
  The roles of a request are kept as JSON values, since the check of the request lets values
  through that are not texts.
\<close>

section \<open>Protection status\<close>

datatype protection_status = Unprotected | BackupFailed | Protected | AtRisk

record component_status =
  cs_name :: string
  cs_kind :: string
  cs_required :: bool
  cs_protected :: bool
  cs_last_size_bytes :: nat

record protection_summary =
  ps_status :: protection_status
  ps_reasons :: "string list"
  ps_last_backup_at :: "int option"
  ps_last_recovery_point_id :: "string option"
  ps_last_mode :: "string option"
  ps_last_status :: "string option"
  ps_last_attempt_at :: "int option"
  ps_last_attempt_state :: "rp_state option"
  ps_last_error :: "string option"
  ps_running :: "string option"
  ps_components :: "component_status list"
  ps_components_total :: nat
  ps_components_protected :: nat
  ps_unresolved_dependencies :: nat

text \<open>The recovery points of an application, newest first.\<close>

definition rps_of :: "protection \<Rightarrow> string \<Rightarrow> stored_rp list" where
  "rps_of q aid =
     js_sort (\<lambda>a b. rp_created_at b \<le> rp_created_at a) (filter (\<lambda>r. rp_application_id r = aid) (recovery_points q))"

definition last_ok :: "protection \<Rightarrow> string \<Rightarrow> stored_rp option" where
  "last_ok q aid = find (\<lambda>r. rp_state r = RpCommitted) (rps_of q aid)"

definition last_attempt :: "protection \<Rightarrow> string \<Rightarrow> stored_rp option" where
  "last_attempt q aid =
     find (\<lambda>r. rp_state r \<noteq> RpMissing \<and> rp_state r \<noteq> RpDeleting \<and> rp_state r \<noteq> RpDeleted) (rps_of q aid)"

definition restoring :: "stored_run list \<Rightarrow> string \<Rightarrow> bool" where
  "restoring rns aid \<longleftrightarrow>
     list_ex (\<lambda>r. (rn_application_id r = aid \<or> rn_target_application_id r = Some aid) \<and>
                  (rn_state r = Requested \<or> rn_state r = Running)) rns"

text \<open>The map from names to captured components; a later component with the same name replaces an
  earlier one.\<close>

definition captured_in :: "stored_rp option \<Rightarrow> string \<Rightarrow> captured option" where
  "captured_in ok =
     map_of (rev (map (\<lambda>x. (mc_name x, x)) (filter (\<lambda>x. mc_status x = ''succeeded'')
       (case ok of Some r \<Rightarrow> (case rp_manifest r of Some m \<Rightarrow> mf_components m | None \<Rightarrow> []) | None \<Rightarrow> []))))"

definition coverage :: "stored_rp option \<Rightarrow> plan_item \<Rightarrow> component_status" where
  "coverage ok x =
     (let got = captured_in ok (pl_name x)
      in \<lparr>cs_name = pl_name x, cs_kind = pl_kind x, cs_required = pl_required x, cs_protected = got \<noteq> None,
          cs_last_size_bytes = (case got of Some g \<Rightarrow> (case mc_size_bytes g of Some n \<Rightarrow> n | None \<Rightarrow> 0) | None \<Rightarrow> 0)\<rparr>)"

definition verdict :: "stored_rp option \<Rightarrow> stored_rp option \<Rightarrow> nat \<Rightarrow> nat \<Rightarrow> protection_status \<times> string list" where
  "verdict ok attempt got planned =
     (let failed = (case attempt of Some a \<Rightarrow> rp_state a = RpFailed | None \<Rightarrow> False)
      in case ok of
           None \<Rightarrow>
             if failed then (BackupFailed, [''no backup has succeeded; the last attempt failed''])
             else (Unprotected, [''no recovery point exists''])
         | Some k \<Rightarrow>
             if failed \<and> rp_created_at (the attempt) > rp_created_at k then (BackupFailed, [''the last backup attempt failed''])
             else
               let partial = (rp_status k = Some ''partial''); gap = got < planned
               in (if partial \<or> gap then AtRisk else Protected,
                   (if partial then [''the latest recovery point is Partial''] else []) @
                   (if gap then [show_nat (planned - got) @ '' of '' @ show_nat planned @
                                 '' components are not in the latest recovery point''] else [])))"

text \<open>\<open>None\<close> is the exception of \<^verbatim>\<open>planFor\<close>.\<close>

definition protectionFor :: "protection \<Rightarrow> stored_run list \<Rightarrow> app \<Rightarrow> protection_summary option" where
  "protectionFor q rns a =
     (case planFor q (Some a) of
        None \<Rightarrow> None
      | Some plan \<Rightarrow>
          let ok = last_ok q (ap_id a); attempt = last_attempt q (ap_id a);
              cs = map (coverage ok) plan;
              got = length (filter cs_protected cs);
              unresolved = (case ap_analysis a of Some x \<Rightarrow> length (an_dependencies x) | None \<Rightarrow> 0);
              (status, reasons) = verdict ok attempt got (length cs)
          in Some \<lparr>ps_status = status,
                   ps_reasons =
                     (if ap_analysis a = None then [''the application is missing from its host'' @ [SQ] @ ''s latest inventory''] else []) @
                     reasons @
                     (if unresolved > 0 then [show_nat unresolved @ '' external dependencies are not protected by DBR'' @ [CHR 0xC2, CHR 0xB2]] else []),
                   ps_last_backup_at = Option.bind ok rp_committed_at,
                   ps_last_recovery_point_id = map_option rp_id ok,
                   ps_last_mode = map_option rp_consistency_mode ok,
                   ps_last_status = or_none (Option.bind ok rp_status),
                   ps_last_attempt_at = map_option rp_created_at attempt,
                   ps_last_attempt_state = map_option rp_state attempt,
                   ps_last_error = or_none (Option.bind attempt rp_error),
                   ps_running =
                     (if restoring rns (ap_id a) then Some ''restore''
                      else if map_option rp_state attempt = Some RpPending then Some ''backup'' else None),
                   ps_components = cs, ps_components_total = length cs, ps_components_protected = got,
                   ps_unresolved_dependencies = unresolved\<rparr>)"

section \<open>Jobs, containers, volumes\<close>

record job =
  jb_id :: string
  jb_type :: string
  jb_application_id :: string
  jb_application_name :: string
  jb_hostname :: string
  jb_state :: string
  jb_detail :: string
  jb_trigger :: string
  jb_requested_by :: "string option"
  jb_error :: "string option"
  jb_size_bytes :: "nat option"
  jb_started_at :: int
  jb_finished_at :: "int option"

definition backupJob :: "stored_rp \<Rightarrow> job" where
  "backupJob r =
     (let captured = (rp_state r = RpCommitted \<or> rp_state r = RpDeleting \<or> rp_state r = RpDeleted)
      in \<lparr>jb_id = rp_id r, jb_type = ''backup'', jb_application_id = rp_application_id r,
          jb_application_name = rp_application_name r, jb_hostname = rp_hostname r,
          jb_state =
            (if captured then (if rp_status r = Some ''partial'' then ''partial'' else ''succeeded'')
             else if rp_state r = RpPending then ''running''
             else if rp_state r = RpMissing then ''missing'' else ''failed''),
          jb_detail = rp_consistency_mode r, jb_trigger = rp_trigger r, jb_requested_by = None, jb_error = or_none (rp_error r),
          jb_size_bytes = (if rp_size_bytes r = 0 then None else Some (rp_size_bytes r)),
          jb_started_at = rp_created_at r,
          jb_finished_at =
            (case rp_committed_at r of
               Some t \<Rightarrow> Some t
             | None \<Rightarrow> if rp_state r = RpFailed then Some (rp_created_at r) else None)\<rparr>)"

fun restore_job_state :: "restore_state \<Rightarrow> string" where
  "restore_job_state Requested = ''running''"
| "restore_job_state Running = ''running''"
| "restore_job_state Succeeded = ''succeeded''"
| "restore_job_state Failed = ''failed''"
| "restore_job_state RolledBack = ''rolled_back''"

definition restoreJob :: "stored_run \<Rightarrow> job" where
  "restoreJob r =
     \<lparr>jb_id = rn_id r, jb_type = ''restore'', jb_application_id = rn_application_id r,
      jb_application_name = rn_application_name r, jb_hostname = rn_target_hostname r,
      jb_state = restore_job_state (rn_state r),
      jb_detail =
        (case rn_step r of
           Some x \<Rightarrow> step_id x
         | None \<Rightarrow> if rn_mode r = ''alternate_host'' then ''alternate host'' else ''in place''),
      jb_trigger = ''manual'', jb_requested_by = Some (rn_requested_by r), jb_error = or_none (rn_error r),
      jb_size_bytes = None,
      jb_started_at = (case rn_started_at r of Some t \<Rightarrow> t | None \<Rightarrow> rn_created_at r),
      jb_finished_at = rn_finished_at r\<rparr>"

record container_row =
  cw_id :: string
  cw_name :: string
  cw_image :: string
  cw_state :: string
  cw_host_id :: string
  cw_hostname :: string
  cw_application_id :: "string option"
  cw_application_name :: "string option"
  cw_ports :: "port list option"
  cw_mounts :: nat
  cw_networks :: "string list"
  cw_created :: int
  cw_restart_policy :: string

definition app_containers :: "int \<Rightarrow> fleet \<Rightarrow> app \<Rightarrow> container_row list" where
  "app_containers now f a =
     (if ap_missing_since a \<noteq> None then []
      else map (\<lambda>x. \<lparr>cw_id = cd_id x, cw_name = cd_name x, cw_image = cd_image x, cw_state = cd_state x,
                     cw_host_id = ap_host_id a, cw_hostname = hostname_of f (ap_host_id a),
                     cw_application_id = Some (ap_id a), cw_application_name = Some (appName a),
                     cw_ports = Some (cd_ports x), cw_mounts = length (cd_mounts x), cw_networks = cd_networks x,
                     cw_created = now - 3 * DAY,
                     cw_restart_policy = (if ap_kind a = ''compose'' then ''unless-stopped'' else ''always'')\<rparr>)
             (ap_containers_detail a))"

text \<open>The rows at the end belong to the first host; without a host the handler raises (\<open>None\<close>).\<close>

definition containers :: "int \<Rightarrow> fleet \<Rightarrow> container_row list option" where
  "containers now f =
     (case agents f of
        [] \<Rightarrow> None
      | h # hs \<Rightarrow> Some (concat (map (app_containers now f) (apps f)) @
          [\<lparr>cw_id = ''b1c2d3e4f5a60718293a4b5c6d7e8f90a1b2c3d4e5f60718293a4b5c6d7e8f9'', cw_name = ''db-migrate-oneoff'',
            cw_image = ''registry.example.com/shop/web:2.4.1'', cw_state = ''exited'', cw_host_id = ag_id h,
            cw_hostname = ag_hostname h, cw_application_id = None, cw_application_name = None, cw_ports = None,
            cw_mounts = 0, cw_networks = [''shop_default''], cw_created = now - 12 * DAY, cw_restart_policy = ''no''\<rparr>]))"

record volume_row =
  vr_name :: string
  vr_driver :: string
  vr_host_id :: string
  vr_hostname :: string
  vr_class :: string
  vr_application_id :: "string option"
  vr_application_name :: "string option"
  vr_used_by :: "string list option"
  vr_protected :: bool
  vr_last_backup_at :: "int option"
  vr_last_size_bytes :: nat

definition latest_committed :: "protection \<Rightarrow> string \<Rightarrow> stored_rp option" where
  "latest_committed q aid =
     (case js_sort (\<lambda>a b. rp_created_at b \<le> rp_created_at a)
             (filter (\<lambda>r. rp_application_id r = aid \<and> rp_state r = RpCommitted) (recovery_points q)) of
        [] \<Rightarrow> None | r # rs \<Rightarrow> Some r)"

definition volume_component :: "stored_rp option \<Rightarrow> volume \<Rightarrow> captured option" where
  "volume_component latest v =
     Option.bind (Option.bind latest rp_manifest) (\<lambda>m.
       find (\<lambda>x. mc_name x = ''volume:'' @ vo_name v \<and> mc_status x = ''succeeded'') (mf_components m))"

definition volume_view :: "fleet \<Rightarrow> app \<Rightarrow> stored_rp option \<Rightarrow> volume \<Rightarrow> volume_row" where
  "volume_view f a latest v =
     (let k = volume_component latest v
      in \<lparr>vr_name = vo_name v, vr_driver = vo_driver v, vr_host_id = ap_host_id a,
          vr_hostname = hostname_of f (ap_host_id a), vr_class = vo_class v,
          vr_application_id = Some (ap_id a), vr_application_name = Some (appName a),
          vr_used_by = Some (vo_used_by v), vr_protected = k \<noteq> None,
          vr_last_backup_at = (if k \<noteq> None then Option.bind latest rp_committed_at else None),
          vr_last_size_bytes = (case Option.bind k mc_size_bytes of Some n \<Rightarrow> n | None \<Rightarrow> 0)\<rparr>)"

definition app_volumes :: "protection \<Rightarrow> fleet \<Rightarrow> app \<Rightarrow> volume_row list" where
  "app_volumes q f a =
     (case ap_analysis a of
        None \<Rightarrow> []
      | Some x \<Rightarrow> map (volume_view f a (latest_committed q (ap_id a))) (analysis.an_volumes x))"

definition volumes :: "protection \<Rightarrow> fleet \<Rightarrow> volume_row list option" where
  "volumes q f =
     (case agents f of
        [] \<Rightarrow> None
      | h # hs \<Rightarrow> Some (concat (map (app_volumes q f) (apps f)) @
          [\<lparr>vr_name = ''shop_pgdata_old'', vr_driver = ''local'', vr_host_id = ag_id h, vr_hostname = ag_hostname h,
            vr_class = ''unused'', vr_application_id = None, vr_application_name = None, vr_used_by = None,
            vr_protected = False, vr_last_backup_at = None, vr_last_size_bytes = 0\<rparr>]))"

section \<open>Users, roles, group mappings\<close>

definition ALL_PERMISSIONS :: "string list" where
  "ALL_PERMISSIONS =
     [''host.read'', ''host.manage'', ''application.read'', ''application.manage'', ''backup.read'', ''backup.execute'',
      ''backup.delete'', ''restore.read'', ''restore.execute'', ''restore.production'', ''repository.read'',
      ''repository.manage'', ''policy.read'', ''policy.manage'', ''audit.read'', ''secrets.read'', ''user.read'', ''user.manage'']"

definition readAll :: "string list" where
  "readAll = [''host.read'', ''application.read'', ''backup.read'', ''restore.read'', ''repository.read'', ''policy.read'']"

record role =
  ro_role :: string
  ro_display_name :: string
  ro_description :: string
  ro_permissions :: "string list"

definition roles :: "role list" where
  "roles =
     [\<lparr>ro_role = ''administrator'', ro_display_name = ''Administrator'',
       ro_description = ''Full control of DBR'' @ [CHR 0xC2, CHR 0xB2] @ '', including users, secrets and production restores.'',
       ro_permissions = ALL_PERMISSIONS\<rparr>,
      \<lparr>ro_role = ''application_operator'', ro_display_name = ''Application Operator'',
       ro_description = ''Backs up and restores applications (delegated per application in v2).'',
       ro_permissions = [''application.read'', ''backup.read'', ''backup.execute'', ''restore.read'', ''restore.execute'']\<rparr>,
      \<lparr>ro_role = ''auditor'', ro_display_name = ''Auditor'',
       ro_description = ''Read-only access to everything including the audit log and users.'',
       ro_permissions = readAll @ [''audit.read'', ''user.read'']\<rparr>,
      \<lparr>ro_role = ''backup_administrator'', ro_display_name = ''Backup Administrator'',
       ro_description = ''Manages hosts, applications, policies, repositories and backups; may run production restores.'',
       ro_permissions =
         [''host.read'', ''host.manage'', ''application.read'', ''application.manage'', ''backup.read'', ''backup.execute'',
          ''backup.delete'', ''restore.read'', ''restore.execute'', ''restore.production'', ''repository.read'',
          ''repository.manage'', ''policy.read'', ''policy.manage'', ''audit.read'']\<rparr>,
      \<lparr>ro_role = ''read_only'', ro_display_name = ''Read Only'',
       ro_description = ''Read-only access to inventory and protection state.'', ro_permissions = readAll\<rparr>,
      \<lparr>ro_role = ''restore_operator'', ro_display_name = ''Restore Operator'',
       ro_description = ''Runs non-production restores and reviews recovery points.'',
       ro_permissions = readAll @ [''restore.execute'']\<rparr>]"

definition known_role :: "json option \<Rightarrow> bool" where
  "known_role v \<longleftrightarrow> list_ex (\<lambda>x. v = Some (JStr (ro_role x))) roles"

definition permissionsOf :: "string list \<Rightarrow> string list" where
  "permissionsOf names =
     js_sort text_le (nub (concat (map (\<lambda>r. case find (\<lambda>x. ro_role x = r) roles of
        Some x \<Rightarrow> ro_permissions x | None \<Rightarrow> []) names)))"

datatype role_source = ByMasterAdmin | ByGroup | Manual

record account =
  us_id :: string
  us_kind :: user_kind
  us_username :: string
  us_display_name :: string
  us_email :: "string option"
  us_disabled :: bool
  us_last_login_at :: int
  us_roles :: "(json \<times> role_source) list"

record group_mapping =
  gm_provider :: json
  gm_group_id :: string
  gm_role :: string

record directory =
  users :: "account list"
  group_mappings :: "group_mapping list"

definition seed_directory :: "int \<Rightarrow> directory" where
  "seed_directory now =
     \<lparr>users =
        [\<lparr>us_id = ''00000000-0000-0000-0000-000000000001'', us_kind = MasterAdmin, us_username = ''admin'',
          us_display_name = ''Master Admin'', us_email = None, us_disabled = False, us_last_login_at = now - 5 * MINUTE,
          us_roles = [(JStr ''administrator'', ByMasterAdmin)]\<rparr>,
         \<lparr>us_id = ''7d1f6c1e-5b8a-4c35-9d0e-6a3b2b8f1a10'', us_kind = Oidc, us_username = ''ada@example.com'',
          us_display_name = ''Ada Lovelace'', us_email = Some ''ada@example.com'', us_disabled = False,
          us_last_login_at = now - 2 * HOUR, us_roles = [(JStr ''restore_operator'', ByGroup)]\<rparr>,
         \<lparr>us_id = ''2c3d4e5f-6a7b-4c8d-9e0f-1a2b3c4d5e6f'', us_kind = Oidc, us_username = ''linus@example.com'',
          us_display_name = ''Linus Torvalds'', us_email = Some ''linus@example.com'', us_disabled = False,
          us_last_login_at = now - DAY, us_roles = [(JStr ''backup_administrator'', ByGroup), (JStr ''auditor'', Manual)]\<rparr>,
         \<lparr>us_id = ''3d4e5f6a-7b8c-4d9e-8f0a-2b3c4d5e6f7a'', us_kind = Oidc, us_username = ''mallory@example.com'',
          us_display_name = ''Mallory Example'', us_email = Some ''mallory@example.com'', us_disabled = True,
          us_last_login_at = now - 20 * DAY, us_roles = [(JStr ''read_only'', Manual)]\<rparr>],
      group_mappings =
        [\<lparr>gm_provider = JStr ''entra'', gm_group_id = ''4f0c2b1a-9d8e-4c7b-a6f5-e4d3c2b1a090'', gm_role = ''backup_administrator''\<rparr>,
         \<lparr>gm_provider = JStr ''entra'', gm_group_id = ''8a7b6c5d-4e3f-4a2b-9c1d-0e9f8a7b6c5d'', gm_role = ''restore_operator''\<rparr>]\<rparr>"

section \<open>Routes\<close>

datatype live_route =
  GetJobs "string option" "string option" "string option" "rat option option"
| GetContainers "string option"
| GetVolumes "string option"
| GetUsers
| GetRoles
| PutUserRoles string json
| PutUserStatus string json
| GetMappings
| PostMapping json
| RemoveMapping json

datatype live_body =
  Jobs "job list"
| Containers "container_row list"
| Volumes "volume_row list"
| Users "account list"
| Roles "role list"
| Mappings "group_mapping list"

type_synonym live_outcome = "(live_body, directory) outcome"

definition job_items :: "protection \<Rightarrow> stored_run list \<Rightarrow> bool \<Rightarrow> string option \<Rightarrow> job list" where
  "job_items q rns reader type =
     (if type = Some ''restore'' then [] else map backupJob (recovery_points q)) @
     (if type = Some ''backup'' \<or> \<not> reader then [] else map restoreJob rns)"

definition job_wanted :: "string option \<Rightarrow> string option \<Rightarrow> job \<Rightarrow> bool" where
  "job_wanted app state j \<longleftrightarrow>
     (case or_none app of None \<Rightarrow> True | Some x \<Rightarrow> jb_application_id j = x) \<and>
     (case or_none state of None \<Rightarrow> True | Some x \<Rightarrow> jb_state j = x)"

definition get_jobs ::
  "protection \<Rightarrow> stored_run list \<Rightarrow> ctx \<Rightarrow> string option \<Rightarrow> string option \<Rightarrow> string option \<Rightarrow> rat option option \<Rightarrow>
   directory \<Rightarrow> live_outcome" where
  "get_jobs q rns c app type state limit d =
     (let reader = ''restore.read'' \<in> set (u_permissions (c_user c))
      in if or_none type \<notin> {None, Some ''backup'', Some ''restore''} then
           answer (Invalid ''type must be backup or restore'' ''query.type'') d
         else if type = Some ''restore'' \<and> \<not> reader then answer (forbidden ''restore.read'') d
         else answer (Send 200 (Jobs (take (page_limit limit 100 500)
                (js_sort (\<lambda>a b. jb_started_at b \<le> jb_started_at a)
                  (filter (job_wanted app state) (job_items q rns reader type)))))) d)"

definition host_rows :: "('x \<Rightarrow> string) \<Rightarrow> string option \<Rightarrow> 'x list option \<Rightarrow> ('x list \<Rightarrow> live_body) \<Rightarrow> live_body reply" where
  "host_rows host_of host rows body =
     (case rows of
        None \<Rightarrow> internal_error
      | Some xs \<Rightarrow> Send 200 (body (filter (\<lambda>x. case or_none host of None \<Rightarrow> True | Some h \<Rightarrow> host_of x = h) xs)))"

text \<open>\<^verbatim>\<open>[...new Set(xs)]\<close> on parsed JSON: values that are not objects or arrays are equal if they
  look equal, and every object or array is a value of its own.\<close>

fun composite :: "json \<Rightarrow> bool" where
  "composite (JArr xs) = True"
| "composite (JObj fs) = True"
| "composite _ = False"

fun js_unique :: "json list \<Rightarrow> json list" where
  "js_unique [] = []"
| "js_unique (x # xs) = x # filter (\<lambda>y. composite y \<or> y \<noteq> x) (js_unique xs)"

definition reason_bad :: "json \<Rightarrow> bool" where
  "reason_bad b \<longleftrightarrow> trimmed_field b ''reason'' = [] \<or> length (trimmed_field b ''reason'') > 500"

definition account_audit :: "ctx \<Rightarrow> string \<Rightarrow> account \<Rightarrow> json \<Rightarrow> effect" where
  "account_audit c action u b = audit_by c action ''user'' (us_id u) (Some (trimmed_field b ''reason''))"

definition manual_admin :: "account \<Rightarrow> bool" where
  "manual_admin u \<longleftrightarrow> (JStr ''administrator'', Manual) \<in> set (us_roles u)"

definition grant :: "json list \<Rightarrow> account \<Rightarrow> account" where
  "grant names u =
     u\<lparr>us_roles := filter (\<lambda>(r, source). source \<noteq> Manual) (us_roles u) @ map (\<lambda>r. (r, Manual)) (js_unique names)\<rparr>"

definition update_user :: "string \<Rightarrow> (account \<Rightarrow> account) \<Rightarrow> directory \<Rightarrow> directory" where
  "update_user i g d = d\<lparr>users := update_first (\<lambda>x. us_id x = i) g (users d)\<rparr>"

definition put_user_roles :: "runtime \<Rightarrow> ctx \<Rightarrow> string \<Rightarrow> json \<Rightarrow> directory \<Rightarrow> live_outcome" where
  "put_user_roles rt c i b d =
     (case find (\<lambda>x. us_id x = i) (users d) of
        None \<Rightarrow> answer (not_found ''user not found'') d
      | Some u \<Rightarrow>
          let names = array_field b ''roles''; bad = find (\<lambda>r. \<not> known_role (Some r)) names
          in if reason_bad b then answer (Invalid ''reason must be 1-500 characters'' ''body.reason'') d
             else if truthy bad then answer (Invalid (''unknown role '' @ shown rt (the bad)) ''body.roles'') d
             else if us_kind u = MasterAdmin then
               answer (Invalid (''the master admin'' @ [SQ] @ ''s roles cannot be changed'') ''path.id'') d
             else if us_id u = u_id (c_user c) \<and> JStr ''administrator'' \<notin> set names \<and> manual_admin u then
               answer (Invalid ''you cannot remove your own administrator role'' ''body.roles'') d
             else (SendEmpty 204, [account_audit c ''user.roles_changed'' u b], update_user i (grant names) d))"

definition put_user_status :: "ctx \<Rightarrow> string \<Rightarrow> json \<Rightarrow> directory \<Rightarrow> live_outcome" where
  "put_user_status c i b d =
     (case find (\<lambda>x. us_id x = i) (users d) of
        None \<Rightarrow> answer (not_found ''user not found'') d
      | Some u \<Rightarrow>
          if reason_bad b then answer (Invalid ''reason must be 1-500 characters'' ''body.reason'') d
          else
            case jfield b ''disabled'' of
              Some (JBool v) \<Rightarrow>
                if us_kind u = MasterAdmin then answer (Invalid ''the master admin cannot be disabled'' ''path.id'') d
                else (SendEmpty 204, [account_audit c (if v then ''user.disabled'' else ''user.enabled'') u b],
                      update_user i (\<lambda>x. x\<lparr>us_disabled := v\<rparr>) d)
            | _ \<Rightarrow> answer (Invalid ''disabled must be a boolean'' ''body.disabled'') d)"

text \<open>\<^verbatim>\<open>g.provider === b.provider\<close>, where the left side was stored by an earlier request.\<close>

definition same_value :: "json \<Rightarrow> json option \<Rightarrow> bool" where
  "same_value x y \<longleftrightarrow> y = Some x \<and> \<not> composite x"

definition same_mapping :: "json \<Rightarrow> json option \<Rightarrow> group_mapping \<Rightarrow> bool" where
  "same_mapping b gid g \<longleftrightarrow>
     same_value (gm_provider g) (jfield b ''provider'') \<and> gid = Some (JStr (gm_group_id g)) \<and>
     jfield b ''role'' = Some (JStr (gm_role g))"

definition post_mapping :: "runtime \<Rightarrow> ctx \<Rightarrow> json \<Rightarrow> directory \<Rightarrow> live_outcome" where
  "post_mapping rt c b d =
     (let gid = trimmed_field b ''group_id''; role = jfield b ''role''; provider = jfield b ''provider''
      in if gid = [] \<or> length gid > 256 then answer (Invalid ''group_id must be 1-256 characters'' ''body.group_id'') d
         else if \<not> known_role role then
           answer (Invalid (''unknown role '' @ (case role of Some v \<Rightarrow> shown rt v | None \<Rightarrow> ''undefined'')) ''body.role'') d
         else
           (SendEmpty 204, [audit_by c ''oidc.group_mapping_added'' ''group_mapping'' gid None],
            if list_ex (same_mapping b (Some (JStr gid))) (group_mappings d) then d
            else d\<lparr>group_mappings := group_mappings d @
                   [\<lparr>gm_provider = (if truthy provider then the provider else JStr ''entra''), gm_group_id = gid,
                     gm_role = json_text role\<rparr>]\<rparr>))"

definition remove_mapping :: "ctx \<Rightarrow> json \<Rightarrow> directory \<Rightarrow> live_outcome" where
  "remove_mapping c b d =
     (let same = same_mapping b (jfield b ''group_id'')
      in if \<not> list_ex same (group_mappings d) then answer (not_found ''mapping not found'') d
         else (SendEmpty 204,
               [audit_by c ''oidc.group_mapping_removed'' ''group_mapping'' (json_text (jfield b ''group_id'')) None],
               d\<lparr>group_mappings := remove_first same (group_mappings d)\<rparr>))"

fun live_permission :: "live_route \<Rightarrow> string" where
  "live_permission (GetJobs a t st l) = ''backup.read''"
| "live_permission (GetContainers h) = ''host.read''"
| "live_permission (GetVolumes h) = ''host.read''"
| "live_permission GetUsers = ''user.read''"
| "live_permission GetRoles = ''user.read''"
| "live_permission (PutUserRoles i b) = ''user.manage''"
| "live_permission (PutUserStatus i b) = ''user.manage''"
| "live_permission GetMappings = ''user.read''"
| "live_permission (PostMapping b) = ''user.manage''"
| "live_permission (RemoveMapping b) = ''user.manage''"

fun live_action ::
  "runtime \<Rightarrow> fleet \<Rightarrow> protection \<Rightarrow> stored_run list \<Rightarrow> ctx \<Rightarrow> live_route \<Rightarrow> directory \<Rightarrow> live_outcome" where
  "live_action rt f q rns c (GetJobs a t st l) d = get_jobs q rns c a t st l d"
| "live_action rt f q rns c (GetContainers h) d = answer (host_rows cw_host_id h (containers (c_now c) f) Containers) d"
| "live_action rt f q rns c (GetVolumes h) d = answer (host_rows vr_host_id h (volumes q f) Volumes) d"
| "live_action rt f q rns c GetUsers d = answer (Send 200 (Users (users d))) d"
| "live_action rt f q rns c GetRoles d = answer (Send 200 (Roles roles)) d"
| "live_action rt f q rns c (PutUserRoles i b) d = put_user_roles rt c i b d"
| "live_action rt f q rns c (PutUserStatus i b) d = put_user_status c i b d"
| "live_action rt f q rns c GetMappings d = answer (Send 200 (Mappings (group_mappings d))) d"
| "live_action rt f q rns c (PostMapping b) d = post_mapping rt c b d"
| "live_action rt f q rns c (RemoveMapping b) d = remove_mapping c b d"

definition live_handle ::
  "runtime \<Rightarrow> fleet \<Rightarrow> protection \<Rightarrow> stored_run list \<Rightarrow> ctx \<Rightarrow> live_route \<Rightarrow> directory \<Rightarrow> live_outcome" where
  "live_handle rt f q rns c r d = need c (live_permission r) d (live_action rt f q rns c r d)"

interpretation live_service: guarded_service live_permission "live_handle rt f q rns"
  for rt f q rns
  by unfold_locales (simp add: live_handle_def need_def)

section \<open>The newest recovery point\<close>

lemma find_filter: "find P xs = (case filter P xs of [] \<Rightarrow> None | x # ys \<Rightarrow> Some x)"
  by (induction xs) auto

lemma newest_first:
  "sorted_wrt (\<lambda>a b. rp_created_at b \<le> rp_created_at a) (js_sort (\<lambda>a b. rp_created_at b \<le> rp_created_at a) (rs :: stored_rp list))"
  by (rule js_sort_sorted_wrt) (auto simp: transp_on_def totalp_on_def reflp_on_def)

definition newest :: "(stored_rp \<Rightarrow> bool) \<Rightarrow> protection \<Rightarrow> string \<Rightarrow> stored_rp \<Rightarrow> bool" where
  "newest P q aid r \<longleftrightarrow>
     r \<in> set (recovery_points q) \<and> rp_application_id r = aid \<and> P r \<and>
     (\<forall>x \<in> set (recovery_points q). rp_application_id x = aid \<and> P x \<longrightarrow> rp_created_at x \<le> rp_created_at r)"

lemma find_sorted_wrt: "sorted_wrt R xs \<Longrightarrow> find P xs = Some x \<Longrightarrow> y \<in> set xs \<Longrightarrow> P y \<Longrightarrow> x = y \<or> R x y"
  by (induction xs) (auto split: if_splits)

lemma find_newest: "find P (rps_of q aid) = Some r \<Longrightarrow> newest P q aid r"
proof -
  assume r: "find P (rps_of q aid) = Some r"
  then have "P r" "r \<in> set (rps_of q aid)" by (auto simp: find_Some_iff)
  then show ?thesis
    using find_sorted_wrt [OF newest_first r [unfolded rps_of_def]] by (fastforce simp: newest_def rps_of_def)
qed

text \<open>With distinct times of creation, \<^verbatim>\<open>find\<close> on the sorted list is the newest one.\<close>

definition distinct_times :: "protection \<Rightarrow> string \<Rightarrow> bool" where
  "distinct_times q aid \<longleftrightarrow> inj_on rp_created_at {r \<in> set (recovery_points q). rp_application_id r = aid}"

lemma find_newest_iff:
  assumes "distinct_times q aid"
  shows "find P (rps_of q aid) = Some r \<longleftrightarrow> newest P q aid r"
proof
  assume n: "newest P q aid r"
  then have "r \<in> set (rps_of q aid)" "P r" by (auto simp: newest_def rps_of_def)
  then obtain x where x: "find P (rps_of q aid) = Some x" by (cases "find P (rps_of q aid)") (auto simp: find_None_iff)
  have "newest P q aid x" by (rule find_newest [OF x])
  with n have "rp_created_at x = rp_created_at r" by (force simp: newest_def)
  with n \<open>newest P q aid x\<close> assms have "x = r" by (auto simp: newest_def distinct_times_def dest: inj_onD)
  with x show "find P (rps_of q aid) = Some r" by simp
qed (rule find_newest)

lemma find_no_newest: "find P (rps_of q aid) = None \<longleftrightarrow> \<not> (\<exists>r \<in> set (recovery_points q). rp_application_id r = aid \<and> P r)"
  by (auto simp: find_None_iff rps_of_def)

definition captures :: "stored_rp \<Rightarrow> string \<Rightarrow> bool" where
  "captures r n \<longleftrightarrow>
     (case rp_manifest r of
        None \<Rightarrow> False | Some m \<Rightarrow> list_ex (\<lambda>x. mc_name x = n \<and> mc_status x = ''succeeded'') (mf_components m))"

lemma captured_in_iff: "captured_in (Some r) n = None \<longleftrightarrow> \<not> captures r n"
  by (cases "rp_manifest r") (auto simp: captured_in_def captures_def map_of_eq_None_iff image_iff list_ex_iff)

lemma coverage_protected: "cs_protected (coverage (Some r) x) \<longleftrightarrow> captures r (pl_name x)"
  by (simp add: coverage_def Let_def captured_in_iff del: not_None_eq)

lemma filter_all_length: "length (filter P xs) < length xs \<longleftrightarrow> \<not> list_all P xs"
  by (cases "list_all P xs") (auto simp: list_all_iff intro: length_filter_less)

abbreviation (input) committed :: "stored_rp \<Rightarrow> bool" where
  "committed r \<equiv> rp_state r = RpCommitted"

abbreviation (input) attempted :: "stored_rp \<Rightarrow> bool" where
  "attempted r \<equiv> rp_state r = RpPending \<or> rp_state r = RpCommitted \<or> rp_state r = RpFailed"

lemma last_attempt_attempted: "last_attempt q aid = find (\<lambda>r. attempted r) (rps_of q aid)"
proof -
  have "(\<lambda>r. rp_state r \<noteq> RpMissing \<and> rp_state r \<noteq> RpDeleting \<and> rp_state r \<noteq> RpDeleted) = (\<lambda>r :: stored_rp. attempted r)"
    by (rule ext) (metis rp_state.exhaust rp_state.distinct)
  then show ?thesis unfolding last_attempt_def by (rule arg_cong)
qed

text \<open>C16: What the protection status of an application means. With distinct times of creation and with
  \<open>plan\<close> what a backup of the application captures: it is \<open>Protected\<close> exactly if its newest
  committed recovery point is complete and captured every component of the plan, and no failed
  backup is newer; \<open>AtRisk\<close> exactly if there is such a recovery point that is partial or misses a
  component; \<open>BackupFailed\<close> exactly if its newest attempt failed; and \<open>Unprotected\<close> exactly if no
  recovery point is committed and the newest attempt, if any, did not fail.\<close>

theorem protection_status_meaning:
  assumes "protectionFor q rns a = Some p" "planFor q (Some a) = Some plan" "distinct_times q (ap_id a)"
  shows "let failed = (\<exists>t. newest (\<lambda>r. attempted r) q (ap_id a) t \<and> rp_state t = RpFailed);
             good = (\<lambda>k. rp_status k \<noteq> Some ''partial'' \<and> (\<forall>x \<in> set plan. captures k (pl_name x)))
         in (ps_status p = Protected \<longleftrightarrow> \<not> failed \<and> (\<exists>k. newest (\<lambda>r. committed r) q (ap_id a) k \<and> good k)) \<and>
            (ps_status p = AtRisk \<longleftrightarrow> \<not> failed \<and> (\<exists>k. newest (\<lambda>r. committed r) q (ap_id a) k \<and> \<not> good k)) \<and>
            (ps_status p = BackupFailed \<longleftrightarrow> failed) \<and>
            (ps_status p = Unprotected \<longleftrightarrow>
               \<not> failed \<and> \<not> (\<exists>k \<in> set (recovery_points q). rp_application_id k = ap_id a \<and> committed k))"
proof -
  let ?ok = "last_ok q (ap_id a)" and ?att = "last_attempt q (ap_id a)"
  let ?cs = "map (coverage ?ok) plan"
  have status: "ps_status p = fst (verdict ?ok ?att (length (filter cs_protected ?cs)) (length ?cs))"
    using assms(1,2) by (auto simp: protectionFor_def Let_def case_prod_beta)
  have ok: "?ok = Some k \<longleftrightarrow> newest (\<lambda>r. committed r) q (ap_id a) k" for k
    unfolding last_ok_def by (rule find_newest_iff [OF assms(3)])
  have att: "?att = Some t \<longleftrightarrow> newest (\<lambda>r. attempted r) q (ap_id a) t" for t
    unfolding last_attempt_attempted by (rule find_newest_iff [OF assms(3)])
  have none: "?ok = None \<longleftrightarrow> \<not> (\<exists>k \<in> set (recovery_points q). rp_application_id k = ap_id a \<and> committed k)"
    unfolding last_ok_def by (rule find_no_newest)
  have later: "rp_created_at t > rp_created_at k" if "?ok = Some k" "?att = Some t" "rp_state t = RpFailed" for k t
  proof -
    from that have "rp_created_at k \<le> rp_created_at t" "k \<in> set (recovery_points q)" "t \<in> set (recovery_points q)" "k \<noteq> t"
      "rp_application_id k = ap_id a" "rp_application_id t = ap_id a"
      unfolding ok att by (auto simp: newest_def)
    with assms(3) show ?thesis by (auto simp: distinct_times_def order_le_less dest: inj_onD)
  qed
  show ?thesis
  proof (cases ?ok)
    case None
    then show ?thesis unfolding Let_def ok [symmetric] att [symmetric] none [symmetric]
      by (cases ?att) (auto simp: status verdict_def Let_def)
  next
    case (Some k)
    then have "length (filter cs_protected ?cs) < length ?cs \<longleftrightarrow> \<not> (\<forall>x \<in> set plan. captures k (pl_name x))"
      unfolding filter_all_length by (auto simp: list_all_iff coverage_protected)
    with Some later [OF Some] show ?thesis
      unfolding Let_def ok [symmetric] att [symmetric] none [symmetric] by (cases ?att) (auto simp: status verdict_def Let_def)
  qed
qed

definition small_volume :: volume where
  "small_volume = \<lparr>vo_name = ''v'', vo_driver = ''local'', vo_mountpoint = ''/v'', vo_class = ''local'', vo_external = False,
     vo_anonymous = False, vo_protected_by_default = True, vo_used_by = []\<rparr>"

definition small_app :: app where
  "small_app = as_app (simpleContainerApp 0 [] ''a'' ''h'' ''shop'' ''img'' [] [] [] [] [small_volume] [])"

definition small_rp :: stored_rp where
  "small_rp = (let r = rp_base 0 [] ''a'' ''shop'' ''h'' ''host'' RpCommitted
     in r\<lparr>rp_manifest := Some (simpleManifest 0 (\<lambda>k. []) r ''shop'' ''v'')\<rparr>)"

lemma small_plan:
  "planFor (sample_protection\<lparr>recovery_points := [small_rp]\<rparr>) (Some small_app) =
     Some (map (\<lambda>x. x\<lparr>pl_size := if pl_kind x = ''config'' then 48213 else sizeFor (pl_name x)\<rparr>)
       [plan_entry ''config'' ''config'' [] None, plan_entry ''volume:v'' ''volume'' ''/v'' (Some ''v'')])"
  by (simp add: planFor_def small_app_def as_app_def app_base.extend_def simpleContainerApp_def plan_candidates_def
      plan_entry_def empty_analysis_def settings_of_def sample_protection_def defaultSettings_def small_volume_def)

lemma small_rp_facts:
  "rp_application_id small_rp = ap_id small_app" "rp_state small_rp = RpCommitted" "rp_status small_rp = None"
  "captures small_rp ''config''" "captures small_rp ''volume:v''"
  by (simp_all add: small_rp_def small_app_def rp_base_def as_app_def app_base.extend_def simpleContainerApp_def captures_def
      simpleManifest_def comp_entry_def Let_def)

theorem protection_status_meaning_witness:
  "\<exists>p. protectionFor (sample_protection\<lparr>recovery_points := [small_rp]\<rparr>) [] small_app = Some p \<and> ps_status p = Protected"
proof -
  let ?q = "sample_protection\<lparr>recovery_points := [small_rp]\<rparr>"
  have "protectionFor ?q [] small_app \<noteq> None" using small_plan by (simp add: protectionFor_def Let_def case_prod_beta)
  then obtain p where p: "protectionFor ?q [] small_app = Some p" by blast
  have "newest P ?q (ap_id small_app) r \<longleftrightarrow> r = small_rp \<and> P small_rp" for P r
    using small_rp_facts(1) by (auto simp: newest_def)
  moreover have "distinct_times ?q (ap_id small_app)" by (simp add: distinct_times_def inj_on_def)
  ultimately have "ps_status p = Protected"
    using protection_status_meaning [OF p small_plan] small_rp_facts by (simp add: Let_def plan_entry_def)
  with p show ?thesis by blast
qed

section \<open>Agreement of the views\<close>

lemma filter_js_insert:
  "transp le \<Longrightarrow> sorted_wrt le ys \<Longrightarrow> filter P (js_insert le x ys) = (if P x then js_insert le x (filter P ys) else filter P ys)"
proof (induction ys)
  case (Cons y ys)
  have "js_insert le x (filter P ys) = x # filter P ys" if "le x y"
  proof -
    have "\<forall>z \<in> set (filter P ys). le x z" using Cons.prems that by (auto dest: transpD)
    then show ?thesis by (cases "filter P ys") auto
  qed
  with Cons show ?case by auto
qed simp

lemma filter_js_sort:
  assumes "transp le" "totalp le" "reflp le"
  shows "filter P (js_sort le xs) = js_sort le (filter P xs)"
proof (induction xs)
  case (Cons x xs)
  have step: "js_sort le (y # ys) = js_insert le y (js_sort le ys)" for y ys by (simp add: js_sort_def)
  show ?case using Cons by (simp add: step filter_js_insert [OF assms(1) js_sort_sorted_wrt [OF assms]])
qed (simp add: js_sort_def)

lemma latest_is_last_ok: "latest_committed q aid = last_ok q aid"
proof -
  have "filter committed (rps_of q aid) = js_sort (\<lambda>a b. rp_created_at b \<le> rp_created_at a)
      (filter (\<lambda>r. rp_application_id r = aid \<and> committed r) (recovery_points q))"
    unfolding rps_of_def
    by (subst filter_js_sort) (auto simp: transp_on_def totalp_on_def reflp_on_def conj_commute)
  then show ?thesis by (simp add: latest_committed_def last_ok_def find_filter)
qed

lemma volume_component_captures:
  "volume_component (Some r) v \<noteq> None \<longleftrightarrow> captures r (''volume:'' @ vo_name v)"
  by (cases "rp_manifest r") (auto simp: volume_component_def captures_def find_None_iff list_ex_iff simp flip: not_None_eq)

text \<open>C21: The list of volumes and the status of an application agree. Where the status of an
  application has a component for one of its volumes, the list of volumes has a row for that volume
  which shows it protected exactly if the component is, and then with the time of the same
  backup.\<close>

theorem volume_coverage_agrees:
  assumes "protectionFor q rns a = Some p" "ap_analysis a = Some x" "v \<in> set (analysis.an_volumes x)"
    and "k \<in> set (ps_components p)" "cs_name k = ''volume:'' @ vo_name v"
    and "a \<in> set (apps f)" "agents f \<noteq> []" "''host.read'' \<in> set (u_permissions (c_user c))"
  shows "\<exists>rows. live_handle rt f q rns c (GetVolumes None) d = (Send 200 (Volumes rows), [], d) \<and>
    (\<exists>w \<in> set rows. vr_application_id w = Some (ap_id a) \<and> vr_name w = vo_name v \<and> vr_protected w = cs_protected k \<and>
      vr_last_backup_at w = (if cs_protected k then ps_last_backup_at p else None))"
proof -
  let ?ok = "last_ok q (ap_id a)"
  obtain rows where rows: "volumes q f = Some rows" "set (app_volumes q f a) \<subseteq> set rows"
    using assms(6,7) by (cases "agents f") (auto simp: volumes_def)
  obtain plan where p: "ps_components p = map (coverage ?ok) plan" "ps_last_backup_at p = Option.bind ?ok rp_committed_at"
    using assms(1) by (auto simp: protectionFor_def Let_def case_prod_beta split: option.splits)
  with assms(4,5) have "k = coverage ?ok y \<and> pl_name y = ''volume:'' @ vo_name v" if "y \<in> set plan" "k = coverage ?ok y" for y
    using that by (simp add: coverage_def Let_def)
  with assms(4) p(1) obtain y where "k = coverage ?ok y" "pl_name y = ''volume:'' @ vo_name v" by auto
  then have same: "volume_component ?ok v \<noteq> None \<longleftrightarrow> cs_protected k"
  proof (cases ?ok)
    case None
    with \<open>k = _\<close> show ?thesis by (simp add: coverage_def Let_def captured_in_def volume_component_def)
  next
    case (Some r)
    with \<open>k = _\<close> \<open>pl_name y = _\<close> show ?thesis by (simp only: coverage_protected volume_component_captures)
  qed
  let ?w = "volume_view f a ?ok v"
  have w: "?w \<in> set rows" "vr_application_id ?w = Some (ap_id a)" "vr_name ?w = vo_name v" "vr_protected ?w = cs_protected k"
    "vr_last_backup_at ?w = (if cs_protected k then ps_last_backup_at p else None)"
    using rows(2) assms(2,3) unfolding same [symmetric] p(2)
    by (auto simp: volume_view_def app_volumes_def latest_is_last_ok Let_def)
  have "live_handle rt f q rns c (GetVolumes None) d = (Send 200 (Volumes rows), [], d)"
    using rows(1) assms(8) by (simp add: live_handle_def need_def host_rows_def answer_def or_none_def)
  with w show ?thesis by blast
qed

definition small_fleet :: fleet where
  "small_fleet = \<lparr>agents = [new_agent 0 ''h'' ''host'' ActiveAgent], tokens = [], apps = [small_app]\<rparr>"

definition reader :: ctx where
  "reader = \<lparr>c_user = \<lparr>u_id = ''u'', u_username = ''ada'', u_display_name = ''Ada'', u_email = None, u_kind = Oidc, u_roles = [],
     u_permissions = [''host.read'']\<rparr>, c_now = 1000, c_random = (\<lambda>k. [])\<rparr>"

theorem volume_coverage_agrees_witness:
  "\<exists>rows. live_handle plain_runtime small_fleet (sample_protection\<lparr>recovery_points := [small_rp]\<rparr>) [] reader (GetVolumes None)
      (seed_directory 0) = (Send 200 (Volumes rows), [], seed_directory 0) \<and>
    (\<exists>w \<in> set rows. vr_name w = ''v'' \<and> vr_protected w)"
proof -
  let ?q = "sample_protection\<lparr>recovery_points := [small_rp]\<rparr>"
  have "protectionFor ?q [] small_app \<noteq> None" using small_plan by (simp add: protectionFor_def Let_def case_prod_beta)
  then obtain p where p: "protectionFor ?q [] small_app = Some p" by blast
  let ?k = "coverage (last_ok ?q (ap_id small_app)) (plan_entry ''volume:v'' ''volume'' ''/v'' (Some ''v''))"
  obtain x where x: "ap_analysis small_app = Some x" "small_volume \<in> set (analysis.an_volumes x)"
    by (simp add: small_app_def as_app_def app_base.extend_def simpleContainerApp_def)
  have k: "?k \<in> set (ps_components p)" "cs_name ?k = ''volume:'' @ vo_name small_volume" "vo_name small_volume = ''v''"
    using p small_plan by (auto simp: protectionFor_def Let_def case_prod_beta coverage_def plan_entry_def small_volume_def)
  have "last_ok ?q (ap_id small_app) = Some small_rp"
    using small_rp_facts(1,2) by (simp add: last_ok_def rps_of_def js_sort_def)
  then have "cs_protected ?k" using small_rp_facts(5) by (simp add: coverage_protected plan_entry_def)
  then show ?thesis
    using volume_coverage_agrees [OF p x k(1,2), of small_fleet reader plain_runtime "seed_directory 0"] k(3)
    by (auto simp: small_fleet_def reader_def)
qed

section \<open>User administration\<close>

text \<open>Requests to this module, each with what the other modules hold at its time.\<close>

definition live_requests ::
  "runtime \<Rightarrow> ((fleet \<times> protection \<times> stored_run list) \<times> ctx \<times> live_route) list \<Rightarrow> directory \<Rightarrow> directory" where
  "live_requests rt rs d = fold (\<lambda>((f, q, rns), c, r) d. out_state (live_handle rt f q rns c r d)) rs d"

lemma live_requests_simps [simp]:
  "live_requests rt [] d = d"
  "live_requests rt (((f, q, rns), c, r) # rs) d = live_requests rt rs (out_state (live_handle rt f q rns c r d))"
  by (simp_all add: live_requests_def)

lemma set_js_unique [simp]: "set (js_unique xs) = set xs"
  by (induction xs) auto

lemma update_first_find:
  assumes "find P xs = Some u" "\<And>x. R x x" "R u (g u)"
  shows "list_all2 R xs (update_first P g xs)"
  using assms(1)
proof (induction xs)
  case (Cons x xs)
  then show ?case using assms(2,3) by (auto split: if_splits intro: list_all2_refl)
qed simp

definition administers :: "string \<Rightarrow> ctx \<times> live_route \<Rightarrow> bool" where
  "administers i cr \<longleftrightarrow>
     ''user.manage'' \<in> set (u_permissions (c_user (fst cr))) \<and>
     (case snd cr of PutUserRoles j b \<Rightarrow> j = i | PutUserStatus j b \<Rightarrow> j = i | _ \<Rightarrow> False)"

definition revokes :: "string \<Rightarrow> ctx \<times> live_route \<Rightarrow> bool" where
  "revokes i cr \<longleftrightarrow>
     ''user.manage'' \<in> set (u_permissions (c_user (fst cr))) \<and> u_id (c_user (fst cr)) \<noteq> i \<and>
     (case snd cr of PutUserRoles j b \<Rightarrow> j = i | _ \<Rightarrow> False)"

definition account_step :: "(ctx \<times> live_route) list \<Rightarrow> account \<Rightarrow> account \<Rightarrow> bool" where
  "account_step crs u u' \<longleftrightarrow>
     us_id u' = us_id u \<and> us_kind u' = us_kind u \<and> us_username u' = us_username u \<and>
     filter (\<lambda>(r, source). source \<noteq> Manual) (us_roles u') = filter (\<lambda>(r, source). source \<noteq> Manual) (us_roles u) \<and>
     (us_kind u = MasterAdmin \<longrightarrow> u' = u) \<and> (u' \<noteq> u \<longrightarrow> list_ex (administers (us_id u)) crs) \<and>
     (manual_admin u \<and> \<not> manual_admin u' \<longrightarrow> list_ex (revokes (us_id u)) crs)"

lemma account_step_refl [simp]: "account_step crs u u"
  by (simp add: account_step_def)

lemma account_step_trans: "account_step [cr] u v \<Longrightarrow> account_step crs v w \<Longrightarrow> account_step (cr # crs) u w"
  by (auto simp: account_step_def)

lemma find_user: "find (\<lambda>x. us_id x = i) us = Some u \<Longrightarrow> us_id u = i"
  by (induction us) (auto split: if_splits)

lemma update_user_step:
  assumes "find (\<lambda>x. us_id x = i) (users d) = Some u" "account_step crs u (g u)"
  shows "list_all2 (account_step crs) (users d) (users (update_user i g d))"
  using assms(2) update_first_find [OF assms(1), of "account_step crs" g] by (simp add: update_user_def)

lemma live_step: "list_all2 (account_step [(c, r)]) (users d) (users (out_state (live_handle rt f q rns c r d)))"
proof (cases "live_permission r \<in> set (u_permissions (c_user c))")
  case False
  then show ?thesis by (simp add: live_service.denied list_all2_refl)
next
  case True
  then have act: "live_handle rt f q rns c r d = live_action rt f q rns c r d" by (simp add: live_handle_def need_def)
  show ?thesis
  proof (cases "\<exists>i b. r = PutUserRoles i b \<or> r = PutUserStatus i b")
    case False
    then show ?thesis
      unfolding act
      by (cases r) (simp_all add: list_all2_refl answer_def get_jobs_def post_mapping_def remove_mapping_def Let_def)
  next
    case put: True
    then obtain i b where r: "r = PutUserRoles i b \<or> r = PutUserStatus i b" by blast
    show ?thesis
    proof (cases "find (\<lambda>x. us_id x = i) (users d)")
      case None
      with r show ?thesis unfolding act by (auto simp: put_user_roles_def put_user_status_def answer_def list_all2_refl)
    next
      case (Some u)
      have "account_step [(c, r)] u (u\<lparr>us_disabled := v\<rparr>)" if "us_kind u \<noteq> MasterAdmin" for v
        using that True r find_user [OF Some] by (auto simp: account_step_def administers_def manual_admin_def)
      moreover have "account_step [(c, r)] u (grant names u)"
        if "us_kind u \<noteq> MasterAdmin" "r = PutUserRoles i b"
          "\<not> (us_id u = u_id (c_user c) \<and> JStr ''administrator'' \<notin> set names \<and> manual_admin u)" for names
        using that True find_user [OF Some]
        by (auto simp: account_step_def administers_def revokes_def manual_admin_def grant_def filter_empty_conv comp_def)
      ultimately show ?thesis
        using r Some unfolding act
        by (auto simp: put_user_roles_def put_user_status_def answer_def list_all2_refl Let_def
            split: option.split json.split intro!: update_user_step [OF Some])
    qed
  qed
qed

text \<open>C15: User administration is safe. Over any sequence of requests, whatever the other modules hold:
  no account is added, removed, renamed or changes its kind; the master administrator's account
  does not change at all; the roles that come from group membership do not change; an account
  changes only if a caller with \<^verbatim>\<open>user.manage\<close> asked to change it; and an account loses a manually
  granted administrator role only if another account with \<^verbatim>\<open>user.manage\<close> asked for it, so that
  nobody can lock themselves out.\<close>

theorem user_administration:
  "list_all2 (\<lambda>u u'.
     us_id u' = us_id u \<and> us_kind u' = us_kind u \<and> us_username u' = us_username u \<and>
     filter (\<lambda>(r, source). source \<noteq> Manual) (us_roles u') = filter (\<lambda>(r, source). source \<noteq> Manual) (us_roles u) \<and>
     (us_kind u = MasterAdmin \<longrightarrow> u' = u) \<and>
     (u' \<noteq> u \<longrightarrow> list_ex (administers (us_id u)) (map snd rs)) \<and>
     (manual_admin u \<and> \<not> manual_admin u' \<longrightarrow> list_ex (revokes (us_id u)) (map snd rs)))
   (users d) (users (live_requests rt rs d))"
proof -
  have "list_all2 (account_step (map snd rs)) (users d) (users (live_requests rt rs d))"
  proof (induction rs arbitrary: d)
    case (Cons x rs)
    obtain f q rns c r where x: "x = ((f, q, rns), c, r)" by (metis surj_pair)
    show ?case
      using list_all2_trans [OF account_step_trans live_step Cons.IH] unfolding x by simp
  qed (simp add: list_all2_refl)
  then show ?thesis unfolding account_step_def .
qed

definition user_manager :: ctx where
  "user_manager = \<lparr>c_user = \<lparr>u_id = ''m'', u_username = ''root'', u_display_name = ''Root'', u_email = None, u_kind = Oidc, u_roles = [],
     u_permissions = [''user.manage'']\<rparr>, c_now = 1000, c_random = (\<lambda>k. [])\<rparr>"

definition disable_all :: "((fleet \<times> protection \<times> stored_run list) \<times> ctx \<times> live_route) list" where
  "disable_all = map (\<lambda>u. ((small_fleet, sample_protection, []), user_manager,
     PutUserStatus (us_id u) (JObj [(''reason'', JStr ''closing''), (''disabled'', JBool True)]))) (users (seed_directory 0))"

theorem user_administration_witness:
  "map us_disabled (users (live_requests plain_runtime disable_all (seed_directory 0))) = [False, True, True, True] \<and>
   users (live_requests plain_runtime disable_all (seed_directory 0)) ! 0 = users (seed_directory 0) ! 0"
proof
  show "map us_disabled (users (live_requests plain_runtime disable_all (seed_directory 0))) = [False, True, True, True]" by code_simp
  have "0 < length (users (seed_directory 0))" "us_kind (users (seed_directory 0) ! 0) = MasterAdmin" by (simp_all add: seed_directory_def)
  then show "users (live_requests plain_runtime disable_all (seed_directory 0)) ! 0 = users (seed_directory 0) ! 0"
    using list_all2_nthD [OF user_administration [of "disable_all" "seed_directory 0" plain_runtime], of 0] by blast
qed

end
