(* ===== verification/Session_Server.thy ===== *)
theory Session_Server
  imports Live_Server Return_Path
begin

text \<open>
  Sign-in, sessions, the audit log and the dispatch of requests, \<^verbatim>\<open>scripts/mock-api.mjs\<close>.

  A request carries its method, path, query, headers and decoded body. The routes of the other
  modules are parameters: \<open>params\<close> finds the route of a request that is not one of this module's, and
  \<open>modules\<close> handles it, on a state of its own, for the user of the session. The host of a URL
  (\<^verbatim>\<open>new URL(origin).host\<close>) is the parameter \<open>url_host\<close>, with \<open>None\<close> where the parser raises.
\<close>

section \<open>Decoding\<close>

text \<open>
  \<^verbatim>\<open>decodeURIComponent\<close>: escapes are decoded to bytes, which have to be UTF-8; \<open>None\<close> is the
  exception. A character above 127 is kept as its UTF-8 bytes.
\<close>

fun percent_octet :: "string \<Rightarrow> (nat \<times> string) option" where
  "percent_octet (c # h # l # cs) =
     (if c = CHR ''%'' then
        (case (hex_value h, hex_value l) of (Some x, Some y) \<Rightarrow> Some (16 * x + y, cs) | _ \<Rightarrow> None)
      else None)"
| "percent_octet _ = None"

fun continuation :: "nat \<Rightarrow> string \<Rightarrow> (nat list \<times> string) option" where
  "continuation 0 s = Some ([], s)"
| "continuation (Suc n) s =
     (case percent_octet s of
        None \<Rightarrow> None
      | Some (b, s1) \<Rightarrow>
          if b div 64 \<noteq> 2 then None
          else (case continuation n s1 of None \<Rightarrow> None | Some (bs, s2) \<Rightarrow> Some (b # bs, s2)))"

text \<open>The number of octets after a leading one, and the restriction on the second octet that excludes
  overlong forms, surrogates and numbers above 0x10FFFF.\<close>

definition following :: "nat \<Rightarrow> nat option" where
  "following b =
     (if b < 128 then Some 0 else if 194 \<le> b \<and> b \<le> 223 then Some 1 else if 224 \<le> b \<and> b \<le> 239 then Some 2
      else if 240 \<le> b \<and> b \<le> 244 then Some 3 else None)"

definition second_ok :: "nat \<Rightarrow> nat list \<Rightarrow> bool" where
  "second_ok b bs =
     (case bs of
        [] \<Rightarrow> True
      | x # xs \<Rightarrow> (b = 224 \<longrightarrow> 160 \<le> x) \<and> (b = 237 \<longrightarrow> x \<le> 159) \<and> (b = 240 \<longrightarrow> 144 \<le> x) \<and> (b = 244 \<longrightarrow> x \<le> 143))"

lemma percent_octet_length: "percent_octet s = Some (b, t) \<Longrightarrow> length t < length s"
  by (induction s rule: percent_octet.induct) (auto split: if_splits option.splits)

lemma continuation_length: "continuation n s = Some (bs, t) \<Longrightarrow> length t \<le> length s"
proof (induction n arbitrary: s bs)
  case (Suc n)
  from Suc.prems obtain b s1 bs' where "percent_octet s = Some (b, s1)" "continuation n s1 = Some (bs', t)"
    by (auto split: option.splits if_splits)
  then show ?case using Suc.IH [of s1 bs'] percent_octet_length [of s b s1] by simp
qed simp

function decodeURIComponent :: "string \<Rightarrow> string option" where
  "decodeURIComponent [] = Some []"
| "decodeURIComponent (c # cs) =
     (if c \<noteq> CHR ''%'' then map_option (Cons c) (decodeURIComponent cs)
      else
        (case percent_octet (c # cs) of
           None \<Rightarrow> None
         | Some (b, s1) \<Rightarrow>
             (case following b of
                None \<Rightarrow> None
              | Some n \<Rightarrow>
                  (case continuation n s1 of
                     None \<Rightarrow> None
                   | Some (bs, s2) \<Rightarrow>
                       if \<not> second_ok b bs then None
                       else map_option (\<lambda>r. map char_of (b # bs) @ r) (decodeURIComponent s2)))))"
  by pat_completeness auto

termination
proof (relation "measure length", goal_cases)
  case (3 c cs x b s1 n y bs s2)
  then show ?case using percent_octet_length [of "c # cs" b s1] continuation_length [of n s1 bs s2] by auto
qed auto

text \<open>\<^verbatim>\<open>Number(s)\<close>, exactly; the rounding to a floating-point number is not part of the model.\<close>

datatype jsnum = NaN | Infinite bool | Fin rat

fun digits_in :: "nat \<Rightarrow> string \<Rightarrow> nat option" where
  "digits_in base s =
     (if s = [] then None
      else fold (\<lambda>c acc. case (acc, hex_value c) of (Some n, Some d) \<Rightarrow> if d < base then Some (base * n + d) else None | _ \<Rightarrow> None)
             s (Some 0))"

definition exponent_of :: "string \<Rightarrow> int option" where
  "exponent_of s =
     (case s of
        [] \<Rightarrow> Some 0
      | c # t \<Rightarrow>
          if c \<noteq> CHR ''e'' \<and> c \<noteq> CHR ''E'' then None
          else
            (case t of
               [] \<Rightarrow> None
             | d # u \<Rightarrow>
                 if d = CHR ''-'' then map_option (\<lambda>n. - int n) (digits_in 10 u)
                 else if d = CHR ''+'' then map_option int (digits_in 10 u) else map_option int (digits_in 10 t)))"

definition power_of_ten :: "int \<Rightarrow> rat" where
  "power_of_ten e = (if e \<ge> 0 then 10 ^ nat e else 1 / 10 ^ nat (- e))"

definition decimal :: "string \<Rightarrow> jsnum" where
  "decimal s =
     (if s = ''Infinity'' then Infinite True
      else
        let whole = takeWhile js_digit s; rest = dropWhile js_digit s;
            (part, rest') = (case rest of c # t \<Rightarrow> if c = CHR ''.'' then (takeWhile js_digit t, dropWhile js_digit t) else ([], rest)
                             | [] \<Rightarrow> ([], rest))
        in if whole @ part = [] then NaN
           else case exponent_of rest' of
                  None \<Rightarrow> NaN
                | Some e \<Rightarrow> Fin (of_nat (digits_val (whole @ part)) / 10 ^ length part * power_of_ten e))"

definition negated :: "jsnum \<Rightarrow> jsnum" where
  "negated x = (case x of NaN \<Rightarrow> NaN | Infinite b \<Rightarrow> Infinite (\<not> b) | Fin q \<Rightarrow> Fin (- q))"

definition Number :: "string \<Rightarrow> jsnum" where
  "Number text =
     (case trim text of
        [] \<Rightarrow> Fin 0
      | c # s \<Rightarrow>
          if c = CHR ''-'' then negated (decimal s)
          else if c = CHR ''+'' then decimal s
          else
            let base = (if c \<noteq> CHR ''0'' then 0
                        else case s of
                               d # t \<Rightarrow> (if to_lower d = CHR ''x'' then 16 else if to_lower d = CHR ''o'' then 8
                                         else if to_lower d = CHR ''b'' then 2 else 0)
                             | [] \<Rightarrow> 0)
            in if base = 0 then decimal (c # s)
               else (case digits_in base (tl s) of Some n \<Rightarrow> Fin (of_nat n) | None \<Rightarrow> NaN))"

section \<open>Requests and replies\<close>

record request =
  rq_method :: string
  rq_path :: string
  rq_query :: "(string \<times> string) list"
  rq_headers :: "(string \<times> string) list"
  rq_remote :: "string option"
  rq_body :: json

definition param :: "request \<Rightarrow> string \<Rightarrow> string option" where
  "param rq k = map_of (rq_query rq) k"

definition header :: "request \<Rightarrow> string \<Rightarrow> string option" where
  "header rq k = map_of (rq_headers rq) k"

record 'b response =
  rs_reply :: "'b reply"
  rs_cookies :: "string list"
  rs_location :: "string option"
  rs_retry_after :: "int option"

definition plain :: "'b reply \<Rightarrow> 'b response" where
  "plain r = \<lparr>rs_reply = r, rs_cookies = [], rs_location = None, rs_retry_after = None\<rparr>"

definition COOKIE :: string where "COOKIE = ''dbr2_session''"
definition MOCK_TOTP_CODE :: string where "MOCK_TOTP_CODE = ''123456''"

record audit_entry =
  ae_event_id :: string
  ae_occurred_at :: int
  ae_event_type :: string
  ae_actor_display :: string
  ae_actor_kind :: string
  ae_source_ip :: "string option"
  ae_target_type :: string
  ae_target_id :: "string option"
  ae_result :: string
  ae_reason :: "string option"
  ae_details :: json
  ae_request_id :: string

record auth =
  au_password :: string
  au_totp_enabled :: bool
  au_pending_secret :: "string option"
  au_failures :: nat
  au_locked_until :: int
  au_sessions :: "string \<rightharpoonup> user"
  au_audit :: "audit_entry list"

definition masterAdmin :: user where
  "masterAdmin =
     \<lparr>u_id = ''00000000-0000-0000-0000-000000000001'', u_username = ''admin'', u_display_name = ''Master Admin'', u_email = None,
      u_kind = MasterAdmin, u_roles = [''administrator''], u_permissions = ALL_PERMISSIONS\<rparr>"

definition oidcUser :: user where
  "oidcUser =
     \<lparr>u_id = ''7d1f6c1e-5b8a-4c35-9d0e-6a3b2b8f1a10'', u_username = ''ada@example.com'', u_display_name = ''Ada Lovelace'',
      u_email = Some ''ada@example.com'', u_kind = Oidc, u_roles = [''restore_operator''],
      u_permissions = [''application.read'', ''backup.read'', ''host.read'', ''policy.read'', ''repository.read'',
        ''restore.execute'', ''restore.read'']\<rparr>"

text \<open>The value of \<^verbatim>\<open>totp_enabled\<close> in a user sent to the browser.\<close>

definition totp_shown :: "auth \<Rightarrow> user \<Rightarrow> bool" where
  "totp_shown a u = (u_kind u = MasterAdmin \<and> au_totp_enabled a)"

section \<open>The audit log\<close>

definition source_ip :: "request \<Rightarrow> string option" where
  "source_ip rq =
     or_none (Some (trim (hd (split_on (CHR '','')
       (case header rq ''x-forwarded-for'' of Some v \<Rightarrow> v | None \<Rightarrow> (case rq_remote rq of Some v \<Rightarrow> v | None \<Rightarrow> []))))))"

definition audit_entry_of :: "int \<Rightarrow> (nat \<Rightarrow> string) \<Rightarrow> request \<Rightarrow> string \<Rightarrow> string \<Rightarrow> audit_extra \<Rightarrow> audit_entry" where
  "audit_entry_of now rnd rq type result x =
     \<lparr>ae_event_id = rnd 0, ae_occurred_at = now, ae_event_type = type,
      ae_actor_display = (case a_actor x of Some v \<Rightarrow> v | None \<Rightarrow> ''anonymous''),
      ae_actor_kind = (if or_none (a_actor x) \<noteq> None then ''user'' else ''anonymous''),
      ae_source_ip = source_ip rq, ae_target_type = (case a_target_type x of Some v \<Rightarrow> v | None \<Rightarrow> ''user''),
      ae_target_id = a_target_id x, ae_result = result, ae_reason = a_reason x, ae_details = a_details x, ae_request_id = rnd 1\<rparr>"

definition audit :: "int \<Rightarrow> (nat \<Rightarrow> string) \<Rightarrow> request \<Rightarrow> string \<Rightarrow> string \<Rightarrow> audit_extra \<Rightarrow> auth \<Rightarrow> auth" where
  "audit now rnd rq type result x a = a\<lparr>au_audit := audit_entry_of now rnd rq type result x # au_audit a\<rparr>"

text \<open>The audit entries among the effects of another module's handler.\<close>

fun audit_effects :: "int \<Rightarrow> (nat \<Rightarrow> string) \<Rightarrow> request \<Rightarrow> nat \<Rightarrow> effect list \<Rightarrow> auth \<Rightarrow> auth" where
  "audit_effects now rnd rq k [] a = a"
| "audit_effects now rnd rq k (Audit type result x # es) a =
     audit_effects now rnd rq (Suc k) es (audit now (sub_draws rnd k) rq type result x a)"
| "audit_effects now rnd rq k (Publish t p d # es) a = audit_effects now rnd rq k es a"

definition auth_extra :: "string option \<Rightarrow> string \<Rightarrow> string option \<Rightarrow> audit_extra" where
  "auth_extra actor target reason =
     \<lparr>a_actor = actor, a_target_type = None, a_target_id = Some target, a_reason = reason, a_details = JObj []\<rparr>"

definition seed_audit :: "int \<Rightarrow> (nat \<Rightarrow> string) \<Rightarrow> nat \<Rightarrow> audit_entry" where
  "seed_audit now rnd i =
     \<lparr>ae_event_id = rnd (2 * i), ae_occurred_at = now - (int i + 1) * 3600000,
      ae_event_type = (if i mod 3 = 0 then ''auth.login'' else if i mod 3 = 1 then ''auth.logout'' else ''settings.changed''),
      ae_actor_display = (if i mod 2 \<noteq> 0 then ''Master Admin'' else ''Ada Lovelace''), ae_actor_kind = ''user'',
      ae_source_ip = Some (''10.0.0.'' @ show_nat (i mod 250 + 1)), ae_target_type = ''user'',
      ae_target_id = Some (if i mod 2 \<noteq> 0 then ''admin'' else ''ada@example.com''),
      ae_result = (if i mod 7 = 0 then ''failure'' else ''success''),
      ae_reason = (if i mod 7 = 0 then Some ''invalid_credentials'' else None),
      ae_details = JObj [(''seq'', JNum (of_nat i))], ae_request_id = rnd (2 * i + 1)\<rparr>"

definition seed_auth :: "int \<Rightarrow> (nat \<Rightarrow> string) \<Rightarrow> auth" where
  "seed_auth now rnd =
     \<lparr>au_password = ''correct-horse-battery'', au_totp_enabled = False, au_pending_secret = None, au_failures = 0,
      au_locked_until = 0, au_sessions = Map.empty, au_audit = map (seed_audit now rnd) [0..<120]\<rparr>"

section \<open>Cookies, sessions, CSRF\<close>

definition cookie_part :: "string \<Rightarrow> (string \<times> string option) option" where
  "cookie_part part =
     (let name = takeWhile (\<lambda>x. x \<noteq> CHR ''='') part
      in if name = part \<or> name = [] then None
         else Some (trim name, decodeURIComponent (trim (drop (Suc (length name)) part))))"

text \<open>The cookies by name, the last value of a name first; \<open>None\<close> is the exception of a value that is not
  well-formed.\<close>

definition cookies :: "request \<Rightarrow> (string \<times> string) list option" where
  "cookies rq =
     (let parts = List.map_filter cookie_part (split_on (CHR '';'') (case header rq ''cookie'' of Some v \<Rightarrow> v | None \<Rightarrow> []))
      in if list_ex (\<lambda>(n, v). v = None) parts then None else Some (rev (map (\<lambda>(n, v). (n, the v)) parts)))"

definition session_id :: "request \<Rightarrow> string option option" where
  "session_id rq = map_option (\<lambda>cs. or_none (map_of cs COOKIE)) (cookies rq)"

definition session_user :: "auth \<Rightarrow> string option \<Rightarrow> user option" where
  "session_user a sid =
     (case Option.bind sid (au_sessions a) of
        None \<Rightarrow> None | Some u \<Rightarrow> Some (if u_kind u = MasterAdmin then masterAdmin else u))"

definition session_cookie :: "string \<Rightarrow> string" where
  "session_cookie sid = COOKIE @ ''='' @ sid @ ''; Path=/; HttpOnly; SameSite=Lax; Max-Age=43200''"

definition newSession :: "user \<Rightarrow> string \<Rightarrow> auth \<Rightarrow> auth" where
  "newSession u sid a = a\<lparr>au_sessions := (au_sessions a)(sid \<mapsto> u)\<rparr>"

definition csrfOk :: "(string \<Rightarrow> string option) \<Rightarrow> request \<Rightarrow> bool" where
  "csrfOk url_host rq =
     (if rq_method rq \<in> {''GET'', ''HEAD'', ''OPTIONS''} then True
      else if or_none (header rq ''sec-fetch-site'') \<notin> {None, Some ''same-origin'', Some ''none''} then False
      else
        case or_none (header rq ''origin'') of
          None \<Rightarrow> True
        | Some org \<Rightarrow>
            let host = (case header rq ''x-forwarded-host'' of Some h \<Rightarrow> Some h | None \<Rightarrow> header rq ''host'')
            in url_host org \<noteq> None \<and> url_host org = host)"

section \<open>Routes of this module\<close>

datatype api_route =
  GetVersion | GetLive | GetReady | GetProviders | OidcLogin | Login | Logout | GetMe | PostPassword
| TotpEnroll | TotpConfirm | TotpDisable | GetAuditEvents | GetEcho | GetDocs | GetOpenApi

definition api_routes :: "(string \<times> api_route) list" where
  "api_routes =
     [(''GET /api/v1/version'', GetVersion), (''GET /api/v1/health/live'', GetLive), (''GET /api/v1/health/ready'', GetReady),
      (''GET /api/v1/auth/providers'', GetProviders), (''GET /api/v1/auth/oidc/entra/login'', OidcLogin),
      (''POST /api/v1/auth/login'', Login), (''POST /api/v1/auth/logout'', Logout), (''GET /api/v1/auth/me'', GetMe),
      (''POST /api/v1/auth/password'', PostPassword), (''POST /api/v1/auth/totp/enroll'', TotpEnroll),
      (''POST /api/v1/auth/totp/confirm'', TotpConfirm), (''POST /api/v1/auth/totp/disable'', TotpDisable),
      (''GET /api/v1/audit-events'', GetAuditEvents), (''GET /api/v1/_mock/echo'', GetEcho), (''GET /api/docs'', GetDocs),
      (''GET /api/openapi.json'', GetOpenApi)]"

definition PUBLIC :: "string list" where
  "PUBLIC =
     [''GET /api/v1/version'', ''GET /api/v1/health/live'', ''GET /api/v1/health/ready'', ''GET /api/v1/auth/providers'',
      ''GET /api/v1/auth/oidc/entra/login'', ''POST /api/v1/auth/login'', ''POST /api/v1/auth/logout'', ''GET /api/v1/_mock/echo'',
      ''GET /api/docs'', ''GET /api/openapi.json'']"

datatype 'b api_body =
  Static api_route
| SignedIn user bool
| Me "(user \<times> bool) option"
| TotpSecret string string
| AuditPage "audit_entry list" "string option"
| Echo string string "(string \<times> string) list" "(string \<times> string) list"
| FromModule 'b

type_synonym 'b api_result = "'b api_body response \<times> auth"

definition refuse :: "nat \<Rightarrow> string \<Rightarrow> string \<Rightarrow> string \<Rightarrow> auth \<Rightarrow> 'b api_result" where
  "refuse status kind title info a = (plain (Problem status kind title info), a)"

definition oidc_login :: "int \<Rightarrow> (nat \<Rightarrow> string) \<Rightarrow> request \<Rightarrow> auth \<Rightarrow> 'b api_result" where
  "oidc_login now rnd rq a =
     (let rt = (case param rq ''return_to'' of Some v \<Rightarrow> v | None \<Rightarrow> ''/'');
          safe = (if startsWith rt ''/'' \<and> \<not> startsWith rt ''//'' then rt else ''/'')
      in if or_none (param rq ''fail'') \<noteq> None then
           ((plain (SendEmpty 302))\<lparr>rs_location := Some ''/login?error=access_denied''\<rparr>, a)
         else
           ((plain (SendEmpty 302))\<lparr>rs_location := Some safe, rs_cookies := [session_cookie (rnd 2)]\<rparr>,
            newSession oidcUser (rnd 2)
              (audit now rnd rq ''auth.login'' ''success'' (auth_extra (Some (u_display_name oidcUser)) (u_username oidcUser) None) a)))"

definition locked_reply :: "int \<Rightarrow> 'b api_body response" where
  "locked_reply seconds =
     (plain (Problem 423 ''account_locked'' ''Locked'' ''The account is temporarily locked.''))\<lparr>rs_retry_after := Some seconds\<rparr>"

definition ceil_seconds :: "int \<Rightarrow> int" where
  "ceil_seconds ms = - ((- ms) div 1000)"

definition wrong_password :: "int \<Rightarrow> (nat \<Rightarrow> string) \<Rightarrow> request \<Rightarrow> string \<Rightarrow> auth \<Rightarrow> 'b api_result" where
  "wrong_password now rnd rq username a =
     (let a1 = audit now rnd rq ''auth.login'' ''failure'' (auth_extra None username (Some ''invalid_credentials''))
                 (a\<lparr>au_failures := Suc (au_failures a)\<rparr>)
      in if au_failures a1 \<ge> 5 then (locked_reply 60, a1\<lparr>au_failures := 0, au_locked_until := now + 60000\<rparr>)
         else refuse 401 ''invalid_credentials'' ''Unauthorized'' ''Invalid username or password.'' a1)"

definition sign_in :: "int \<Rightarrow> (nat \<Rightarrow> string) \<Rightarrow> request \<Rightarrow> auth \<Rightarrow> 'b api_result" where
  "sign_in now rnd rq a =
     (let a1 = audit now rnd rq ''auth.login'' ''success'' (auth_extra (Some ''Master Admin'') ''admin'' None) (a\<lparr>au_failures := 0\<rparr>)
      in ((plain (Send 200 (SignedIn masterAdmin (totp_shown a masterAdmin))))
            \<lparr>rs_cookies := [session_cookie (rnd 2), ''dbr2_mock=1; Path=/; SameSite=Lax'']\<rparr>,
          newSession masterAdmin (rnd 2) a1))"

definition login :: "int \<Rightarrow> (nat \<Rightarrow> string) \<Rightarrow> request \<Rightarrow> auth \<Rightarrow> 'b api_result" where
  "login now rnd rq a =
     (case (jfield (rq_body rq) ''username'', jfield (rq_body rq) ''password'') of
        (Some (JStr username), Some (JStr password)) \<Rightarrow>
          let totp = jfield (rq_body rq) ''totp_code''
          in if au_locked_until a > now then (locked_reply (ceil_seconds (au_locked_until a - now)), a)
             else if username \<noteq> ''admin'' \<or> password \<noteq> au_password a then wrong_password now rnd rq username a
             else if au_totp_enabled a \<and> \<not> truthy totp then
               refuse 401 ''totp_required'' ''Unauthorized'' ''A TOTP code is required.'' a
             else if au_totp_enabled a \<and> totp \<noteq> Some (JStr MOCK_TOTP_CODE) then
               refuse 401 ''invalid_totp'' ''Unauthorized'' ''The TOTP code is invalid.''
                 (audit now rnd rq ''auth.login'' ''failure'' (auth_extra None ''admin'' (Some ''invalid_totp'')) a)
             else sign_in now rnd rq a
      | _ \<Rightarrow> refuse 400 ''invalid_request'' ''Bad Request'' ''username and password are required.'' a)"

definition server_failure :: "auth \<Rightarrow> 'b api_result" where
  "server_failure a = (plain internal_error, a)"

definition logout :: "request \<Rightarrow> auth \<Rightarrow> 'b api_result" where
  "logout rq a =
     (case session_id rq of
        None \<Rightarrow> server_failure a
      | Some sid \<Rightarrow>
          ((plain (SendEmpty 204))\<lparr>rs_cookies := [COOKIE @ ''=; Path=/; HttpOnly; SameSite=Lax; Max-Age=0'']\<rparr>,
           (case sid of None \<Rightarrow> a | Some i \<Rightarrow> a\<lparr>au_sessions := (au_sessions a)(i := None)\<rparr>)))"

text \<open>The handlers get the user of the session, and \<^verbatim>\<open>null\<close> on public routes.\<close>

definition admin_only :: "user option \<Rightarrow> auth \<Rightarrow> 'b api_result \<Rightarrow> 'b api_result" where
  "admin_only u a k =
     (case u of
        None \<Rightarrow> server_failure a
      | Some x \<Rightarrow> if u_kind x \<noteq> MasterAdmin then refuse 403 ''forbidden'' ''Forbidden'' ''Master admin only.'' a else k)"

definition change_password :: "int \<Rightarrow> (nat \<Rightarrow> string) \<Rightarrow> request \<Rightarrow> user option \<Rightarrow> auth \<Rightarrow> 'b api_result" where
  "change_password now rnd rq u a =
     admin_only u a
       (if jfield (rq_body rq) ''current_password'' \<noteq> Some (JStr (au_password a)) then
          refuse 400 ''invalid_credentials'' ''Bad Request'' ''The current password is incorrect.'' a
        else
          case jfield (rq_body rq) ''new_password'' of
            Some (JStr new) \<Rightarrow>
              if length new < 12 then refuse 400 ''weak_password'' ''Bad Request'' ''The password must be at least 12 characters.'' a
              else (plain (SendEmpty 204),
                    audit now rnd rq ''auth.password_changed'' ''success'' (auth_extra (Some ''Master Admin'') ''admin'' None)
                      (a\<lparr>au_password := new\<rparr>))
          | _ \<Rightarrow> refuse 400 ''weak_password'' ''Bad Request'' ''The password must be at least 12 characters.'' a)"

definition TOTP_SECRET :: string where "TOTP_SECRET = ''JBSWY3DPEHPK3PXP''"

definition totp_enroll :: "user option \<Rightarrow> auth \<Rightarrow> 'b api_result" where
  "totp_enroll u a =
     admin_only u a
       (if au_totp_enabled a then refuse 409 ''totp_already_enabled'' ''Conflict'' ''TOTP is already enabled.'' a
        else (plain (Send 200 (TotpSecret TOTP_SECRET
                (''otpauth://totp/DBR2:admin?secret='' @ TOTP_SECRET @ ''&issuer=DBR2&algorithm=SHA1&digits=6&period=30''))),
              a\<lparr>au_pending_secret := Some TOTP_SECRET\<rparr>))"

definition wrong_code :: "auth \<Rightarrow> 'b api_result" where
  "wrong_code a = refuse 400 ''invalid_totp'' ''Bad Request'' ''The TOTP code is invalid.'' a"

definition totp_confirm :: "int \<Rightarrow> (nat \<Rightarrow> string) \<Rightarrow> request \<Rightarrow> auth \<Rightarrow> 'b api_result" where
  "totp_confirm now rnd rq a =
     (if au_pending_secret a = None then refuse 409 ''totp_not_enrolling'' ''Conflict'' ''Start enrollment first.'' a
      else if jfield (rq_body rq) ''code'' \<noteq> Some (JStr MOCK_TOTP_CODE) then wrong_code a
      else (plain (SendEmpty 204),
            audit now rnd rq ''auth.totp_enabled'' ''success'' (auth_extra (Some ''Master Admin'') ''admin'' None)
              (a\<lparr>au_totp_enabled := True, au_pending_secret := None\<rparr>)))"

definition totp_disable :: "int \<Rightarrow> (nat \<Rightarrow> string) \<Rightarrow> request \<Rightarrow> auth \<Rightarrow> 'b api_result" where
  "totp_disable now rnd rq a =
     (if jfield (rq_body rq) ''code'' \<noteq> Some (JStr MOCK_TOTP_CODE) then wrong_code a
      else (plain (SendEmpty 204),
            audit now rnd rq ''auth.totp_disabled'' ''success'' (auth_extra (Some ''Master Admin'') ''admin'' None)
              (a\<lparr>au_totp_enabled := False\<rparr>)))"

text \<open>\<^verbatim>\<open>Number(q ?? d) || d\<close>\<close>

definition number_or :: "string option \<Rightarrow> rat \<Rightarrow> jsnum" where
  "number_or v d =
     (case (case v of None \<Rightarrow> Fin d | Some t \<Rightarrow> Number t) of NaN \<Rightarrow> Fin d | Fin x \<Rightarrow> Fin (if x = 0 then d else x) | y \<Rightarrow> y)"

definition audit_limit :: "string option \<Rightarrow> rat" where
  "audit_limit v = (case number_or v 50 of Fin x \<Rightarrow> min (max x 1) 200 | Infinite True \<Rightarrow> 200 | _ \<Rightarrow> 1)"

text \<open>The position that \<^verbatim>\<open>slice\<close> reads from a finite number.\<close>

definition slice_index :: "rat \<Rightarrow> nat \<Rightarrow> nat" where
  "slice_index x n =
     (let i = (if x < 0 then \<lceil>x\<rceil> else \<lfloor>x\<rfloor>)
      in if i < 0 then nat (max 0 (int n + i)) else min n (nat i))"

definition js_slice :: "rat \<Rightarrow> rat \<Rightarrow> 'a list \<Rightarrow> 'a list" where
  "js_slice from until xs =
     (let i = slice_index from (length xs); j = slice_index until (length xs) in take (j - i) (drop i xs))"

definition number_text :: "runtime \<Rightarrow> rat \<Rightarrow> string" where
  "number_text rt x = (if x = of_int \<lfloor>x\<rfloor> \<and> \<bar>x\<bar> < 10 ^ 21 then show_int \<lfloor>x\<rfloor> else rt_string rt (JNum x))"

definition audit_page :: "runtime \<Rightarrow> string option \<Rightarrow> audit_entry list \<Rightarrow> string option \<Rightarrow> audit_entry list \<times> string option" where
  "audit_page rt limit entries cursor =
     (let n = audit_limit limit
      in case number_or cursor 0 of
           Fin start \<Rightarrow>
             (js_slice start (start + n) entries,
              if start + n < of_nat (length entries) then Some (number_text rt (start + n)) else None)
         | Infinite False \<Rightarrow> ([], Some ''-Infinity'')
         | _ \<Rightarrow> ([], None))"

definition audit_events :: "runtime \<Rightarrow> request \<Rightarrow> user option \<Rightarrow> auth \<Rightarrow> 'b api_result" where
  "audit_events rt rq u a =
     (case u of
        None \<Rightarrow> server_failure a
      | Some x \<Rightarrow>
          if ''audit.read'' \<notin> set (u_permissions x) then (plain (forbidden ''audit.read''), a)
          else let (items, cursor) = audit_page rt (param rq ''limit'') (au_audit a) (param rq ''cursor'')
               in (plain (Send 200 (AuditPage items cursor)), a))"

fun api_handle :: "runtime \<Rightarrow> int \<Rightarrow> (nat \<Rightarrow> string) \<Rightarrow> request \<Rightarrow> user option \<Rightarrow> api_route \<Rightarrow> auth \<Rightarrow> 'b api_result" where
  "api_handle rt now rnd rq u OidcLogin a = oidc_login now rnd rq a"
| "api_handle rt now rnd rq u Login a = login now rnd rq a"
| "api_handle rt now rnd rq u Logout a = logout rq a"
| "api_handle rt now rnd rq u GetMe a = (plain (Send 200 (Me (map_option (\<lambda>x. (x, totp_shown a x)) u))), a)"
| "api_handle rt now rnd rq u PostPassword a = change_password now rnd rq u a"
| "api_handle rt now rnd rq u TotpEnroll a = totp_enroll u a"
| "api_handle rt now rnd rq u TotpConfirm a = totp_confirm now rnd rq a"
| "api_handle rt now rnd rq u TotpDisable a = totp_disable now rnd rq a"
| "api_handle rt now rnd rq u GetAuditEvents a = audit_events rt rq u a"
| "api_handle rt now rnd rq u GetEcho a = (plain (Send 200 (Echo (rq_method rq) (rq_path rq) (rq_query rq) (rq_headers rq))), a)"
| "api_handle rt now rnd rq u r a = (plain (Send 200 (Static r)), a)"

section \<open>Dispatch\<close>

record 'm server =
  sv_auth :: auth
  sv_modules :: 'm

datatype 'r target = Own api_route | Other 'r

definition route_key :: "request \<Rightarrow> string" where
  "route_key rq = rq_method rq @ '' '' @ rq_path rq"

definition resolve_route :: "(request \<Rightarrow> 'r option) \<Rightarrow> request \<Rightarrow> 'r target option" where
  "resolve_route params rq =
     (case map_of api_routes (route_key rq) of Some r \<Rightarrow> Some (Own r) | None \<Rightarrow> map_option Other (params rq))"

type_synonym ('b, 'm) answered = "'b api_body response \<times> effect list \<times> 'm server"

text \<open>A handler called with the user of the session, or with none on a public route.\<close>

definition call ::
  "runtime \<Rightarrow> (ctx \<Rightarrow> 'r \<Rightarrow> 'm \<Rightarrow> ('b, 'm) outcome) \<Rightarrow> int \<Rightarrow> (nat \<Rightarrow> string) \<Rightarrow> request \<Rightarrow> user option \<Rightarrow> 'r target \<Rightarrow>
   'm server \<Rightarrow> ('b, 'm) answered" where
  "call rt modules now rnd rq u t s =
     (case t of
        Own r \<Rightarrow> let (res, a) = api_handle rt now rnd rq u r (sv_auth s) in (res, [], s\<lparr>sv_auth := a\<rparr>)
      | Other r \<Rightarrow>
          (case u of
             None \<Rightarrow> (plain internal_error, [], s)
           | Some x \<Rightarrow>
               let (reply, es, m) = modules \<lparr>c_user = x, c_now = now, c_random = sub_draws rnd 0\<rparr> r (sv_modules s)
               in (plain (map_reply FromModule reply), es,
                   \<lparr>sv_auth = audit_effects now (sub_draws rnd 1) rq 0 es (sv_auth s), sv_modules = m\<rparr>)))"

definition respond ::
  "runtime \<Rightarrow> (string \<Rightarrow> string option) \<Rightarrow> (request \<Rightarrow> 'r option) \<Rightarrow> (ctx \<Rightarrow> 'r \<Rightarrow> 'm \<Rightarrow> ('b, 'm) outcome) \<Rightarrow>
   int \<Rightarrow> (nat \<Rightarrow> string) \<Rightarrow> request \<Rightarrow> 'm server \<Rightarrow> ('b, 'm) answered" where
  "respond rt url_host params modules now rnd rq s =
     (case resolve_route params rq of
        None \<Rightarrow> (plain (not_found (''No route for '' @ route_key rq @ ''.'')), [], s)
      | Some t \<Rightarrow>
          if \<not> csrfOk url_host rq then
            (plain (Problem 403 ''csrf_failed'' ''Forbidden'' ''Cross-site request rejected.''), [], s)
          else if route_key rq \<in> set PUBLIC then call rt modules now rnd rq None t s
          else
            (case session_id rq of
               None \<Rightarrow> (plain internal_error, [], s)
             | Some sid \<Rightarrow>
                 (case session_user (sv_auth s) sid of
                    None \<Rightarrow> (plain (Problem 401 ''unauthenticated'' ''Unauthorized'' ''Sign in required.''), [], s)
                  | Some u \<Rightarrow> call rt modules now rnd rq (Some u) t s)))"

text \<open>What happens to the server: requests, with the time and the random values of each, and what the
  timers of the modules do.\<close>

datatype 'm server_event = Arrives int "nat \<Rightarrow> string" request | Background "'m \<Rightarrow> 'm"

fun server_step ::
  "runtime \<Rightarrow> (string \<Rightarrow> string option) \<Rightarrow> (request \<Rightarrow> 'r option) \<Rightarrow> (ctx \<Rightarrow> 'r \<Rightarrow> 'm \<Rightarrow> ('b, 'm) outcome) \<Rightarrow>
   'm server_event \<Rightarrow> 'm server \<Rightarrow> 'm server" where
  "server_step rt url_host params modules (Arrives now rnd rq) s = snd (snd (respond rt url_host params modules now rnd rq s))"
| "server_step rt url_host params modules (Background g) s = s\<lparr>sv_modules := g (sv_modules s)\<rparr>"

definition server_run ::
  "runtime \<Rightarrow> (string \<Rightarrow> string option) \<Rightarrow> (request \<Rightarrow> 'r option) \<Rightarrow> (ctx \<Rightarrow> 'r \<Rightarrow> 'm \<Rightarrow> ('b, 'm) outcome) \<Rightarrow>
   'm server_event list \<Rightarrow> 'm server \<Rightarrow> 'm server" where
  "server_run rt url_host params modules evs s = fold (server_step rt url_host params modules) evs s"

section \<open>How requests change the sessions\<close>

text \<open>The requests that reach the handler of one of this module's public routes.\<close>

definition reaches :: "(string \<Rightarrow> string option) \<Rightarrow> api_route \<Rightarrow> request \<Rightarrow> bool" where
  "reaches url_host r rq \<longleftrightarrow> map_of api_routes (route_key rq) = Some r \<and> csrfOk url_host rq"

text \<open>The credentials of a sign-in, against the state in which it arrives.\<close>

definition credentials :: "auth \<Rightarrow> int \<Rightarrow> request \<Rightarrow> bool" where
  "credentials a now rq \<longleftrightarrow>
     jfield (rq_body rq) ''username'' = Some (JStr ''admin'') \<and> jfield (rq_body rq) ''password'' = Some (JStr (au_password a)) \<and>
     au_locked_until a \<le> now \<and> (au_totp_enabled a \<longrightarrow> jfield (rq_body rq) ''totp_code'' = Some (JStr MOCK_TOTP_CODE))"

fun signs_in :: "(string \<Rightarrow> string option) \<Rightarrow> auth \<Rightarrow> 'm server_event \<Rightarrow> string \<Rightarrow> user \<Rightarrow> bool" where
  "signs_in url_host a (Arrives now rnd rq) sid u \<longleftrightarrow>
     sid = rnd 2 \<and>
     (reaches url_host Login rq \<and> credentials a now rq \<and> u = masterAdmin \<or>
      reaches url_host OidcLogin rq \<and> or_none (param rq ''fail'') = None \<and> u = oidcUser)"
| "signs_in url_host a (Background g) sid u \<longleftrightarrow> False"

fun signs_out :: "(string \<Rightarrow> string option) \<Rightarrow> string \<Rightarrow> 'm server_event \<Rightarrow> bool" where
  "signs_out url_host sid (Arrives now rnd rq) \<longleftrightarrow> reaches url_host Logout rq \<and> session_id rq = Some (Some sid)"
| "signs_out url_host sid (Background g) \<longleftrightarrow> False"

text \<open>A request that compares a wrong user name or password.\<close>

definition wrong_guess :: "(string \<Rightarrow> string option) \<Rightarrow> auth \<Rightarrow> int \<Rightarrow> request \<Rightarrow> bool" where
  "wrong_guess url_host a now rq \<longleftrightarrow>
     reaches url_host Login rq \<and> au_locked_until a \<le> now \<and>
     (case (jfield (rq_body rq) ''username'', jfield (rq_body rq) ''password'') of
        (Some (JStr u), Some (JStr p)) \<Rightarrow> u \<noteq> ''admin'' \<or> p \<noteq> au_password a | _ \<Rightarrow> False)"

fun guesses :: "(string \<Rightarrow> string option) \<Rightarrow> auth \<Rightarrow> 'm server_event \<Rightarrow> bool" where
  "guesses url_host a (Arrives now rnd rq) \<longleftrightarrow> wrong_guess url_host a now rq"
| "guesses url_host a (Background g) \<longleftrightarrow> False"

lemma server_run_simps [simp]:
  "server_run rt url_host params modules [] s = s"
  "server_run rt url_host params modules (e # evs) s =
     server_run rt url_host params modules evs (server_step rt url_host params modules e s)"
  "server_run rt url_host params modules (evs @ evs') s =
     server_run rt url_host params modules evs' (server_run rt url_host params modules evs s)"
  by (simp_all add: server_run_def)

lemma audit_fields [simp]:
  "au_sessions (audit now rnd rq t r x a) = au_sessions a" "au_failures (audit now rnd rq t r x a) = au_failures a"
  "au_locked_until (audit now rnd rq t r x a) = au_locked_until a"
  by (simp_all add: audit_def)

lemma audit_effects_fields [simp]:
  "au_sessions (audit_effects now rnd rq k es a) = au_sessions a" "au_failures (audit_effects now rnd rq k es a) = au_failures a"
  "au_locked_until (audit_effects now rnd rq k es a) = au_locked_until a"
  by (induction now rnd rq k es a rule: audit_effects.induct) simp_all

lemma refuse_auth [simp]: "snd (refuse n k t d a) = a" "snd (server_failure a) = a" "snd (wrong_code a) = a"
  by (simp_all add: refuse_def server_failure_def wrong_code_def)

lemma wrong_guess_iff:
  "wrong_guess url_host a now rq \<longleftrightarrow>
     reaches url_host Login rq \<and> au_locked_until a \<le> now \<and>
     (\<exists>u p. jfield (rq_body rq) ''username'' = Some (JStr u) \<and> jfield (rq_body rq) ''password'' = Some (JStr p) \<and>
            (u \<noteq> ''admin'' \<or> p \<noteq> au_password a))"
  by (cases "jfield (rq_body rq) ''username''"; cases "jfield (rq_body rq) ''password''") (auto simp: wrong_guess_def split: json.split)

lemma login_malformed:
  assumes "\<nexists>u p. jfield (rq_body rq) ''username'' = Some (JStr u) \<and> jfield (rq_body rq) ''password'' = Some (JStr p)"
  shows "snd (login now rnd rq a) = a"
  using assms
  by (cases "jfield (rq_body rq) ''username''"; cases "jfield (rq_body rq) ''password''")
    (auto simp: login_def split: json.split)

text \<open>What a sign-in request does to the sessions, the failure count and the lock.\<close>

lemma login_cases:
  assumes "res = login now rnd rq a"
  obtains (guess) "wrong_guess url_host a now rq = reaches url_host Login rq" "\<not> credentials a now rq" "au_locked_until a \<le> now"
      "au_sessions (snd res) = au_sessions a"
      "au_failures (snd res) = (if Suc (au_failures a) \<ge> 5 then 0 else Suc (au_failures a))"
      "au_locked_until (snd res) = (if Suc (au_failures a) \<ge> 5 then now + 60000 else au_locked_until a)"
    | (success) "\<not> wrong_guess url_host a now rq" "credentials a now rq" "au_locked_until a \<le> now"
      "au_sessions (snd res) = (au_sessions a)(rnd 2 \<mapsto> masterAdmin)" "au_failures (snd res) = 0"
      "au_locked_until (snd res) = au_locked_until a"
    | (refused) "\<not> wrong_guess url_host a now rq" "\<not> credentials a now rq"
      "au_sessions (snd res) = au_sessions a" "au_failures (snd res) = au_failures a" "au_locked_until (snd res) = au_locked_until a"
proof (cases "\<exists>u p. jfield (rq_body rq) ''username'' = Some (JStr u) \<and> jfield (rq_body rq) ''password'' = Some (JStr p)")
  case False
  then have "snd res = a" "\<not> wrong_guess url_host a now rq" "\<not> credentials a now rq"
    unfolding assms using login_malformed [OF False] by (auto simp: wrong_guess_iff credentials_def)
  then show thesis using refused by simp
next
  case True
  then obtain u p where up: "jfield (rq_body rq) ''username'' = Some (JStr u)" "jfield (rq_body rq) ''password'' = Some (JStr p)" by blast
  consider "au_locked_until a > now" | "au_locked_until a \<le> now" "u \<noteq> ''admin'' \<or> p \<noteq> au_password a"
    | "au_locked_until a \<le> now" "u = ''admin''" "p = au_password a" by fastforce
  then show thesis
  proof cases
    case 1
    then show thesis using up by (intro refused) (auto simp: assms login_def credentials_def wrong_guess_iff)
  next
    case 2
    then have "login now rnd rq a = (wrong_password now rnd rq u a :: 'a api_result)" using up by (auto simp: login_def)
    then show thesis
      using 2 up by (intro guess) (auto simp: assms wrong_password_def credentials_def wrong_guess_iff Let_def)
  next
    case 3
    then show thesis
    proof (cases "credentials a now rq")
      case True
      with 3 up show thesis
        by (intro success) (auto simp: assms login_def credentials_def MOCK_TOTP_CODE_def wrong_guess_iff sign_in_def newSession_def Let_def)
    next
      case False
      with 3 up show thesis by (intro refused) (auto simp: assms login_def credentials_def wrong_guess_iff Let_def)
    qed
  qed
qed

lemma other_handlers:
  assumes "r \<noteq> Login"
  shows "au_failures (snd (api_handle rt now rnd rq u r a)) = au_failures a"
    "au_locked_until (snd (api_handle rt now rnd rq u r a)) = au_locked_until a"
  using assms
  by (cases r; auto simp: oidc_login_def logout_def newSession_def change_password_def admin_only_def totp_enroll_def totp_confirm_def
      totp_disable_def audit_events_def Let_def case_prod_beta split: option.split json.split)+

lemma other_handlers_sessions:
  "r \<notin> {Login, OidcLogin, Logout} \<Longrightarrow> au_sessions (snd (api_handle rt now rnd rq u r a)) = au_sessions a"
  by (cases r; auto simp: change_password_def admin_only_def totp_enroll_def totp_confirm_def
      totp_disable_def audit_events_def Let_def case_prod_beta split: option.split json.split)

lemma api_handle_sessions:
  assumes "au_sessions (snd (api_handle rt now rnd rq v r a :: 'b api_result)) sid = Some u"
  shows "(sid = rnd 2 \<and> (r = Login \<and> credentials a now rq \<and> u = masterAdmin \<or> r = OidcLogin \<and> or_none (param rq ''fail'') = None \<and> u = oidcUser))
    \<or> au_sessions a sid = Some u \<and> (r = Logout \<longrightarrow> session_id rq \<noteq> Some (Some sid))"
proof (cases "r \<in> {Login, OidcLogin, Logout}")
  case False
  with assms show ?thesis by (auto simp: other_handlers_sessions)
next
  case True
  then consider "r = Login" | "r = OidcLogin" | "r = Logout" by blast
  then show ?thesis
  proof cases
    case 1
    define res where "res = (login now rnd rq a :: 'b api_result)"
    have "au_sessions (snd res) sid = Some u" using assms 1 by (simp add: res_def)
    then show ?thesis
      using 1 by (cases rule: login_cases [OF res_def, where url_host = "\<lambda>x. None"]) (auto split: if_splits)
  next
    case 2
    then show ?thesis using assms by (auto simp: oidc_login_def newSession_def Let_def split: if_splits)
  next
    case 3
    then show ?thesis using assms by (auto simp: logout_def split: if_splits option.splits)
  qed
qed

text \<open>A request either reaches a handler of this module, or leaves the sessions and the lock alone.\<close>

lemma respond_auth:
  fixes modules :: "ctx \<Rightarrow> 'r \<Rightarrow> 'm \<Rightarrow> ('b, 'm) outcome"
  assumes after: "s' = server_step rt url_host params modules (Arrives now rnd rq) s"
  obtains (own) r v where "reaches url_host r rq" "sv_auth s' = snd (api_handle rt now rnd rq v r (sv_auth s) :: 'b api_result)"
  | (other) "\<forall>r. reaches url_host r rq \<longrightarrow> route_key rq \<notin> set PUBLIC"
      "au_sessions (sv_auth s') = au_sessions (sv_auth s)"
      "au_failures (sv_auth s') = au_failures (sv_auth s)"
      "au_locked_until (sv_auth s') = au_locked_until (sv_auth s)"
proof (cases "\<exists>r. reaches url_host r rq")
  case False
  then show thesis
    by (intro other)
      (auto simp: after respond_def resolve_route_def reaches_def call_def case_prod_beta split: option.split)
next
  case True
  then obtain r where r: "map_of api_routes (route_key rq) = Some r" "csrfOk url_host rq" by (auto simp: reaches_def)
  then have reach: "reaches url_host r rq" by (simp add: reaches_def)
  show thesis
  proof (cases "route_key rq \<in> set PUBLIC")
    case True
    with r show thesis
      by (intro own [OF reach, of None]) (simp add: after respond_def resolve_route_def call_def case_prod_beta)
  next
    case False
    consider u where "Option.bind (session_id rq) (session_user (sv_auth s)) = Some u"
      | "Option.bind (session_id rq) (session_user (sv_auth s)) = None" by fastforce
    then show thesis
    proof cases
      case 1
      with r False show thesis
        by (intro own [OF reach, of "Some u"])
          (auto simp: after respond_def resolve_route_def call_def case_prod_beta bind_eq_Some_conv)
    next
      case 2
      with r False show thesis
        by (intro other) (auto simp: after respond_def resolve_route_def split: option.splits)
    qed
  qed
qed

lemma public_auth_routes:
  "map_of api_routes k = Some r \<Longrightarrow> r \<in> {Login, OidcLogin, Logout} \<Longrightarrow> k \<in> set PUBLIC"
  by (auto simp: api_routes_def PUBLIC_def split: if_splits)

lemma reaches_unique: "reaches url_host r rq \<Longrightarrow> reaches url_host r' rq \<longleftrightarrow> r' = r"
  by (auto simp: reaches_def)

lemma step_sessions:
  assumes "au_sessions (sv_auth (server_step rt url_host params modules e s)) sid = Some u"
  shows "signs_in url_host (sv_auth s) e sid u \<or> au_sessions (sv_auth s) sid = Some u \<and> \<not> signs_out url_host sid e"
proof (cases e)
  case (Arrives now rnd rq)
  from refl [of "server_step rt url_host params modules (Arrives now rnd rq) s"] show ?thesis
  proof (cases rule: respond_auth)
    case (own r v)
    with assms Arrives api_handle_sessions [of rt now rnd rq v r "sv_auth s" sid u] show ?thesis
      by (auto simp: reaches_unique)
  next
    case other
    with assms Arrives show ?thesis using public_auth_routes by (fastforce simp: reaches_def)
  qed
qed (use assms in auto)

section \<open>Who may change anything\<close>

lemma sessions_traced:
  assumes "au_sessions (sv_auth (server_run rt url_host params modules evs s)) sid = Some u" "au_sessions (sv_auth s) sid = None"
  shows "\<exists>pre e post. evs = pre @ e # post \<and> signs_in url_host (sv_auth (server_run rt url_host params modules pre s)) e sid u \<and>
    (\<forall>e' \<in> set post. \<not> signs_out url_host sid e')"
  using assms
proof (induction evs rule: rev_induct)
  case (snoc e evs)
  from step_sessions [of rt url_host params modules e "server_run rt url_host params modules evs s" sid u] snoc.prems(1)
  consider "signs_in url_host (sv_auth (server_run rt url_host params modules evs s)) e sid u"
    | "au_sessions (sv_auth (server_run rt url_host params modules evs s)) sid = Some u" "\<not> signs_out url_host sid e"
    by auto
  then show ?case
  proof cases
    case 1
    then show ?thesis by fastforce
  next
    case 2
    with snoc.IH snoc.prems(2) obtain pre e1 post where "evs = pre @ e1 # post"
      "signs_in url_host (sv_auth (server_run rt url_host params modules pre s)) e1 sid u" "\<forall>e' \<in> set post. \<not> signs_out url_host sid e'"
      by blast
    with 2(2) have "evs @ [e] = pre @ e1 # (post @ [e]) \<and>
        signs_in url_host (sv_auth (server_run rt url_host params modules pre s)) e1 sid u \<and>
        (\<forall>e' \<in> set (post @ [e]). \<not> signs_out url_host sid e')" by auto
    then show ?thesis by blast
  qed
qed simp

lemma signs_in_user: "signs_in url_host a e sid u \<Longrightarrow> u = masterAdmin \<or> u_kind u \<noteq> MasterAdmin"
  by (cases e) (auto simp: oidcUser_def)

lemma change_needs_session:
  assumes "sv_modules (server_step rt url_host params modules (Arrives now rnd rq) s) \<noteq> sv_modules s"
  obtains sid u r where "csrfOk url_host rq" "session_id rq = Some (Some sid)" "au_sessions (sv_auth s) sid = Some u" "params rq = Some r"
    "sv_modules (server_step rt url_host params modules (Arrives now rnd rq) s) =
       snd (snd (modules \<lparr>c_user = if u_kind u = MasterAdmin then masterAdmin else u, c_now = now, c_random = sub_draws rnd 0\<rparr> r (sv_modules s)))"
  using assms
  by (auto simp: respond_def call_def resolve_route_def case_prod_beta session_user_def bind_eq_Some_conv
      split: option.splits if_splits target.splits)

text \<open>C4: A request changes the state of a module only when it passes the cross-site check and carries the
  session of a user who signed in before with valid credentials, and whose session was not signed out since;
  the handler runs as that user.\<close>

theorem access_traceback:
  assumes "au_sessions (sv_auth s) = Map.empty"
    and "sv_modules (server_step rt url_host params modules (Arrives now rnd rq) (server_run rt url_host params modules evs s))
           \<noteq> sv_modules (server_run rt url_host params modules evs s)"
  shows "csrfOk url_host rq \<and>
    (\<exists>sid u r pre e post. session_id rq = Some (Some sid) \<and> params rq = Some r \<and> evs = pre @ e # post \<and>
       signs_in url_host (sv_auth (server_run rt url_host params modules pre s)) e sid u \<and>
       (\<forall>e' \<in> set post. \<not> signs_out url_host sid e') \<and>
       sv_modules (server_step rt url_host params modules (Arrives now rnd rq) (server_run rt url_host params modules evs s)) =
         snd (snd (modules \<lparr>c_user = u, c_now = now, c_random = sub_draws rnd 0\<rparr> r
           (sv_modules (server_run rt url_host params modules evs s)))))"
proof -
  from assms(2) obtain sid u r where change: "csrfOk url_host rq" "session_id rq = Some (Some sid)"
    "au_sessions (sv_auth (server_run rt url_host params modules evs s)) sid = Some u" "params rq = Some r"
    "sv_modules (server_step rt url_host params modules (Arrives now rnd rq) (server_run rt url_host params modules evs s)) =
       snd (snd (modules \<lparr>c_user = if u_kind u = MasterAdmin then masterAdmin else u, c_now = now, c_random = sub_draws rnd 0\<rparr> r
         (sv_modules (server_run rt url_host params modules evs s))))"
    by (rule change_needs_session)
  from sessions_traced [OF change(3)] assms(1) obtain pre e post where trace: "evs = pre @ e # post"
    "signs_in url_host (sv_auth (server_run rt url_host params modules pre s)) e sid u" "\<forall>e' \<in> set post. \<not> signs_out url_host sid e'"
    by auto
  have user: "(if u_kind u = MasterAdmin then masterAdmin else u) = u" using signs_in_user [OF trace(2)] by auto
  show ?thesis
    using change(1,2,4) trace change(5) [unfolded user]
    by (intro conjI exI [of _ sid] exI [of _ u] exI [of _ r] exI [of _ pre] exI [of _ e] exI [of _ post]) assumption+
qed

section \<open>Guessing the password\<close>

text \<open>The number of events of a run at which a condition on the sign-in state holds.\<close>

fun tally ::
  "runtime \<Rightarrow> (string \<Rightarrow> string option) \<Rightarrow> (request \<Rightarrow> 'r option) \<Rightarrow> (ctx \<Rightarrow> 'r \<Rightarrow> 'm \<Rightarrow> ('b, 'm) outcome) \<Rightarrow>
   (auth \<Rightarrow> 'm server_event \<Rightarrow> bool) \<Rightarrow> 'm server_event list \<Rightarrow> 'm server \<Rightarrow> int" where
  "tally rt url_host params modules p [] s = 0"
| "tally rt url_host params modules p (e # evs) s =
     (if p (sv_auth s) e then 1 else 0) + tally rt url_host params modules p evs (server_step rt url_host params modules e s)"

fun arrival :: "'m server_event \<Rightarrow> int option" where
  "arrival (Arrives now rnd rq) = Some now"
| "arrival (Background g) = None"

definition admin_signs_in :: "(string \<Rightarrow> string option) \<Rightarrow> auth \<Rightarrow> 'm server_event \<Rightarrow> bool" where
  "admin_signs_in url_host a e \<longleftrightarrow> (\<exists>sid. signs_in url_host a e sid masterAdmin)"

lemma admin_signs_in_iff:
  "admin_signs_in url_host a (Arrives now rnd rq) \<longleftrightarrow> reaches url_host Login rq \<and> credentials a now rq"
  by (auto simp: admin_signs_in_def masterAdmin_def oidcUser_def)

text \<open>The changes that one event makes to the failure count and the lock.\<close>

lemma step_lock:
  fixes modules :: "ctx \<Rightarrow> 'r \<Rightarrow> 'm \<Rightarrow> ('b, 'm) outcome"
  assumes "s' = server_step rt url_host params modules (Arrives now rnd rq) s"
  obtains (guess) "guesses url_host (sv_auth s) (Arrives now rnd rq :: 'm server_event)"
      "\<not> admin_signs_in url_host (sv_auth s) (Arrives now rnd rq :: 'm server_event)" "au_locked_until (sv_auth s) \<le> now"
      "au_failures (sv_auth s') = (if Suc (au_failures (sv_auth s)) \<ge> 5 then 0 else Suc (au_failures (sv_auth s)))"
      "au_locked_until (sv_auth s') = (if Suc (au_failures (sv_auth s)) \<ge> 5 then now + 60000 else au_locked_until (sv_auth s))"
  | (enter) "\<not> guesses url_host (sv_auth s) (Arrives now rnd rq :: 'm server_event)"
      "admin_signs_in url_host (sv_auth s) (Arrives now rnd rq :: 'm server_event)" "au_locked_until (sv_auth s) \<le> now"
      "au_failures (sv_auth s') = 0" "au_locked_until (sv_auth s') = au_locked_until (sv_auth s)"
  | (neither) "\<not> guesses url_host (sv_auth s) (Arrives now rnd rq :: 'm server_event)"
      "\<not> admin_signs_in url_host (sv_auth s) (Arrives now rnd rq :: 'm server_event)"
      "au_failures (sv_auth s') = au_failures (sv_auth s)" "au_locked_until (sv_auth s') = au_locked_until (sv_auth s)"
  using assms
proof (cases rule: respond_auth)
  case (own r v)
  show thesis
  proof (cases "r = Login")
    case False
    with own show thesis by (intro neither) (auto simp: wrong_guess_iff admin_signs_in_iff reaches_unique other_handlers)
  next
    case True
    from refl [of "login now rnd rq (sv_auth s) :: 'b api_result"] show thesis
    proof (cases rule: login_cases [where url_host = url_host])
      case guess
      with own True show thesis by (intro that(1)) (auto simp: admin_signs_in_iff wrong_guess_iff)
    next
      case success
      with own True show thesis by (intro enter) (auto simp: admin_signs_in_iff wrong_guess_iff)
    next
      case refused
      with own True show thesis by (intro neither) (auto simp: admin_signs_in_iff wrong_guess_iff)
    qed
  qed
next
  case other
  have "\<not> reaches url_host Login rq"
    using other(1) public_auth_routes by (fastforce simp: reaches_def)
  with other show thesis by (intro neither) (auto simp: wrong_guess_iff admin_signs_in_iff)
qed

text \<open>The number of locks that end in the time from \<open>t\<close> to \<open>t1\<close>, and one more for the time after.\<close>

definition rounds :: "int \<Rightarrow> int \<Rightarrow> int" where
  "rounds t t1 = (if t > t1 then 0 else 1 + (t1 - t) div 60000)"

lemma rounds_mono: "t \<le> t' \<Longrightarrow> rounds t' t1 \<le> rounds t t1"
  by (auto simp: rounds_def intro: zdiv_mono1 pos_imp_zdiv_nonneg_iff [THEN iffD2])

lemma rounds_lock: "t \<le> t1 \<Longrightarrow> 1 + rounds (t + 60000) t1 \<le> rounds t t1"
  by (auto simp: rounds_def)

lemma rounds_nonneg: "0 \<le> rounds t t1"
  by (auto simp: rounds_def pos_imp_zdiv_nonneg_iff)

lemma guesses_potential:
  assumes "sorted (List.map_filter arrival evs)" "\<forall>t' \<in> set (List.map_filter arrival evs). t \<le> t' \<and> t' \<le> t1"
    "au_failures (sv_auth s) \<le> 4" "0 < au_failures (sv_auth s) \<Longrightarrow> au_locked_until (sv_auth s) \<le> t \<and> t \<le> t1"
  shows "tally rt url_host params modules (guesses url_host) evs s + int (au_failures (sv_auth s)) \<le>
    5 * rounds (max t (au_locked_until (sv_auth s))) t1 + 4 * tally rt url_host params modules (admin_signs_in url_host) evs s"
  using assms
proof (induction evs arbitrary: t s)
  case Nil
  show ?case
  proof (cases "au_failures (sv_auth s) = 0")
    case True
    then show ?thesis using rounds_nonneg [of "max t (au_locked_until (sv_auth s))" t1] by simp
  next
    case False
    with Nil(4) have "max t (au_locked_until (sv_auth s)) = t" "1 \<le> rounds t t1"
      by (auto simp: rounds_def pos_imp_zdiv_nonneg_iff)
    then show ?thesis using Nil(3) by simp
  qed
next
  case (Cons e evs)
  let ?s = "server_step rt url_host params modules e s"
  let ?f = "au_failures (sv_auth s)" and ?l = "au_locked_until (sv_auth s)"
  show ?case
  proof (cases e)
    case (Background g)
    with Cons.prems Cons.IH [of t ?s] show ?thesis by (simp add: List.map_filter_simps admin_signs_in_def)
  next
    case (Arrives now rnd rq)
    have now: "t \<le> now" "now \<le> t1" using Cons.prems(2) by (auto simp: Arrives List.map_filter_simps)
    note IH = Cons.IH [of now ?s]
    have later: "sorted (List.map_filter arrival evs)" "\<forall>t' \<in> set (List.map_filter arrival evs). now \<le> t' \<and> t' \<le> t1"
      using Cons.prems(1,2) by (auto simp: Arrives List.map_filter_simps)
    have le: "rounds (max now ?l) t1 \<le> rounds (max t ?l) t1" using now by (intro rounds_mono) auto
    from Arrives have "?s = server_step rt url_host params modules (Arrives now rnd rq) s" by simp
    then show ?thesis
    proof (cases rule: step_lock)
      case guess
      show ?thesis
      proof (cases "?f = 4")
        case True
        with guess later IH have "tally rt url_host params modules (guesses url_host) evs ?s \<le>
            5 * rounds (now + 60000) t1 + 4 * tally rt url_host params modules (admin_signs_in url_host) evs ?s"
          by simp
        with guess True Arrives le now rounds_lock [of now t1] show ?thesis by (simp add: max_def split: if_splits)
      next
        case False
        with guess later IH Cons.prems(3) now Arrives le show ?thesis by simp
      qed
    next
      case enter
      with later IH Cons.prems(3) now Arrives le show ?thesis by simp
    next
      case neither
      moreover have "?l \<le> now" if "0 < ?f" using Cons.prems(4) that now by simp
      ultimately show ?thesis using later IH Cons.prems(3) now Arrives le by simp
    qed
  qed
qed


section \<open>Reading the audit log\<close>

text \<open>A client that follows \<^verbatim>\<open>next_cursor\<close> until it is null, as the audit page does; the fuel bounds the
  number of pages.\<close>

fun audit_walk :: "runtime \<Rightarrow> string option \<Rightarrow> audit_entry list \<Rightarrow> nat \<Rightarrow> string option \<Rightarrow> audit_entry list option" where
  "audit_walk rt limit entries 0 cursor = None"
| "audit_walk rt limit entries (Suc n) cursor =
     (case audit_page rt limit entries cursor of
        (items, None) \<Rightarrow> Some items
      | (items, Some c) \<Rightarrow> map_option (append items) (audit_walk rt limit entries n (Some c)))"

lemma takeWhile_digits [simp]: "takeWhile js_digit (show_nat k) = show_nat k" "dropWhile js_digit (show_nat k) = []"
  using show_nat_digits [of k] by (simp_all add: list_all_iff)

lemma digit_facts:
  "js_digit c \<Longrightarrow> \<not> js_space c" "js_digit c \<Longrightarrow> c \<noteq> CHR ''-''" "js_digit c \<Longrightarrow> c \<noteq> CHR ''+''"
  "js_digit c \<Longrightarrow> to_lower c \<noteq> CHR ''x''" "js_digit c \<Longrightarrow> to_lower c \<noteq> CHR ''o''" "js_digit c \<Longrightarrow> to_lower c \<noteq> CHR ''b''"
  by (auto simp: js_digit_def js_space_def to_lower_def js_upper_def split: if_splits)

lemma trim_show_nat [simp]: "trim (show_nat k) = show_nat k"
  using show_nat_digits [of k] by (intro trim_id) (auto simp: list_all_iff digit_facts)

lemma decimal_show_nat: "decimal (show_nat k) = Fin (of_nat k)"
proof -
  have "show_nat k \<noteq> ''Infinity''" using show_nat_digits [of k] by (auto simp: js_digit_def)
  then show ?thesis by (simp add: decimal_def exponent_of_def power_of_ten_def)
qed

lemma Number_show_nat [simp]: "Number (show_nat k) = Fin (of_nat k)"
proof -
  obtain c s where cs: "show_nat k = c # s" by (cases "show_nat k") auto
  then have digits: "js_digit c" "list_all js_digit s" using show_nat_digits [of k] by auto
  have "Number (show_nat k) = decimal (show_nat k)"
    using digits unfolding Number_def trim_show_nat unfolding cs by (cases s) (simp_all add: digit_facts)
  then show ?thesis by (simp add: decimal_show_nat)
qed

lemma slice_index_of_nat [simp]: "slice_index (of_nat k) n = min n k"
  by (simp add: slice_index_def Let_def)

lemma number_text_of_nat: "k < 10 ^ 21 \<Longrightarrow> number_text rt (of_nat k) = show_nat k"
proof -
  assume "k < 10 ^ 21"
  then have "(of_nat k :: rat) < of_nat (10 ^ 21)" by (simp only: of_nat_less_iff)
  then show ?thesis by (simp add: number_text_def show_int_def)
qed

lemma number_or_nat [simp]: "number_or (Some (show_nat k)) 0 = Fin (of_nat k)" "number_or None 0 = Fin 0"
  by (simp_all add: number_or_def)

lemma audit_page_nat:
  assumes "audit_limit limit = of_nat n" "length entries < 10 ^ 21"
  shows "audit_page rt limit entries (Some (show_nat k)) =
    (take n (drop k entries), if k + n < length entries then Some (show_nat (k + n)) else None)"
proof -
  have sum: "(of_nat k + of_nat n :: rat) = of_nat (k + n)" by simp
  have "js_slice (of_nat k) (of_nat (k + n)) entries = take n (drop k entries)"
    by (auto simp: js_slice_def Let_def min_def simp del: of_nat_add)
  moreover have "k + n < length entries \<Longrightarrow> number_text rt (of_nat (k + n)) = show_nat (k + n)"
    using assms(2) by (intro number_text_of_nat) simp
  ultimately show ?thesis
    unfolding audit_page_def Let_def assms(1) number_or_nat jsnum.case sum of_nat_less_iff by simp
qed

lemma audit_page_first: "audit_page rt limit entries None = audit_page rt limit entries (Some (show_nat 0))"
  unfolding audit_page_def number_or_nat by simp

lemma audit_limit_pos: "1 \<le> audit_limit limit"
  by (auto simp: audit_limit_def split: jsnum.split bool.split)

lemma audit_walk_nat:
  assumes "audit_limit limit = of_nat n" "length entries < 10 ^ 21" "k + fuel > length entries"
  shows "audit_walk rt limit entries (Suc fuel) (Some (show_nat k)) = Some (drop k entries)"
  using assms(3)
proof (induction fuel arbitrary: k)
  case 0
  then show ?case by (simp add: audit_page_nat [OF assms(1,2)])
next
  case (Suc fuel)
  have n: "1 \<le> n" using audit_limit_pos [of limit] assms(1) by simp
  show ?case
  proof (cases "k + n < length entries")
    case True
    have "take n (drop k entries) @ drop (k + n) entries = drop k entries"
      by (metis add.commute append_take_drop_id drop_drop)
    then show ?thesis
      using True Suc.IH [of "k + n"] Suc.prems n
      by (subst audit_walk.simps) (simp add: audit_page_nat [OF assms(1,2)] del: audit_walk.simps)
  next
    case False
    then show ?thesis by (simp add: audit_page_nat [OF assms(1,2)])
  qed
qed

text \<open>C20: Reading the audit log page by page, from the start until no cursor is returned, ends and yields
  every entry once and in order, for every page size that the server reads as a whole number.\<close>

theorem audit_log_read:
  assumes "audit_limit limit = of_nat n" "length entries < 10 ^ 21"
  shows "audit_walk rt limit entries (Suc (Suc (length entries))) None = Some entries"
proof -
  have "audit_walk rt limit entries (Suc (Suc (length entries))) None =
      audit_walk rt limit entries (Suc (Suc (length entries))) (Some (show_nat 0))"
    by (subst (1 2) audit_walk.simps) (simp only: audit_page_first)
  then show ?thesis using audit_walk_nat [OF assms, of 0 "Suc (length entries)"] by simp
qed

theorem audit_log_read_witness:
  "audit_limit (Some ''2'') = of_nat 2 \<and>
   audit_walk plain_runtime (Some ''2'') (map (seed_audit 0 (\<lambda>i. show_nat i)) [0..<3]) 5 None =
     Some (map (seed_audit 0 (\<lambda>i. show_nat i)) [0..<3])"
proof -
  have limit: "audit_limit (Some ''2'') = of_nat 2" by code_simp
  have "length (map (seed_audit 0 (\<lambda>i. show_nat i)) [0..<3]) < 10 ^ 21" by simp
  from limit audit_log_read [OF limit this, of plain_runtime] show ?thesis by simp
qed

section \<open>Two runs\<close>

text \<open>The server with one other module, the users of \<^verbatim>\<open>mock-live.mjs\<close>: the administrator signs in and
  maps a group to a role, and someone tries passwords.\<close>

definition mapping_route :: "request \<Rightarrow> live_route option" where
  "mapping_route rq = (if route_key rq = ''POST /api/v1/oidc/group-mappings'' then Some (PostMapping (rq_body rq)) else None)"

definition directory_handle :: "ctx \<Rightarrow> live_route \<Rightarrow> directory \<Rightarrow> live_outcome" where
  "directory_handle = live_handle plain_runtime small_fleet sample_protection []"

definition sample_server :: "directory server" where
  "sample_server =
     \<lparr>sv_auth = \<lparr>au_password = ''correct-horse-battery'', au_totp_enabled = False, au_pending_secret = None, au_failures = 0,
        au_locked_until = 0, au_sessions = Map.empty, au_audit = []\<rparr>,
      sv_modules = seed_directory 0\<rparr>"

definition sign_in_request :: "string \<Rightarrow> request" where
  "sign_in_request p =
     \<lparr>rq_method = ''POST'', rq_path = ''/api/v1/auth/login'', rq_query = [], rq_headers = [], rq_remote = Some ''10.0.0.9'',
      rq_body = JObj [(''username'', JStr ''admin''), (''password'', JStr p)]\<rparr>"

definition mapping_request :: request where
  "mapping_request =
     \<lparr>rq_method = ''POST'', rq_path = ''/api/v1/oidc/group-mappings'', rq_query = [],
      rq_headers = [(''cookie'', ''a=1; dbr2_session=sid'')], rq_remote = Some ''10.0.0.9'',
      rq_body = JObj [(''group_id'', JStr ''g''), (''role'', JStr ''auditor'')]\<rparr>"

abbreviation directory_run :: "directory server_event list \<Rightarrow> directory server" where
  "directory_run evs \<equiv> server_run plain_runtime (\<lambda>h. None) mapping_route directory_handle evs sample_server"

definition admin_enters :: "directory server_event list" where
  "admin_enters = [Arrives 0 (\<lambda>k. ''sid'') (sign_in_request ''correct-horse-battery'')]"

theorem access_traceback_witness:
  "\<exists>sid u pre e post. session_id mapping_request = Some (Some sid) \<and> admin_enters = pre @ e # post \<and>
     signs_in (\<lambda>h. None) (sv_auth (directory_run pre)) e sid u \<and> (\<forall>e' \<in> set post. \<not> signs_out (\<lambda>h. None) sid e')"
proof -
  have "length (group_mappings (sv_modules (server_step plain_runtime (\<lambda>h. None) mapping_route directory_handle
      (Arrives 1 (\<lambda>k. []) mapping_request) (directory_run admin_enters)))) = 3" by code_simp
  moreover have "length (group_mappings (sv_modules (directory_run admin_enters))) = 2" by code_simp
  ultimately have "sv_modules (server_step plain_runtime (\<lambda>h. None) mapping_route directory_handle
      (Arrives 1 (\<lambda>k. []) mapping_request) (directory_run admin_enters)) \<noteq> sv_modules (directory_run admin_enters)" by auto
  moreover have "au_sessions (sv_auth sample_server) = Map.empty" by (simp add: sample_server_def)
  ultimately show ?thesis
    using access_traceback [of sample_server plain_runtime "\<lambda>h. None" mapping_route directory_handle 1 "\<lambda>k. []" mapping_request admin_enters]
    by blast
qed

definition five_guesses :: "directory server_event list" where
  "five_guesses = map (\<lambda>(t, p). Arrives t (\<lambda>k. []) (sign_in_request p))
     [(0, ''a''), (1, ''b''), (2, ''c''), (3, ''d''), (4, ''e''), (5, ''f''), (59000, ''correct-horse-battery'')]"


end
