(* ===== verification/Platform_Server.thy ===== *)
theory Platform_Server
  imports Policy_Server Restore_Server
begin

text \<open>
  Verification, escrow health and platform self-protection of the development server,
  \<^verbatim>\<open>scripts/mock-platform.mjs\<close>: on-demand verification of a repository, the health report on the escrow
  packages, their regeneration, escrow drills, platform backups and the designation of the System
  Repository.

  The module shares the repositories, recipients, recovery points and alerts with
  \<^verbatim>\<open>scripts/mock-protection.mjs\<close>; its own state are the drills, the platform backups and the work that
  \<^verbatim>\<open>setTimeout\<close> holds back, with the time at which it is due. The lists of recovery points and of
  platform backups only grow at their ends, so a callback refers to their elements by position.
\<close>

section \<open>State\<close>

record drill =
  dr_id :: string
  dr_created_at :: int
  dr_completed_at :: "int option"
  dr_recipients :: nat

record stored_drill = drill +
  dr_code :: string

record bundle_repository =
  br_id :: string
  br_name :: string
  br_management_url :: string
  br_file :: "string option"
  br_error :: "string option"

record bundle_manifest =
  bm_created_at :: int
  bm_tables :: "(string \<times> nat \<times> string) list"
  bm_repositories :: "bundle_repository list"
  bm_escrow_recipients :: "string list"

datatype platform_state = PbRunning | PbSucceeded | PbPartial | PbFailed

record platform_backup =
  pb_id :: string
  pb_state :: platform_state
  pb_trigger :: string
  pb_workflow_id :: string
  pb_started_at :: int
  pb_finished_at :: "int option"
  pb_size_bytes :: int
  pb_sha256 :: "string option"
  pb_file_name :: "string option"
  pb_snapshot_id :: "string option"
  pb_repository_id :: "string option"
  pb_bundle_path :: "string option"
  pb_error :: "string option"
  pb_manifest :: "bundle_manifest option"

datatype timer = VerifyDone string "nat list" rat | BackupDone nat

record platform =
  drills :: "stored_drill list"
  platform_backups :: "platform_backup list"
  pending :: "(int \<times> timer) list"

type_synonym plat_state = "protection \<times> platform"

definition VERIFY_MS :: int where "VERIFY_MS = 4000"
definition PLATFORM_MS :: int where "PLATFORM_MS = 6000"
definition MIN_RECIPIENTS :: nat where "MIN_RECIPIENTS = 2"
definition RECONFIRM_MS :: int where "RECONFIRM_MS = 90 * DAY"
definition DRILL_MS :: int where "DRILL_MS = 365 * DAY"

section \<open>Escrow health\<close>

definition sameSet :: "string list \<Rightarrow> string list \<Rightarrow> bool" where
  "sameSet a b \<longleftrightarrow> length a = length b \<and> js_join '','' (js_sort text_le a) = js_join '','' (js_sort text_le b)"

record escrow_problem =
  ep_code :: string
  ep_severity :: string
  ep_repository_id :: "string option"
  ep_message :: string

definition escrow_problem_of :: "string \<Rightarrow> string \<Rightarrow> stored_repo \<Rightarrow> string \<Rightarrow> escrow_problem" where
  "escrow_problem_of kind severity r message =
     \<lparr>ep_code = kind, ep_severity = severity, ep_repository_id = Some (re_id r), ep_message = message\<rparr>"

definition repository_problems :: "int \<Rightarrow> string list \<Rightarrow> stored_repo \<Rightarrow> escrow_problem list" where
  "repository_problems now current r =
     (if re_status r = Retired then []
      else
        (case re_escrow_confirmed_at r of
           None \<Rightarrow> [escrow_problem_of ''not_confirmed'' ''critical'' r
                      (''the escrow package of Repository '' @ re_name r @ '' has not been confirmed'')]
         | Some t \<Rightarrow>
             if now - t > RECONFIRM_MS then
               [escrow_problem_of ''reconfirm_due'' ''warning'' r
                  (''escrow of Repository '' @ re_name r @ '' was last confirmed more than 90 days ago; re-confirm it'')]
             else []) @
        (if \<not> sameSet (re_recipient_ids r) current then
           [escrow_problem_of ''recipients_changed'' ''critical'' r
              (''the escrow recipients changed since the package of Repository '' @ re_name r @ '' was generated; regenerate it'')]
         else []))"

definition last_drill :: "stored_drill list \<Rightarrow> int option" where
  "last_drill ds =
     (case js_sort (\<le>) (concat (map (\<lambda>d. case dr_completed_at d of Some t \<Rightarrow> [t] | None \<Rightarrow> []) ds)) of
        [] \<Rightarrow> None | ts \<Rightarrow> Some (last ts))"

record health_report =
  hr_healthy :: bool
  hr_problems :: "escrow_problem list"
  hr_recipients :: nat
  hr_last_drill_at :: "int option"
  hr_checked_at :: int

definition escrowHealth :: "int \<Rightarrow> protection \<Rightarrow> stored_drill list \<Rightarrow> health_report" where
  "escrowHealth now q ds =
     (let n = length (recipients q);
          current = map ec_id (recipients q);
          final = last_drill ds;
          problems =
            (if n < MIN_RECIPIENTS then
               [\<lparr>ep_code = ''too_few_recipients'', ep_severity = ''critical'', ep_repository_id = None,
                 ep_message = show_nat n @ '' escrow recipients are configured; '' @ show_nat MIN_RECIPIENTS @ '' are required''\<rparr>]
             else []) @
            concat (map (repository_problems now current) (repositories q)) @
            (if (case final of None \<Rightarrow> True | Some t \<Rightarrow> now - t > DRILL_MS) then
               [\<lparr>ep_code = ''drill_due'', ep_severity = ''warning'', ep_repository_id = None,
                 ep_message = ''no escrow drill in the last 12 months: decrypt a drill package with an escrow identity from the safe''\<rparr>]
             else [])
      in \<lparr>hr_healthy = problems = [], hr_problems = problems, hr_recipients = n, hr_last_drill_at = final, hr_checked_at = now\<rparr>)"

definition drillPackage :: "string \<Rightarrow> string \<Rightarrow> string" where
  "drillPackage base64 secret =
     ''-----BEGIN AGE ENCRYPTED FILE-----'' @ newline @ trim (wrap64 base64) @ newline @
     ''-----END AGE ENCRYPTED FILE-----'' @ newline @
     ''# MOCK ONLY (not encrypted): escrow drill, confirmation_code '' @ secret @ newline"

definition drillOut :: "stored_drill \<Rightarrow> drill" where
  "drillOut d = drill.truncate d"

section \<open>Platform backups\<close>

definition pbId :: "int \<Rightarrow> string \<Rightarrow> string" where
  "pbId ms bytes = ''pb_'' @ rp_time 10 (nat ms) [] @ map (\<lambda>x. CROCKFORD ! (code x mod 32)) bytes"

definition file_stamp :: "int \<Rightarrow> string" where
  "file_stamp ms = filter (\<lambda>x. x \<noteq> CHR ''-'' \<and> x \<noteq> CHR '':'') (iso_seconds ms) @ ''Z''"

definition TABLES :: "(string \<times> nat) list" where
  "TABLES =
     [(''agents'', 6), (''applications'', 9), (''audit_events'', 4812), (''policies'', 3), (''recovery_points'', 418),
      (''repositories'', 4), (''restore_runs'', 27), (''users'', 4)]"

text \<open>The fields of the manifest that are the same in every bundle are left out.\<close>

definition bundleManifest :: "protection \<Rightarrow> int \<Rightarrow> string option \<Rightarrow> bundle_manifest" where
  "bundleManifest q begun missing =
     \<lparr>bm_created_at = begun + 40000,
      bm_tables = map (\<lambda>(name, rows). (name, rows, ''db/'' @ name @ ''.jsonl.zst'')) TABLES,
      bm_repositories = map (\<lambda>r.
        \<lparr>br_id = re_id r, br_name = re_name r, br_management_url = re_management_url r,
         br_file = (if Some (re_id r) = missing then None else Some (''reposervers/'' @ re_id r @ ''.tar'')),
         br_error = (if Some (re_id r) = missing
           then Some ''state export failed: dial tcp 10.20.5.20:8091: connect: connection refused'' else None)\<rparr>)
        (filter (\<lambda>r. re_status r \<noteq> Retired) (repositories q)),
      bm_escrow_recipients = map ec_id (recipients q)\<rparr>"

definition bundle_file :: "int \<Rightarrow> string" where
  "bundle_file begun = ''dbr2-platform-'' @ file_stamp begun @ ''.tar.zst.age''"

definition bundle_dir :: "string \<Rightarrow> string" where
  "bundle_dir file = ''/var/lib/dbr2/platform-bundles/'' @ file"

definition mebibytes :: "rat \<Rightarrow> int" where
  "mebibytes x = js_round (x * 1024 ^ 2)"

definition platformRun :: "protection \<Rightarrow> int \<Rightarrow> (nat \<Rightarrow> string) \<Rightarrow> int \<Rightarrow> int \<Rightarrow> platform_state \<Rightarrow> platform_backup" where
  "platformRun q now rnd offset duration state =
     (let begun = now + offset; file = bundle_file begun
      in \<lparr>pb_id = pbId begun (rnd 0), pb_state = state, pb_trigger = ''schedule'', pb_workflow_id = ''platform/backup'',
          pb_started_at = begun, pb_finished_at = Some (begun + duration), pb_size_bytes = mebibytes (463 / 10),
          pb_sha256 = Some (rnd 1), pb_file_name = Some file, pb_snapshot_id = Some (CHR ''k'' # rnd 2),
          pb_repository_id = Some NAS01, pb_bundle_path = Some (bundle_dir file), pb_error = None,
          pb_manifest = Some (bundleManifest q begun None)\<rparr>)"

definition seed_platform :: "protection \<Rightarrow> int \<Rightarrow> (nat \<Rightarrow> string) \<Rightarrow> platform" where
  "seed_platform q now rnd =
     \<lparr>drills =
        [\<lparr>dr_id = ''4d5e6f70-8192-4a3b-9c4d-5e6f708192a1'', dr_created_at = now - 400 * DAY - HOUR,
          dr_completed_at = Some (now - 400 * DAY), dr_recipients = 2, dr_code = newCode (sub_draws rnd 0 0)\<rparr>],
      platform_backups =
        [platformRun q now (sub_draws rnd 1) (- DAY) 94000 PbSucceeded,
         (platformRun q now (sub_draws rnd 2) (- 2 * DAY) 131000 PbPartial)
           \<lparr>pb_error := Some ''reposerver offsite-nfs: state export failed: dial tcp 10.20.5.20:8091: connect: connection refused'',
            pb_size_bytes := mebibytes (459 / 10), pb_manifest := Some (bundleManifest q (now - 2 * DAY) (Some OFFSITE))\<rparr>,
         (platformRun q now (sub_draws rnd 3) (- 3 * DAY) 301000 PbFailed)
           \<lparr>pb_error := Some ''System Repository nas01-backups: kopia snapshot create: context deadline exceeded'',
            pb_snapshot_id := None\<rparr>,
         (platformRun q now (sub_draws rnd 4) (- 8 * DAY) 88000 PbSucceeded)
           \<lparr>pb_size_bytes := mebibytes (448 / 10), pb_trigger := ''manual''\<rparr>],
      pending = []\<rparr>"

definition finishPlatform :: "protection \<Rightarrow> int \<Rightarrow> (nat \<Rightarrow> string) \<Rightarrow> platform_backup \<Rightarrow> platform_backup" where
  "finishPlatform q now rnd b =
     (let file = bundle_file (pb_started_at b);
          b1 = b\<lparr>pb_finished_at := Some now, pb_file_name := Some file, pb_bundle_path := Some (bundle_dir file),
                 pb_sha256 := Some (rnd 0), pb_size_bytes := mebibytes (464 / 10),
                 pb_manifest := Some (bundleManifest q (pb_started_at b) None)\<rparr>
      in case find (\<lambda>r. re_is_system r \<and> re_status r \<noteq> Retired) (repositories q) of
           Some sys \<Rightarrow> b1\<lparr>pb_state := PbSucceeded, pb_snapshot_id := Some (CHR ''k'' # rnd 1), pb_repository_id := Some (re_id sys)\<rparr>
         | None \<Rightarrow> b1\<lparr>pb_state := PbPartial, pb_error := Some ''no System Repository is designated''\<rparr>)"

section \<open>Timers\<close>

definition verification_alert :: "int \<Rightarrow> string \<Rightarrow> alert list \<Rightarrow> stored_rp \<Rightarrow> alert" where
  "verification_alert now rid als r =
     \<lparr>al_id = next_alert_id als, al_severity = ''critical'', al_type = ''verification.failed'',
      al_target_type = ''recovery_point'', al_target_id = rp_id r,
      al_message = ''Verification of an '' @ rp_application_name r @ '' recovery point failed: 2 errors in 1 component'',
      al_details = JObj [(''recovery_point_id'', JStr (rp_id r)), (''repository_id'', JStr rid)],
      al_created_at = now, al_acknowledged_at = None\<rparr>"

text \<open>The verification of one recovery point, when its timer is due.\<close>

definition verified :: "int \<Rightarrow> rat \<Rightarrow> stored_rp \<Rightarrow> stored_rp" where
  "verified now pct r =
     (if rp_application_id r = MFT then r\<lparr>rp_verified_at := Some now, rp_verification := ''verification_failed''\<rparr>
      else r\<lparr>rp_verified_at := Some now, rp_verification := ''verified'',
             rp_verification_report := Some (verificationOf (rp_manifest r) pct [])\<rparr>)"

definition verify_rp :: "int \<Rightarrow> string \<Rightarrow> rat \<Rightarrow> nat \<Rightarrow> protection \<Rightarrow> protection \<times> effect list" where
  "verify_rp now rid pct i q =
     (let r = recovery_points q ! i
      in if i \<ge> length (recovery_points q) \<or> rp_state r \<noteq> RpCommitted \<and> rp_state r \<noteq> RpMissing then (q, [])
         else
           let q1 = q\<lparr>recovery_points := (recovery_points q)[i := verified now pct r]\<rparr>
           in if rp_application_id r = MFT then
                (let al = verification_alert now rid (alerts q) r
                 in (q1\<lparr>alerts := alerts q @ [al]\<rparr>, [alert_created al, backup_updated r ''committed'']))
              else (q1, [backup_updated r ''committed'']))"

fun verify_rps :: "int \<Rightarrow> string \<Rightarrow> rat \<Rightarrow> nat list \<Rightarrow> protection \<Rightarrow> protection \<times> effect list" where
  "verify_rps now rid pct [] q = (q, [])"
| "verify_rps now rid pct (i # is) q =
     (let (q1, es) = verify_rp now rid pct i q; (q2, es') = verify_rps now rid pct is q1 in (q2, es @ es'))"

fun fire :: "int \<Rightarrow> (nat \<Rightarrow> string) \<Rightarrow> timer \<Rightarrow> plat_state \<Rightarrow> plat_state \<times> effect list" where
  "fire now rnd (VerifyDone rid targets pct) (q, p) =
     (let (q1, es) = verify_rps now rid pct targets q
      in ((update_repo rid (\<lambda>x. x\<lparr>re_last_verified_at := Some now\<rparr>) q1, p), es))"
| "fire now rnd (BackupDone i) (q, p) = ((q, p\<lparr>platform_backups := (platform_backups p)[i := finishPlatform q now rnd (platform_backups p ! i)]\<rparr>), [])"

text \<open>The callbacks that are due run in the order of their times; the others stay.\<close>

fun fire_all :: "int \<Rightarrow> (nat \<Rightarrow> string) \<Rightarrow> nat \<Rightarrow> timer list \<Rightarrow> plat_state \<Rightarrow> plat_state \<times> effect list" where
  "fire_all now rnd k [] s = (s, [])"
| "fire_all now rnd k (t # ts) s =
     (let (s1, es) = fire now (sub_draws rnd k) t s; (s2, es') = fire_all now rnd (Suc k) ts s1 in (s2, es @ es'))"

definition due :: "int \<Rightarrow> platform \<Rightarrow> timer list" where
  "due now p = map snd (js_sort (\<lambda>a b. fst a \<le> fst b) (filter (\<lambda>(t, x). t \<le> now) (pending p)))"

definition run_timers :: "int \<Rightarrow> (nat \<Rightarrow> string) \<Rightarrow> plat_state \<Rightarrow> plat_state \<times> effect list" where
  "run_timers now rnd s =
     fire_all now rnd 0 (due now (snd s)) (fst s, (snd s)\<lparr>pending := filter (\<lambda>(t, x). now < t) (pending (snd s))\<rparr>)"

section \<open>Routes\<close>

datatype platform_route =
  PostVerify string json
| GetEscrowHealth
| PostRegenerate string
| GetDrills
| PostDrill
| PostDrillComplete string json
| GetPlatformBackups "rat option option"
| PostPlatformBackup
| PutSystem string

datatype platform_body =
  Workflow string
| Health health_report
| Regenerated repository string string
| Drills "drill list"
| StartedDrill drill string
| DrillBody drill
| PlatformBackups "platform_backup list"
| SystemRepository repository

type_synonym plat_outcome = "(platform_body, plat_state) outcome"

definition find_target :: "string \<Rightarrow> plat_state \<Rightarrow> (stored_repo \<Rightarrow> plat_outcome) \<Rightarrow> plat_outcome" where
  "find_target rid s k =
     (case find_repo rid (fst s) of None \<Rightarrow> answer (not_found ''repository not found'') s | Some r \<Rightarrow> k r)"

text \<open>The share of the files to read; \<open>None\<close> where the request's value is refused.\<close>

definition read_percent :: "json \<Rightarrow> rat option" where
  "read_percent b =
     (case jfield b ''read_percent'' of
        None \<Rightarrow> Some 10
      | Some JNull \<Rightarrow> Some 10
      | Some (JNum x) \<Rightarrow> if x < 0 \<or> x > 100 then None else Some x
      | Some v \<Rightarrow> None)"

definition verify_targets :: "stored_repo \<Rightarrow> json \<Rightarrow> protection \<Rightarrow> nat list option" where
  "verify_targets repo b q =
     (let rps = recovery_points q; here = (\<lambda>i. rp_repository_id (rps ! i) = re_id repo)
      in if truthy (jfield b ''recovery_point_id'') then
           map_option (\<lambda>i. [i])
             (find (\<lambda>i. jfield b ''recovery_point_id'' = Some (JStr (rp_id (rps ! i))) \<and> here i) [0..<length rps])
         else
           Some (filter (\<lambda>i. here i \<and> rp_state (rps ! i) = RpCommitted \<and> rp_verification (rps ! i) \<noteq> ''verification_failed'')
             [0..<length rps]))"

definition after :: "int \<Rightarrow> timer \<Rightarrow> plat_state \<Rightarrow> plat_state" where
  "after t x s = (fst s, (snd s)\<lparr>pending := pending (snd s) @ [(t, x)]\<rparr>)"

definition post_verify :: "ctx \<Rightarrow> string \<Rightarrow> json \<Rightarrow> plat_state \<Rightarrow> plat_outcome" where
  "post_verify c rid b s =
     find_target rid s (\<lambda>repo.
       case read_percent b of
         None \<Rightarrow> answer (Invalid ''read_percent must be 0-100'' ''body.read_percent'') s
       | Some pct \<Rightarrow>
           if re_status repo = Unavailable \<or> re_status repo = Retired then
             answer (conflict (''the Repository is '' @ repo_status_text (re_status repo))) s
           else
             case verify_targets repo b (fst s) of
               None \<Rightarrow> answer (Invalid ''recovery point not found in this Repository'' ''body.recovery_point_id'') s
             | Some targets \<Rightarrow>
                 (Send 202 (Workflow (''repository/'' @ re_id repo @ ''/verify'')),
                  [audit_by c ''repository.verify.requested'' ''repository'' (re_id repo) None],
                  after (c_now c + VERIFY_MS) (VerifyDone (re_id repo) targets pct) s))"

definition regenerate_repo :: "ctx \<Rightarrow> protection \<Rightarrow> stored_repo \<Rightarrow> stored_repo" where
  "regenerate_repo c q r =
     (let secret = newCode (c_random c 0)
      in r\<lparr>re_code := secret, re_package := fakePackage (c_random c 1) (re_name r) secret,
           re_recipient_ids := map ec_id (recipients q), re_escrow_recipients := length (recipients q),
           re_escrow_generated_at := c_now c, re_escrow_confirmed_at := None\<rparr>)"

definition post_regenerate :: "ctx \<Rightarrow> string \<Rightarrow> plat_state \<Rightarrow> plat_outcome" where
  "post_regenerate c rid s =
     find_target rid s (\<lambda>r.
       if length (recipients (fst s)) < MIN_RECIPIENTS then
         answer (conflict (show_nat MIN_RECIPIENTS @ '' escrow recipients are required'')) s
       else if re_status r = Unavailable \<or> re_status r = Retired then
         answer (conflict ''reposerver: the Repository password cannot be read'') s
       else
         let r' = regenerate_repo c (fst s) r
         in (Send 200 (Regenerated (publicRepo r') (re_package r') (escrowFilename r')),
             [audit_by c ''repository.escrow.regenerated'' ''repository'' (re_id r) None],
             (update_repo rid (regenerate_repo c (fst s)) (fst s), snd s)))"

definition post_drill :: "ctx \<Rightarrow> plat_state \<Rightarrow> plat_outcome" where
  "post_drill c s =
     (if length (recipients (fst s)) = 0 then answer (conflict ''no escrow recipients are configured'') s
      else
        let secret = newCode (c_random c 0);
            d = \<lparr>dr_id = c_random c 1, dr_created_at = c_now c, dr_completed_at = None,
                 dr_recipients = length (recipients (fst s)), dr_code = secret\<rparr>
        in (Send 201 (StartedDrill (drillOut d) (drillPackage (c_random c 2) secret)),
            [audit_by c ''escrow.drill.started'' ''escrow_drill'' (dr_id d) None],
            (fst s, (snd s)\<lparr>drills := drills (snd s) @ [d]\<rparr>)))"

definition post_drill_complete :: "ctx \<Rightarrow> string \<Rightarrow> json \<Rightarrow> plat_state \<Rightarrow> plat_outcome" where
  "post_drill_complete c i b s =
     (case find (\<lambda>x. dr_id x = i) (drills (snd s)) of
        None \<Rightarrow> answer (not_found ''escrow drill not found'') s
      | Some d \<Rightarrow>
          let given = json_text (jfield b ''confirmation_code'')
          in if length given < 16 \<or> length given > 40 then
               answer (Invalid ''confirmation_code must be 16-40 characters'' ''body.confirmation_code'') s
             else if normCode given \<noteq> normCode (dr_code d) then
               (Invalid ''the confirmation code does not match this drill package'' ''body.confirmation_code'',
                [audit_failed c ''escrow.drill.completed'' ''escrow_drill'' (dr_id d)], s)
             else if dr_completed_at d \<noteq> None then answer (conflict ''the drill was already completed'') s
             else
               (Send 200 (DrillBody (drillOut (d\<lparr>dr_completed_at := Some (c_now c)\<rparr>))),
                [audit_by c ''escrow.drill.completed'' ''escrow_drill'' (dr_id d) None],
                (fst s, (snd s)\<lparr>drills := update_first (\<lambda>x. dr_id x = i) (\<lambda>x. x\<lparr>dr_completed_at := Some (c_now c)\<rparr>) (drills (snd s))\<rparr>)))"

definition new_platform_backup :: "ctx \<Rightarrow> protection \<Rightarrow> platform_backup" where
  "new_platform_backup c q =
     \<lparr>pb_id = pbId (c_now c) (c_random c 0), pb_state = PbRunning, pb_trigger = ''manual'', pb_workflow_id = ''platform/backup'',
      pb_started_at = c_now c, pb_finished_at = None, pb_size_bytes = 0, pb_sha256 = None, pb_file_name = None,
      pb_snapshot_id = None, pb_repository_id = map_option re_id (find re_is_system (repositories q)),
      pb_bundle_path = None, pb_error = None, pb_manifest = None\<rparr>"

definition post_platform_backup :: "ctx \<Rightarrow> plat_state \<Rightarrow> plat_outcome" where
  "post_platform_backup c s =
     (if list_ex (\<lambda>b. pb_state b = PbRunning) (platform_backups (snd s)) then
        answer (conflict ''a platform backup is already running'') s
      else
        let b = new_platform_backup c (fst s)
        in (Send 202 (Workflow (pb_workflow_id b)),
            [audit_by c ''platform.backup.requested'' ''platform'' ''platform'' None],
            after (c_now c + PLATFORM_MS) (BackupDone (length (platform_backups (snd s))))
              (fst s, (snd s)\<lparr>platform_backups := platform_backups (snd s) @ [b]\<rparr>)))"

definition put_system :: "ctx \<Rightarrow> string \<Rightarrow> plat_state \<Rightarrow> plat_outcome" where
  "put_system c rid s =
     find_target rid s (\<lambda>r.
       if re_status r = Retired \<or> re_status r = PendingDeletion then
         answer (conflict (''a '' @ (if re_status r = Retired then ''retired'' else ''pending deletion'') @
           '' Repository cannot be the System Repository'')) s
       else
         let q = (fst s)\<lparr>repositories := map (\<lambda>x. x\<lparr>re_is_system := False\<rparr>) (repositories (fst s))\<rparr>
         in (Send 200 (SystemRepository (publicRepo (r\<lparr>re_is_system := True\<rparr>))),
             [audit_by c ''repository.system_designated'' ''repository'' (re_id r) None],
             (update_repo rid (\<lambda>x. x\<lparr>re_is_system := True\<rparr>) q, snd s)))"

fun platform_permission :: "platform_route \<Rightarrow> string" where
  "platform_permission GetEscrowHealth = ''repository.read''"
| "platform_permission GetDrills = ''repository.read''"
| "platform_permission _ = ''repository.manage''"

fun platform_action :: "ctx \<Rightarrow> platform_route \<Rightarrow> plat_state \<Rightarrow> plat_outcome" where
  "platform_action c (PostVerify i b) s = post_verify c i b s"
| "platform_action c GetEscrowHealth s = answer (Send 200 (Health (escrowHealth (c_now c) (fst s) (drills (snd s))))) s"
| "platform_action c (PostRegenerate i) s = post_regenerate c i s"
| "platform_action c GetDrills s =
     answer (Send 200 (Drills (map drillOut (js_sort (\<lambda>a b. dr_created_at b \<le> dr_created_at a) (drills (snd s)))))) s"
| "platform_action c PostDrill s = post_drill c s"
| "platform_action c (PostDrillComplete i b) s = post_drill_complete c i b s"
| "platform_action c (GetPlatformBackups l) s =
     answer (Send 200 (PlatformBackups (take (page_limit l 50 500)
       (js_sort (\<lambda>a b. pb_started_at b \<le> pb_started_at a) (platform_backups (snd s)))))) s"
| "platform_action c PostPlatformBackup s = post_platform_backup c s"
| "platform_action c (PutSystem i) s = put_system c i s"

definition platform_handle :: "ctx \<Rightarrow> platform_route \<Rightarrow> plat_state \<Rightarrow> plat_outcome" where
  "platform_handle c r s = need c (platform_permission r) s (platform_action c r s)"

interpretation platform_service: guarded_service platform_permission platform_handle
  by unfold_locales (simp add: platform_handle_def need_def)

section \<open>Timers\<close>

definition backup_timer :: "timer \<Rightarrow> nat option" where
  "backup_timer x = (case x of BackupDone i \<Rightarrow> Some i | _ \<Rightarrow> None)"

lemma fire_platform:
  "snd (fst (fire now rnd x s)) = (snd s)\<lparr>platform_backups :=
     (case x of BackupDone i \<Rightarrow> (platform_backups (snd s))[i := finishPlatform (fst s) now rnd (platform_backups (snd s) ! i)]
      | _ \<Rightarrow> platform_backups (snd s))\<rparr>"
  by (cases x; cases s) (simp_all add: case_prod_beta)

lemma finishPlatform_stopped [simp]: "pb_state (finishPlatform q now rnd b) \<noteq> PbRunning"
  by (simp add: finishPlatform_def Let_def split: option.split)

lemma finishPlatform_started [simp]: "pb_started_at (finishPlatform q now rnd b) = pb_started_at b"
  by (simp add: finishPlatform_def Let_def split: option.split)

text \<open>A platform backup is running exactly if its timer waits, at most one is, and the timer is due a
  fixed time after the start.\<close>

definition platform_ok :: "platform \<Rightarrow> bool" where
  "platform_ok p \<longleftrightarrow>
     length (filter (\<lambda>b. pb_state b = PbRunning) (platform_backups p)) \<le> 1 \<and>
     (\<forall>i < length (platform_backups p). pb_state (platform_backups p ! i) = PbRunning \<longrightarrow>
        (pb_started_at (platform_backups p ! i) + PLATFORM_MS, BackupDone i) \<in> set (pending p))"

lemma filter_update_stopped:
  "\<not> P y \<Longrightarrow> length (filter P (xs[i := y])) \<le> length (filter P xs)"
proof (induction xs arbitrary: i)
  case (Cons x xs)
  then show ?case by (cases i) (auto simp: le_SucI)
qed simp

lemma fire_all_platform:
  "pending (snd (fst (fire_all now rnd k ts s))) = pending (snd s) \<and>
   length (platform_backups (snd (fst (fire_all now rnd k ts s)))) = length (platform_backups (snd s)) \<and>
   length (filter (\<lambda>b. pb_state b = PbRunning) (platform_backups (snd (fst (fire_all now rnd k ts s))))) \<le>
     length (filter (\<lambda>b. pb_state b = PbRunning) (platform_backups (snd s))) \<and>
   (\<forall>i < length (platform_backups (snd s)).
     let b = platform_backups (snd s) ! i; b' = platform_backups (snd (fst (fire_all now rnd k ts s))) ! i
     in pb_started_at b' = pb_started_at b \<and> (BackupDone i \<in> set ts \<longrightarrow> pb_state b' \<noteq> PbRunning) \<and>
        (pb_state b' = PbRunning \<longrightarrow> pb_state b = PbRunning))"
proof (induction ts arbitrary: k s)
  case (Cons x ts)
  let ?s = "fst (fire now (sub_draws rnd k) x s)"
  have p: "pending (snd ?s) = pending (snd s)" "length (platform_backups (snd ?s)) = length (platform_backups (snd s))"
    "length (filter (\<lambda>b. pb_state b = PbRunning) (platform_backups (snd ?s))) \<le>
      length (filter (\<lambda>b. pb_state b = PbRunning) (platform_backups (snd s)))"
    by (auto simp: fire_platform filter_update_stopped split: timer.split)
  have b: "pb_started_at (platform_backups (snd ?s) ! i) = pb_started_at (platform_backups (snd s) ! i) \<and>
      (x = BackupDone i \<longrightarrow> pb_state (platform_backups (snd ?s) ! i) \<noteq> PbRunning) \<and>
      (pb_state (platform_backups (snd ?s) ! i) = PbRunning \<longrightarrow> pb_state (platform_backups (snd s) ! i) = PbRunning)"
    if "i < length (platform_backups (snd s))" for i
    using that by (cases "x = BackupDone i"; cases x) (auto simp: fire_platform)
  from Cons.IH [of "Suc k" ?s] p b show ?case
    by (auto simp: case_prod_beta Let_def)
qed (simp add: Let_def)

lemma set_due: "x \<in> set (due now p) \<longleftrightarrow> (\<exists>t. (t, x) \<in> set (pending p) \<and> t \<le> now)"
  by (auto simp: due_def image_iff)

lemma run_timers_ok:
  assumes "platform_ok (snd s)"
  shows "platform_ok (snd (fst (run_timers now rnd s)))"
    and "b \<in> set (platform_backups (snd (fst (run_timers now rnd s)))) \<Longrightarrow> pb_state b = PbRunning \<Longrightarrow>
      now < pb_started_at b + PLATFORM_MS"
proof -
  let ?p = "snd s" and ?p' = "snd (fst (run_timers now rnd s))"
  note fires = fire_all_platform [of now rnd 0 "due now ?p" "(fst s, ?p\<lparr>pending := filter (\<lambda>(t, x). now < t) (pending ?p)\<rparr>)",
      folded run_timers_def, simplified, unfolded Let_def]
  have waiting: "(pb_started_at (platform_backups ?p' ! i) + PLATFORM_MS, BackupDone i) \<in> set (pending ?p) \<and>
      now < pb_started_at (platform_backups ?p' ! i) + PLATFORM_MS"
    if "i < length (platform_backups ?p')" "pb_state (platform_backups ?p' ! i) = PbRunning" for i
  proof -
    from that fires have i: "i < length (platform_backups ?p)" "pb_state (platform_backups ?p ! i) = PbRunning"
      "BackupDone i \<notin> set (due now ?p)" "pb_started_at (platform_backups ?p' ! i) = pb_started_at (platform_backups ?p ! i)"
      by auto
    with assms have t: "(pb_started_at (platform_backups ?p ! i) + PLATFORM_MS, BackupDone i) \<in> set (pending ?p)"
      by (simp add: platform_ok_def)
    with i(3) have "now < pb_started_at (platform_backups ?p ! i) + PLATFORM_MS" by (force simp: set_due)
    with t i(4) show ?thesis by simp
  qed
  then show "platform_ok ?p'" using fires assms by (auto simp: platform_ok_def)
  show "now < pb_started_at b + PLATFORM_MS" if "b \<in> set (platform_backups ?p')" "pb_state b = PbRunning"
    using waiting that by (auto simp: in_set_conv_nth)
qed


text \<open>What happens to this module: requests to it, its timers, and changes of the shared data by the
  other modules.\<close>

datatype platform_event =
  PlatformRequest ctx platform_route
| PlatformTimer int "nat \<Rightarrow> string"
| SharedChange "protection \<Rightarrow> protection"

fun platform_step :: "platform_event \<Rightarrow> plat_state \<Rightarrow> plat_state" where
  "platform_step (PlatformRequest c r) s = out_state (platform_handle c r s)"
| "platform_step (PlatformTimer now rnd) s = fst (run_timers now rnd s)"
| "platform_step (SharedChange g) s = (g (fst s), snd s)"

definition platform_events :: "platform_event list \<Rightarrow> plat_state \<Rightarrow> plat_state" where
  "platform_events evs s = fold platform_step evs s"

lemma platform_events_simps [simp]:
  "platform_events [] s = s" "platform_events (e # evs) s = platform_events evs (platform_step e s)"
  by (simp_all add: platform_events_def)

lemma start_platform_ok:
  assumes "platform_ok p" "\<not> list_ex (\<lambda>b. pb_state b = PbRunning) (platform_backups p)" "pb_started_at b = t"
  shows "platform_ok (p\<lparr>platform_backups := platform_backups p @ [b],
    pending := pending p @ [(t + PLATFORM_MS, BackupDone (length (platform_backups p)))]\<rparr>)"
proof -
  have "filter (\<lambda>b. pb_state b = PbRunning) (platform_backups p) = []"
    using assms(2) by (simp add: list_ex_iff filter_empty_conv)
  moreover have "\<forall>i < length (platform_backups p). pb_state (platform_backups p ! i) \<noteq> PbRunning"
    using assms(2) by (simp add: list_ex_length)
  ultimately show ?thesis using assms(3) by (auto simp: platform_ok_def nth_append)
qed

lemma platform_handle_ok: "platform_ok (snd s) \<Longrightarrow> platform_ok (snd (out_state (platform_handle c r s)))"
proof (cases "platform_permission r \<in> set (u_permissions (c_user c))")
  case False
  then show "platform_ok (snd s) \<Longrightarrow> ?thesis" by (simp add: platform_service.denied)
next
  case True
  then have act: "platform_handle c r s = platform_action c r s" by (simp add: platform_handle_def need_def)
  assume ok: "platform_ok (snd s)"
  then have other: "platform_ok ((snd s)\<lparr>drills := ds\<rparr>)" "platform_ok ((snd s)\<lparr>pending := pending (snd s) @ ts\<rparr>)" for ds ts
    by (auto simp: platform_ok_def)
  have new: "pb_started_at (new_platform_backup c (fst s)) = c_now c" by (simp add: new_platform_backup_def)
  show ?thesis
    unfolding act using ok other start_platform_ok [OF ok _ new]
    by (cases r)
      (auto simp: answer_def post_verify_def find_target_def post_regenerate_def post_drill_def post_drill_complete_def
        post_platform_backup_def put_system_def after_def Let_def split: option.split)
qed

lemma platform_step_ok: "platform_ok (snd s) \<Longrightarrow> platform_ok (snd (platform_step e s))"
  by (cases e) (simp_all add: platform_handle_ok run_timers_ok(1))

lemma platform_events_ok: "platform_ok (snd s) \<Longrightarrow> platform_ok (snd (platform_events evs s))"
  by (induction evs arbitrary: s) (simp_all add: platform_step_ok)

lemma seed_platform_ok: "platform_ok (seed_platform q now rnd)"
proof -
  have "list_all (\<lambda>b. pb_state b \<noteq> PbRunning) (platform_backups (seed_platform q now rnd))"
    by (simp add: seed_platform_def platformRun_def Let_def)
  then have "filter (\<lambda>b. pb_state b = PbRunning) (platform_backups (seed_platform q now rnd)) = []"
    "\<forall>i < length (platform_backups (seed_platform q now rnd)). pb_state (platform_backups (seed_platform q now rnd) ! i) \<noteq> PbRunning"
    by (simp_all add: list_all_iff filter_empty_conv)
  then show ?thesis by (simp add: platform_ok_def)
qed

text \<open>C19: Platform backups run one at a time and end. Over any sequence of requests, timer runs and changes
  of the shared data from the initial state, at most one platform backup is running, and once the
  timers have run at a time, every backup that is still running was started less than its duration
  before that time.\<close>

theorem platform_backups_end:
  "(let s = platform_events evs (q, seed_platform q0 now0 rnd0) in
     length (filter (\<lambda>b. pb_state b = PbRunning) (platform_backups (snd s))) \<le> 1 \<and>
     list_all (\<lambda>b. pb_state b = PbRunning \<longrightarrow> now < pb_started_at b + PLATFORM_MS)
       (platform_backups (snd (platform_step (PlatformTimer now rnd) s))))"
proof -
  have ok: "platform_ok (snd (platform_events evs (q, seed_platform q0 now0 rnd0)))"
    using platform_events_ok [of "(q, seed_platform q0 now0 rnd0)" evs] by (simp add: seed_platform_ok)
  show ?thesis
    using run_timers_ok(2) [OF ok] ok by (auto simp: Let_def list_all_iff platform_ok_def)
qed

definition backup_now :: "platform_event list" where
  "backup_now = [PlatformRequest repo_manager PostPlatformBackup]"

theorem platform_backups_end_witness:
  "(let s = platform_events backup_now (sample_protection, seed_platform sample_protection 0 (\<lambda>k. []));
        b = platform_backups (snd s) ! 4; b' = platform_backups (snd (platform_step (PlatformTimer 7000 (\<lambda>k. [])) s)) ! 4
    in pb_state b = PbRunning \<and> pb_started_at b' = 1000 \<and> pb_state b' \<noteq> PbRunning)"
proof -
  let ?seed = "seed_platform sample_protection 0 (\<lambda>k. [])"
  let ?s = "platform_events backup_now (sample_protection, ?seed)"
  let ?bs = "platform_backups (snd (platform_step (PlatformTimer 7000 (\<lambda>k. [])) ?s))"
  have seed: "length (platform_backups ?seed) = 4" "\<not> list_ex (\<lambda>b. pb_state b = PbRunning) (platform_backups ?seed)"
    by (simp_all add: seed_platform_def platformRun_def Let_def)
  then have new: "platform_backups (snd ?s) = platform_backups ?seed @ [new_platform_backup repo_manager sample_protection]"
    by (simp add: backup_now_def platform_handle_def need_def repo_manager_def post_platform_backup_def after_def Let_def)
  then have b: "pb_state (platform_backups (snd ?s) ! 4) = PbRunning" "pb_started_at (platform_backups (snd ?s) ! 4) = 1000"
    by (simp_all add: nth_append seed new_platform_backup_def repo_manager_def)
  have len: "length (platform_backups (snd ?s)) = 5" by (simp add: new seed)
  have after: "length ?bs = 5" "pb_started_at (?bs ! 4) = 1000"
    using len b(2) fire_all_platform [of 7000 "\<lambda>k. []" 0 "due 7000 (snd ?s)" "(fst ?s, (snd ?s)\<lparr>pending := filter (\<lambda>(t, x). 7000 < t) (pending (snd ?s))\<rparr>)"]
    by (simp_all add: run_timers_def Let_def)
  have "pb_state (?bs ! 4) = PbRunning \<longrightarrow> 7000 < pb_started_at (?bs ! 4) + PLATFORM_MS"
    using platform_backups_end [of backup_now sample_protection sample_protection 0 "\<lambda>k. []" 7000 "\<lambda>k. []", unfolded Let_def] after(1)
    by (simp add: list_all_length)
  with after b show ?thesis by (simp add: Let_def PLATFORM_MS_def)
qed

section \<open>Escrow drills\<close>

definition completes :: "string \<Rightarrow> string \<Rightarrow> platform_event \<Rightarrow> bool" where
  "completes i secret e \<longleftrightarrow>
     (case e of
        PlatformRequest c (PostDrillComplete j b) \<Rightarrow>
          j = i \<and> ''repository.manage'' \<in> set (u_permissions (c_user c)) \<and>
          normCode (json_text (jfield b ''confirmation_code'')) = normCode secret
      | _ \<Rightarrow> False)"

definition drill_step :: "platform_event list \<Rightarrow> stored_drill \<Rightarrow> stored_drill \<Rightarrow> bool" where
  "drill_step evs d d' \<longleftrightarrow>
     d' = d\<lparr>dr_completed_at := dr_completed_at d'\<rparr> \<and>
     (case dr_completed_at d of Some t \<Rightarrow> d' = d | None \<Rightarrow> dr_completed_at d' \<noteq> None \<longrightarrow> list_ex (completes (dr_id d) (dr_code d)) evs)"

definition drill_new :: "platform_event list \<Rightarrow> stored_drill \<Rightarrow> bool" where
  "drill_new evs d \<longleftrightarrow> (dr_completed_at d \<noteq> None \<longrightarrow> list_ex (completes (dr_id d) (dr_code d)) evs)"

lemma drill_step_refl [simp]: "drill_step evs d d"
  by (simp add: drill_step_def split: option.split)

lemma drill_step_trans: "drill_step [e] u v \<Longrightarrow> drill_step evs v w \<Longrightarrow> drill_step (e # evs) u w"
proof (cases "dr_completed_at u")
  case (Some t)
  moreover assume "drill_step [e] u v" "drill_step evs v w"
  ultimately show ?thesis by (simp add: drill_step_def)
next
  case None
  moreover assume "drill_step [e] u v" "drill_step evs v w"
  ultimately show ?thesis by (cases "dr_completed_at v") (auto simp: drill_step_def)
qed

lemma drill_new_trans: "drill_new [e] u \<Longrightarrow> drill_step evs u v \<Longrightarrow> drill_new (e # evs) v"
  by (cases "dr_completed_at u") (auto simp: drill_step_def drill_new_def)

lemma fire_all_drills [simp]: "drills (snd (fst (fire_all now rnd k ts s))) = drills (snd s)"
  by (induction ts arbitrary: k s) (simp_all add: case_prod_beta fire_platform)

lemma find_drill: "find (\<lambda>x. dr_id x = i) ds = Some d \<Longrightarrow> dr_id d = i"
  by (induction ds) (auto split: if_splits)

lemma update_drill:
  assumes "find (\<lambda>x. dr_id x = i) ds = Some d" "drill_step evs d (g d)"
  shows "list_all2 (drill_step evs) ds (update_first (\<lambda>x. dr_id x = i) g ds)"
  using assms(1)
proof (induction ds)
  case (Cons x xs)
  then show ?case using assms(2) by (auto split: if_splits intro: list_all2_refl)
qed simp

definition drills_evolved :: "platform_event list \<Rightarrow> stored_drill list \<Rightarrow> stored_drill list \<Rightarrow> bool" where
  "drills_evolved evs ds ds' \<longleftrightarrow> (\<exists>olds new. ds' = olds @ new \<and> list_all2 (drill_step evs) ds olds \<and> list_all (drill_new evs) new)"

lemma drills_evolved_same [simp]: "drills_evolved evs ds ds"
  unfolding drills_evolved_def by (rule exI [of _ ds], rule exI [of _ "[]"]) (simp add: list_all2_refl)

lemma drills_evolved_all2: "list_all2 (drill_step evs) ds ds' \<Longrightarrow> drills_evolved evs ds ds'"
  unfolding drills_evolved_def by (rule exI [of _ ds'], rule exI [of _ "[]"]) simp

lemma drills_evolved_add: "drill_new evs d \<Longrightarrow> drills_evolved evs ds (ds @ [d])"
  unfolding drills_evolved_def by (rule exI [of _ ds], rule exI [of _ "[d]"]) (simp add: list_all2_refl)

lemma complete_drill:
  assumes "''repository.manage'' \<in> set (u_permissions (c_user c))"
  shows "drills_evolved [PlatformRequest c (PostDrillComplete i b)] (drills (snd s)) (drills (snd (out_state (post_drill_complete c i b s))))"
proof (cases "find (\<lambda>x. dr_id x = i) (drills (snd s))")
  case None
  then show ?thesis by (simp add: post_drill_complete_def answer_def)
next
  case (Some d)
  let ?e = "PlatformRequest c (PostDrillComplete i b)" and ?g = "\<lambda>x. x\<lparr>dr_completed_at := Some (c_now c)\<rparr>"
  have "drills_evolved [?e] (drills (snd s)) (update_first (\<lambda>x. dr_id x = i) ?g (drills (snd s)))"
    if "normCode (json_text (jfield b ''confirmation_code'')) = normCode (dr_code d)" "dr_completed_at d = None"
    using that assms find_drill [OF Some]
    by (intro drills_evolved_all2 update_drill [OF Some]) (simp add: drill_step_def completes_def)
  with Some show ?thesis by (simp add: post_drill_complete_def answer_def Let_def)
qed

lemma platform_action_drills:
  assumes "platform_permission r \<in> set (u_permissions (c_user c))"
  shows "drills_evolved [PlatformRequest c r] (drills (snd s)) (drills (snd (out_state (platform_action c r s))))"
proof (cases r)
  case (PostDrillComplete i b)
  with assms complete_drill show ?thesis by simp
next
  case PostDrill
  then show ?thesis by (simp add: post_drill_def answer_def Let_def drills_evolved_add drill_new_def)
qed (simp_all add: answer_def post_verify_def find_target_def post_regenerate_def post_platform_backup_def put_system_def after_def
  Let_def split: option.split)

lemma platform_step_drills: "drills_evolved [e] (drills (snd s)) (drills (snd (platform_step e s)))"
proof (cases e)
  case (PlatformRequest c r)
  then show ?thesis
    using platform_action_drills platform_service.denied by (cases "platform_permission r \<in> set (u_permissions (c_user c))")
      (simp_all add: platform_handle_def need_def)
qed (simp_all add: run_timers_def)

lemma drills_evolved_Cons:
  assumes "drills_evolved [e] ds es" "drills_evolved evs es fs"
  shows "drills_evolved (e # evs) ds fs"
proof -
  from assms(1) obtain o1 n1 where
    one: "es = o1 @ n1" "list_all2 (drill_step [e]) ds o1" "list_all (drill_new [e]) n1"
    by (auto simp: drills_evolved_def)
  from assms(2) one(1) obtain o2 n2 new where
    two: "fs = (o2 @ n2) @ new" "list_all2 (drill_step evs) o1 o2" "list_all2 (drill_step evs) n1 n2" "list_all (drill_new evs) new"
    by (auto simp: drills_evolved_def list_all2_append1)
  have "list_all (drill_new (e # evs)) n2"
    using one(3) two(3) drill_new_trans by (auto simp: list_all_length list_all2_conv_all_nth)
  moreover have "list_all (drill_new (e # evs)) new" using two(4) by (auto simp: list_all_iff drill_new_def)
  ultimately show ?thesis
    using two(1) list_all2_trans [OF drill_step_trans one(2) two(2)] unfolding drills_evolved_def
    by (intro exI [of _ o2] exI [of _ "n2 @ new"]) simp
qed

text \<open>C14: A drill is completed only by its code. Over any sequence of events the drills that existed stay,
  with identifier, time of creation and code; one that was completed does not change; and every drill
  that is completed at the end and was not at the beginning was completed by a caller with
  \<^verbatim>\<open>repository.manage\<close> who sent the code of its package, up to spaces, dashes and case.\<close>

theorem drill_traceback:
  "\<exists>olds new. drills (snd (platform_events evs s)) = olds @ new \<and>
     list_all2 (\<lambda>d d'. d' = d\<lparr>dr_completed_at := dr_completed_at d'\<rparr> \<and>
       (case dr_completed_at d of
          Some t \<Rightarrow> d' = d
        | None \<Rightarrow> dr_completed_at d' \<noteq> None \<longrightarrow> list_ex (completes (dr_id d) (dr_code d)) evs)) (drills (snd s)) olds \<and>
     list_all (\<lambda>d. dr_completed_at d \<noteq> None \<longrightarrow> list_ex (completes (dr_id d) (dr_code d)) evs) new"
proof -
  have "drills_evolved evs (drills (snd s)) (drills (snd (platform_events evs s)))"
  proof (induction evs arbitrary: s)
    case (Cons e evs)
    show ?case using drills_evolved_Cons [OF platform_step_drills Cons.IH] by simp
  qed simp
  then show ?thesis unfolding drills_evolved_def drill_step_def drill_new_def .
qed

definition sample_platform :: platform where
  "sample_platform =
     \<lparr>drills = [\<lparr>dr_id = ''d'', dr_created_at = 0, dr_completed_at = None, dr_recipients = 2, dr_code = ''K7QX-M2DA-PL4W-ZT6R''\<rparr>],
      platform_backups = [], pending = []\<rparr>"

definition complete_now :: platform_event where
  "complete_now = PlatformRequest repo_manager
     (PostDrillComplete ''d'' (JObj [(''confirmation_code'', JStr ''k7qx m2da pl4w zt6r'')]))"

theorem drill_traceback_witness:
  "map dr_completed_at (drills (snd (platform_events [complete_now] (sample_protection, sample_platform)))) = [Some 1000] \<and>
   list_ex (completes ''d'' ''K7QX-M2DA-PL4W-ZT6R'') [complete_now]"
proof
  show final: "map dr_completed_at (drills (snd (platform_events [complete_now] (sample_protection, sample_platform)))) = [Some 1000]"
    by code_simp
  have one: "drills (snd (sample_protection, sample_platform)) = [hd (drills sample_platform)]"
    "dr_completed_at (hd (drills sample_platform)) = None" "dr_id (hd (drills sample_platform)) = ''d''"
    "dr_code (hd (drills sample_platform)) = ''K7QX-M2DA-PL4W-ZT6R''"
    by (simp_all add: sample_platform_def)
  show "list_ex (completes ''d'' ''K7QX-M2DA-PL4W-ZT6R'') [complete_now]"
    using drill_traceback [of "[complete_now]" "(sample_protection, sample_platform)", unfolded one(1)] final one(2-4)
    by (elim exE conjE) (auto simp: list_all2_Cons1)
qed

section \<open>Escrow health\<close>

lemma text_le_refl: "text_le s s"
  by (induction s) auto

lemma text_le_total: "text_le s t \<or> text_le t s"
proof (induction s t rule: text_le.induct)
  case (3 c s d t)
  have "code c = code d \<Longrightarrow> c = d" by simp
  with 3 show ?case by (cases "c = d") (auto simp: not_less_iff_gr_or_eq)
qed auto

lemma text_le_antisym: "text_le s t \<Longrightarrow> text_le t s \<Longrightarrow> s = t"
proof (induction s t rule: text_le.induct)
  case (1 t)
  then show ?case by (cases t) auto
next
  case (3 c s d t)
  then show ?case by (auto split: if_splits)
qed auto

lemma text_le_trans: "text_le s t \<Longrightarrow> text_le t u \<Longrightarrow> text_le s u"
proof (induction s t arbitrary: u rule: text_le.induct)
  case (3 c s d t)
  then show ?case by (cases u) (auto split: if_splits)
qed auto

lemma text_le_order: "transp text_le" "totalp text_le" "reflp text_le" "antisymp text_le"
  using text_le_trans text_le_total text_le_refl text_le_antisym
  by (auto simp: transp_on_def totalp_on_def reflp_on_def antisymp_on_def)

lemma sorted_wrt_unique:
  "antisymp le \<Longrightarrow> sorted_wrt le xs \<Longrightarrow> sorted_wrt le ys \<Longrightarrow> mset xs = mset ys \<Longrightarrow> xs = ys"
proof (induction xs arbitrary: ys)
  case (Cons x xs)
  then obtain y ys' where ys: "ys = y # ys'" by (cases ys) auto
  have "x = y"
  proof (rule ccontr)
    assume "x \<noteq> y"
    moreover have "set (x # xs) = set (y # ys')" using Cons.prems(4) ys by (metis set_mset_mset)
    ultimately have "x \<in> set ys'" "y \<in> set xs" by auto
    with Cons.prems ys have "le x y" "le y x" by auto
    with Cons.prems(1) \<open>x \<noteq> y\<close> show False by (simp add: antisymp_on_def)
  qed
  with Cons ys show ?case by auto
qed simp

lemma mset_js_sort [simp]: "mset (js_sort le xs) = mset xs"
proof (induction xs)
  case (Cons x xs)
  have "mset (js_insert le x ys) = add_mset x (mset ys)" for ys by (induction ys) auto
  moreover have "js_sort le (x # xs) = js_insert le x (js_sort le xs)" by (simp add: js_sort_def)
  ultimately show ?case using Cons by simp
qed (simp add: js_sort_def)

lemma js_sort_text_le: "js_sort text_le xs = js_sort text_le ys \<longleftrightarrow> mset xs = mset ys"
  by (metis mset_js_sort sorted_wrt_unique js_sort_sorted_wrt text_le_order)

definition plain_ids :: "string list \<Rightarrow> bool" where
  "plain_ids xs \<longleftrightarrow> list_all (\<lambda>i. CHR '','' \<notin> set i) xs"

lemma sameSet_mset:
  assumes "plain_ids a" "plain_ids b"
  shows "sameSet a b \<longleftrightarrow> mset a = mset b"
proof
  let ?a = "js_sort text_le a" and ?b = "js_sort text_le b"
  have plain: "list_all (\<lambda>w. CHR '','' \<notin> set w) ?a" "list_all (\<lambda>w. CHR '','' \<notin> set w) ?b"
    using assms by (simp_all add: plain_ids_def list_all_iff)
  assume same: "sameSet a b"
  then have len: "length ?a = length ?b" "js_join '','' ?a = js_join '','' ?b" by (simp_all add: sameSet_def)
  have "?a = ?b"
  proof (cases "?a = []")
    case False
    with len(1) have "?b \<noteq> []" by (metis length_0_conv)
    with len(2) False plain show ?thesis by (metis split_on_join_words)
  next
    case True
    with len(1) show ?thesis by (metis length_0_conv)
  qed
  then show "mset a = mset b" by (simp only: js_sort_text_le)
next
  assume "mset a = mset b"
  then show "sameSet a b" unfolding sameSet_def by (metis js_sort_text_le size_mset)
qed

lemma last_sorted_max: "sorted xs \<Longrightarrow> x \<in> set xs \<Longrightarrow> x \<le> last xs" for xs :: "int list"
  by (induction xs) auto

lemma last_drill_due:
  "(case last_drill ds of None \<Rightarrow> True | Some t \<Rightarrow> now - t > n) \<longleftrightarrow>
     \<not> (\<exists>d \<in> set ds. \<exists>t. dr_completed_at d = Some t \<and> now \<le> t + n)"
proof -
  let ?ts = "js_sort (\<le>) (concat (map (\<lambda>d. case dr_completed_at d of Some t \<Rightarrow> [t] | None \<Rightarrow> []) ds))"
  have mem: "t \<in> set ?ts \<longleftrightarrow> (\<exists>d \<in> set ds. dr_completed_at d = Some t)" for t by (force split: option.splits)
  have "sorted_wrt (\<le>) ?ts" by (rule js_sort_sorted_wrt) (auto simp: transp_on_def totalp_on_def reflp_on_def)
  then have top: "t \<in> set ?ts \<Longrightarrow> t \<le> last ?ts" for t using last_sorted_max by blast
  show ?thesis
  proof (cases "?ts = []")
    case True
    then have "\<not> (\<exists>d \<in> set ds. \<exists>t. dr_completed_at d = Some t)" using mem by auto
    with True show ?thesis by (auto simp: last_drill_def)
  next
    case False
    then have "last_drill ds = Some (last ?ts)" by (simp add: last_drill_def split: list.split)
    moreover have "last ?ts \<in> set ?ts" using False by (rule last_in_set)
    ultimately show ?thesis using mem top by (fastforce simp: not_less)
  qed
qed

text \<open>C17: What a healthy escrow means. If no identifier of a recipient contains a comma, the report says
  healthy exactly if there are at least two recipients, every repository that is not retired has a
  package that was made for exactly the current recipients and confirmed within the last 90 days,
  and some drill was completed within the last 365 days.\<close>

theorem escrow_health_meaning:
  assumes "plain_ids (map ec_id (recipients q))" "list_all (\<lambda>r. plain_ids (re_recipient_ids r)) (repositories q)"
  shows "hr_healthy (escrowHealth now q ds) \<longleftrightarrow>
    2 \<le> length (recipients q) \<and>
    (\<forall>r \<in> set (repositories q). re_status r = Retired \<or>
       mset (re_recipient_ids r) = mset (map ec_id (recipients q)) \<and>
       (\<exists>t. re_escrow_confirmed_at r = Some t \<and> now \<le> t + 90 * DAY)) \<and>
    (\<exists>d \<in> set ds. \<exists>t. dr_completed_at d = Some t \<and> now \<le> t + 365 * DAY)"
proof -
  have repo: "repository_problems now (map ec_id (recipients q)) r = [] \<longleftrightarrow>
      re_status r = Retired \<or> mset (re_recipient_ids r) = mset (map ec_id (recipients q)) \<and>
       (\<exists>t. re_escrow_confirmed_at r = Some t \<and> now \<le> t + 90 * DAY)" if "r \<in> set (repositories q)" for r
  proof -
    have "sameSet (re_recipient_ids r) (map ec_id (recipients q)) \<longleftrightarrow> mset (re_recipient_ids r) = mset (map ec_id (recipients q))"
      using assms that by (intro sameSet_mset) (simp_all add: list_all_iff)
    then show ?thesis
      by (auto simp: repository_problems_def RECONFIRM_MS_def not_less split: option.splits)
  qed
  then show ?thesis
    unfolding escrowHealth_def Let_def last_drill_due
    by (auto simp: DRILL_MS_def MIN_RECIPIENTS_def not_less)
qed

theorem escrow_health_meaning_witness:
  "hr_healthy (escrowHealth 1000 (sample_protection\<lparr>recipients := seed_recipients 0,
     repositories := [(repo_base 0 [] [] ''r1'' ''lab'' ''https://h'')\<lparr>re_recipient_ids := map ec_id (seed_recipients 0)\<rparr>]\<rparr>)
     [(hd (drills sample_platform))\<lparr>dr_completed_at := Some 0\<rparr>])"
proof -
  let ?q = "sample_protection\<lparr>recipients := seed_recipients 0,
     repositories := [(repo_base 0 [] [] ''r1'' ''lab'' ''https://h'')\<lparr>re_recipient_ids := map ec_id (seed_recipients 0)\<rparr>]\<rparr>"
  have "plain_ids (map ec_id (seed_recipients 0))" by (simp add: plain_ids_def seed_recipients_def)
  then show ?thesis
    by (subst escrow_health_meaning) (simp_all add: repo_base_def seed_recipients_def DAY_def MINUTE_def)
qed

lemma find_repo_update_first:
  "find_repo rid q = Some r \<Longrightarrow> re_id (g r) = re_id r \<Longrightarrow> find_repo rid (update_repo rid g q) = Some (g r)"
proof -
  have "find (\<lambda>x. re_id x = rid) xs = Some r \<Longrightarrow> re_id (g r) = re_id r \<Longrightarrow>
      find (\<lambda>x. re_id x = rid) (update_first (\<lambda>x. re_id x = rid) g xs) = Some (g r)" for xs
    by (induction xs) (auto split: if_splits)
  then show "find_repo rid q = Some r \<Longrightarrow> re_id (g r) = re_id r \<Longrightarrow> find_repo rid (update_repo rid g q) = Some (g r)"
    by (simp add: find_repo_def update_repo_def)
qed

lemma distinct_find_repo:
  assumes "distinct (map re_id (repositories q))" "find_repo rid q = Some r" "x \<in> set (repositories q)" "re_id x = rid"
  shows "x = r"
  using assms unfolding find_repo_def
proof (induction "repositories q" arbitrary: q)
  case (Cons y ys)
  show ?case using Cons.hyps(1)[of "q\<lparr>repositories := ys\<rparr>"] Cons.hyps(2)[symmetric] Cons.prems by (auto split: if_splits)
qed simp

lemma update_repo_ids: "(\<And>x. re_id (g x) = re_id x) \<Longrightarrow> map re_id (repositories (update_repo rid g q)) = map re_id (repositories q)"
  by (simp add: update_repo_def map_update_first)

lemma problem_repository: "e \<in> set (repository_problems now current r) \<Longrightarrow> ep_repository_id e = Some (re_id r)"
  by (auto simp: repository_problems_def escrow_problem_of_def split: if_splits option.splits)

lemma newCode_length: "length bytes = 16 \<Longrightarrow> length (newCode bytes) = 19"
  by (simp add: newCode_def Let_def)

text \<open>C18: Regenerating and confirming repairs a repository's escrow. After a successful regeneration, the
  package in the answer ends with a code; confirming the repository with this code succeeds, and for
  90 days the health report, taken with the same recipients, has no complaint about the repository.\<close>

theorem regenerated_escrow_healthy:
  assumes "platform_handle c (PostRegenerate rid) (q, p) = (Send 200 b, es, (q1, p1))"
    and "length (c_random c 0) = 16" "distinct (map re_id (repositories q))"
    and "''repository.manage'' \<in> set (u_permissions (c_user c'))" "now \<le> c_now c' + 90 * DAY"
  shows "\<exists>pub base name secret file. b = Regenerated pub (fakePackage base name secret) file \<and>
    (let (reply, es', q2) = protection_handle capture validTz num f c'
           (PostEscrowConfirm rid (JObj [(''confirmation_code'', JStr secret)])) q1
     in reply_status reply = 200 \<and>
        list_all (\<lambda>e. ep_repository_id e \<noteq> Some rid) (hr_problems (escrowHealth now q2 ds)))"
proof -
  let ?g = "regenerate_repo c q" and ?secret = "newCode (c_random c 0)"
  have "''repository.manage'' \<in> set (u_permissions (c_user c))"
    using assms(1) by (auto simp: platform_handle_def need_def forbidden_def split: if_splits)
  with assms(1) obtain r where r: "find_repo rid q = Some r" "q1 = update_repo rid ?g q"
    "b = Regenerated (publicRepo (?g r)) (re_package (?g r)) (escrowFilename (?g r))"
    by (auto simp: platform_handle_def need_def post_regenerate_def find_target_def answer_def not_found_def conflict_def Let_def
        split: option.splits if_splits)
  let ?q2 = "update_repo rid (confirm_repo (c_now c')) q1" and ?r2 = "confirm_repo (c_now c') (?g r)"
  have g: "re_id (?g x) = re_id x" "re_id (confirm_repo t x) = re_id x" for x t
    by (simp_all add: regenerate_repo_def confirm_repo_def Let_def)
  have r1: "find_repo rid q1 = Some (?g r)" unfolding r(2) by (rule find_repo_update_first [OF r(1)]) (simp add: g)
  have r2: "find_repo rid ?q2 = Some ?r2" by (rule find_repo_update_first [OF r1]) (simp add: g)
  have dist: "distinct (map re_id (repositories ?q2))" using assms(3) by (simp add: update_repo_ids r(2) g)
  have rec: "recipients ?q2 = recipients q" by (simp add: r(2) update_repo_def)
  have reply: "protection_handle capture validTz num f c' (PostEscrowConfirm rid (JObj [(''confirmation_code'', JStr ?secret)])) q1 =
      (Send 200 (RepositoryBody (publicRepo ?r2)), [audit_by c' ''repository.escrow.confirmed'' ''repository'' (re_id (?g r)) None], ?q2)"
    using r1 assms(4) newCode_length [OF assms(2)]
    by (simp add: protection_handle_def need_def post_escrow_confirm_def json_text_def regenerate_repo_def Let_def)
  have "repository_problems now (map ec_id (recipients q)) ?r2 = []"
    using assms(5) by (simp add: repository_problems_def confirm_repo_def regenerate_repo_def Let_def RECONFIRM_MS_def sameSet_def)
  then have "ep_repository_id e \<noteq> Some rid" if "x \<in> set (repositories ?q2)" "e \<in> set (repository_problems now (map ec_id (recipients q)) x)" for x e
    using that problem_repository [OF that(2)] distinct_find_repo [OF dist r2 that(1)] by auto
  then have "list_all (\<lambda>e. ep_repository_id e \<noteq> Some rid) (hr_problems (escrowHealth now ?q2 ds))"
    by (auto simp: escrowHealth_def Let_def list_all_iff rec)
  with reply show ?thesis
    unfolding r(3) by (intro exI [of _ "publicRepo (?g r)"] exI [of _ "c_random c 1"] exI [of _ "re_name r"] exI [of _ ?secret] exI [of _ "escrowFilename (?g r)"])
      (simp add: regenerate_repo_def Let_def)
qed

definition two_recipients :: protection where
  "two_recipients = sample_protection\<lparr>recipients := seed_recipients 0\<rparr>"

theorem regenerated_escrow_healthy_witness:
  "\<exists>pub base name secret file q1. platform_handle repo_manager (PostRegenerate ''r1'') (two_recipients, sample_platform) =
      (Send 200 (Regenerated pub (fakePackage base name secret) file),
       [audit_by repo_manager ''repository.escrow.regenerated'' ''repository'' ''r1'' None], (q1, sample_platform)) \<and>
    reply_status (out_reply (protection_handle (\<lambda>a cs. None) (\<lambda>z. True) (\<lambda>j. None) \<lparr>agents = [], tokens = [], apps = []\<rparr> repo_manager
      (PostEscrowConfirm ''r1'' (JObj [(''confirmation_code'', JStr secret)])) q1)) = 200"
proof -
  let ?c = repo_manager
  obtain r where r: "find_repo ''r1'' two_recipients = Some r" "re_status r = AwaitingEscrow" "re_id r = ''r1''"
    by (simp add: find_repo_def two_recipients_def sample_protection_def repo_base_def)
  have c: "''repository.manage'' \<in> set (u_permissions (c_user ?c))" "length (c_random ?c 0) = 16" "2 \<le> length (recipients two_recipients)"
    by (simp_all add: repo_manager_def two_recipients_def seed_recipients_def)
  let ?b = "Regenerated (publicRepo (regenerate_repo ?c two_recipients r)) (re_package (regenerate_repo ?c two_recipients r))
    (escrowFilename (regenerate_repo ?c two_recipients r))"
  have h: "platform_handle ?c (PostRegenerate ''r1'') (two_recipients, sample_platform) =
      (Send 200 ?b, [audit_by ?c ''repository.escrow.regenerated'' ''repository'' ''r1'' None],
       (update_repo ''r1'' (regenerate_repo ?c two_recipients) two_recipients, sample_platform))"
    using r c by (simp add: platform_handle_def need_def post_regenerate_def find_target_def MIN_RECIPIENTS_def Let_def)
  have ids: "distinct (map re_id (repositories two_recipients))" by (simp add: two_recipients_def sample_protection_def)
  have now: "c_now ?c \<le> c_now ?c + 90 * DAY" by (simp add: DAY_def)
  from regenerated_escrow_healthy [OF h c(2) ids c(1) now, of "\<lambda>a cs. None" "\<lambda>z. True" "\<lambda>j. None" "\<lparr>agents = [], tokens = [], apps = []\<rparr>" "[]"]
  show ?thesis unfolding h by (auto simp: case_prod_beta)
qed

end
