(* ===== verification/Restore_Runs.thy ===== *)
theory Restore_Runs
  imports Restore_Server Policy_Server
begin

text \<open>
  What the restore server promises: the life of a run as an abstract machine and the refinement of
  that machine by the handlers and the timer, that started runs end, that an application has at most
  one active run, and the agreement with the console's restore pages
  (\<^verbatim>\<open>src/lib/restore.ts\<close>): the safeguards of the Start button, the step indicator, and the remaps.
\<close>

section \<open>The life of a run\<close>

type_synonym phase = "restore_state \<times> restore_step option"

definition early :: "restore_step \<Rightarrow> bool" where
  "early x \<longleftrightarrow> x = GrantAccess \<or> x = AgentAccess"

text \<open>A run waits, works through its steps without ever going back, and ends: it succeeds, or after a
  cancellation it fails if no data was touched and is rolled back otherwise.\<close>

inductive life_step :: "restore_step list \<Rightarrow> phase \<Rightarrow> phase \<Rightarrow> bool" for steps where
  begin_run: "x \<in> set steps \<Longrightarrow> life_step steps (Requested, None) (Running, Some x)"
| next_step: "i < j \<Longrightarrow> j < length steps \<Longrightarrow> life_step steps (Running, Some (steps ! i)) (Running, Some (steps ! j))"
| finish_waiting: "life_step steps (Requested, None) (Succeeded, None)"
| finish_running: "x \<in> set steps \<Longrightarrow> life_step steps (Running, Some x) (Succeeded, None)"
| cancel_waiting: "life_step steps (Requested, None) (Failed, None)"
| cancel_early: "x \<in> set steps \<Longrightarrow> early x \<Longrightarrow> life_step steps (Running, Some x) (Failed, None)"
| cancel_late: "x \<in> set steps \<Longrightarrow> \<not> early x \<Longrightarrow> life_step steps (Running, Some x) (RolledBack, None)"

inductive_cases life_from_end: "life_step steps (Succeeded, x) p" "life_step steps (Failed, x) p" "life_step steps (RolledBack, x) p"

inductive_simps life_simps [simp]:
  "life_step steps (Requested, None) (Running, Some x)" "life_step steps (Requested, None) (Succeeded, None)"
  "life_step steps (Requested, None) (Failed, None)" "life_step steps (Running, Some x) (Succeeded, None)"
  "life_step steps (Running, Some x) (Failed, None)" "life_step steps (Running, Some x) (RolledBack, None)"

abbreviation (input) lives :: "restore_step list \<Rightarrow> phase \<Rightarrow> phase \<Rightarrow> bool" where
  "lives steps \<equiv> (life_step steps)\<^sup>*\<^sup>*"

definition phase_of :: "stored_run \<Rightarrow> phase" where
  "phase_of r = (rn_state r, rn_step r)"

definition active :: "stored_run \<Rightarrow> bool" where
  "active r \<longleftrightarrow> rn_state r = Requested \<or> rn_state r = Running"

text \<open>A run agrees with the clock: it is at the step where the timer put it at some time not later
  than \<open>t\<close>.\<close>

definition in_sync :: "int \<Rightarrow> stored_run \<Rightarrow> bool" where
  "in_sync t r \<longleftrightarrow>
     (case rn_state r of
        Requested \<Rightarrow> rn_step r = None \<and> rn_started_at r = None
      | Running \<Rightarrow> rn_started_at r \<noteq> None \<and>
          (\<exists>start t' i. rn_start_ms r = Some start \<and> t' \<le> t \<and> i < length (stepsFor (rn_preview r)) \<and>
             step_index (stepsFor (rn_preview r)) (t' - start) = int i \<and> rn_step r = Some (stepsFor (rn_preview r) ! i))
      | _ \<Rightarrow> True)"

lemma in_sync_later: "in_sync t r \<Longrightarrow> t \<le> t' \<Longrightarrow> in_sync t' r"
  by (auto simp: in_sync_def split: restore_state.splits intro: order_trans)

lemma in_sync_step:
  assumes "in_sync t r" "rn_state r = Running"
  obtains x where "x \<in> set (stepsFor (rn_preview r))" "rn_step r = Some x" "rn_started_at r \<noteq> None"
proof -
  from assms obtain i where "i < length (stepsFor (rn_preview r))" "rn_step r = Some (stepsFor (rn_preview r) ! i)"
    "rn_started_at r \<noteq> None"
    by (auto simp: in_sync_def)
  then show thesis by (intro that [of "stepsFor (rn_preview r) ! i"]) simp_all
qed

lemma stepsFor_always: "{AgentAccess, RestoreData, StartApplication, Commit} \<subseteq> set (stepsFor p)"
  by (simp add: stepsFor_def STEPS_def Let_def)

lemma stepsFor_length: "0 < length (stepsFor p)"
  using stepsFor_always [of p] by (cases "stepsFor p") auto

lemma stepsFor_distinct: "distinct (stepsFor p)"
  by (auto simp: stepsFor_def STEPS_def Let_def)

lemma per_step_pos: "steps \<noteq> [] \<Longrightarrow> 0 < per_step steps"
  by (simp add: per_step_def RUN_MS_def QUEUE_MS_def)

lemma step_index_mono: "steps \<noteq> [] \<Longrightarrow> a \<le> b \<Longrightarrow> step_index steps a \<le> step_index steps b"
  using per_step_pos [of steps] by (auto simp: step_index_def intro!: floor_mono divide_right_mono)

lemma step_index_nonneg: "steps \<noteq> [] \<Longrightarrow> QUEUE_MS \<le> a \<Longrightarrow> 0 \<le> step_index steps a"
  using per_step_pos [of steps] by (simp add: step_index_def)

lemma step_index_end: "steps \<noteq> [] \<Longrightarrow> RUN_MS \<le> a \<Longrightarrow> int (length steps) \<le> step_index steps a"
proof -
  assume steps: "steps \<noteq> []" and a: "RUN_MS \<le> a"
  have "of_nat (length steps) * per_step steps = of_int (RUN_MS - QUEUE_MS)"
    using steps by (simp add: per_step_def)
  also have "\<dots> \<le> of_int (a - QUEUE_MS)" using a by (simp only: of_int_le_iff)
  finally show ?thesis
    using per_step_pos [OF steps] by (simp add: step_index_def le_floor_iff pos_le_divide_eq)
qed

text \<open>What the timer keeps of a run.\<close>

definition same_run :: "stored_run \<Rightarrow> stored_run \<Rightarrow> bool" where
  "same_run r r' \<longleftrightarrow> rn_id r' = rn_id r \<and> rn_application_id r' = rn_application_id r \<and> rn_preview r' = rn_preview r \<and>
     rn_start_ms r' = rn_start_ms r"

lemma same_run_refl [simp]: "same_run r r"
  by (simp add: same_run_def)

lemma same_run_trans: "same_run a b \<Longrightarrow> same_run b c \<Longrightarrow> same_run a c"
  by (simp add: same_run_def)

text \<open>The cases of the timer on one run.\<close>

definition cancelling :: "stored_run \<Rightarrow> bool" where
  "cancelling r \<longleftrightarrow> (case rn_cancel_at r of Some t \<Rightarrow> t \<noteq> 0 | None \<Rightarrow> False)"

definition moving :: "int \<Rightarrow> stored_run \<Rightarrow> bool" where
  "moving start r \<longleftrightarrow> rn_start_ms r = Some start \<and> start \<noteq> 0 \<and> active r"

lemma advance_run_cases:
  obtains (still) "fst (advance_run q now rnd r) = r" "\<And>start. moving start r \<Longrightarrow> \<not> cancelling r \<and> now - start < QUEUE_MS"
  | (cancelled) start where "moving start r" "cancelling r" "fst (advance_run q now rnd r) = cancel_run q now rnd r"
  | (finished) start where "moving start r" "\<not> cancelling r" "QUEUE_MS \<le> now - start"
      "fst (advance_run q now rnd r) = finish_run q rnd start (started start r)"
  | (working) start i u where "moving start r" "\<not> cancelling r" "QUEUE_MS \<le> now - start"
      "step_index (stepsFor (rn_preview r)) (now - start) = int i" "i < length (stepsFor (rn_preview r))"
      "fst (advance_run q now rnd r) =
         (started start r)\<lparr>rn_state := Running, rn_step := Some (stepsFor (rn_preview r) ! i), rn_run_id := u\<rparr>"
proof (cases "\<exists>start. moving start r")
  case False
  then have "fst (advance_run q now rnd r) = r"
    by (auto simp: advance_run_def moving_def active_def split: option.split)
  with False show ?thesis using still by blast
next
  case True
  then obtain start where m: "moving start r" by blast
  let ?steps = "stepsFor (rn_preview r)" and ?i = "step_index (stepsFor (rn_preview r)) (now - start)"
  have eq: "advance_run q now rnd r =
      (if cancelling r then (cancel_run q now rnd r, emit r (cancel_run q now rnd r))
       else if now - start < QUEUE_MS then (r, [])
       else if ?i \<ge> int (length ?steps) then
         (finish_run q rnd start (started start r), emit r (finish_run q rnd start (started start r)))
       else (let (r', es) = run_at_step rnd ?steps (now - start) (nat ?i) (started start r) in (r', emit r r' @ es)))"
    using m by (auto simp: advance_run_def moving_def active_def cancelling_def Let_def)
  consider "cancelling r" | "\<not> cancelling r" "now - start < QUEUE_MS" | "\<not> cancelling r" "QUEUE_MS \<le> now - start" "?i \<ge> int (length ?steps)"
    | "\<not> cancelling r" "QUEUE_MS \<le> now - start" "?i < int (length ?steps)"
    by linarith
  then show ?thesis
  proof cases
    case 4
    have "0 \<le> ?i" using step_index_nonneg [of ?steps] stepsFor_length 4(2) by simp
    moreover have "\<exists>u. fst (run_at_step rnd ?steps (now - start) (nat ?i) (started start r)) =
        (started start r)\<lparr>rn_state := Running, rn_step := Some (?steps ! nat ?i), rn_run_id := u\<rparr>"
      by (auto simp: run_at_step_def Let_def intro: exI [of _ "rn_run_id (started start r)"])
    ultimately show ?thesis using working [OF m 4(1,2), of "nat ?i"] 4 eq by (auto simp: case_prod_beta)
  next
    case 2
    moreover have "start' = start" if "moving start' r" for start' using that m by (simp add: moving_def)
    ultimately show ?thesis using still eq by auto
  qed (use eq m cancelled finished in auto)
qed

lemma started_fields [simp]:
  "rn_id (started t r) = rn_id r" "rn_application_id (started t r) = rn_application_id r"
  "rn_preview (started t r) = rn_preview r" "rn_start_ms (started t r) = rn_start_ms r"
  "rn_state (started t r) = rn_state r" "rn_step (started t r) = rn_step r" "rn_started_at (started t r) \<noteq> None"
  "rn_cancel_at (started t r) = rn_cancel_at r"
  by (auto simp: started_def split: option.split)

lemma advance_run_same: "same_run r (fst (advance_run q now rnd r))"
  by (cases rule: advance_run_cases [where q = q and now = now and rnd = rnd and r = r]) (simp_all add: same_run_def cancel_run_def finish_run_def Let_def)

lemma advance_run_inactive: "\<not> active r \<Longrightarrow> fst (advance_run q now rnd r) = r"
  by (cases rule: advance_run_cases [where q = q and now = now and rnd = rnd and r = r]) (simp_all add: moving_def)

text \<open>One tick is one step of the abstract machine or none, and keeps the agreement with the clock.\<close>

lemma advance_run_refines:
  fixes q :: protection and rnd :: "nat \<Rightarrow> string"
  assumes "in_sync t r" "t \<le> now"
  defines "r' \<equiv> fst (advance_run q now rnd r)"
  shows "in_sync now r'" "lives (stepsFor (rn_preview r)) (phase_of r) (phase_of r')"
proof -
  let ?steps = "stepsFor (rn_preview r)"
  have ne: "?steps \<noteq> []" using stepsFor_length [of "rn_preview r"] by auto
  have "in_sync now r' \<and> (phase_of r' = phase_of r \<or> life_step ?steps (phase_of r) (phase_of r'))"
  proof (cases rule: advance_run_cases [where q = q and now = now and rnd = rnd and r = r])
    case still
    then show ?thesis using in_sync_later [OF assms(1,2)] by (simp add: r'_def)
  next
    case (cancelled start)
    then consider "rn_state r = Requested" | "rn_state r = Running" by (auto simp: moving_def active_def)
    then show ?thesis
    proof cases
      case 1
      then show ?thesis
        using assms(1) cancelled(3) by (simp add: r'_def in_sync_def phase_of_def cancel_run_def Let_def)
    next
      case 2
      from in_sync_step [OF assms(1) 2] obtain x where "x \<in> set ?steps" "rn_step r = Some x" "rn_started_at r \<noteq> None" .
      with 2 cancelled(3) show ?thesis by (simp add: r'_def in_sync_def phase_of_def cancel_run_def early_def Let_def)
    qed
  next
    case (finished start)
    then show ?thesis
      using assms(1)
      by (auto simp: r'_def in_sync_def phase_of_def finish_run_def moving_def active_def split: restore_state.splits)
  next
    case (working start i u)
    then have sync: "in_sync now r'"
      by (auto simp: r'_def in_sync_def moving_def)
    have "phase_of r' = phase_of r \<or> life_step ?steps (phase_of r) (phase_of r')"
    proof (cases "rn_state r = Requested")
      case True
      then show ?thesis
        using assms(1) working by (auto simp: r'_def in_sync_def phase_of_def)
    next
      case False
      then have "rn_state r = Running" using working(1) by (auto simp: moving_def active_def)
      with assms(1) working(1) obtain t' j where j: "t' \<le> t" "j < length ?steps" "step_index ?steps (t' - start) = int j"
        "rn_step r = Some (?steps ! j)"
        by (auto simp: in_sync_def moving_def)
      then have "int j \<le> int i"
        using step_index_mono [OF ne, of "t' - start" "now - start"] assms(2) working(4) by simp
      with j working(5,6) \<open>rn_state r = Running\<close> show ?thesis
        by (cases "j = i") (auto simp: r'_def phase_of_def intro: life_step.next_step)
    qed
    with sync show ?thesis by blast
  qed
  then show "in_sync now r'" "lives ?steps (phase_of r) (phase_of r')" by auto
qed

section \<open>All runs\<close>

text \<open>How the list of runs may change: each run evolves, and new ones come first.\<close>

definition evolved :: "(stored_run \<Rightarrow> stored_run \<Rightarrow> bool) \<Rightarrow> (stored_run \<Rightarrow> bool) \<Rightarrow> stored_run list \<Rightarrow> stored_run list \<Rightarrow> bool" where
  "evolved rel fresh rns rns' \<longleftrightarrow> (\<exists>new olds. rns' = new @ olds \<and> list_all fresh new \<and> list_all2 rel rns olds)"

lemma evolved_refl: "(\<And>r. rel r r) \<Longrightarrow> evolved rel fresh rns rns"
  by (auto simp: evolved_def list.rel_refl intro: exI [of _ "[]"])

lemma evolved_all2: "list_all2 rel rns rns' \<Longrightarrow> evolved rel fresh rns rns'"
  by (auto simp: evolved_def intro: exI [of _ "[]"])

lemma evolved_add: "fresh r \<Longrightarrow> list_all2 rel rns rns' \<Longrightarrow> evolved rel fresh rns (r # rns')"
  unfolding evolved_def by (intro exI [of _ "[r]"] exI [of _ rns']) simp

lemma evolved_trans:
  assumes "evolved rel fresh xs ys" "evolved rel fresh ys zs"
    and "\<And>a b c. rel a b \<Longrightarrow> rel b c \<Longrightarrow> rel a c" "\<And>a b. fresh a \<Longrightarrow> rel a b \<Longrightarrow> fresh b"
  shows "evolved rel fresh xs zs"
proof -
  from assms(1,2) obtain n1 o1 n2 o2 where h: "ys = n1 @ o1" "list_all fresh n1" "list_all2 rel xs o1"
    "zs = n2 @ o2" "list_all fresh n2" "list_all2 rel ys o2"
    by (auto simp: evolved_def)
  from h(1,6) obtain m1 m2 where m: "o2 = m1 @ m2" "list_all2 rel n1 m1" "list_all2 rel o1 m2"
    by (auto simp: list_all2_append1)
  have "list_all fresh m1"
    using m(2) h(2) by (induction rule: list_all2_induct) (auto intro: assms(4))
  moreover have "list_all2 rel xs m2"
    using h(3) m(3) assms(3) by (rule list_all2_trans [rotated])
  ultimately show ?thesis using h(4,5) m(1)
    unfolding evolved_def by (intro exI [of _ "n2 @ m1"] exI [of _ m2]) simp
qed

lemma advance_runs_all2:
  "(\<And>i r. r \<in> set rns \<Longrightarrow> rel r (fst (advance_run q now (sub_draws rnd i) r))) \<Longrightarrow>
   list_all2 rel rns (fst (advance_runs q now rnd k rns))"
  by (induction rns arbitrary: k) (auto simp: case_prod_beta Let_def)

lemma advance_runs_length [simp]: "length (fst (advance_runs q now rnd k rns)) = length rns"
  by (induction rns arbitrary: k) (auto simp: case_prod_beta Let_def)

text \<open>Every event is a list of these changes: the timer on the runs, a cancellation mark, a new run.\<close>

definition mark_cancel :: "string \<Rightarrow> ctx \<Rightarrow> stored_run list \<Rightarrow> stored_run list" where
  "mark_cancel i c = update_first (\<lambda>x. rn_id x = i)
     (\<lambda>x. x\<lparr>rn_cancel_at := Some (c_now c), rn_cancel_by := u_username (c_user c)\<rparr>)"

lemma request_runs:
  obtains (unchanged) "snd (out_state (restore_handle capture rt f c r s)) = snd s"
  | (advanced) q where "snd (out_state (restore_handle capture rt f c r s)) =
      fst (advance_runs q (c_now c) (sub_draws (c_random c) 2) 0 (snd s))"
  | (marked) q i where "r = PostRestoreCancel i" "snd (out_state (restore_handle capture rt f c r s)) =
      mark_cancel i c (fst (advance_runs q (c_now c) (sub_draws (c_random c) 2) 0 (snd s)))"
  | (added) q rid body rp p where "r = PostRestore rid body" "snd (out_state (restore_handle capture rt f c r s)) =
      new_run c body rp p # fst (advance_runs q (c_now c) (sub_draws (c_random c) 2) 0 (snd s))"
      "\<not> list_ex (active_run (rp_application_id rp)) (fst (advance_runs q (c_now c) (sub_draws (c_random c) 2) 0 (snd s)))"
proof (cases "restore_permission r \<in> set (u_permissions (c_user c))")
  case False
  then show ?thesis using unchanged by (simp add: restore_service.denied)
next
  case True
  then have act: "restore_handle capture rt f c r s = restore_action capture rt f c r s"
    by (simp add: restore_handle_def need_def)
  show ?thesis
  proof (cases r)
    case (PostPreview rid body)
    then show ?thesis
      using unchanged unfolding act by (simp add: post_preview_def with_rp_def answer_def case_prod_beta Let_def)
  next
    case (PostRestore rid body)
    let ?adv = "advance capture f (c_now c) (sub_draws (c_random c) 0) (fst s)"
    let ?rp = "find (\<lambda>r. rp_id r = rid) (recovery_points (fst ?adv))"
    let ?runs = "fst (advance_runs (fst ?adv) (c_now c) (sub_draws (c_random c) 2) 0 (snd s))"
    have "snd (out_state (start_restore rt f c body (snd s) (fst ?adv) ?rp)) \<in>
        {snd s, ?runs} \<union> (if list_ex (active_run (rp_application_id (the ?rp))) ?runs then {}
          else {new_run c body (the ?rp) p # ?runs | p. True})"
      by (auto simp: start_restore_def answer_def case_prod_beta Let_def split: sum.split option.split)
    moreover have "snd (out_state (restore_handle capture rt f c r s)) \<in>
        {snd s, snd (out_state (start_restore rt f c body (snd s) (fst ?adv) ?rp))}"
      unfolding act by (auto simp: PostRestore post_restore_def with_rp_def case_prod_beta Let_def)
    ultimately show ?thesis using unchanged advanced [of "fst ?adv"] added [OF PostRestore] by (auto split: if_splits)
  next
    case (PostRestoreCancel i)
    let ?runs = "fst (advance_runs (fst s) (c_now c) (sub_draws (c_random c) 2) 0 (snd s))"
    have "snd (out_state (restore_handle capture rt f c r s)) \<in> {?runs, mark_cancel i c ?runs}"
      unfolding act by (auto simp: PostRestoreCancel post_restore_cancel_def with_runs_def answer_def mark_cancel_def case_prod_beta Let_def
          split: option.split)
    then show ?thesis using advanced [of "fst s"] marked [OF PostRestoreCancel, of "fst s"] by auto
  next
    case (GetRestores a st l)
    then show ?thesis
      using advanced [of "fst s"] unfolding act by (simp add: get_restores_def with_runs_def answer_def case_prod_beta Let_def)
  next
    case (GetRestore i)
    then show ?thesis
      using advanced [of "fst s"] unfolding act by (simp add: get_restore_def with_runs_def answer_def case_prod_beta Let_def)
  qed
qed

section \<open>Refinement\<close>

text \<open>The times of the events that move runs.\<close>

fun event_time :: "restore_event \<Rightarrow> int list" where
  "event_time (Request f c r) = [c_now c]"
| "event_time (Timer now rnd) = [now]"
| "event_time (Elsewhere q) = []"

definition refines_run :: "stored_run \<Rightarrow> stored_run \<Rightarrow> bool" where
  "refines_run r r' \<longleftrightarrow> same_run r r' \<and> lives (stepsFor (rn_preview r)) (phase_of r) (phase_of r')"

definition fresh_run :: "stored_run \<Rightarrow> bool" where
  "fresh_run r \<longleftrightarrow> lives (stepsFor (rn_preview r)) (Requested, None) (phase_of r)"

lemma refines_run_refl [simp]: "refines_run r r"
  by (simp add: refines_run_def)

lemma refines_run_trans: "refines_run a b \<Longrightarrow> refines_run b c \<Longrightarrow> refines_run a c"
  by (auto simp: refines_run_def same_run_def)

lemma fresh_refines: "fresh_run a \<Longrightarrow> refines_run a b \<Longrightarrow> fresh_run b"
  by (auto simp: refines_run_def fresh_run_def same_run_def)

lemma evolved_run_trans:
  "evolved refines_run fresh_run xs ys \<Longrightarrow> evolved refines_run fresh_run ys zs \<Longrightarrow> evolved refines_run fresh_run xs zs"
  by (erule evolved_trans) (auto intro: refines_run_trans fresh_refines)

lemma advance_runs_refines:
  fixes q :: protection and rnd :: "nat \<Rightarrow> string" and k :: nat
  assumes "list_all (in_sync t) rns" "t \<le> now"
  defines "rns' \<equiv> fst (advance_runs q now rnd k rns)"
  shows "list_all (in_sync now) rns'" "list_all2 refines_run rns rns'"
proof -
  have "list_all2 (\<lambda>r r'. in_sync now r' \<and> refines_run r r') rns rns'"
    unfolding rns'_def
    by (rule advance_runs_all2)
      (use assms advance_run_refines advance_run_same in \<open>auto simp: list_all_iff refines_run_def\<close>)
  then show "list_all (in_sync now) rns'" "list_all2 refines_run rns rns'"
    by (auto simp: list_all2_conv_all_nth list_all_length)
qed

lemma mark_cancel_all2:
  assumes "\<And>r t u. rel r (r\<lparr>rn_cancel_at := t, rn_cancel_by := u\<rparr>)" "\<And>r. rel r r"
  shows "list_all2 rel rns (mark_cancel i c rns)"
  unfolding mark_cancel_def by (induction rns) (auto simp: assms list.rel_refl)

lemma in_sync_mark [simp]: "in_sync t (r\<lparr>rn_cancel_at := x, rn_cancel_by := u\<rparr>) = in_sync t r"
  by (simp add: in_sync_def split: restore_state.split)

lemma marked_in_sync: "list_all (in_sync t) rns \<Longrightarrow> list_all (in_sync t) (mark_cancel i c rns)"
  unfolding mark_cancel_def by (induction rns) auto

lemma event_refines:
  fixes capture :: "string \<Rightarrow> captured list \<Rightarrow> contract_note option" and rt :: runtime
  assumes "list_all (in_sync t) (snd s)" "list_all (\<lambda>t'. t \<le> t') (event_time e)"
  defines "s' \<equiv> restore_step_event capture rt e s"
  shows "list_all (in_sync (last (t # event_time e))) (snd s')" "evolved refines_run fresh_run (snd s) (snd s')"
proof -
  have "list_all (in_sync (last (t # event_time e))) (snd s') \<and> evolved refines_run fresh_run (snd s) (snd s')"
  proof (cases e)
    case (Request f c r)
    with assms(2) have t: "t \<le> c_now c" by simp
    note adv = advance_runs_refines [OF assms(1) t]
    have later: "list_all (in_sync (c_now c)) (snd s)"
      using assms(1) in_sync_later [OF _ t] by (auto simp: list_all_iff)
    have mark: "list_all2 refines_run xs (mark_cancel i c xs)" for xs i
      by (rule mark_cancel_all2) (simp_all add: refines_run_def same_run_def phase_of_def)
    show ?thesis
    proof (cases rule: request_runs [where capture = capture and rt = rt and f = f and c = c and r = r and s = s])
      case unchanged
      then show ?thesis using later Request by (simp add: s'_def evolved_refl)
    next
      case (advanced q)
      then show ?thesis using adv Request by (simp add: s'_def evolved_all2)
    next
      case (marked q i)
      then show ?thesis
        using Request adv marked_in_sync mark list_all2_trans [OF refines_run_trans adv(2) mark]
        by (simp add: s'_def evolved_all2)
    next
      case (added q rid body rp p)
      have "fresh_run (new_run c body rp p)" "in_sync (c_now c) (new_run c body rp p)"
        by (simp_all add: fresh_run_def phase_of_def in_sync_def new_run_def)
      with added(2) adv Request show ?thesis
        by (simp add: s'_def evolved_add)
    qed
  next
    case (Timer now rnd)
    with advance_runs_refines [OF assms(1), of now] assms(2) show ?thesis by (simp add: s'_def evolved_all2)
  next
    case (Elsewhere q)
    with assms(1) show ?thesis by (simp add: s'_def evolved_refl)
  qed
  then show "list_all (in_sync (last (t # event_time e))) (snd s')" "evolved refines_run fresh_run (snd s) (snd s')" by auto
qed

text \<open>C9: Every run of the server lives the abstract life. Whatever requests arrive, whenever the timer
  fires and whatever the other modules do to the recovery points, as long as the clock does not go
  back: each run keeps its identifier and its preview and moves along a path of the abstract machine,
  so that it never goes back to an earlier step of its workflow and never leaves a final state; runs
  that appear start waiting. The clock agrees with the runs at the beginning.\<close>

theorem restore_lifecycle:
  assumes "list_all (in_sync t) (snd s)" "sorted (t # concat (map event_time evs))"
  shows "\<exists>new olds. snd (restore_events capture rt evs s) = new @ olds \<and>
    list_all (\<lambda>r. (life_step (stepsFor (rn_preview r)))\<^sup>*\<^sup>* (Requested, None) (rn_state r, rn_step r)) new \<and>
    list_all2 (\<lambda>r r'. rn_id r' = rn_id r \<and> rn_preview r' = rn_preview r \<and>
      (life_step (stepsFor (rn_preview r)))\<^sup>*\<^sup>* (rn_state r, rn_step r) (rn_state r', rn_step r')) (snd s) olds"
proof -
  have "evolved refines_run fresh_run (snd s) (snd (restore_events capture rt evs s))"
    using assms
  proof (induction evs arbitrary: s t)
    case Nil
    then show ?case by (simp add: evolved_refl)
  next
    case (Cons e evs)
    let ?s = "restore_step_event capture rt e s"
    from Cons.prems(2) have le: "list_all (\<lambda>t'. t \<le> t') (event_time e)" by (auto simp: list_all_iff)
    from Cons.prems(2) have "sorted (last (t # event_time e) # concat (map event_time evs))"
      by (cases e) auto
    with Cons.IH [OF event_refines(1) [OF Cons.prems(1) le]]
    have "evolved refines_run fresh_run (snd ?s) (snd (restore_events capture rt evs ?s))" by blast
    with event_refines(2) [OF Cons.prems(1) le] show ?case
      unfolding restore_events_simps by (rule evolved_run_trans)
  qed
  then obtain new olds where h: "snd (restore_events capture rt evs s) = new @ olds" "list_all fresh_run new"
    "list_all2 refines_run (snd s) olds"
    by (auto simp: evolved_def)
  from h(3) have "list_all2 (\<lambda>r r'. rn_id r' = rn_id r \<and> rn_preview r' = rn_preview r \<and>
      lives (stepsFor (rn_preview r)) (rn_state r, rn_step r) (rn_state r', rn_step r')) (snd s) olds"
    by (rule list_all2_mono) (simp add: refines_run_def same_run_def phase_of_def)
  moreover from h(2) have "list_all (\<lambda>r. lives (stepsFor (rn_preview r)) (Requested, None) (rn_state r, rn_step r)) new"
    by (simp add: fresh_run_def phase_of_def list_all_iff)
  ultimately show ?thesis using h(1) by blast
qed

definition sample_preview :: preview where
  "sample_preview =
     \<lparr>p_recovery_point_id = ''rp'', p_application_name = ''shop'', p_source_host_id = ''h1'', p_target_host_id = ''h2'',
      p_target_hostname = ''dr'', p_target_application_id = None, p_mode = ''alternate_host'', p_production = False,
      p_production_reasons = [], p_components = [], p_stop_containers = [], p_create_containers = [''web''], p_networks = [],
      p_images = [], p_ports = [], p_collisions = [], p_warnings = [], p_blocked = False\<rparr>"

definition sample_run :: stored_run where
  "sample_run = new_run (policy_manager\<lparr>c_now := 1000\<rparr>) (JObj []) sample_rp sample_preview"

theorem restore_lifecycle_witness:
  "\<exists>new olds. snd (restore_events (\<lambda>a cs. None) plain_runtime [Timer 4000 (\<lambda>k. []), Elsewhere sample_protection, Timer 9000 (\<lambda>k. [])]
      (sample_protection, [sample_run])) = new @ olds \<and>
    list_all2 (\<lambda>r r'. rn_id r' = rn_id r \<and>
      (life_step (stepsFor (rn_preview r)))\<^sup>*\<^sup>* (rn_state r, rn_step r) (rn_state r', rn_step r')) [sample_run] olds"
proof -
  let ?evs = "[Timer 4000 (\<lambda>k. []), Elsewhere sample_protection, Timer 9000 (\<lambda>k. [])]"
  have sync: "list_all (in_sync 1000) (snd (sample_protection, [sample_run]))"
    by (simp add: in_sync_def sample_run_def new_run_def)
  have times: "sorted (1000 # concat (map event_time ?evs))" by simp
  from restore_lifecycle [OF sync times, of "\<lambda>a cs. None" plain_runtime] obtain new olds where
    h: "snd (restore_events (\<lambda>a cs. None) plain_runtime ?evs (sample_protection, [sample_run])) = new @ olds"
      "list_all2 (\<lambda>r r'. rn_id r' = rn_id r \<and> rn_preview r' = rn_preview r \<and>
        lives (stepsFor (rn_preview r)) (rn_state r, rn_step r) (rn_state r', rn_step r')) [sample_run] olds"
    unfolding snd_conv by blast
  from h(2) have "list_all2 (\<lambda>r r'. rn_id r' = rn_id r \<and>
      lives (stepsFor (rn_preview r)) (rn_state r, rn_step r) (rn_state r', rn_step r')) [sample_run] olds"
    by (rule list_all2_mono) simp
  with h(1) show ?thesis by blast
qed

section \<open>Runs end\<close>

fun cancels :: "restore_event \<Rightarrow> string set" where
  "cancels (Request f c (PostRestoreCancel i)) = {i}"
| "cancels _ = {}"

text \<open>A run that nobody cancelled is active or has succeeded.\<close>

definition on_course :: "stored_run \<Rightarrow> bool" where
  "on_course r \<longleftrightarrow> rn_cancel_at r = None \<and> (active r \<or> rn_state r = Succeeded \<and> rn_result r \<noteq> None)"

definition fate :: "string set \<Rightarrow> stored_run \<Rightarrow> stored_run \<Rightarrow> bool" where
  "fate ids r r' \<longleftrightarrow> same_run r r' \<and> (\<not> active r \<longrightarrow> \<not> active r') \<and> (rn_id r \<notin> ids \<longrightarrow> on_course r \<longrightarrow> on_course r')"

lemma fate_refl [simp]: "fate ids r r"
  by (simp add: fate_def)

lemma fate_trans: "fate ids a b \<Longrightarrow> fate ids b c \<Longrightarrow> fate ids a c"
  by (auto simp: fate_def same_run_def)

lemma on_course_not_cancelling: "on_course r \<Longrightarrow> \<not> cancelling r"
  by (simp add: on_course_def cancelling_def)

lemma advance_run_fate: "fate ids r (fst (advance_run q now rnd r))"
proof (cases rule: advance_run_cases [where q = q and now = now and rnd = rnd and r = r])
  case (finished start)
  then show ?thesis
    using advance_run_same [of r q now rnd]
    by (simp add: fate_def on_course_def finish_run_def moving_def active_def)
next
  case (working start i u)
  then show ?thesis
    using advance_run_same [of r q now rnd] by (simp add: fate_def on_course_def moving_def active_def)
next
  case (cancelled start)
  then show ?thesis
    using advance_run_same [of r q now rnd] on_course_not_cancelling by (auto simp: fate_def moving_def)
qed simp

lemma mark_cancel_fate: "i \<in> ids \<Longrightarrow> list_all2 (fate ids) rns (mark_cancel i c rns)"
  unfolding mark_cancel_def
  by (induction rns) (auto simp: fate_def same_run_def active_def list.rel_refl)

lemma event_fate:
  assumes "cancels e \<subseteq> ids"
  shows "evolved (fate ids) (\<lambda>_. True) (snd s) (snd (restore_step_event capture rt e s))"
proof (cases e)
  case (Request f c r)
  have adv: "list_all2 (fate ids) xs (fst (advance_runs q now rnd k xs))" for xs q now rnd k
    by (rule advance_runs_all2) (rule advance_run_fate)
  show ?thesis
  proof (cases rule: request_runs [where capture = capture and rt = rt and f = f and c = c and r = r and s = s])
    case (marked q i)
    then have "i \<in> ids" using assms Request by simp
    from list_all2_trans [OF fate_trans adv mark_cancel_fate [OF this]] marked Request show ?thesis
      by (simp add: evolved_all2)
  qed (simp_all add: Request adv evolved_refl evolved_all2 evolved_add)
next
  case (Timer now rnd)
  then show ?thesis by (auto intro!: evolved_all2 advance_runs_all2 advance_run_fate)
qed (simp add: evolved_refl)

lemma events_fate:
  "\<Union> (set (map cancels evs)) \<subseteq> ids \<Longrightarrow> evolved (fate ids) (\<lambda>_. True) (snd s) (snd (restore_events capture rt evs s))"
proof (induction evs arbitrary: s)
  case (Cons e evs)
  then have "evolved (fate ids) (\<lambda>_. True) (snd (restore_step_event capture rt e s))
      (snd (restore_events capture rt evs (restore_step_event capture rt e s)))"
    by simp
  moreover have "evolved (fate ids) (\<lambda>_. True) (snd s) (snd (restore_step_event capture rt e s))"
    using Cons.prems by (intro event_fate) auto
  ultimately show ?case by (auto intro: evolved_trans fate_trans)
qed (simp add: evolved_refl)

lemma started_run:
  assumes "restore_handle capture rt f c (PostRestore rid body) s = (Send 202 b, es, s1)"
  obtains rp p rns where "b = RunBody (listItem (new_run c body rp p))" "snd s1 = new_run c body rp p # rns"
    "length rns = length (snd s)"
proof -
  have perm: "''restore.execute'' \<in> set (u_permissions (c_user c))"
    using assms restore_service.denied [of "PostRestore rid body" c capture rt f s] by (auto simp: forbidden_def)
  from assms perm show ?thesis
    by (auto simp: restore_handle_def need_def post_restore_def with_rp_def start_restore_def answer_def case_prod_beta Let_def
        internal_error_def conflict_def start_error_def
        split: if_splits sum.splits option.splits http_error.splits elim!: restore_fail.elims intro: that)
qed

lemma advance_run_ends:
  assumes "rn_start_ms r = Some start" "start \<noteq> 0" "start + RUN_MS \<le> now"
  shows "\<not> active (fst (advance_run q now rnd r))"
proof -
  let ?steps = "stepsFor (rn_preview r)"
  have ne: "?steps \<noteq> []" using stepsFor_length [of "rn_preview r"] by auto
  have late: "int (length ?steps) \<le> step_index ?steps (now - start)"
    using step_index_end [OF ne, of "now - start"] assms(3) by simp
  have q: "QUEUE_MS \<le> now - start" using assms(3) by (simp add: RUN_MS_def QUEUE_MS_def)
  have m: "moving start r" if "active r" using assms that by (simp add: moving_def)
  show ?thesis
  proof (cases rule: advance_run_cases [where q = q and now = now and rnd = rnd and r = r])
    case still
    with m q show ?thesis by (metis not_less)
  next
    case (working start' i u)
    then have "start' = start" using assms(1) by (simp add: moving_def)
    with working late show ?thesis by simp
  qed (simp_all add: cancel_run_def finish_run_def active_def Let_def)
qed

text \<open>C10: A restore that was accepted ends. Whatever happens after the start, at any times and in any
  order, the first tick of the timer once the duration of a run is over leaves the run in a final
  state: it is still in the list under the identifier that the answer gave, and it has succeeded
  with a result if nobody asked to cancel it.\<close>

theorem restore_ends:
  assumes "restore_handle capture rt f c (PostRestore rid body) s = (Send 202 b, es, s1)" "0 < c_now c"
    and "c_now c + RUN_MS \<le> now"
  shows "\<exists>x. b = RunBody x \<and>
    (let rns = snd (restore_step_event capture rt (Timer now rnd) (restore_events capture rt evs s1));
         r = rev rns ! length (snd s)
     in length (snd s) < length rns \<and> rn_id r = rn_id x \<and> rn_state r \<in> {Succeeded, Failed, RolledBack} \<and>
        (rn_id x \<notin> \<Union> (set (map cancels evs)) \<longrightarrow> rn_state r = Succeeded \<and> rn_result r \<noteq> None))"
proof -
  let ?ids = "\<Union> (set (map cancels evs))" and ?s2 = "restore_events capture rt evs s1"
  from started_run [OF assms(1)] obtain rp p rns where
    start: "b = RunBody (listItem (new_run c body rp p))" "snd s1 = new_run c body rp p # rns" "length rns = length (snd s)" .
  define r0 where "r0 = new_run c body rp p"
  from events_fate [of evs ?ids s1 capture rt] start obtain new olds where
    olds: "snd ?s2 = new @ olds" "list_all2 (fate ?ids) (r0 # rns) olds"
    by (auto simp: evolved_def r0_def)
  from olds(2) obtain r1 olds' where r1: "olds = r1 # olds'" "fate ?ids r0 r1" "length olds' = length rns"
    by (auto simp: list_all2_Cons1 dest: list_all2_lengthD)
  have app: "fst (advance_runs q now rnd k (xs @ ys)) = fst (advance_runs q now rnd k xs) @ fst (advance_runs q now rnd (k + length xs) ys)" for q k xs ys
    by (induction xs arbitrary: k) (auto simp: case_prod_beta Let_def)
  define r where "r = fst (advance_run (fst ?s2) now (sub_draws rnd (length new)) r1)"
  have fin: "snd (restore_step_event capture rt (Timer now rnd) ?s2) =
      fst (advance_runs (fst ?s2) now rnd 0 new) @ r # fst (advance_runs (fst ?s2) now rnd (Suc (length new)) olds')"
    by (simp add: olds(1) app r1(1) r_def case_prod_beta Let_def)
  have "rn_start_ms r1 = Some (c_now c)" using r1(2) by (simp add: fate_def same_run_def r0_def new_run_def)
  with assms(2,3) have ended: "\<not> active r" unfolding r_def by (intro advance_run_ends) auto
  have fate: "fate ?ids r0 r" using fate_trans [OF r1(2) advance_run_fate] by (simp add: r_def)
  have "on_course r0" by (simp add: r0_def new_run_def on_course_def active_def)
  with fate ended have succ: "rn_id r0 \<notin> ?ids \<Longrightarrow> rn_state r = Succeeded \<and> rn_result r \<noteq> None"
    by (auto simp: fate_def on_course_def)
  have final: "rn_state r \<in> {Succeeded, Failed, RolledBack}" using ended by (cases "rn_state r") (auto simp: active_def)
  have "rn_id r = rn_id r0" "rn_id (listItem r0) = rn_id r0"
    using fate by (simp_all add: fate_def same_run_def listItem_def run.truncate_def)
  with final succ fin start r1(3) show ?thesis
    unfolding r0_def by (intro exI [of _ "listItem (new_run c body rp p)"]) (simp add: Let_def nth_append)
qed

definition restorer :: ctx where
  "restorer = policy_manager\<lparr>c_random := (\<lambda>k. []), c_user := (c_user policy_manager)\<lparr>u_permissions := [''restore.execute'', ''restore.production'']\<rparr>\<rparr>"

definition sample_point :: stored_rp where
  "sample_point = sample_rp\<lparr>rp_id := ''rp'', rp_manifest := Some ((simpleManifest 0 (\<lambda>k. []) sample_rp ''shop'' ''v'')\<lparr>mf_components := []\<rparr>)\<rparr>"

definition lone_host :: fleet where
  "lone_host = \<lparr>agents = [new_agent 0 ''h'' ''host'' ActiveAgent], tokens = [], apps = []\<rparr>"

definition sample_points :: protection where
  "sample_points = sample_protection\<lparr>recovery_points := [sample_point]\<rparr>"

definition start_body :: json where
  "start_body = JObj [(''reason'', JStr ''drill''), (''confirmation'', JStr ''shop'')]"

definition start_outcome :: rest_outcome where
  "start_outcome = restore_handle (\<lambda>a cs. None) plain_runtime lone_host restorer (PostRestore ''rp'' start_body) (sample_points, [])"

lemma sample_points_advance:
  "advance cap f now rnd sample_points = (sample_points\<lparr>repositories := map (retire_repo now) (repositories sample_points)\<rparr>, [], True)"
proof -
  have s: "rp_state sample_point = RpCommitted" "rp_delete_after sample_point = None" "rp_finish_at sample_point = None"
    by (simp_all add: sample_point_def sample_rp_def rp_base_def)
  then have "expire_rp now sample_point = sample_point" by (simp add: expire_rp_def deletion_due_def)
  with s show ?thesis by (simp add: advance_def sample_points_def advance_rp_def)
qed

lemma sample_preview_computed:
  "\<exists>p. computePreview plain_runtime lone_host rnd (Some sample_point) start_body = Inr p \<and> \<not> p_blocked p \<and>
     p_application_name p = ''shop''"
proof -
  have f: "rp_state sample_point = RpCommitted" "rp_host_id sample_point = ''h''"
    "rp_manifest sample_point = Some ((simpleManifest 0 (\<lambda>k. []) sample_rp ''shop'' ''v'')\<lparr>mf_components := []\<rparr>)"
    by (simp_all add: sample_point_def sample_rp_def rp_base_def)
  have h: "agents lone_host = [new_agent 0 ''h'' ''host'' ActiveAgent]" "apps lone_host = []"
    "ag_id (new_agent 0 ''h'' ''host'' ActiveAgent) = ''h''" "ag_status (new_agent 0 ''h'' ''host'' ActiveAgent) = ActiveAgent"
    by (simp_all add: lone_host_def new_agent_def)
  have "resolve plain_runtime lone_host (Some sample_point) start_body =
      Inr (sample_point, (simpleManifest 0 (\<lambda>k. []) sample_rp ''shop'' ''v'')\<lparr>mf_components := []\<rparr>, new_agent 0 ''h'' ''host'' ActiveAgent, [], [])"
    by (simp add: resolve_def f h start_body_def array_field_def wanted_def)
  then show ?thesis
    by (simp add: computePreview_def case_prod_beta Let_def h f image_part_def in_place_part_def blank_preview_def host_collision_def simpleManifest_def)
qed

lemma start_outcome_accepted:
  "\<exists>x. restore_handle (\<lambda>a cs. None) plain_runtime lone_host restorer (PostRestore ''rp'' start_body) (sample_points, []) =
     (Send 202 (RunBody x), out_effects start_outcome, out_state start_outcome)"
proof -
  from sample_preview_computed obtain p where p: "computePreview plain_runtime lone_host (sub_draws (c_random restorer) 1)
      (Some sample_point) start_body = Inr p" "\<not> p_blocked p" "p_application_name p = ''shop''" by blast
  have "trim ''drill'' = ''drill''" "trim ''shop'' = ''shop''" by code_simp+
  with p have ok: "start_error plain_runtime restorer start_body p = None"
    by (simp add: start_error_def start_body_def restorer_def trimmed_field_def text_of_def)
  have "recovery_points sample_points = [sample_point]" "rp_id sample_point = ''rp''"
    by (simp_all add: sample_points_def sample_point_def)
  moreover have "''restore.execute'' \<in> set (u_permissions (c_user restorer))" by (simp add: restorer_def)
  ultimately have "\<exists>x. out_reply start_outcome = Send 202 (RunBody x)"
    by (simp add: start_outcome_def restore_handle_def need_def post_restore_def with_rp_def
        sample_points_advance start_restore_def p(1) [unfolded One_nat_def] ok Let_def)
  then show ?thesis unfolding start_outcome_def by (metis prod.collapse)
qed

theorem restore_ends_witness:
  "\<exists>r. snd (restore_step_event (\<lambda>a cs. None) plain_runtime (Timer 16000 (\<lambda>k. []))
      (restore_events (\<lambda>a cs. None) plain_runtime [Timer 7000 (\<lambda>k. [])] (out_state start_outcome))) = [r] \<and>
    rn_state r = Succeeded \<and> rn_result r \<noteq> None"
proof -
  let ?cap = "\<lambda>a cs. None :: contract_note option"
  from start_outcome_accepted obtain x where acc: "restore_handle ?cap plain_runtime lone_host restorer
      (PostRestore ''rp'' start_body) (sample_points, []) =
      (Send 202 (RunBody x), out_effects start_outcome, out_state start_outcome)" by blast
  have "0 < c_now restorer" "c_now restorer + RUN_MS \<le> 16000"
    by (simp_all add: restorer_def policy_manager_def repo_manager_def RUN_MS_def)
  note ends = restore_ends [OF acc this, of "\<lambda>k. []" "[Timer 7000 (\<lambda>k. [])]"]
  obtain rp p rns where "snd (out_state start_outcome) = new_run restorer start_body rp p # rns" "length rns = length (snd (sample_points, [] :: stored_run list))"
    by (rule started_run [OF acc])
  then have "length (snd (out_state start_outcome)) = 1" by simp
  then have "length (snd (restore_step_event ?cap plain_runtime (Timer 16000 (\<lambda>k. []))
      (restore_events ?cap plain_runtime [Timer 7000 (\<lambda>k. [])] (out_state start_outcome)))) = 1"
    by simp
  then obtain r where r: "snd (restore_step_event ?cap plain_runtime (Timer 16000 (\<lambda>k. []))
      (restore_events ?cap plain_runtime [Timer 7000 (\<lambda>k. [])] (out_state start_outcome))) = [r]"
    by (auto simp: length_Suc_conv simp del: restore_step_event.simps restore_events_simps)
  with ends show ?thesis by (simp add: Let_def)
qed

section \<open>One active run per application\<close>

definition one_active :: "stored_run list \<Rightarrow> bool" where
  "one_active rns \<longleftrightarrow> distinct (map rn_application_id (filter active rns))"

lemma filter_all2:
  assumes "list_all2 (\<lambda>r r'. f r' = f r \<and> (P r' \<longrightarrow> P r)) xs ys" "distinct (map f (filter P xs))"
  shows "distinct (map f (filter P ys))"
  using assms
proof (induction rule: list_all2_induct)
  case (Cons x xs y ys)
  have "set (map f (filter P ys)) \<subseteq> set (map f (filter P xs))"
    using Cons.hyps(2) by (induction rule: list_all2_induct) (auto split: if_splits)
  with Cons show ?case by (auto split: if_splits)
qed simp

lemma fate_one_active:
  assumes "list_all2 (fate ids) xs ys" "one_active xs"
  shows "one_active ys"
proof -
  from assms(1) have "list_all2 (\<lambda>r r'. rn_application_id r' = rn_application_id r \<and> (active r' \<longrightarrow> active r)) xs ys"
    by (rule list_all2_mono) (auto simp: fate_def same_run_def)
  from filter_all2 [OF this] assms(2) show ?thesis by (simp add: one_active_def)
qed

lemma event_one_active:
  assumes "one_active (snd s)"
  shows "one_active (snd (restore_step_event capture rt e s))"
proof -
  have adv: "list_all2 (fate UNIV) xs (fst (advance_runs q now rnd k xs))" for xs q now rnd k
    by (rule advance_runs_all2) (rule advance_run_fate)
  show ?thesis
  proof (cases e)
    case (Request f c r)
    show ?thesis
    proof (cases rule: request_runs [where capture = capture and rt = rt and f = f and c = c and r = r and s = s])
      case (marked q i)
      then show ?thesis
        using assms Request fate_one_active [OF list_all2_trans [OF fate_trans adv mark_cancel_fate]] by simp
    next
      case (added q rid body rp p)
      let ?rns = "fst (advance_runs q (c_now c) (sub_draws (c_random c) 2) 0 (snd s))"
      have "one_active ?rns" using fate_one_active [OF adv assms] .
      moreover have "rp_application_id rp \<notin> set (map rn_application_id (filter active ?rns))"
        using added(3) by (auto simp: list_ex_iff active_run_def active_def)
      ultimately show ?thesis
        using added(2) Request by (simp add: one_active_def new_run_def active_def)
    qed (use assms Request fate_one_active [OF adv assms] in simp_all)
  qed (use assms fate_one_active [OF adv assms] in simp_all)
qed

lemma events_one_active: "one_active (snd s) \<Longrightarrow> one_active (snd (restore_events capture rt evs s))"
proof (induction evs arbitrary: s)
  case (Cons e evs)
  show ?case unfolding restore_events_simps by (rule Cons.IH [OF event_one_active [OF Cons.prems]])
qed simp

text \<open>C11: No application is restored twice at the same time. If at most one run of each application is
  waiting or running, this stays so whatever requests arrive, in any order and at any times, and
  whatever the timer and the other modules do; the initial runs have all ended.\<close>

theorem one_restore_at_a_time:
  "(distinct (map rn_application_id (filter (\<lambda>r. isActiveRestore (rn_state r)) (snd s))) \<longrightarrow>
    distinct (map rn_application_id (filter (\<lambda>r. isActiveRestore (rn_state r)) (snd (restore_events capture rt evs s))))) \<and>
   (case seed_restores rt f q now rnd of
      Some rns \<Rightarrow> list_all (\<lambda>r. \<not> isActiveRestore (rn_state r)) rns | None \<Rightarrow> True)"
proof -
  have act: "(\<lambda>r. isActiveRestore (rn_state r)) = active"
  proof
    show "isActiveRestore (rn_state r) = active r" for r by (cases "rn_state r") (simp_all add: active_def)
  qed
  have "case seed_restores rt f q now rnd of Some rns \<Rightarrow> list_all (\<lambda>r. \<not> isActiveRestore (rn_state r)) rns | None \<Rightarrow> True"
    by (auto simp: seed_restores_def seed_failed_def seed_rolled_back_def seed_succeeded_def seed_run_def Let_def
        split: option.split sum.split)
  then show ?thesis using events_one_active unfolding act one_active_def by blast
qed

theorem one_restore_at_a_time_witness:
  "distinct (map rn_application_id (filter (\<lambda>r. isActiveRestore (rn_state r)) [sample_run])) \<and>
   distinct (map rn_application_id (filter (\<lambda>r. isActiveRestore (rn_state r))
     (snd (restore_events (\<lambda>a cs. None) plain_runtime [Request lone_host restorer (PostRestore ''rp'' start_body)]
       (sample_points, [sample_run])))))"
  using one_restore_at_a_time [of "(sample_points, [sample_run])" "\<lambda>a cs. None" plain_runtime
      "[Request lone_host restorer (PostRestore ''rp'' start_body)]"] by simp

section \<open>Agreement with the console\<close>

lemma stepsFor_console:
  "stepsFor p = filter (\<lambda>x. stepApplies x (p_source_host_id p) (p_target_host_id p) (Some p)) RESTORE_STEPS"
  unfolding stepsFor_def STEPS_def RESTORE_STEPS_def Let_def by (rule filter_cong [OF refl]) (simp split: restore_step.split)

lemma map_sum_Inr: "map_sum id g x = Inr y \<longleftrightarrow> (\<exists>a. x = Inr a \<and> y = g a)"
  by (cases x) auto

lemma resolve_point: "resolve rt f (Some rp) body = Inr (r, m, target, remaps, selected) \<Longrightarrow> r = rp"
  by (auto simp: resolve_def map_sum_Inr Let_def split: rp_state.splits option.splits if_splits)

lemma computePreview_hosts:
  assumes "computePreview rt f rnd (Some rp) body = Inr p"
  shows "p_source_host_id p = rp_host_id rp"
proof (cases "resolve rt f (Some rp) body")
  case (Inr x)
  obtain r m target remaps selected where x: "x = (r, m, target, remaps, selected)" by (cases x)
  obtain app containers networks where t: "topology_of f rnd r = (app, containers, networks)" by (cases "topology_of f rnd r")
  have "r = rp" using resolve_point Inr x by simp
  then show ?thesis
    using assms Inr x t
    by (auto simp: computePreview_def Let_def image_part_def in_place_part_def alternate_part_def blank_preview_def)
qed (use assms in \<open>simp add: computePreview_def\<close>)

lemma position_distinct: "distinct xs \<Longrightarrow> i < length xs \<Longrightarrow> position (xs ! i) xs = Some i"
proof (induction xs arbitrary: i)
  case (Cons x xs)
  show ?case
  proof (cases i)
    case (Suc j)
    with Cons have "position (xs ! j) xs = Some j" "x \<noteq> xs ! j" "xs ! j \<in> set xs" by auto
    with Suc show ?thesis by (auto simp: position_def split: if_splits)
  qed (simp add: position_def)
qed simp

lemma shown_stepsFor:
  assumes "x \<in> set (stepsFor p)"
  shows "shown_steps (Some (step_id x)) (p_source_host_id p) (p_target_host_id p) (Some p) = stepsFor p"
proof -
  have "stepApplies x (p_source_host_id p) (p_target_host_id p) (Some p)" using assms by (simp add: stepsFor_console)
  then show ?thesis unfolding shown_steps_def stepsFor_console by (intro filter_cong) (auto simp: find_step_id)
qed

text \<open>C29: The step indicator of the console shows where the server is. For a run of a preview that the
  timer has put to work, the indicator shows exactly the steps that the server goes through, in
  that order, with the steps that are over done, the step of the current time current, and the
  rest pending.\<close>

theorem step_indicator_agrees:
  assumes "computePreview rt f rnd (Some rp) body = Inr p"
    and "r = fst (advance_run q now rnd' (new_run c body rp p))" "rn_state r = Running"
  shows "let vs = restoreSteps (rn_state r) (map_option step_id (rn_step r)) (rn_source_host_id r) (rn_target_host_id r) (Some (rn_preview r));
      i = nat (step_index (stepsFor p) (now - c_now c))
    in i < length (stepsFor p) \<and> map sv_step vs = stepsFor p \<and>
      map sv_status vs = replicate i Done @ Current # replicate (length (stepsFor p) - Suc i) Pending"
proof -
  let ?r = "new_run c body rp p"
  have pr: "rn_preview ?r = p" "rn_state ?r = Requested" "rn_start_ms ?r = Some (c_now c)" by (simp_all add: new_run_def)
  from assms(2,3) obtain i where i: "step_index (stepsFor p) (now - c_now c) = int i" "i < length (stepsFor p)"
    "rn_step r = Some (stepsFor p ! i)" "rn_source_host_id r = rp_host_id rp" "rn_target_host_id r = p_target_host_id p"
    "rn_preview r = p"
  proof (cases rule: advance_run_cases [where q = q and now = now and rnd = rnd' and r = ?r])
    case (working start i u)
    then have "start = c_now c" using pr by (simp add: moving_def)
    moreover have "rn_source_host_id (started start ?r) = rp_host_id rp" "rn_target_host_id (started start ?r) = p_target_host_id p"
      by (simp_all add: started_def new_run_def)
    ultimately show ?thesis using working pr assms(2) by (intro that [of i]) simp_all
  qed (use assms(2,3) pr in \<open>auto simp: cancel_run_def finish_run_def Let_def split: if_splits\<close>)
  let ?x = "stepsFor p ! i"
  have shown: "shown_steps (Some (step_id ?x)) (rp_host_id rp) (p_target_host_id p) (Some p) = stepsFor p"
    using shown_stepsFor [of ?x p] computePreview_hosts [OF assms(1)] i(2) by simp
  have "step_status_at Running (Some i) = (\<lambda>j. if j < i then Done else if j = i then Current else Pending)"
    by (rule ext) (simp add: step_status_at_def)
  then show ?thesis
    using i assms(3) position_distinct [OF stepsFor_distinct i(2)] statuses_shape [OF i(2), of Done Current Pending]
    by (simp add: Let_def restoreSteps_steps restoreSteps_statuses shown find_step_id)
qed

theorem step_indicator_agrees_witness:
  "\<exists>p. computePreview plain_runtime lone_host (\<lambda>k. []) (Some sample_point) start_body = Inr p \<and>
    (let r = fst (advance_run sample_points 2000 (\<lambda>k. []) (new_run restorer start_body sample_point p))
     in rn_state r = Running \<and>
       map sv_step (restoreSteps (rn_state r) (map_option step_id (rn_step r)) (rn_source_host_id r) (rn_target_host_id r)
         (Some (rn_preview r))) = stepsFor p)"
proof -
  from sample_preview_computed obtain p where p: "computePreview plain_runtime lone_host (\<lambda>k. []) (Some sample_point) start_body = Inr p"
    by blast
  let ?n = "new_run restorer start_body sample_point p"
  have "c_now restorer = 1000" by (simp add: restorer_def policy_manager_def repo_manager_def)
  moreover have "step_index (stepsFor p) QUEUE_MS = 0" by (simp add: step_index_def)
  ultimately have "rn_state (fst (advance_run sample_points 2000 (\<lambda>k. []) ?n)) = Running"
    using stepsFor_length [of p]
    by (simp add: advance_run_def new_run_def QUEUE_MS_def run_at_step_def case_prod_beta Let_def)
  with p step_indicator_agrees [OF p refl this] show ?thesis by (auto simp: Let_def)
qed

text \<open>C12: The server enforces the safeguards of the Start button. Given the preview of the request, a start
  is accepted exactly if the console would enable the button for the same reason, confirmation and
  permission, and no run of the application is active.\<close>

theorem start_safeguards:
  assumes "advance capture f (c_now c) (sub_draws (c_random c) 0) (fst s) = (q, es, True)"
    and "find (\<lambda>r. rp_id r = rid) (recovery_points q) = Some rp"
    and "computePreview rt f (sub_draws (c_random c) 1) (Some rp) body = Inr p"
    and "''restore.execute'' \<in> set (u_permissions (c_user c))"
  shows "reply_status (out_reply (restore_handle capture rt f c (PostRestore rid body) s)) = 202 \<longleftrightarrow>
    canStart (checkStart p (json_text (jfield body ''reason'')) (text_of rt (jfield body ''confirmation''))
      (''restore.production'' \<in> set (u_permissions (c_user c)))) \<and>
    \<not> list_ex (\<lambda>r. rn_application_id r = rp_application_id rp \<and> isActiveRestore (rn_state r))
        (fst (advance_runs q (c_now c) (sub_draws (c_random c) 2) 0 (snd s)))"
proof -
  let ?rns = "advance_runs q (c_now c) (sub_draws (c_random c) 2) 0 (snd s)"
  have act: "active_run (rp_application_id rp) = (\<lambda>r. rn_application_id r = rp_application_id rp \<and> isActiveRestore (rn_state r))"
  proof
    show "active_run (rp_application_id rp) r = (rn_application_id r = rp_application_id rp \<and> isActiveRestore (rn_state r))" for r
      by (cases "rn_state r") (simp_all add: active_run_def)
  qed
  have reason: "trimmed_field body ''reason'' = trim (json_text (jfield body ''reason''))"
    by (simp add: trimmed_field_def json_text_def trim_def split: option.split json.split)
  have ok: "start_error rt c body p = None \<longleftrightarrow>
      canStart (checkStart p (json_text (jfield body ''reason'')) (text_of rt (jfield body ''confirmation''))
        (''restore.production'' \<in> set (u_permissions (c_user c))))"
    by (simp add: start_error_def checkStart_def reason MIN_PRODUCTION_REASON_def Let_def)
  have status: "start_error rt c body p = Some e \<Longrightarrow> reply_status e \<noteq> 202" for e
    by (auto simp: start_error_def conflict_def Let_def split: if_splits)
  have "out_reply (restore_handle capture rt f c (PostRestore rid body) s) =
      out_reply (start_restore rt f c body (snd s) q (Some rp))"
    using assms(1,2,4) by (simp add: restore_handle_def need_def post_restore_def with_rp_def case_prod_beta)
  also have "reply_status \<dots> = 202 \<longleftrightarrow> start_error rt c body p = None \<and> \<not> list_ex (active_run (rp_application_id rp)) (fst ?rns)"
    using status assms(3)
    by (auto simp: start_restore_def answer_def case_prod_beta conflict_def Let_def split: option.split)
  finally show ?thesis unfolding ok act .
qed

theorem start_safeguards_witness:
  "\<exists>p. computePreview plain_runtime lone_host (sub_draws (c_random restorer) 1) (Some sample_point) start_body = Inr p \<and>
    canStart (checkStart p ''drill'' ''shop'' True)"
proof -
  from sample_preview_computed obtain p where
    p: "computePreview plain_runtime lone_host (sub_draws (c_random restorer) 1) (Some sample_point) start_body = Inr p" by blast
  have point: "find (\<lambda>r. rp_id r = ''rp'') (recovery_points (sample_points\<lparr>repositories := x\<rparr>)) = Some sample_point" for x
    by (simp add: sample_points_def sample_point_def)
  have perm: "''restore.execute'' \<in> set (u_permissions (c_user restorer))" "''restore.production'' \<in> set (u_permissions (c_user restorer))"
    by (simp_all add: restorer_def)
  from start_outcome_accepted have "reply_status (out_reply (restore_handle (\<lambda>a cs. None) plain_runtime lone_host restorer
      (PostRestore ''rp'' start_body) (sample_points, []))) = 202"
    by auto
  then have "canStart (checkStart p (json_text (jfield start_body ''reason'')) (text_of plain_runtime (jfield start_body ''confirmation''))
      (''restore.production'' \<in> set (u_permissions (c_user restorer))))"
    using start_safeguards [where s = "(sample_points, [])", unfolded fst_conv, OF sample_points_advance point p perm(1)] by simp
  with p perm(2) show ?thesis by (auto simp: start_body_def json_text_def text_of_def)
qed

section \<open>Remaps\<close>

text \<open>A row of the console's table as the server receives it.\<close>

definition row_json :: "remap_row \<Rightarrow> json" where
  "row_json r = JObj [(''from'', JStr (rm_from r)), (''to'', JStr (rm_to r))]"

lemma row_pair [simp]: "remap_pair (row_json r) = (rm_from r, rm_to r)"
  by (simp add: remap_pair_def row_json_def json_text_def)

lemma suggested_rows:
  assumes "r \<in> set (suggestRemaps le paths)"
  shows "rm_to r = rm_from r @ ''-restored''" "strip_slashes (rm_from r) = rm_from r" "startsWith (rm_from r) ''/''"
    "rm_from r \<in> set (clean_paths paths)"
proof -
  from assms show "rm_to r = rm_from r @ ''-restored''" by (auto simp: suggestRemaps_def)
  from assms show c: "rm_from r \<in> set (clean_paths paths)"
    using top_paths_set [of "[]" "js_sort (length_le le) (clean_paths paths)"] by (auto simp: suggestRemaps_def)
  then show "strip_slashes (rm_from r) = rm_from r" "startsWith (rm_from r) ''/''"
    by (auto simp: clean_paths_stripped) (auto simp: clean_paths_def)
qed

lemma suggested_cover:
  "p \<in> set (clean_paths paths) \<Longrightarrow> \<exists>r \<in> set (suggestRemaps le paths). under p (rm_from r)"
  using top_paths_cover [of p "js_sort (length_le le) (clean_paths paths)" "[]"]
  by (auto simp: suggestRemaps_def list_ex_iff)

lemma remap_suggested:
  assumes "list_all (\<lambda>(f, t). t = f @ ''-restored'' \<and> strip_slashes f = f) rows" "list_ex (\<lambda>(f, t). under p f) rows"
  shows "\<exists>f rest. f \<in> set (map fst rows) \<and> p = f @ rest \<and> remap p rows = f @ ''-restored'' @ rest"
  using assms
proof (induction rows)
  case (Cons row rows)
  obtain f t where row: "row = (f, t)" by (cases row)
  have t: "t = f @ ''-restored''" "strip_slashes f = f" "strip_slashes t = t"
    using Cons.prems(1) by (simp_all add: row strip_slashes_def)
  show ?case
  proof (cases "under p f")
    case True
    then obtain rest where "p = f @ rest" by (auto simp: under_def startsWith_iff t)
    moreover from this True t have "remap p (row # rows) = f @ ''-restored'' @ rest" by (auto simp: row under_def)
    ultimately show ?thesis by (auto simp: row)
  next
    case False
    with Cons row have "\<exists>g rest. g \<in> set (map fst rows) \<and> p = g @ rest \<and> remap p rows = g @ ''-restored'' @ rest" by simp
    with False t show ?thesis by (auto simp: row under_def)
  qed
qed simp

lemma includes_dots_restored: "includes_str (f @ ''-restored'') ''..'' = includes_str f ''..''"
proof (induction f)
  case (Cons x f)
  then show ?case by (cases f) auto
qed simp

text \<open>C30: The remaps that the console suggests do what they are for. Every bind mount that was selected and
  has a clean absolute path is restored beside its original, at a path with \<^verbatim>\<open>-restored\<close> in it, and
  causes no collision, whatever the target host; and the server accepts every suggested row whose
  source contains no two dots in a row.\<close>

theorem remaps_avoid_collisions:
  assumes "c \<in> set cs" "mc_name c \<in> set sel" "mc_kind c = ''bind_mount''" "mc_path c = Some p"
    and "startsWith p ''/''" "trim p = p" "strip_slashes p = p"
  shows "let rows = suggestRemaps le (remappablePaths (map manifest_component.truncate cs) sel wd);
             (item, collisions) = component_part in_place edge dir (map remap_pair (map row_json rows)) c
         in (\<exists>f rest. f \<in> set (map rm_from rows) \<and> p = f @ rest \<and> pv_target item = f @ ''-restored'' @ rest) \<and>
            collisions = [] \<and> list_all (\<lambda>r. remap_bad (row_json r) = includes_str (rm_from r) ''..'') rows"
proof -
  let ?paths = "remappablePaths (map manifest_component.truncate cs) sel wd"
  let ?rows = "suggestRemaps le ?paths"
  let ?pairs = "map remap_pair (map row_json ?rows)"
  have ne: "p \<noteq> []" using assms(5) by auto
  have "manifest_component.truncate c \<in> set (map manifest_component.truncate cs)" using assms(1) by simp
  then have "p \<in> set ?paths"
    unfolding remappablePaths_def set_concat set_map
    by (rule UN_I [OF imageI]) (simp_all add: manifest_component.truncate_def assms(2-4) ne)
  then have "p \<in> set (clean_paths ?paths)"
    using assms(5-7) ne by (force simp: clean_paths_def)
  from suggested_cover [OF this, of le] have "list_ex (\<lambda>(f, t). under p f) ?pairs"
    by (auto simp: list_ex_iff)
  moreover have "list_all (\<lambda>(f, t). t = f @ ''-restored'' \<and> strip_slashes f = f) ?pairs"
    using suggested_rows(1,2) by (auto simp: list_all_iff)
  ultimately obtain f rest where f: "f \<in> set (map fst ?pairs)" "p = f @ rest" "remap p ?pairs = f @ ''-restored'' @ rest"
    using remap_suggested by blast
  have moved: "remap p ?pairs \<noteq> p" using f(2,3) by simp
  have froms: "map fst ?pairs = map rm_from ?rows" by (simp add: comp_def)
  have "remap_bad (row_json r) = includes_str (rm_from r) ''..''" if "r \<in> set ?rows" for r
    using suggested_rows [OF that] by (auto simp: remap_bad_def row_json_def includes_dots_restored startsWith_iff)
  moreover have "\<exists>f rest. f \<in> set (map rm_from ?rows) \<and> p = f @ rest \<and> remap p ?pairs = f @ ''-restored'' @ rest"
    using f unfolding froms by blast
  ultimately show ?thesis
    using moved assms(3,4) by (simp add: component_part_def Let_def list_all_iff del: map_map)
qed

definition sample_mount :: captured where
  "sample_mount = (comp_entry 0 [] [] ''bind:/srv/data'' ''bind_mount'')\<lparr>mc_path := Some ''/srv/data''\<rparr>"

theorem remaps_avoid_collisions_witness:
  "let rows = suggestRemaps (\<lambda>a b. True) (remappablePaths (map manifest_component.truncate [sample_mount]) [''bind:/srv/data''] None);
       (item, collisions) = component_part False True ''/w'' (map remap_pair (map row_json rows)) sample_mount
   in (\<exists>f rest. f \<in> set (map rm_from rows) \<and> ''/srv/data'' = f @ rest \<and> pv_target item = f @ ''-restored'' @ rest) \<and>
      collisions = [] \<and> list_all (\<lambda>r. remap_bad (row_json r) = includes_str (rm_from r) ''..'') rows"
  by (rule remaps_avoid_collisions) code_simp+

end
