(* ===== verification/Mock_Server.thy ===== *)
theory Mock_Server
  imports Session_Server Platform_Server Restore_Runs
begin

text \<open>
  The whole development server: the tables of routes of its modules, the state they share, the calls
  between them, and what the server guarantees over any sequence of requests and timer runs.

  The modules install hooks in each other (\<^verbatim>\<open>fleetData.setProtection\<close>, \<^verbatim>\<open>fleetData.setPolicyOf\<close>,
  \<^verbatim>\<open>protectionData.setContractAtCapture\<close>) and read each other's lists; here the hooks are the arguments with
  which \<open>module_handle\<close> calls the handlers.
\<close>

section \<open>Route tables\<close>

text \<open>The parts of a path: fixed ones, and the groups of the regular expressions, which are captured. No
  group contains a slash, so a path matches part by part.\<close>

datatype seg = Lit string | Uuid | Coded string | Digits | OneOf "string list"

definition uuid_char :: "char \<Rightarrow> bool" where
  "uuid_char x \<longleftrightarrow> js_digit x \<or> 97 \<le> code x \<and> code x \<le> 102 \<or> x = CHR ''-''"

text \<open>\<^verbatim>\<open>[0-9A-HJKMNP-TV-Z]\<close>\<close>

definition ulid_char :: "char \<Rightarrow> bool" where
  "ulid_char x \<longleftrightarrow> js_digit x \<or> js_upper x \<and> x \<notin> {CHR ''I'', CHR ''L'', CHR ''O'', CHR ''U''}"

fun seg_matches :: "seg \<Rightarrow> string \<Rightarrow> bool" where
  "seg_matches (Lit t) s \<longleftrightarrow> s = t"
| "seg_matches Uuid s \<longleftrightarrow> length s = 36 \<and> list_all uuid_char s"
| "seg_matches (Coded p) s \<longleftrightarrow> startsWith s p \<and> length s = length p + 26 \<and> list_all ulid_char (drop (length p) s)"
| "seg_matches Digits s \<longleftrightarrow> all_digits s"
| "seg_matches (OneOf ts) s \<longleftrightarrow> s \<in> set ts"

fun captured_part :: "seg \<Rightarrow> string \<Rightarrow> string list" where
  "captured_part (Lit t) s = []"
| "captured_part g s = [s]"

fun match_path :: "seg list \<Rightarrow> string list \<Rightarrow> string list option" where
  "match_path [] [] = Some []"
| "match_path (g # gs) (p # ps) =
     (if seg_matches g p then map_option (append (captured_part g p)) (match_path gs ps) else None)"
| "match_path _ _ = None"

type_synonym 'r entry = "string \<times> seg list \<times> (string list \<Rightarrow> request \<Rightarrow> 'r)"

fun find_route :: "'r entry list \<Rightarrow> request \<Rightarrow> 'r option" where
  "find_route [] rq = None"
| "find_route ((m, gs, k) # es) rq =
     (if m \<noteq> rq_method rq then find_route es rq
      else case match_path (Lit [] # Lit ''api'' # Lit ''v1'' # gs) (split_on SLASH (rq_path rq)) of
             None \<Rightarrow> find_route es rq
           | Some ms \<Rightarrow> Some (k ms rq))"

definition retag :: "('r \<Rightarrow> 't) \<Rightarrow> 'r entry list \<Rightarrow> 't entry list" where
  "retag g es = map (\<lambda>(m, gs, k). (m, gs, \<lambda>ms rq. g (k ms rq))) es"

text \<open>A number in the query, as the handlers read it: they clamp it to at least 1 and at most 500, so that
  the infinities stand for the ends of that range.\<close>

definition number_param :: "request \<Rightarrow> string \<Rightarrow> rat option option" where
  "number_param rq k =
     map_option (\<lambda>t. case Number t of NaN \<Rightarrow> None | Fin x \<Rightarrow> Some x | Infinite b \<Rightarrow> Some (if b then 500 else 1)) (param rq k)"

definition action_named :: "string \<Rightarrow> agent_action" where
  "action_named s =
     (if s = ''approve'' then Approve else if s = ''suspend'' then Suspend else if s = ''resume'' then Resume else Revoke)"

definition fleet_table :: "fleet_route entry list" where
  "fleet_table =
     [(''GET'', [Lit ''agents''], \<lambda>ms rq. GetAgents),
      (''GET'', [Lit ''agents'', Lit ''registration-tokens''], \<lambda>ms rq. GetTokens),
      (''POST'', [Lit ''agents'', Lit ''registration-tokens''], \<lambda>ms rq. PostToken (rq_body rq)),
      (''DELETE'', [Lit ''agents'', Lit ''registration-tokens'', Uuid], \<lambda>ms rq. DeleteToken (ms ! 0)),
      (''GET'', [Lit ''agents'', Uuid], \<lambda>ms rq. GetAgent (ms ! 0)),
      (''GET'', [Lit ''agents'', Uuid, Lit ''inventory''], \<lambda>ms rq. GetInventory (ms ! 0)),
      (''POST'', [Lit ''agents'', Uuid, OneOf [''approve'', ''suspend'', ''resume'', ''revoke'']],
       \<lambda>ms rq. PostAgentAction (ms ! 0) (action_named (ms ! 1)) (rq_body rq)),
      (''POST'', [Lit ''agents'', Uuid, Lit ''discover''], \<lambda>ms rq. PostDiscover (ms ! 0)),
      (''GET'', [Lit ''applications''], \<lambda>ms rq. GetApplications),
      (''POST'', [Lit ''applications''], \<lambda>ms rq. PostApplication (rq_body rq)),
      (''GET'', [Lit ''applications'', Uuid], \<lambda>ms rq. GetApplication (ms ! 0)),
      (''PATCH'', [Lit ''applications'', Uuid], \<lambda>ms rq. PatchApplication (ms ! 0) (rq_body rq)),
      (''DELETE'', [Lit ''applications'', Uuid], \<lambda>ms rq. DeleteApplication (ms ! 0)),
      (''GET'', [Lit ''applications'', Uuid, Lit ''compose''],
       \<lambda>ms rq. GetCompose (ms ! 0) (param rq ''reveal'' = Some ''true''))]"

definition protection_table :: "protection_route entry list" where
  "protection_table =
     [(''GET'', [Lit ''escrow'', Lit ''recipients''], \<lambda>ms rq. GetRecipients),
      (''POST'', [Lit ''escrow'', Lit ''recipients''], \<lambda>ms rq. PostRecipient (rq_body rq)),
      (''DELETE'', [Lit ''escrow'', Lit ''recipients'', Uuid], \<lambda>ms rq. DeleteRecipient (ms ! 0)),
      (''GET'', [Lit ''repositories''], \<lambda>ms rq. GetRepositories),
      (''POST'', [Lit ''repositories''], \<lambda>ms rq. PostRepository (rq_body rq)),
      (''GET'', [Lit ''repositories'', Uuid], \<lambda>ms rq. GetRepository (ms ! 0)),
      (''GET'', [Lit ''repositories'', Uuid, Lit ''escrow-package''], \<lambda>ms rq. GetEscrowPackage (ms ! 0)),
      (''POST'', [Lit ''repositories'', Uuid, Lit ''escrow'', Lit ''confirm''], \<lambda>ms rq. PostEscrowConfirm (ms ! 0) (rq_body rq)),
      (''POST'', [Lit ''repositories'', Uuid, Lit ''reindex''], \<lambda>ms rq. PostReindex (ms ! 0)),
      (''POST'', [Lit ''applications'', Uuid, Lit ''backups''], \<lambda>ms rq. PostBackup (ms ! 0) (rq_body rq)),
      (''GET'', [Lit ''applications'', Uuid, Lit ''backup-settings''], \<lambda>ms rq. GetBackupSettings (ms ! 0)),
      (''PUT'', [Lit ''applications'', Uuid, Lit ''backup-settings''], \<lambda>ms rq. PutBackupSettings (ms ! 0) (rq_body rq)),
      (''GET'', [Lit ''recovery-points''],
       \<lambda>ms rq. GetRecoveryPoints (param rq ''application_id'') (param rq ''state'') (number_param rq ''limit'')),
      (''GET'', [Lit ''recovery-points'', Coded ''rp_''], \<lambda>ms rq. GetRecoveryPoint (ms ! 0)),
      (''GET'', [Lit ''alerts''], \<lambda>ms rq. GetAlerts (param rq ''all'')),
      (''POST'', [Lit ''alerts'', Digits, Lit ''acknowledge''], \<lambda>ms rq. PostAlertAcknowledge (digits_val (ms ! 0))),
      (''GET'', [Lit ''agents'', Uuid, Lit ''settings''], \<lambda>ms rq. GetHostSettings (ms ! 0)),
      (''PUT'', [Lit ''agents'', Uuid, Lit ''settings''], \<lambda>ms rq. PutHostSettings (ms ! 0) (rq_body rq))]"

definition restore_table :: "restore_route entry list" where
  "restore_table =
     [(''POST'', [Lit ''recovery-points'', Coded ''rp_'', Lit ''restore-preview''], \<lambda>ms rq. PostPreview (ms ! 0) (rq_body rq)),
      (''POST'', [Lit ''recovery-points'', Coded ''rp_'', Lit ''restores''], \<lambda>ms rq. PostRestore (ms ! 0) (rq_body rq)),
      (''GET'', [Lit ''restores''],
       \<lambda>ms rq. GetRestores (param rq ''application_id'') (param rq ''state'') (number_param rq ''limit'')),
      (''POST'', [Lit ''restores'', Coded ''rs_'', Lit ''cancel''], \<lambda>ms rq. PostRestoreCancel (ms ! 0)),
      (''GET'', [Lit ''restores'', Coded ''rs_''], \<lambda>ms rq. GetRestore (ms ! 0))]"

definition live_table :: "live_route entry list" where
  "live_table =
     [(''GET'', [Lit ''jobs''],
       \<lambda>ms rq. GetJobs (param rq ''application_id'') (param rq ''type'') (param rq ''state'') (number_param rq ''limit'')),
      (''GET'', [Lit ''containers''], \<lambda>ms rq. GetContainers (param rq ''host_id'')),
      (''GET'', [Lit ''volumes''], \<lambda>ms rq. GetVolumes (param rq ''host_id'')),
      (''GET'', [Lit ''users''], \<lambda>ms rq. GetUsers),
      (''GET'', [Lit ''roles''], \<lambda>ms rq. GetRoles),
      (''PUT'', [Lit ''users'', Uuid, Lit ''roles''], \<lambda>ms rq. PutUserRoles (ms ! 0) (rq_body rq)),
      (''PUT'', [Lit ''users'', Uuid, Lit ''status''], \<lambda>ms rq. PutUserStatus (ms ! 0) (rq_body rq)),
      (''GET'', [Lit ''oidc'', Lit ''group-mappings''], \<lambda>ms rq. GetMappings),
      (''POST'', [Lit ''oidc'', Lit ''group-mappings''], \<lambda>ms rq. PostMapping (rq_body rq)),
      (''POST'', [Lit ''oidc'', Lit ''group-mappings'', Lit ''remove''], \<lambda>ms rq. RemoveMapping (rq_body rq))]"

definition policy_table :: "policy_route entry list" where
  "policy_table =
     [(''GET'', [Lit ''policies''], \<lambda>ms rq. GetPolicies),
      (''POST'', [Lit ''policies''], \<lambda>ms rq. PostPolicy (rq_body rq)),
      (''GET'', [Lit ''policies'', Uuid], \<lambda>ms rq. GetPolicy (ms ! 0)),
      (''PUT'', [Lit ''policies'', Uuid], \<lambda>ms rq. PutPolicy (ms ! 0) (rq_body rq)),
      (''DELETE'', [Lit ''policies'', Uuid], \<lambda>ms rq. DeletePolicy (ms ! 0)),
      (''PUT'', [Lit ''applications'', Uuid, Lit ''policy''], \<lambda>ms rq. PutAppPolicy (ms ! 0) (rq_body rq)),
      (''GET'', [Lit ''contracts''], \<lambda>ms rq. GetContracts),
      (''GET'', [Lit ''applications'', Uuid, Lit ''contract''], \<lambda>ms rq. GetContract (ms ! 0)),
      (''PUT'', [Lit ''applications'', Uuid, Lit ''contract''], \<lambda>ms rq. PutContract (ms ! 0) (rq_body rq)),
      (''DELETE'', [Lit ''applications'', Uuid, Lit ''contract''], \<lambda>ms rq. DeleteContract (ms ! 0)),
      (''POST'', [Lit ''recovery-points'', Coded ''rp_'', Lit ''delete''], \<lambda>ms rq. PostRpDelete (ms ! 0) (rq_body rq)),
      (''POST'', [Lit ''recovery-points'', Coded ''rp_'', Lit ''undelete''], \<lambda>ms rq. PostRpUndelete (ms ! 0)),
      (''POST'', [Lit ''repositories'', Uuid, Lit ''delete''], \<lambda>ms rq. PostRepoDelete (ms ! 0) (rq_body rq)),
      (''POST'', [Lit ''repositories'', Uuid, Lit ''undelete''], \<lambda>ms rq. PostRepoUndelete (ms ! 0)),
      (''GET'', [Lit ''notification-channels''], \<lambda>ms rq. GetChannels),
      (''POST'', [Lit ''notification-channels''], \<lambda>ms rq. PostChannel (rq_body rq)),
      (''GET'', [Lit ''notification-channels'', Uuid], \<lambda>ms rq. GetChannel (ms ! 0)),
      (''PUT'', [Lit ''notification-channels'', Uuid], \<lambda>ms rq. PutChannel (ms ! 0) (rq_body rq)),
      (''DELETE'', [Lit ''notification-channels'', Uuid], \<lambda>ms rq. DeleteChannel (ms ! 0)),
      (''POST'', [Lit ''notification-channels'', Uuid, Lit ''test''], \<lambda>ms rq. PostChannelTest (ms ! 0)),
      (''GET'', [Lit ''notification-channels'', Uuid, Lit ''deliveries''],
       \<lambda>ms rq. GetDeliveries (ms ! 0) (number_param rq ''limit'')),
      (''GET'', [Lit ''settings'', Lit ''smtp''], \<lambda>ms rq. GetSmtp),
      (''PUT'', [Lit ''settings'', Lit ''smtp''], \<lambda>ms rq. PutSmtp (rq_body rq))]"

definition platform_table :: "platform_route entry list" where
  "platform_table =
     [(''POST'', [Lit ''repositories'', Uuid, Lit ''verify''], \<lambda>ms rq. PostVerify (ms ! 0) (rq_body rq)),
      (''GET'', [Lit ''escrow'', Lit ''health''], \<lambda>ms rq. GetEscrowHealth),
      (''POST'', [Lit ''repositories'', Uuid, Lit ''escrow'', Lit ''regenerate''], \<lambda>ms rq. PostRegenerate (ms ! 0)),
      (''GET'', [Lit ''escrow'', Lit ''drills''], \<lambda>ms rq. GetDrills),
      (''POST'', [Lit ''escrow'', Lit ''drills''], \<lambda>ms rq. PostDrill),
      (''POST'', [Lit ''escrow'', Lit ''drills'', Uuid, Lit ''complete''], \<lambda>ms rq. PostDrillComplete (ms ! 0) (rq_body rq)),
      (''GET'', [Lit ''platform'', Lit ''backups''], \<lambda>ms rq. GetPlatformBackups (number_param rq ''limit'')),
      (''POST'', [Lit ''platform'', Lit ''backups''], \<lambda>ms rq. PostPlatformBackup),
      (''PUT'', [Lit ''repositories'', Uuid, Lit ''system''], \<lambda>ms rq. PutSystem (ms ! 0))]"

section \<open>The modules together\<close>

record world =
  wd_fleet :: fleet
  wd_protection :: protection
  wd_runs :: "stored_run list"
  wd_directory :: directory
  wd_policies :: policy_state
  wd_platform :: platform
  wd_bus :: event_bus

datatype module_route =
  ToFleet fleet_route
| ToProtection protection_route
| ToRestore restore_route
| ToLive live_route
| ToPolicies policy_route
| ToPlatform platform_route
| ToEvents "string option"

datatype module_body =
  OfFleet "protection_summary option fleet_body"
| OfProtection protection_body
| OfRestore restore_body
| OfLive live_body
| OfPolicies policy_body
| OfPlatform platform_body
| EventStream

definition paramRoutes :: "module_route entry list" where
  "paramRoutes =
     retag ToFleet fleet_table @ retag ToProtection protection_table @ retag ToRestore restore_table @ retag ToLive live_table @
     retag ToPolicies policy_table @ retag ToPlatform platform_table @
     [(''GET'', [Lit ''events''], \<lambda>ms rq. ToEvents (param rq ''types''))]"

text \<open>\<^verbatim>\<open>Number(v)\<close> of a JSON value that is not a number; only compared with 3600.\<close>

definition to_number :: "runtime \<Rightarrow> json \<Rightarrow> rat option" where
  "to_number rt v =
     (case (case v of JNull \<Rightarrow> Fin 0 | JBool b \<Rightarrow> Fin (if b then 1 else 0) | JNum n \<Rightarrow> Fin n | JStr s \<Rightarrow> Number s | _ \<Rightarrow> Number (rt_string rt v)) of
        NaN \<Rightarrow> None | Fin x \<Rightarrow> Some x | Infinite b \<Rightarrow> Some (if b then 3601 else 0))"

text \<open>The protection of an application is computed while its summary is built: where the computation
  raises, the reply is not sent.\<close>

fun summary_raises :: "protection_summary option fleet_body reply \<Rightarrow> bool" where
  "summary_raises (Send n (ApplicationList xs)) = list_ex (\<lambda>x. sm_protection x = None) xs"
| "summary_raises (Send n (ApplicationDetail x)) = (sm_protection (dt_summary x) = None)"
| "summary_raises (Send n (ApplicationSummary x)) = (sm_protection x = None)"
| "summary_raises _ = False"

definition captureOf :: "world \<Rightarrow> string \<Rightarrow> captured list \<Rightarrow> contract_note option" where
  "captureOf w = contractAtCapture (contracts (wd_policies w))"

definition fresh_stream :: "event_bus \<Rightarrow> nat" where
  "fresh_stream bus = Suc (foldr max (map cl_id (clients bus)) 0)"

definition published :: "effect list \<Rightarrow> world \<Rightarrow> world" where
  "published es w = w\<lparr>wd_bus := publish_effects es (wd_bus w)\<rparr>"

fun module_handle :: "runtime \<Rightarrow> ctx \<Rightarrow> module_route \<Rightarrow> world \<Rightarrow> (module_body, world) outcome" where
  "module_handle rt c (ToFleet r) w =
     (let (reply, es, f) = fleet_handle (rt_le rt) (map_of (assignments (wd_policies w)))
            (protectionFor (wd_protection w) (wd_runs w)) c r (wd_fleet w)
      in (if summary_raises reply then internal_error else map_reply OfFleet reply, es, published es (w\<lparr>wd_fleet := f\<rparr>)))"
| "module_handle rt c (ToProtection r) w =
     (let (reply, es, q) = protection_handle (captureOf w) (rt_valid_tz rt) (to_number rt) (wd_fleet w) c r (wd_protection w)
      in (map_reply OfProtection reply, es, published es (w\<lparr>wd_protection := q\<rparr>)))"
| "module_handle rt c (ToRestore r) w =
     (let (reply, es, q, rns) = restore_handle (captureOf w) rt (wd_fleet w) c r (wd_protection w, wd_runs w)
      in (map_reply OfRestore reply, es, published es (w\<lparr>wd_protection := q, wd_runs := rns\<rparr>)))"
| "module_handle rt c (ToLive r) w =
     (let (reply, es, d) = live_handle rt (wd_fleet w) (wd_protection w) (wd_runs w) c r (wd_directory w)
      in (map_reply OfLive reply, es, published es (w\<lparr>wd_directory := d\<rparr>)))"
| "module_handle rt c (ToPolicies r) w =
     (let (reply, es, q, p) = policy_handle rt (wd_fleet w) c r (wd_protection w, wd_policies w)
      in (map_reply OfPolicies reply, es, published es (w\<lparr>wd_protection := q, wd_policies := p\<rparr>)))"
| "module_handle rt c (ToPlatform r) w =
     (let (reply, es, q, p) = platform_handle c r (wd_protection w, wd_platform w)
      in (map_reply OfPlatform reply, es, published es (w\<lparr>wd_protection := q, wd_platform := p\<rparr>)))"
| "module_handle rt c (ToEvents types) w =
     (Send 200 EventStream, [], w\<lparr>wd_bus := open_stream (fresh_stream (wd_bus w)) (c_user c) types (wd_bus w)\<rparr>)"

text \<open>The timers: the backups advance, the restores advance, verifications and platform backups finish, a
  discovery finishes; and a stream is closed by its client.\<close>

datatype tick =
  BackupTick int "nat \<Rightarrow> string"
| RestoreTick int "nat \<Rightarrow> string"
| PlatformTick int "nat \<Rightarrow> string"
| DiscoverTick string
| StreamClosed nat

fun world_tick :: "tick \<Rightarrow> world \<Rightarrow> world" where
  "world_tick (BackupTick now rnd) w =
     (let (q, es, ok) = advance (captureOf w) (wd_fleet w) now rnd (wd_protection w) in published es (w\<lparr>wd_protection := q\<rparr>))"
| "world_tick (RestoreTick now rnd) w =
     (let (rns, es) = advance_runs (wd_protection w) now rnd 0 (wd_runs w) in published es (w\<lparr>wd_runs := rns\<rparr>))"
| "world_tick (PlatformTick now rnd) w =
     (let ((q, p), es) = run_timers now rnd (wd_protection w, wd_platform w)
      in published es (w\<lparr>wd_protection := q, wd_platform := p\<rparr>))"
| "world_tick (DiscoverTick aid) w = published (discover_done aid (wd_fleet w)) w"
| "world_tick (StreamClosed i) w = w\<lparr>wd_bus := close_stream i (wd_bus w)\<rparr>"

fun module_permission :: "module_route \<Rightarrow> string option" where
  "module_permission (ToFleet r) = Some (fleet_permission r)"
| "module_permission (ToProtection r) = Some (protection_permission r)"
| "module_permission (ToRestore r) = Some (restore_permission r)"
| "module_permission (ToLive r) = Some (live_permission r)"
| "module_permission (ToPolicies r) = Some (policy_permission r)"
| "module_permission (ToPlatform r) = Some (platform_permission r)"
| "module_permission (ToEvents t) = None"

text \<open>What happens to the server: requests and ticks.\<close>

datatype web_event = Web int "nat \<Rightarrow> string" request | Tick tick

fun web_step :: "runtime \<Rightarrow> (string \<Rightarrow> string option) \<Rightarrow> web_event \<Rightarrow> world server \<Rightarrow> world server" where
  "web_step rt url_host (Web now rnd rq) s =
     server_step rt url_host (find_route paramRoutes) (module_handle rt) (Arrives now rnd rq) s"
| "web_step rt url_host (Tick t) s =
     server_step rt url_host (find_route paramRoutes) (module_handle rt) (Background (world_tick t)) s"

definition web_run :: "runtime \<Rightarrow> (string \<Rightarrow> string option) \<Rightarrow> web_event list \<Rightarrow> world server \<Rightarrow> world server" where
  "web_run rt url_host evs s = fold (web_step rt url_host) evs s"

section \<open>The invariant of the whole server\<close>

lemma web_run_simps [simp]:
  "web_run rt url_host [] s = s"
  "web_run rt url_host (e # evs) s = web_run rt url_host evs (web_step rt url_host e s)"
  by (simp_all add: web_run_def)

text \<open>What the session layer needs of the modules it hosts to keep a property of their state.\<close>

locale hosted_modules =
  fixes handle :: "ctx \<Rightarrow> 'r \<Rightarrow> 'm \<Rightarrow> ('b, 'm) outcome"
    and tick :: "'t \<Rightarrow> 'm \<Rightarrow> 'm"
    and holds :: "'m \<Rightarrow> bool"
  assumes handled: "holds m \<Longrightarrow> holds (out_state (handle c r m))"
    and ticked: "holds m \<Longrightarrow> holds (tick t m)"
begin

lemma arrival_holds:
  "holds (sv_modules s) \<Longrightarrow> holds (sv_modules (server_step rt url_host params handle (Arrives now rnd rq) s))"
  by (cases "sv_modules (server_step rt url_host params handle (Arrives now rnd rq) s) = sv_modules s")
    (simp, erule change_needs_session, simp only: handled)

lemma background_holds:
  "holds (sv_modules s) \<Longrightarrow> holds (sv_modules (server_step rt url_host params handle (Background (tick t)) s))"
  by (simp add: ticked)

end

definition system_count :: "protection \<Rightarrow> nat" where
  "system_count q = length (filter re_is_system (repositories q))"

definition world_ok :: "runtime \<Rightarrow> world \<Rightarrow> bool" where
  "world_ok rt w \<longleftrightarrow>
     protection_ok (wd_protection w) \<and> system_count (wd_protection w) \<le> 1 \<and> policy_state_ok rt (wd_policies w) \<and>
     one_active (wd_runs w) \<and> platform_ok (wd_platform w)"

lemma published_simps [simp]:
  "wd_fleet (published es w) = wd_fleet w" "wd_protection (published es w) = wd_protection w" "wd_runs (published es w) = wd_runs w"
  "wd_directory (published es w) = wd_directory w" "wd_policies (published es w) = wd_policies w"
  "wd_platform (published es w) = wd_platform w"
  by (simp_all add: published_def)

subsection \<open>System repositories\<close>

lemma system_count_update_first:
  "(\<And>r. re_is_system (g r) = re_is_system r) \<Longrightarrow>
     length (filter re_is_system (update_first p g rs)) = length (filter re_is_system rs)"
  by (induction rs) auto

lemma system_count_map:
  "(\<And>r. re_is_system (g r) = re_is_system r) \<Longrightarrow> length (filter re_is_system (map g rs)) = length (filter re_is_system rs)"
  by (induction rs) auto

lemma system_count_update_repo: "(\<And>r. re_is_system (g r) = re_is_system r) \<Longrightarrow> system_count (update_repo rid g q) = system_count q"
  by (simp add: system_count_def update_repo_def system_count_update_first)

lemma system_count_fields [simp]:
  "system_count (q\<lparr>recipients := a\<rparr>) = system_count q" "system_count (q\<lparr>settings := b\<rparr>) = system_count q"
  "system_count (q\<lparr>recovery_points := c\<rparr>) = system_count q" "system_count (q\<lparr>alerts := d\<rparr>) = system_count q"
  "system_count (q\<lparr>host_limits := e\<rparr>) = system_count q"
  by (simp_all add: system_count_def)

lemma system_count_advance [simp]: "system_count (fst (advance capture f now rnd q)) = system_count q"
  unfolding system_count_def advance_repositories by (rule system_count_map) (simp add: retire_repo_def)

lemma system_count_after_advance:
  "(\<And>s1. system_count (out_state (k s1)) = system_count s1) \<Longrightarrow> system_count (out_state (after_advance capture f c q k)) = system_count q"
  using system_count_advance [of capture f "c_now c" "c_random c" q] by (simp add: after_advance_state case_prod_beta)

lemma protection_handle_system: "system_count (out_state (protection_handle capture validTz num f c r q)) = system_count q"
proof -
  have "system_count (out_state (protection_action capture validTz num f c r q)) = system_count q"
  proof (cases r)
    case (PostRepository b)
    have "\<not> re_is_system (new_repository c b q)" by (simp add: new_repository_def repo_base_def Let_def)
    with PostRepository show ?thesis
      by (auto simp: post_repository_def answer_def Let_def system_count_def comp_def filter_map split: option.split)
  next
    case (PostEscrowConfirm i b)
    then show ?thesis
      by (auto simp: post_escrow_confirm_def answer_def Let_def confirm_repo_def intro!: system_count_update_repo split: option.splits)
  next
    case (PostReindex i)
    then show ?thesis by (auto simp: post_reindex_def answer_def intro!: system_count_update_repo split: option.splits)
  next
    case (PostBackup i b)
    then show ?thesis
      by (auto simp: post_backup_def answer_def start_backup_def Let_def intro!: system_count_after_advance split: option.splits)
  next
    case (GetRecoveryPoints a st l)
    then show ?thesis by (auto simp: get_recovery_points_def answer_def intro!: system_count_after_advance)
  next
    case (GetRecoveryPoint i)
    then show ?thesis
      by (auto simp: get_recovery_point_def answer_def intro!: system_count_after_advance split: option.splits)
  qed (auto simp: answer_def post_recipient_def delete_recipient_def get_escrow_package_def get_alerts_def
      put_backup_settings_def post_alert_acknowledge_def put_host_settings_def Let_def split: option.splits check.splits)
  then show ?thesis by (simp add: protection_handle_def need_def)
qed

lemma policy_handle_system: "system_count (fst (out_state (policy_handle rt f c r (q, s)))) = system_count q"
proof -
  have repo: "system_count (update_repo i (schedule_repo now reason) q) = system_count q"
    "system_count (update_repo i unschedule_repo q) = system_count q" for i now reason
    by (intro system_count_update_repo; simp add: schedule_repo_def unschedule_repo_def)+
  have rp: "system_count (update_rp i g q) = system_count q" for i g by (simp add: update_rp_def)
  have "system_count (fst (out_state (policy_action rt f c r (q, s)))) = system_count q"
  proof (cases r)
    case (PostRpDelete i b)
    then show ?thesis by (simp add: post_rp_delete_def answer_def Let_def rp split: option.split)
  next
    case (PostRpUndelete i)
    then show ?thesis by (simp add: post_rp_undelete_def answer_def rp split: option.split)
  next
    case (PostRepoDelete i b)
    then show ?thesis by (simp add: post_repo_delete_def answer_def Let_def repo split: option.split)
  next
    case (PostRepoUndelete i)
    then show ?thesis by (simp add: post_repo_undelete_def answer_def repo split: option.split)
  qed (simp_all add: answer_def same_data get_contracts_def get_contract_def put_contract_def delete_contract_def
      post_channel_test_def get_deliveries_def put_smtp_def case_prod_beta Let_def split: option.split json.split)
  then show ?thesis by (simp add: policy_handle_def need_def)
qed

subsection \<open>What restores and the platform module do to the shared data\<close>

lemma with_rp_protection:
  "(\<And>q rp. fst (out_state (k q rp)) = q) \<Longrightarrow>
     fst (out_state (with_rp capture f c rid s k)) = fst (advance capture f (c_now c) (sub_draws (c_random c) 0) (fst s))"
  by (simp add: with_rp_def case_prod_beta Let_def)

lemma start_restore_protection: "fst (out_state (start_restore rt f c body rns q rp)) = q"
  by (simp add: start_restore_def answer_def case_prod_beta Let_def split: sum.split option.split)

lemma restore_handle_protection:
  "fst (out_state (restore_handle capture rt f c r (q, rns))) \<in> {q, fst (advance capture f (c_now c) (sub_draws (c_random c) 0) q)}"
proof -
  have "fst (out_state (restore_action capture rt f c r (q, rns))) \<in> {q, fst (advance capture f (c_now c) (sub_draws (c_random c) 0) q)}"
    by (cases r) (simp_all add: post_preview_def post_restore_def with_rp_protection start_restore_protection get_restores_def
        get_restore_def post_restore_cancel_def with_runs_def answer_def case_prod_beta Let_def split: option.split)
  then show ?thesis by (simp add: restore_handle_def need_def)
qed

lemma verified_simps [simp]: "rp_state (verified now pct r) = rp_state r" "rp_application_id (verified now pct r) = rp_application_id r"
  by (simp_all add: verified_def)

lemma pending_apps_update:
  "rp_state x = rp_state (rs ! i) \<Longrightarrow> rp_application_id x = rp_application_id (rs ! i) \<Longrightarrow> i < length rs \<Longrightarrow>
     pending_apps (rs[i := x]) = pending_apps rs"
  by (induction rs arbitrary: i) (auto split: nat.split)

lemma verify_rp_ok:
  assumes "protection_ok q"
  shows "protection_ok (fst (verify_rp now rid pct i q))" "system_count (fst (verify_rp now rid pct i q)) = system_count q"
proof -
  have "next_alert_id als \<notin> al_id ` set als" for als using next_alert_id_fresh by fastforce
  with assms show "protection_ok (fst (verify_rp now rid pct i q))"
    by (simp add: verify_rp_def Let_def protection_ok_def pending_apps_update verification_alert_def)
  show "system_count (fst (verify_rp now rid pct i q)) = system_count q"
    by (simp add: verify_rp_def Let_def)
qed

lemma verify_rps_ok:
  "protection_ok q \<Longrightarrow>
     protection_ok (fst (verify_rps now rid pct is q)) \<and> system_count (fst (verify_rps now rid pct is q)) = system_count q"
  by (induction "is" arbitrary: q) (simp_all add: case_prod_beta Let_def verify_rp_ok)

lemma fire_ok:
  assumes "protection_ok (fst s)"
  shows "protection_ok (fst (fst (fire now rnd t s))) \<and> system_count (fst (fst (fire now rnd t s))) = system_count (fst s)"
proof (cases t)
  case (VerifyDone rid targets pct)
  with assms verify_rps_ok [OF assms, of now rid pct targets] show ?thesis
    by (cases s) (auto simp: case_prod_beta Let_def system_count_update_repo intro!: update_repo_ok)
qed (use assms in \<open>cases s; simp\<close>)

lemma fire_all_ok:
  "protection_ok (fst s) \<Longrightarrow>
     protection_ok (fst (fst (fire_all now rnd k ts s))) \<and> system_count (fst (fst (fire_all now rnd k ts s))) = system_count (fst s)"
  by (induction ts arbitrary: k s) (simp_all add: case_prod_beta Let_def fire_ok)

lemma run_timers_protection:
  "protection_ok (fst s) \<Longrightarrow>
     protection_ok (fst (fst (run_timers now rnd s))) \<and> system_count (fst (fst (run_timers now rnd s))) = system_count (fst s)"
  unfolding run_timers_def using fire_all_ok [of "(fst s, x)" for x] by simp

lemma put_system_ok:
  assumes "protection_ok q"
  shows "protection_ok (update_repo i (\<lambda>x. x\<lparr>re_is_system := True\<rparr>) (q\<lparr>repositories := map (\<lambda>x. x\<lparr>re_is_system := False\<rparr>) (repositories q)\<rparr>))"
    "system_count (update_repo i (\<lambda>x. x\<lparr>re_is_system := True\<rparr>) (q\<lparr>repositories := map (\<lambda>x. x\<lparr>re_is_system := False\<rparr>) (repositories q)\<rparr>)) \<le> 1"
proof -
  have "protection_ok (q\<lparr>repositories := map (\<lambda>x. x\<lparr>re_is_system := False\<rparr>) (repositories q)\<rparr>)"
    using assms by (simp add: protection_ok_def comp_def length_filter_map)
  then show "protection_ok (update_repo i (\<lambda>x. x\<lparr>re_is_system := True\<rparr>) (q\<lparr>repositories := map (\<lambda>x. x\<lparr>re_is_system := False\<rparr>) (repositories q)\<rparr>))"
    by (rule update_repo_ok) simp_all
  have none: "filter re_is_system (map (\<lambda>x. x\<lparr>re_is_system := False\<rparr>) rs) = []" for rs :: "stored_repo list"
    by (simp add: filter_empty_conv)
  have "length (filter re_is_system (update_first p (\<lambda>x. x\<lparr>re_is_system := True\<rparr>) (map (\<lambda>x. x\<lparr>re_is_system := False\<rparr>) rs))) \<le> 1"
    for p and rs :: "stored_repo list"
    by (induction rs) (simp_all add: none)
  then show "system_count (update_repo i (\<lambda>x. x\<lparr>re_is_system := True\<rparr>) (q\<lparr>repositories := map (\<lambda>x. x\<lparr>re_is_system := False\<rparr>) (repositories q)\<rparr>)) \<le> 1"
    by (simp add: system_count_def update_repo_def)
qed

lemma platform_handle_protection:
  assumes "protection_ok q" "system_count q \<le> 1"
  shows "protection_ok (fst (out_state (platform_handle c r (q, p)))) \<and> system_count (fst (out_state (platform_handle c r (q, p)))) \<le> 1"
proof -
  have "protection_ok (fst (out_state (platform_action c r (q, p)))) \<and> system_count (fst (out_state (platform_action c r (q, p)))) \<le> 1"
  proof (cases r)
    case (PutSystem i)
    with assms put_system_ok [OF assms(1)] show ?thesis
      by (simp add: put_system_def find_target_def answer_def Let_def split: option.split)
  next
    case (PostRegenerate i)
    have "protection_ok (update_repo i (regenerate_repo c q) q)" "system_count (update_repo i (regenerate_repo c q) q) = system_count q"
      by (intro update_repo_ok system_count_update_repo assms; simp add: regenerate_repo_def Let_def)+
    with assms PostRegenerate show ?thesis
      by (simp add: post_regenerate_def find_target_def answer_def Let_def split: option.split)
  next
    case (PostVerify i b)
    with assms show ?thesis
      by (simp add: post_verify_def find_target_def answer_def after_def Let_def split: option.split)
  qed (use assms in \<open>simp_all add: answer_def post_drill_def post_drill_complete_def post_platform_backup_def after_def
    Let_def split: option.split\<close>)
  with assms show ?thesis by (simp add: platform_handle_def need_def)
qed

lemma restore_one_active:
  "one_active rns \<Longrightarrow> one_active (snd (out_state (restore_handle capture rt f c r (q, rns))))"
  "one_active rns \<Longrightarrow> one_active (fst (advance_runs q now rnd 0 rns))"
  using event_one_active [of "(q, rns)" capture rt "Request f c r"] event_one_active [of "(q, rns)" capture rt "Timer now rnd"]
  by simp_all

lemma module_handle_ok:
  assumes "world_ok rt w"
  shows "world_ok rt (out_state (module_handle rt c r w))"
proof (cases r)
  case (ToFleet x)
  with assms show ?thesis by (simp add: world_ok_def case_prod_beta Let_def)
next
  case (ToProtection x)
  with assms show ?thesis
    by (simp add: world_ok_def case_prod_beta Let_def protection_handle_system protection_service.keeps)
next
  case (ToRestore x)
  have "protection_ok q'" "system_count q' \<le> 1"
    if "q' \<in> {wd_protection w, fst (advance capture f now rnd (wd_protection w))}" for q' capture f now rnd
    using that assms by (auto simp: world_ok_def advance_ok)
  from this [OF restore_handle_protection] ToRestore assms show ?thesis
    by (simp add: world_ok_def case_prod_beta Let_def restore_one_active(1))
next
  case (ToLive x)
  with assms show ?thesis by (simp add: world_ok_def case_prod_beta Let_def)
next
  case (ToPolicies x)
  have "pol_ok rt (out_state (policy_handle rt (wd_fleet w) c x (wd_protection w, wd_policies w)))"
    using assms by (intro policy_service.keeps) (simp add: pol_ok_def world_ok_def)
  with ToPolicies assms show ?thesis
    by (simp add: world_ok_def pol_ok_def case_prod_beta Let_def policy_handle_system)
next
  case (ToPlatform x)
  with assms platform_handle_protection [of "wd_protection w" c x "wd_platform w"]
    platform_handle_ok [of "(wd_protection w, wd_platform w)" c x] show ?thesis
    by (simp add: world_ok_def case_prod_beta Let_def)
next
  case (ToEvents t)
  with assms show ?thesis by (simp add: world_ok_def)
qed

lemma world_tick_ok:
  assumes "world_ok rt w"
  shows "world_ok rt (world_tick t w)"
proof (cases t)
  case (PlatformTick now rnd)
  with assms run_timers_protection [of "(wd_protection w, wd_platform w)" now rnd]
    run_timers_ok(1) [of "(wd_protection w, wd_platform w)" now rnd] show ?thesis
    by (simp add: world_ok_def case_prod_beta Let_def)
qed (use assms in \<open>simp_all add: world_ok_def case_prod_beta Let_def advance_ok restore_one_active(2)\<close>)

interpretation world_service: hosted_modules "module_handle rt" world_tick "world_ok rt" for rt
  by unfold_locales (simp_all add: module_handle_ok world_tick_ok)

lemma web_run_ok: "world_ok rt (sv_modules s) \<Longrightarrow> world_ok rt (sv_modules (web_run rt url_host evs s))"
proof (induction evs arbitrary: s)
  case (Cons e evs)
  have "world_ok rt (sv_modules (web_step rt url_host e s))"
  proof (cases e)
    case (Web now rnd rq)
    with Cons.prems show ?thesis unfolding Web web_step.simps by (intro world_service.arrival_holds)
  next
    case (Tick t)
    with Cons.prems show ?thesis unfolding Tick web_step.simps by (intro world_service.background_holds)
  qed
  with Cons.IH show ?case by simp
qed simp

text \<open>The state of the server when it starts; \<open>rns\<close> are the runs of \<^const>\<open>seed_restores\<close>, which have all ended.\<close>

definition seed_world :: "int \<Rightarrow> (nat \<Rightarrow> string) \<Rightarrow> stored_run list \<Rightarrow> world" where
  "seed_world now rnd rns =
     (let f = seed_fleet now (sub_draws rnd 0); q = seed_protection f now (sub_draws rnd 1)
      in \<lparr>wd_fleet = f, wd_protection = q, wd_runs = rns, wd_directory = seed_directory now,
          wd_policies = seed_policy_state now, wd_platform = seed_platform q now (sub_draws rnd 2),
          wd_bus = \<lparr>clients = [], seq = 0\<rparr>\<rparr>)"

lemma seed_world_ok:
  assumes "rt_url rt PD_URL = Some (''https:'', host)" "list_all (\<lambda>r. \<not> isActiveRestore (rn_state r)) rns"
  shows "world_ok rt (seed_world now rnd rns)"
proof -
  have "filter active rns = []"
    using assms(2) by (auto simp: list_all_iff filter_empty_conv active_def)
  moreover have "system_count (seed_protection f now rnd') \<le> 1" for f rnd'
    by (simp add: system_count_def seed_protection_def seed_repositories_def nas01_repo_def lab_repo_def offsite_repo_def
        oldnas_repo_def repo_base_def seal_repo_def Let_def)
  ultimately show ?thesis
    by (simp add: world_ok_def seed_world_def Let_def one_active_def seed_protection_ok seed_platform_ok
        seed_policy_state_ok [OF assms(1)])
qed

text \<open>C2: In every state the whole server can reach from its initial data, whatever requests arrive with
  whatever sessions, in any order and at any times, and whenever the timers of the modules run:
  repository names are unique, at most one repository is the default and at most one the System
  Repository, no public key is an escrow recipient twice, alert numbers are unique, no application has
  two backups or two restores running, at most one platform backup is running, and the policies,
  channels and deliveries are well-formed.\<close>

theorem server_invariant:
  assumes "rt_url rt PD_URL = Some (''https:'', host)" "list_all (\<lambda>r. \<not> isActiveRestore (rn_state r)) rns"
  shows "let w = sv_modules (web_run rt url_host evs \<lparr>sv_auth = a, sv_modules = seed_world now rnd rns\<rparr>); q = wd_protection w
    in distinct (map re_name (repositories q)) \<and> length (filter re_is_default (repositories q)) \<le> 1 \<and>
       length (filter re_is_system (repositories q)) \<le> 1 \<and> distinct (map ec_public_key (recipients q)) \<and>
       distinct (map al_id (alerts q)) \<and>
       distinct (map rp_application_id (filter (\<lambda>r. rp_state r = RpPending) (recovery_points q))) \<and>
       distinct (map rn_application_id (filter (\<lambda>r. isActiveRestore (rn_state r)) (wd_runs w))) \<and>
       length (filter (\<lambda>b. pb_state b = PbRunning) (platform_backups (wd_platform w))) \<le> 1 \<and>
       policy_state_ok rt (wd_policies w)"
proof -
  let ?w = "sv_modules (web_run rt url_host evs \<lparr>sv_auth = a, sv_modules = seed_world now rnd rns\<rparr>)"
  have "world_ok rt ?w" using seed_world_ok [OF assms] by (intro web_run_ok) simp
  moreover have "isActiveRestore (rn_state r) = active r" for r by (cases "rn_state r") (simp_all add: active_def)
  ultimately show ?thesis
    by (simp add: Let_def world_ok_def protection_ok_def pending_apps_def one_active_def platform_ok_def system_count_def)
qed

definition platform_backup_request :: request where
  "platform_backup_request =
     \<lparr>rq_method = ''POST'', rq_path = ''/api/v1/platform/backups'', rq_query = [],
      rq_headers = [(''cookie'', ''dbr2_session=sid'')], rq_remote = None, rq_body = JNull\<rparr>"

definition backup_twice :: "web_event list" where
  "backup_twice =
     [Web 0 (\<lambda>k. ''sid'') (sign_in_request ''correct-horse-battery''), Web 1 (\<lambda>k. []) platform_backup_request,
      Web 2 (\<lambda>k. []) platform_backup_request, Tick (PlatformTick 6001 (\<lambda>k. [])), Tick (StreamClosed 1)]"

theorem server_invariant_witness:
  "policy_state_ok plain_runtime (wd_policies (sv_modules (web_run plain_runtime (\<lambda>h. None) backup_twice
     \<lparr>sv_auth = sv_auth sample_server, sv_modules = seed_world 0 (\<lambda>k. []) []\<rparr>)))"
proof -
  have url: "rt_url plain_runtime PD_URL = Some (''https:'', drop 8 PD_URL)"
    by (simp add: plain_runtime_def PD_URL_def)
  have "list_all (\<lambda>r :: stored_run. \<not> isActiveRestore (rn_state r)) []" by simp
  from server_invariant [OF url this, of "\<lambda>h. None" backup_twice "sv_auth sample_server" 0 "\<lambda>k. []"]
  show ?thesis by (simp only: Let_def)
qed

section \<open>What only the administrator changes\<close>

text \<open>The data that no timer and no reading request is meant to change: hosts, tokens and applications, users
  and group mappings, drills and platform backups, policies, channels, mail settings, escrow
  recipients, backup settings, host limits, and which repositories there are, with their names,
  confirmation codes and the choice of the System Repository.\<close>

definition repo_facts :: "protection \<Rightarrow> (string \<times> string \<times> string \<times> bool) list" where
  "repo_facts q = map (\<lambda>r. (re_id r, re_name r, re_code r, re_is_system r)) (repositories q)"

definition administered ::
  "world \<Rightarrow> fleet \<times> directory \<times> platform \<times> policy list \<times> (string \<times> string) list \<times> stored_channel list \<times> stored_smtp \<times>
   recipient list \<times> (string \<times> backup_settings) list \<times> (string \<times> host_settings) list \<times>
   (string \<times> string \<times> string \<times> bool) list" where
  "administered w =
     (wd_fleet w, wd_directory w, wd_platform w, policies (wd_policies w), assignments (wd_policies w), channels (wd_policies w),
      smtp (wd_policies w), recipients (wd_protection w), settings (wd_protection w), host_limits (wd_protection w),
      repo_facts (wd_protection w))"

text \<open>The routes that change it.\<close>

definition fleet_manages :: "fleet_route \<Rightarrow> bool" where
  "fleet_manages r =
     (case r of PostToken b \<Rightarrow> True | DeleteToken i \<Rightarrow> True | PostAgentAction i x b \<Rightarrow> True | PostApplication b \<Rightarrow> True
      | PatchApplication i b \<Rightarrow> True | DeleteApplication i \<Rightarrow> True | _ \<Rightarrow> False)"

definition protection_manages :: "protection_route \<Rightarrow> bool" where
  "protection_manages r =
     (case r of PostRecipient b \<Rightarrow> True | DeleteRecipient i \<Rightarrow> True | PostRepository b \<Rightarrow> True | PutBackupSettings i b \<Rightarrow> True | PutHostSettings i b \<Rightarrow> True
      | _ \<Rightarrow> False)"

definition live_manages :: "live_route \<Rightarrow> bool" where
  "live_manages r =
     (case r of PutUserRoles i b \<Rightarrow> True | PutUserStatus i b \<Rightarrow> True | PostMapping b \<Rightarrow> True | RemoveMapping b \<Rightarrow> True | _ \<Rightarrow> False)"

definition policy_manages :: "policy_route \<Rightarrow> bool" where
  "policy_manages r =
     (case r of PostPolicy b \<Rightarrow> True | PutPolicy i b \<Rightarrow> True | DeletePolicy i \<Rightarrow> True | PutAppPolicy i b \<Rightarrow> True
      | PostChannel b \<Rightarrow> True | PutChannel i b \<Rightarrow> True | DeleteChannel i \<Rightarrow> True | PostChannelTest i \<Rightarrow> True | PutSmtp b \<Rightarrow> True
      | _ \<Rightarrow> False)"

definition platform_manages :: "platform_route \<Rightarrow> bool" where
  "platform_manages r =
     (case r of PostVerify i b \<Rightarrow> True | PostRegenerate i \<Rightarrow> True | PutSystem i \<Rightarrow> True | PostDrill \<Rightarrow> True | PostDrillComplete i b \<Rightarrow> True | PostPlatformBackup \<Rightarrow> True | _ \<Rightarrow> False)"

fun manages :: "module_route \<Rightarrow> bool" where
  "manages (ToFleet r) = fleet_manages r"
| "manages (ToProtection r) = protection_manages r"
| "manages (ToRestore r) = False"
| "manages (ToLive r) = live_manages r"
| "manages (ToPolicies r) = policy_manages r"
| "manages (ToPlatform r) = platform_manages r"
| "manages (ToEvents t) = False"

lemmas manages_defs = fleet_manages_def protection_manages_def live_manages_def policy_manages_def platform_manages_def

lemma manages_permission: "manages r \<Longrightarrow> \<exists>p. module_permission r = Some p \<and> p \<notin> set (u_permissions oidcUser)"
  by (cases r) (auto simp: manages_defs oidcUser_def split: fleet_route.splits protection_route.splits live_route.splits
      policy_route.splits platform_route.splits)

lemma find_route_member:
  "find_route es rq = Some r \<Longrightarrow> \<exists>gs k ms. (rq_method rq, gs, k) \<in> set es \<and> r = k ms rq"
  by (induction es rq rule: find_route.induct) (auto split: if_splits option.splits)

lemma retag_member: "(m, gs, k) \<in> set (retag g es) \<longleftrightarrow> (\<exists>k'. (m, gs, k') \<in> set es \<and> k = (\<lambda>ms rq. g (k' ms rq)))"
  by (force simp: retag_def)

lemma tables_safe:
  "(m, gs, k) \<in> set fleet_table \<Longrightarrow> fleet_manages (k ms rq) \<Longrightarrow> m \<notin> {''GET'', ''HEAD'', ''OPTIONS''}"
  "(m, gs, k1) \<in> set protection_table \<Longrightarrow> protection_manages (k1 ms rq) \<Longrightarrow> m \<notin> {''GET'', ''HEAD'', ''OPTIONS''}"
  "(m, gs, k2) \<in> set live_table \<Longrightarrow> live_manages (k2 ms rq) \<Longrightarrow> m \<notin> {''GET'', ''HEAD'', ''OPTIONS''}"
  "(m, gs, k3) \<in> set policy_table \<Longrightarrow> policy_manages (k3 ms rq) \<Longrightarrow> m \<notin> {''GET'', ''HEAD'', ''OPTIONS''}"
  "(m, gs, k4) \<in> set platform_table \<Longrightarrow> platform_manages (k4 ms rq) \<Longrightarrow> m \<notin> {''GET'', ''HEAD'', ''OPTIONS''}"
  by (auto simp: fleet_table_def protection_table_def live_table_def policy_table_def platform_table_def manages_defs)

lemma managing_method:
  "find_route paramRoutes rq = Some r \<Longrightarrow> manages r \<Longrightarrow> rq_method rq \<notin> {''GET'', ''HEAD'', ''OPTIONS''}"
  by (drule find_route_member) (auto simp: paramRoutes_def retag_member dest: tables_safe)

lemma advance_kept:
  "recipients (fst (advance capture f now rnd q)) = recipients q" "settings (fst (advance capture f now rnd q)) = settings q"
  "host_limits (fst (advance capture f now rnd q)) = host_limits q" "repo_facts (fst (advance capture f now rnd q)) = repo_facts q"
  by (simp_all add: advance_def case_prod_beta Let_def repo_facts_def retire_repo_def)

abbreviation kept :: "protection \<Rightarrow> protection \<Rightarrow> bool" where
  "kept q q' \<equiv> recipients q' = recipients q \<and> settings q' = settings q \<and> host_limits q' = host_limits q \<and>
     repo_facts q' = repo_facts q"

lemma after_advance_kept:
  "(\<And>s1. kept s1 (out_state (k s1))) \<Longrightarrow> kept q (out_state (after_advance capture f c q k))"
  by (simp add: after_advance_state case_prod_beta advance_kept)

lemma update_repo_kept:
  assumes "\<And>r. re_id (g r) = re_id r \<and> re_name (g r) = re_name r \<and> re_code (g r) = re_code r \<and> re_is_system (g r) = re_is_system r"
  shows "kept q (update_repo i g q)"
proof -
  have "map (\<lambda>r. (re_id r, re_name r, re_code r, re_is_system r)) (update_first p g rs) =
      map (\<lambda>r. (re_id r, re_name r, re_code r, re_is_system r)) rs" for p rs
    by (induction rs) (simp_all add: assms)
  then show ?thesis by (simp add: update_repo_def repo_facts_def)
qed

lemma protection_unmanaged:
  assumes "\<not> protection_manages r"
  shows "kept q (out_state (protection_handle capture validTz num f c r q))"
proof -
  have "kept q (out_state (protection_action capture validTz num f c r q))"
  proof (cases r)
    case (PostEscrowConfirm i b)
    then show ?thesis
      using update_repo_kept [of "confirm_repo (c_now c)" i q]
      by (auto simp: post_escrow_confirm_def answer_def Let_def confirm_repo_def split: option.splits)
  next
    case (PostReindex i)
    then show ?thesis
      using update_repo_kept [of "\<lambda>r. r\<lparr>re_last_reindex_at := Some (c_now c)\<rparr>" i q]
      by (auto simp: post_reindex_def answer_def split: option.splits)
  next
    case (PostBackup i b)
    have "kept s1 (out_state (start_backup f c a b s1))" for a s1
      by (simp add: start_backup_def answer_def Let_def repo_facts_def)
    then have "kept q (out_state (after_advance capture f c q (start_backup f c a b)))" for a by (rule after_advance_kept)
    with PostBackup show ?thesis by (simp add: post_backup_def answer_def split: option.split)
  next
    case (GetRecoveryPoints a st l)
    have "kept s1 (out_state (get_recovery_points a st l s1))" for s1 by (simp add: get_recovery_points_def answer_def)
    then have "kept q (out_state (after_advance capture f c q (get_recovery_points a st l)))" by (rule after_advance_kept)
    with GetRecoveryPoints show ?thesis by simp
  next
    case (GetRecoveryPoint i)
    have "kept s1 (out_state (get_recovery_point i s1))" for s1
      by (simp add: get_recovery_point_def answer_def split: option.split)
    then have "kept q (out_state (after_advance capture f c q (get_recovery_point i)))" by (rule after_advance_kept)
    with GetRecoveryPoint show ?thesis by simp
  next
    case (PostAlertAcknowledge n)
    then show ?thesis by (auto simp: post_alert_acknowledge_def answer_def repo_facts_def split: option.splits)
  qed (use assms in \<open>simp_all add: answer_def protection_manages_def get_escrow_package_def get_alerts_def split: option.split\<close>)
  then show ?thesis by (simp add: protection_handle_def need_def)
qed

lemma policy_unmanaged:
  assumes "\<not> policy_manages r"
  shows "kept q (fst (out_state (policy_handle rt f c r (q, s))))"
    "policies (snd (out_state (policy_handle rt f c r (q, s)))) = policies s"
    "assignments (snd (out_state (policy_handle rt f c r (q, s)))) = assignments s"
    "channels (snd (out_state (policy_handle rt f c r (q, s)))) = channels s"
    "smtp (snd (out_state (policy_handle rt f c r (q, s)))) = smtp s"
proof -
  have repo: "kept q (update_repo i (schedule_repo now reason) q)" "kept q (update_repo i unschedule_repo q)" for i now reason
    by (rule update_repo_kept; simp add: schedule_repo_def unschedule_repo_def)+
  have rp: "kept q (update_rp i g q)" for i g by (simp add: update_rp_def repo_facts_def)
  have "kept q (fst (out_state (policy_action rt f c r (q, s)))) \<and>
    policies (snd (out_state (policy_action rt f c r (q, s)))) = policies s \<and>
    assignments (snd (out_state (policy_action rt f c r (q, s)))) = assignments s \<and>
    channels (snd (out_state (policy_action rt f c r (q, s)))) = channels s \<and>
    smtp (snd (out_state (policy_action rt f c r (q, s)))) = smtp s"
    using assms repo rp
    by (cases r) (simp_all add: policy_manages_def answer_def get_contracts_def get_contract_def put_contract_def send_contract_def
        delete_contract_def get_deliveries_def post_rp_delete_def post_rp_undelete_def post_repo_delete_def post_repo_undelete_def
        case_prod_beta Let_def split: option.split)
  then show "kept q (fst (out_state (policy_handle rt f c r (q, s))))"
    "policies (snd (out_state (policy_handle rt f c r (q, s)))) = policies s"
    "assignments (snd (out_state (policy_handle rt f c r (q, s)))) = assignments s"
    "channels (snd (out_state (policy_handle rt f c r (q, s)))) = channels s"
    "smtp (snd (out_state (policy_handle rt f c r (q, s)))) = smtp s"
    by (simp_all add: policy_handle_def need_def)
qed

lemma other_unmanaged:
  "\<not> fleet_manages x \<Longrightarrow> out_state (fleet_handle le policyOf prot c x f) = f"
  "\<not> live_manages y \<Longrightarrow> out_state (live_handle rt f q rns c y d) = d"
  "\<not> platform_manages z \<Longrightarrow> out_state (platform_handle c z st) = st"
  subgoal by (cases x) (simp_all add: fleet_manages_def fleet_handle_def need_def answer_def post_discover_def get_compose_def
        split: option.split sum.split)
  subgoal by (cases y) (simp_all add: live_manages_def live_handle_def need_def answer_def get_jobs_def Let_def split: option.split)
  subgoal by (cases z) (simp_all add: platform_manages_def platform_handle_def need_def answer_def)
  done

lemma unmanaged:
  assumes "\<not> manages r"
  shows "administered (out_state (module_handle rt c r w)) = administered w"
proof (cases r)
  case (ToProtection x)
  with assms protection_unmanaged [where r = x and q = "wd_protection w"] show ?thesis by (simp add: administered_def case_prod_beta Let_def)
next
  case (ToRestore x)
  have "kept (wd_protection w) q'" if "q' \<in> {wd_protection w, fst (advance capture f now rnd (wd_protection w))}" for q' capture f now rnd
    using that by (auto simp: advance_kept)
  from this [OF restore_handle_protection] ToRestore show ?thesis by (simp add: administered_def case_prod_beta Let_def)
next
  case (ToPolicies x)
  with assms policy_unmanaged [where r = x and q = "wd_protection w"] show ?thesis by (simp add: administered_def case_prod_beta Let_def)
qed (use assms in \<open>simp_all add: administered_def case_prod_beta Let_def other_unmanaged\<close>)

lemma published_Nil [simp]: "published [] w = w"
  by (simp add: published_def)

lemma module_denied:
  "module_permission r = Some p \<Longrightarrow> p \<notin> set (u_permissions (c_user c)) \<Longrightarrow> out_state (module_handle rt c r w) = w"
  by (cases r) (auto simp: fleet_service.denied protection_service.denied restore_service.denied live_service.denied
      policy_service.denied platform_service.denied)

text \<open>C1: A request changes what is administered only if it is not a reading request, so that it passed the
  cross-site check, and carries the session of the master administrator, who signed in before with the
  password of that time, while the account was not locked and with the second factor where it was enabled,
  and did not sign out since. A user of the single sign-on never changes it.\<close>

theorem administered_by_admin:
  assumes "au_sessions (sv_auth s) = Map.empty"
    and "administered (sv_modules (server_step rt url_host (find_route paramRoutes) (module_handle rt) (Arrives now rnd rq)
           (server_run rt url_host (find_route paramRoutes) (module_handle rt) evs s)))
         \<noteq> administered (sv_modules (server_run rt url_host (find_route paramRoutes) (module_handle rt) evs s))"
  shows "rq_method rq \<notin> {''GET'', ''HEAD'', ''OPTIONS''} \<and> csrfOk url_host rq \<and>
    (\<exists>pre t rnd1 rq1 post. evs = pre @ Arrives t rnd1 rq1 # post \<and> session_id rq = Some (Some (rnd1 2)) \<and>
       reaches url_host Login rq1 \<and>
       credentials (sv_auth (server_run rt url_host (find_route paramRoutes) (module_handle rt) pre s)) t rq1 \<and>
       (\<forall>e \<in> set post. \<not> signs_out url_host (rnd1 2) e))"
proof -
  let ?run = "\<lambda>es. server_run rt url_host (find_route paramRoutes) (module_handle rt) es s"
  let ?next = "server_step rt url_host (find_route paramRoutes) (module_handle rt) (Arrives now rnd rq) (?run evs)"
  from assms(2) have "sv_modules ?next \<noteq> sv_modules (?run evs)" by auto
  then obtain sid u r where change: "csrfOk url_host rq" "session_id rq = Some (Some sid)"
    "au_sessions (sv_auth (?run evs)) sid = Some u" "find_route paramRoutes rq = Some r"
    "sv_modules ?next = out_state (module_handle rt
       \<lparr>c_user = if u_kind u = MasterAdmin then masterAdmin else u, c_now = now, c_random = sub_draws rnd 0\<rparr> r (sv_modules (?run evs)))"
    by (rule change_needs_session)
  from change(5) assms(2) have "manages r" using unmanaged by metis
  then obtain p where p: "module_permission r = Some p" "p \<notin> set (u_permissions oidcUser)" using manages_permission by blast
  from sessions_traced [OF change(3)] assms(1) obtain pre e post where trace: "evs = pre @ e # post"
    "signs_in url_host (sv_auth (?run pre)) e sid u" "\<forall>e' \<in> set post. \<not> signs_out url_host sid e'" by auto
  have "u \<noteq> oidcUser"
  proof
    assume u: "u = oidcUser"
    have "sv_modules ?next = sv_modules (?run evs)"
      unfolding change(5) by (rule module_denied [OF p(1)]) (use p(2) u in \<open>simp add: oidcUser_def\<close>)
    with assms(2) show False by simp
  qed
  with trace(2) obtain t rnd1 rq1 where "e = Arrives t rnd1 rq1" "sid = rnd1 2" "reaches url_host Login rq1"
    "credentials (sv_auth (?run pre)) t rq1" by (cases e) auto
  with trace change(1,2) managing_method [OF change(4) \<open>manages r\<close>] show ?thesis by blast
qed

definition small_world :: world where
  "small_world =
     \<lparr>wd_fleet = small_fleet, wd_protection = sample_protection, wd_runs = [], wd_directory = seed_directory 0,
      wd_policies = \<lparr>policies = [], assignments = [], contracts = [], channels = [], deliveries = [], smtp = seed_smtp 0\<rparr>,
      wd_platform = \<lparr>drills = [], platform_backups = [], pending = []\<rparr>, wd_bus = \<lparr>clients = [], seq = 0\<rparr>\<rparr>"

definition world_entered :: "world server_event list" where
  "world_entered = [Arrives 0 (\<lambda>k. ''sid'') (sign_in_request ''correct-horse-battery'')]"

abbreviation small_run :: "world server_event list \<Rightarrow> world server" where
  "small_run evs \<equiv> server_run plain_runtime (\<lambda>h. None) (find_route paramRoutes) (module_handle plain_runtime) evs
     \<lparr>sv_auth = sv_auth sample_server, sv_modules = small_world\<rparr>"

theorem administered_by_admin_witness:
  "\<exists>pre t rnd1 rq1 post. world_entered = pre @ Arrives t rnd1 rq1 # post \<and> session_id mapping_request = Some (Some (rnd1 2)) \<and>
     credentials (sv_auth (small_run pre)) t rq1"
proof -
  have "length (group_mappings (wd_directory (sv_modules (server_step plain_runtime (\<lambda>h. None) (find_route paramRoutes)
      (module_handle plain_runtime) (Arrives 1 (\<lambda>k. []) mapping_request) (small_run world_entered))))) = 3" by code_simp
  moreover have "length (group_mappings (wd_directory (sv_modules (small_run world_entered)))) = 2" by code_simp
  ultimately have "administered (sv_modules (server_step plain_runtime (\<lambda>h. None) (find_route paramRoutes)
      (module_handle plain_runtime) (Arrives 1 (\<lambda>k. []) mapping_request) (small_run world_entered)))
    \<noteq> administered (sv_modules (small_run world_entered))" by (auto simp: administered_def)
  moreover have "au_sessions (sv_auth \<lparr>sv_auth = sv_auth sample_server, sv_modules = small_world\<rparr>) = Map.empty"
    by (simp add: sample_server_def)
  ultimately show ?thesis
    using administered_by_admin [of "\<lparr>sv_auth = sv_auth sample_server, sv_modules = small_world\<rparr>" plain_runtime "\<lambda>h. None" 1 "\<lambda>k. []"
        mapping_request world_entered] by blast
qed

end
